(* ===== verification/Prelude.thy ===== *)
theory Prelude
  imports Main "HOL-Library.Word"
begin

unbundle bit_operations_syntax

text \<open>
  Vocabulary shared by every component: Rust's unsigned integers as words, byte strings,
  results (\<open>Result<T, E>\<close> is \<open>E + T\<close>, \<open>Inl\<close> the error), stateful fallible actions
  (an \<open>async fn(&mut self) -> Result\<close> is a function of the state that returns the result and
  the new state), big- and little-endian codecs, \<open>chunks_exact\<close>, and the lemma collections
  the component proofs use.
\<close>

section \<open>Types\<close>

type_synonym u8 = "8 word"
type_synonym u16 = "16 word"
type_synonym u32 = "32 word"
type_synonym u64 = "64 word"
type_synonym bytes = "u8 list"

named_theorems res_simps \<open>unfolding of the result and action combinators\<close>
named_theorems mask_simps \<open>literal bit masks as \<open>mask n\<close>\<close>
named_theorems codec_simps \<open>round trips of the byte codecs\<close>

section \<open>Results\<close>

text \<open>The \<open>?\<close> operator on a \<open>Result\<close>, \<open>Option::ok_or\<close>, and a guard that returns early.\<close>

definition bind_res :: "'e + 'a \<Rightarrow> ('a \<Rightarrow> 'e + 'b) \<Rightarrow> 'e + 'b" where
  "bind_res r f = (case r of Inl e \<Rightarrow> Inl e | Inr a \<Rightarrow> f a)"

definition ok_or :: "'e \<Rightarrow> 'a option \<Rightarrow> 'e + 'a" where
  "ok_or e x = (case x of None \<Rightarrow> Inl e | Some a \<Rightarrow> Inr a)"

lemma bind_res_simps [simp, res_simps]:
  "bind_res (Inl e) f = Inl e" "bind_res (Inr a) f = f a"
  by (simp_all add: bind_res_def)

lemma bind_res_eq_Inr [simp]: "bind_res r f = Inr b \<longleftrightarrow> (\<exists>a. r = Inr a \<and> f a = Inr b)"
  by (cases r) auto

lemma ok_or_simps [simp, res_simps]: "ok_or e None = Inl e" "ok_or e (Some a) = Inr a"
  by (simp_all add: ok_or_def)

lemma ok_or_eq_Inr [simp]: "ok_or e x = Inr a \<longleftrightarrow> x = Some a"
  by (cases x) auto

text \<open>A loop that pushes one fallibly computed element per input element.\<close>

fun try_map :: "('a \<Rightarrow> 'e + 'b) \<Rightarrow> 'a list \<Rightarrow> 'e + 'b list" where
  "try_map f [] = Inr []"
| "try_map f (x # xs) = bind_res (f x) (\<lambda>y. bind_res (try_map f xs) (\<lambda>ys. Inr (y # ys)))"

lemma try_map_Inr: "(\<And>x. x \<in> set xs \<Longrightarrow> f x = Inr (g x)) \<Longrightarrow> try_map f xs = Inr (map g xs)"
  by (induction xs) auto

lemma try_map_eq_Inr_length: "try_map f xs = Inr ys \<Longrightarrow> length ys = length xs"
  by (induction xs arbitrary: ys) auto

lemma try_map_eq_Inr_iff:
  "try_map f xs = Inr ys \<longleftrightarrow> list_all2 (\<lambda>x y. f x = Inr y) xs ys"
  by (induction xs arbitrary: ys) (auto simp: list_all2_Cons1)

section \<open>Actions\<close>

text \<open>
  A fallible operation on a mutable state \<open>'s\<close>. An error keeps the state reached when it was
  raised: Rust does not roll anything back.
\<close>

type_synonym ('s, 'e, 'a) act = "'s \<Rightarrow> ('e + 'a) \<times> 's"

definition ret :: "'a \<Rightarrow> ('s, 'e, 'a) act" where
  "ret a s = (Inr a, s)"

definition fail :: "'e \<Rightarrow> ('s, 'e, 'a) act" where
  "fail e s = (Inl e, s)"

definition lift_res :: "'e + 'a \<Rightarrow> ('s, 'e, 'a) act" where
  "lift_res r s = (r, s)"

definition bind_act :: "('s, 'e, 'a) act \<Rightarrow> ('a \<Rightarrow> ('s, 'e, 'b) act) \<Rightarrow> ('s, 'e, 'b) act" where
  "bind_act m f s = (case m s of (Inl e, s') \<Rightarrow> (Inl e, s') | (Inr a, s') \<Rightarrow> f a s')"

definition seq_act :: "('s, 'e, unit) act \<Rightarrow> ('s, 'e, 'b) act \<Rightarrow> ('s, 'e, 'b) act" where
  "seq_act m n = bind_act m (\<lambda>_. n)"

lemma ret_simp [simp, res_simps]: "ret a s = (Inr a, s)"
  and fail_simp [simp, res_simps]: "fail e s = (Inl e, s)"
  and lift_res_simp [simp, res_simps]: "lift_res r s = (r, s)"
  by (simp_all add: ret_def fail_def lift_res_def)

lemma bind_act_Inl: "m s = (Inl e, s') \<Longrightarrow> bind_act m f s = (Inl e, s')"
  and bind_act_Inr: "m s = (Inr a, s') \<Longrightarrow> bind_act m f s = f a s'"
  by (simp_all add: bind_act_def)

lemma bind_act_simps [simp, res_simps]:
  "bind_act (ret a) f = f a"
  "bind_act (fail e) f = fail e"
  "bind_act (lift_res (Inr a)) f = f a"
  "bind_act (lift_res (Inl e)) f = fail e"
  by (simp_all add: bind_act_def fun_eq_iff)

lemma bind_act_eq_Inr:
  "bind_act m f s = (Inr b, s'') \<longleftrightarrow> (\<exists>a s'. m s = (Inr a, s') \<and> f a s' = (Inr b, s''))"
  by (auto simp: bind_act_def split: prod.splits sum.splits)

lemma seq_act_eq_Inr:
  "seq_act m n s = (Inr b, s'') \<longleftrightarrow> (\<exists>s'. m s = (Inr (), s') \<and> n s' = (Inr b, s''))"
  by (auto simp: seq_act_def bind_act_eq_Inr)

lemma seq_act_Inr: "m s = (Inr (), s') \<Longrightarrow> seq_act m n s = n s'"
  by (simp add: seq_act_def bind_act_Inr)

lemma seq_act_Inl: "m s = (Inl e, s') \<Longrightarrow> seq_act m n s = (Inl e, s')"
  by (simp add: seq_act_def bind_act_Inl)

text \<open>An infallible change of the state as an action, and a call whose error the caller handles.\<close>

definition modify_act :: "('s \<Rightarrow> 's) \<Rightarrow> ('s, 'e, unit) act" where
  "modify_act f s = (Inr (), f s)"

definition try_act :: "('s, 'e, 'a) act \<Rightarrow> ('s, 'e, 'e + 'a) act" where
  "try_act m s = (case m s of (r, s') \<Rightarrow> (Inr r, s'))"

lemma seq_modify [simp]: "seq_act (modify_act f) m s = m (f s)"
  by (simp add: seq_act_def bind_act_def modify_act_def)

text \<open>An action keeps an invariant of the state, whatever it returns.\<close>

definition preserves :: "('s \<Rightarrow> bool) \<Rightarrow> ('s, 'e, 'a) act \<Rightarrow> bool" where
  "preserves I m \<longleftrightarrow> (\<forall>s. I s \<longrightarrow> I (snd (m s)))"

lemma preservesD: "preserves I m \<Longrightarrow> I s \<Longrightarrow> I (snd (m s))"
  by (simp add: preserves_def)

lemma preserves_basic [intro, simp]:
  "preserves I (ret a)" "preserves I (fail e)" "preserves I (lift_res r)" "preserves I (Pair r)"
  by (simp_all add: preserves_def)

lemma preserves_bind [intro]:
  "preserves I m \<Longrightarrow> (\<And>a. preserves I (f a)) \<Longrightarrow> preserves I (bind_act m f)"
  by (fastforce simp: preserves_def bind_act_def split: prod.split sum.split)

lemma preserves_bind_ret:
  "preserves I m \<Longrightarrow> (\<And>a s s'. m s = (Inr a, s') \<Longrightarrow> preserves I (f a)) \<Longrightarrow> preserves I (bind_act m f)"
  by (fastforce simp: preserves_def bind_act_def split: prod.split sum.split)

lemma preserves_seq [intro]: "preserves I m \<Longrightarrow> preserves I n \<Longrightarrow> preserves I (seq_act m n)"
  by (auto simp: seq_act_def)

lemma preserves_if: "preserves I m \<Longrightarrow> preserves I n \<Longrightarrow> preserves I (if c then m else n)"
  by simp

lemma preserves_modify: "(\<And>s. I s \<Longrightarrow> I (f s)) \<Longrightarrow> preserves I (modify_act f)"
  by (simp add: preserves_def modify_act_def)

lemma preserves_try: "preserves I m \<Longrightarrow> preserves I (try_act m)"
  by (simp add: preserves_def try_act_def case_prod_beta)

section \<open>Masks and bounds on words\<close>

lemma mask_lits [mask_simps]:
  "(0x03 :: 'a::len word) = mask 2" "(0x07 :: 'a::len word) = mask 3"
  "(0x0F :: 'a::len word) = mask 4" "(0x1F :: 'a::len word) = mask 5"
  "(0x3F :: 'a::len word) = mask 6" "(0x7F :: 'a::len word) = mask 7"
  "(0xFF :: 'a::len word) = mask 8" "(0x7FF :: 'a::len word) = mask 11"
  "(0x3FFFF :: 'a::len word) = mask 18" "(0x7FFFF :: 'a::len word) = mask 19"
  "(0x1FFFFFFF :: 'a::len word) = mask 29" "(0xFFFFFF :: 'a::len word) = mask 24"
  by (simp_all add: mask_eq_exp_minus_1)

lemma le_mask_take_bit: "w \<le> mask n \<Longrightarrow> take_bit n w = (w :: 'a::len word)"
proof (cases "LENGTH('a) \<le> n")
  case False
  assume "w \<le> mask n"
  with False have "uint w \<le> mask n"
    by (simp only: word_le_def uint_mask_eq min.absorb2)
  then have "uint w < 2 ^ n" by (simp add: mask_eq_exp_minus_1)
  then show ?thesis
    by (simp add: word_uint_eq_iff unsigned_take_bit_eq take_bit_int_eq_self)
qed (simp add: take_bit_word_eq_self)

lemma le_mask_bit: "w \<le> mask n \<Longrightarrow> bit (w :: 'a::len word) k \<Longrightarrow> k < n"
  by (metis bit_take_bit_iff le_mask_take_bit)

lemma le_mask_iff_bits: "w \<le> mask n \<longleftrightarrow> (\<forall>k. bit (w :: 'a::len word) k \<longrightarrow> k < n)"
proof
  assume "\<forall>k. bit w k \<longrightarrow> k < n"
  then have "w = w AND mask n" by (auto intro!: bit_word_eqI simp: bit_simps)
  then show "w \<le> mask n" by (metis word_and_le1)
qed (auto dest: le_mask_bit)

lemma and_mask_le: "w AND mask n \<le> (mask n :: 'a::len word)"
  by (simp add: word_and_le1)

lemma unat_and_mask: "unat ((w :: 'a::len word) AND mask n) = unat w mod 2 ^ n"
  by (simp add: unsigned_take_bit_eq flip: take_bit_eq_mask) (simp add: take_bit_eq_mod)

lemma unat_drop_bit: "unat (drop_bit n (w :: 'a::len word)) = unat w div 2 ^ n"
  by (metis drop_bit_eq_div unat_drop_bit_eq)

lemma unat_u8_lt [simp]: "unat (b :: u8) < 256"
  using unsigned_less [of b] by simp

lemma not_bit_u8 [simp]: "8 \<le> n \<Longrightarrow> bit (b :: u8) n = False"
  and not_bit_u16 [simp]: "16 \<le> n \<Longrightarrow> bit (v :: u16) n = False"
  and not_bit_u32 [simp]: "32 \<le> n \<Longrightarrow> bit (w :: u32) n = False"
  by (auto dest: bit_imp_le_length)

lemma less_8_cases: "(n :: nat) < 8 \<Longrightarrow> n = 0 \<or> n = 1 \<or> n = 2 \<or> n = 3 \<or> n = 4 \<or> n = 5 \<or> n = 6 \<or> n = 7"
  by linarith

text \<open>A single-bit test as the code writes it, \<open>(b & 0x10) != 0\<close>.\<close>

lemma and_bit_test:
  "((b :: u8) AND 0x01 \<noteq> 0) = bit b 0" "(b AND 0x02 \<noteq> 0) = bit b 1"
  "(b AND 0x04 \<noteq> 0) = bit b 2" "(b AND 0x08 \<noteq> 0) = bit b 3"
  "(b AND 0x10 \<noteq> 0) = bit b 4" "(b AND 0x20 \<noteq> 0) = bit b 5"
  "(b AND 0x40 \<noteq> 0) = bit b 6" "(b AND 0x80 \<noteq> 0) = bit b 7"
  using and_exp_eq_0_iff_not_bit [of b 0] and_exp_eq_0_iff_not_bit [of b 1]
    and_exp_eq_0_iff_not_bit [of b 2] and_exp_eq_0_iff_not_bit [of b 3]
    and_exp_eq_0_iff_not_bit [of b 4] and_exp_eq_0_iff_not_bit [of b 5]
    and_exp_eq_0_iff_not_bit [of b 6] and_exp_eq_0_iff_not_bit [of b 7]
  by simp_all

section \<open>Endianness\<close>

definition u16_from_be :: "u8 \<Rightarrow> u8 \<Rightarrow> u16" where
  "u16_from_be a b = push_bit 8 (ucast a) OR ucast b"

definition u16_to_be :: "u16 \<Rightarrow> bytes" where
  "u16_to_be w = [ucast (drop_bit 8 w), ucast w]"

definition u16_from_le :: "u8 \<Rightarrow> u8 \<Rightarrow> u16" where
  "u16_from_le a b = u16_from_be b a"

definition u16_to_le :: "u16 \<Rightarrow> bytes" where
  "u16_to_le w = [ucast w, ucast (drop_bit 8 w)]"

definition u32_from_be :: "u8 \<Rightarrow> u8 \<Rightarrow> u8 \<Rightarrow> u8 \<Rightarrow> u32" where
  "u32_from_be a b c d =
     push_bit 24 (ucast a) OR push_bit 16 (ucast b) OR push_bit 8 (ucast c) OR ucast d"

definition u32_to_be :: "u32 \<Rightarrow> bytes" where
  "u32_to_be w = [ucast (drop_bit 24 w), ucast (drop_bit 16 w), ucast (drop_bit 8 w), ucast w]"

lemma length_to_bytes [simp]:
  "length (u16_to_be w) = 2" "length (u16_to_le w) = 2" "length (u32_to_be v) = 4"
  by (simp_all add: u16_to_be_def u16_to_le_def u32_to_be_def)

lemma u16_be_parts:
  "ucast (drop_bit 8 (u16_from_be a b)) = a" "ucast (u16_from_be a b) = b"
  by (rule bit_word_eqI; auto simp: u16_from_be_def bit_simps dest: bit_imp_le_length)+

lemma u16_from_be_split [codec_simps]:
  "u16_from_be (ucast (drop_bit 8 w)) (ucast w) = w"
  by (rule bit_word_eqI) (auto simp: u16_from_be_def bit_simps dest: bit_imp_le_length)

lemma u16_from_le_split [codec_simps]:
  "u16_from_le (ucast w) (ucast (drop_bit 8 w)) = w"
  by (simp add: u16_from_le_def u16_from_be_split)

lemma u16_be_roundtrip [codec_simps]:
  "u16_to_be (u16_from_be a b) = [a, b]"
  "u16_to_le (u16_from_le a b) = [a, b]"
  by (simp_all add: u16_to_be_def u16_to_le_def u16_from_le_def u16_be_parts)

lemma u32_from_be_split [codec_simps]:
  "u32_from_be (ucast (drop_bit 24 w)) (ucast (drop_bit 16 w)) (ucast (drop_bit 8 w)) (ucast w) = w"
proof (rule bit_word_eqI)
  fix n assume "n < LENGTH(32)"
  then consider "n < 8" | "8 \<le> n" "n < 16" | "16 \<le> n" "n < 24" | "24 \<le> n" "n < 32"
    by fastforce
  then show "bit (u32_from_be (ucast (drop_bit 24 w)) (ucast (drop_bit 16 w))
      (ucast (drop_bit 8 w)) (ucast w)) n = bit w n"
    by cases (auto simp: u32_from_be_def bit_simps)
qed

lemma u32_be_roundtrip [codec_simps]: "u32_to_be (u32_from_be a b c d) = [a, b, c, d]"
proof -
  have "ucast (drop_bit 24 (u32_from_be a b c d)) = a"
    "ucast (drop_bit 16 (u32_from_be a b c d)) = b"
    "ucast (drop_bit 8 (u32_from_be a b c d)) = c"
    "ucast (u32_from_be a b c d) = d"
    by (rule bit_word_eqI; auto simp: u32_from_be_def bit_simps dest: bit_imp_le_length)+
  then show ?thesis by (simp add: u32_to_be_def)
qed

lemma unat_u16_from_be: "unat (u16_from_be a b) = 256 * unat a + unat b"
proof -
  have "u16_from_be a b = push_bit 8 (ucast a) + ucast b"
    unfolding u16_from_be_def
    by (rule disjunctive_add [symmetric]) (auto simp: bit_simps dest: bit_imp_le_length)
  moreover have u: "unat (ucast c :: u16) = unat c" for c :: u8
  proof -
    have "unat c < 65536" by (rule order_less_trans [OF unat_u8_lt]) simp
    then show ?thesis by (simp add: unsigned_ucast_eq take_bit_nat_eq_self_iff)
  qed
  have "unat (push_bit 8 (ucast a) :: u16) = 256 * unat a"
    using unat_u8_lt [of a]
    by (simp add: push_bit_eq_mult unat_word_ariths u)
  moreover have "256 * unat a + unat b < 65536"
    using unat_u8_lt [of a] unat_u8_lt [of b] by linarith
  ultimately show ?thesis
    by (simp add: unat_word_ariths u)
qed

section \<open>Lists\<close>

text \<open>\<open>slice::chunks_exact(n)\<close> and its \<open>remainder()\<close>.\<close>

function chunks_exact :: "nat \<Rightarrow> 'a list \<Rightarrow> 'a list list" where
  "chunks_exact n xs =
     (if n = 0 \<or> length xs < n then [] else take n xs # chunks_exact n (drop n xs))"
  by pat_completeness auto
termination
  by (relation "measure (\<lambda>(n, xs). length xs)") auto

declare chunks_exact.simps [simp del]

definition chunks_remainder :: "nat \<Rightarrow> 'a list \<Rightarrow> 'a list" where
  "chunks_remainder n xs = drop (length xs - length xs mod n) xs"

lemma chunks_exact_Nil [simp]: "chunks_exact n [] = []"
  by (subst chunks_exact.simps) auto

lemma chunks_exact_append:
  "length xs = n \<Longrightarrow> 0 < n \<Longrightarrow> chunks_exact n (xs @ ys) = xs # chunks_exact n ys"
  by (subst chunks_exact.simps) simp

lemma chunks_exact_concat:
  "(\<And>c. c \<in> set cs \<Longrightarrow> length c = n) \<Longrightarrow> 0 < n \<Longrightarrow> chunks_exact n (concat cs) = cs"
  by (induction cs) (auto simp: chunks_exact_append)

lemma chunks_exact_4 [simp]: "chunks_exact 4 (a # b # c # d # xs) = [a, b, c, d] # chunks_exact 4 xs"
  by (subst chunks_exact.simps) simp

lemma chunks_exact_elem_length: "c \<in> set (chunks_exact n xs) \<Longrightarrow> length c = n"
proof (induction n xs rule: chunks_exact.induct)
  case (1 n xs)
  from "1.prems" have "\<not> (n = 0 \<or> length xs < n)"
    and "c = take n xs \<or> c \<in> set (chunks_exact n (drop n xs))"
    by (auto simp: chunks_exact.simps [of n xs] split: if_splits)
  then show ?case using "1.IH" by auto
qed

lemma chunks_remainder_length: "length (chunks_remainder n xs) = length xs mod n"
  by (simp add: chunks_remainder_def)

lemma chunks_remainder_Nil_iff: "chunks_remainder n xs = [] \<longleftrightarrow> length xs mod n = 0"
  by (metis chunks_remainder_length length_0_conv)

lemma concat_chunks_exact: "0 < n \<Longrightarrow> length xs mod n = 0 \<Longrightarrow> concat (chunks_exact n xs) = xs"
proof (induction n xs rule: chunks_exact.induct)
  case (1 n xs)
  show ?case
  proof (cases "length xs < n")
    case True
    with 1 show ?thesis by (subst chunks_exact.simps) auto
  next
    case False
    with 1 have "concat (chunks_exact n (drop n xs)) = drop n xs"
      by (simp add: mod_if [of "length xs"])
    with False \<open>0 < n\<close> show ?thesis by (subst chunks_exact.simps) simp
  qed
qed

lemma length_chunks_exact: "0 < n \<Longrightarrow> length (chunks_exact n xs) = length xs div n"
proof (induction n xs rule: chunks_exact.induct)
  case (1 n xs)
  then show ?case by (subst chunks_exact.simps) (auto simp: div_if)
qed

lemma length_concat_const: "(\<And>c. c \<in> set cs \<Longrightarrow> length c = n) \<Longrightarrow> length (concat cs) = n * length cs"
  by (induction cs) auto

text \<open>\<open>slice::starts_with\<close>.\<close>

fun starts_with :: "'a list \<Rightarrow> 'a list \<Rightarrow> bool" where
  "starts_with xs [] = True"
| "starts_with [] (p # ps) = False"
| "starts_with (x # xs) (p # ps) = (x = p \<and> starts_with xs ps)"

lemma starts_with_iff: "starts_with xs ps \<longleftrightarrow> (\<exists>ys. xs = ps @ ys)"
  by (induction xs ps rule: starts_with.induct) auto

text \<open>\<open>Iterator::find\<close> is \<open>find\<close>; the element found satisfies the predicate.\<close>

lemma find_SomeD: "find P xs = Some x \<Longrightarrow> P x \<and> x \<in> set xs"
  by (induction xs) (auto split: if_splits)

lemma find_NoneD: "find P xs = None \<Longrightarrow> y \<in> set xs \<Longrightarrow> \<not> P y"
  by (induction xs) (auto split: if_splits)

text \<open>\<open>Iterator::find_map\<close>.\<close>

fun find_map :: "('a \<Rightarrow> 'b option) \<Rightarrow> 'a list \<Rightarrow> 'b option" where
  "find_map f [] = None"
| "find_map f (x # xs) = (case f x of Some y \<Rightarrow> Some y | None \<Rightarrow> find_map f xs)"

text \<open>Rust's checked and saturating additions.\<close>

definition checked_add :: "'a::len word \<Rightarrow> 'a word \<Rightarrow> 'a word option" where
  "checked_add a b = (if unat a + unat b < 2 ^ LENGTH('a) then Some (a + b) else None)"

definition saturating_add :: "'a::len word \<Rightarrow> 'a word \<Rightarrow> 'a word" where
  "saturating_add a b = (if unat a + unat b < 2 ^ LENGTH('a) then a + b else - 1)"

lemma unat_saturating_add:
  "unat (saturating_add (a :: u8) b) = min 255 (unat a + unat b)"
  using unsigned_minus_1_eq_mask [where 'b = 8 and 'a = nat]
  by (auto simp: saturating_add_def unat_word_ariths mask_eq_exp_minus_1)

lemma checked_add_Some: "checked_add a b = Some c \<Longrightarrow> unat c = unat a + unat b"
  by (auto simp: checked_add_def unat_word_ariths split: if_splits)

end
