(* ===== verification/Errors.thy ===== *)
theory Errors
  imports Prelude
begin

text \<open>
  The error type of the crate (\<open>error.rs\<close>). A message that the code builds with \<open>format!\<close> is a
  constructor that carries the interpolated values, so two errors are equal exactly when the code
  builds them from the same format string and the same values. The I/O and boxed errors of the
  standard library are left abstract (\<open>Io\<close>, \<open>Other\<close> carry a text).
\<close>

section \<open>Negative response codes\<close>

datatype negative_response =
    GeneralReject | ServiceNotSupported | SubFunctionNotSupported | IncorrectMessageLength
  | ResponseTooLong | ConditionsNotCorrect | RequestOutOfRange | SecurityAccessDenied
  | InvalidKey | ExceededAttempts | TimeDelayNotExpired | GeneralProgrammingFailure
  | ResponsePending | UnknownNrc u8

definition nrc_from_byte :: "u8 \<Rightarrow> negative_response option" where
  "nrc_from_byte b =
    (if b = 0x10 then Some GeneralReject
     else if b = 0x11 then Some ServiceNotSupported
     else if b = 0x12 then Some SubFunctionNotSupported
     else if b = 0x13 then Some IncorrectMessageLength
     else if b = 0x14 then Some ResponseTooLong
     else if b = 0x22 then Some ConditionsNotCorrect
     else if b = 0x31 then Some RequestOutOfRange
     else if b = 0x33 then Some SecurityAccessDenied
     else if b = 0x35 then Some InvalidKey
     else if b = 0x36 then Some ExceededAttempts
     else if b = 0x37 then Some TimeDelayNotExpired
     else if b = 0x72 then Some GeneralProgrammingFailure
     else if b = 0x78 then Some ResponsePending
     else None)"

definition nrc_from_byte_or_unknown :: "u8 \<Rightarrow> negative_response" where
  "nrc_from_byte_or_unknown b =
    (case nrc_from_byte b of Some n \<Rightarrow> n | None \<Rightarrow> UnknownNrc b)"

primrec nrc_code :: "negative_response \<Rightarrow> u8" where
  "nrc_code GeneralReject = 0x10"
| "nrc_code ServiceNotSupported = 0x11"
| "nrc_code SubFunctionNotSupported = 0x12"
| "nrc_code IncorrectMessageLength = 0x13"
| "nrc_code ResponseTooLong = 0x14"
| "nrc_code ConditionsNotCorrect = 0x22"
| "nrc_code RequestOutOfRange = 0x31"
| "nrc_code SecurityAccessDenied = 0x33"
| "nrc_code InvalidKey = 0x35"
| "nrc_code ExceededAttempts = 0x36"
| "nrc_code TimeDelayNotExpired = 0x37"
| "nrc_code GeneralProgrammingFailure = 0x72"
| "nrc_code ResponsePending = 0x78"
| "nrc_code (UnknownNrc c) = c"

lemma nrc_from_byte_code: "nrc_from_byte b = Some n \<Longrightarrow> nrc_code n = b"
  by (auto simp: nrc_from_byte_def split: if_splits)

lemma nrc_code_from_byte_or_unknown [codec_simps]: "nrc_code (nrc_from_byte_or_unknown b) = b"
  by (auto simp: nrc_from_byte_or_unknown_def dest: nrc_from_byte_code split: option.split)

lemma nrc_from_byte_or_unknown_inj: "inj nrc_from_byte_or_unknown"
  by (metis injI nrc_code_from_byte_or_unknown)

section \<open>Messages\<close>

datatype hex_msg = InvalidHexByte string

datatype codec_msg =
    InvalidCanFrame string | InvalidCanIdentifier string | CanMissingPci | UnsupportedPci u8
  | CanPayloadTooShort | InvalidJ1850Frame string | InvalidKLineFrame string

datatype isotp_msg =
    CanIdTooWide u32 | CanTooManyBytes nat | UnsupportedFlowStatus u8 | RequestPduEmpty
  | PduExceedsClassic nat | UnexpectedFrameType u8 | FirstFrameMissingLength
  | FirstFrameSingleLength nat | ExpectedConsecutive u8 | SequenceMismatch u8 u8
  | ConsecutiveNoPayload | SingleFrameShort nat nat | FlowControlOverflow | FlowControlShort
  | ExpectedFlowControl u8 | TooManyUnrelated u32 | PduExceedsMax nat nat | MissingPciByte
  | ResponsePduEmpty | NegativeResponseShort | NoPositiveSid u8 | UnexpectedResponseSid u8 u8

datatype uds_msg =
    UdsResponseEmpty | UdsUnexpectedSid u8 u8 | DtcRecordsLength nat | DtcReportNoMask
  | DtcGroupTooWide u32 | ClearUnexpectedPayload "u8 list" | RoutineNoId | RoutineIdMismatch u16 u16
  | UdsNoMode01 u8 | MissingEcho string | EchoMismatch string u8 u8 | MissingDid string
  | DidMismatch string u16 u16

datatype j1939_msg =
    SpnTooWide u32 | FmiTooWide u8 | PriorityTooWide u8 | PgnTooWide u32 | Pdu1NeedsDestination u32
  | IdentifierTooWide u32 | FramePayloadTooLong nat | NameShort nat | NotAddressClaim u32
  | AckShort nat | TpCmShort nat | TpDtShort nat | TpStartNotBamOrRts | TpSequenceMismatch u8 u8
  | TpSequenceExceeds u8 u8 | TpSizeOutside nat | TpPacketCountMismatch u8 nat | CountTooWide u8
  | ConversionTooWide u8 | SupportBitsTooWide u8 | FreezeFrameTooLong nat
  | FreezeFrameLengthMismatch u8 nat | AckWrongPgn string u32 | Dm5Short nat | Dm24Length nat
  | Dm25TooShort nat | Dm25Exceeds nat | DmLampsShort string nat | DmTrailing string nat
  | UnexpectedPgn u32 u32

text \<open>Any other message: the format string and the values interpolated into it, in order.\<close>

datatype fmt_arg = ArgNat nat | ArgStr string | ArgBytes "u8 list"

datatype pid_msg = PidShort u8 nat nat | NoPidFormula u8 | ExpectedScalar | ExpectedBitfield

datatype msg =
    PidMsg pid_msg | HexMsg hex_msg | CodecMsg codec_msg | IsoTpMsg isotp_msg | UdsMsg uds_msg | J1939Msg j1939_msg | Text string
  | Fmt string "fmt_arg list"

datatype obd2_error =
    Transport msg | Adapter msg | AdapterBusy | Timeout | NoData | UnsupportedPid u8
  | ModuleNotFound string | NegativeResponse u8 negative_response | SecurityRequired | NoSpec
  | BusNotAvailable string | SpecParse msg | ParseError msg | Io string | Other string

type_synonym 'a res = "obd2_error + 'a"

end
