(* ===== verification/Hex.thy ===== *)
theory Hex
  imports Errors "HOL-Library.Char_ord"
begin

text \<open>
  Hexadecimal text (\<open>protocol/hex.rs\<close>): white-space separated tokens of hex digit pairs and the
  compact form without separators. A \<open>&str\<close> is the list of its bytes (HOL's \<open>char\<close> is a byte);
  for \<open>split_whitespace\<close> the text is ASCII, so that Unicode white space outside ASCII does not occur.
\<close>

section \<open>Text\<close>

definition char_byte :: "char \<Rightarrow> u8" where
  "char_byte c = of_char c"

definition is_whitespace :: "char \<Rightarrow> bool" where
  "is_whitespace c \<longleftrightarrow> char_byte c = 0x20 \<or> 0x09 \<le> char_byte c \<and> char_byte c \<le> 0x0D"

definition is_ascii_whitespace :: "char \<Rightarrow> bool" where
  "is_ascii_whitespace c \<longleftrightarrow> char_byte c \<in> {0x20, 0x09, 0x0A, 0x0C, 0x0D}"

fun split_on :: "('a \<Rightarrow> bool) \<Rightarrow> 'a list \<Rightarrow> 'a list list" where
  "split_on P [] = [[]]"
| "split_on P (c # cs) =
    (if P c then [] # split_on P cs
     else (case split_on P cs of [] \<Rightarrow> [[c]] | t # ts \<Rightarrow> (c # t) # ts))"

definition split_whitespace :: "string \<Rightarrow> string list" where
  "split_whitespace s = filter (\<lambda>t. t \<noteq> []) (split_on is_whitespace s)"

section \<open>Parsing\<close>

definition hex_nibble :: "u8 \<Rightarrow> u8 option" where
  "hex_nibble b =
    (if 0x30 \<le> b \<and> b \<le> 0x39 then Some (b - 0x30)
     else if 0x61 \<le> b \<and> b \<le> 0x66 then Some (b - 0x61 + 10)
     else if 0x41 \<le> b \<and> b \<le> 0x46 then Some (b - 0x41 + 10)
     else None)"

definition invalid_hex_byte :: "string \<Rightarrow> obd2_error" where
  "invalid_hex_byte token = ParseError (HexMsg (InvalidHexByte token))"

definition hex_pair :: "string \<Rightarrow> u8 list \<Rightarrow> u8 res" where
  "hex_pair token pair =
    bind_res (ok_or (invalid_hex_byte token) (hex_nibble (pair ! 0))) (\<lambda>high.
    bind_res (ok_or (invalid_hex_byte token) (hex_nibble (pair ! 1))) (\<lambda>low.
    Inr (push_bit 4 high OR low)))"

fun parse_hex_tokens :: "string list \<Rightarrow> bytes res" where
  "parse_hex_tokens [] = Inr []"
| "parse_hex_tokens (token # tokens) =
    (let raw = map char_byte token in
     if raw = [] then parse_hex_tokens tokens
     else if length raw mod 2 \<noteq> 0 then Inl (invalid_hex_byte token)
     else bind_res (try_map (hex_pair token) (chunks_exact 2 raw)) (\<lambda>bs.
          bind_res (parse_hex_tokens tokens) (\<lambda>rest. Inr (bs @ rest))))"

definition parse_hex_line :: "string \<Rightarrow> bytes res" where
  "parse_hex_line line = parse_hex_tokens (split_whitespace line)"

fun parse_compact_loop :: "string \<Rightarrow> u8 option \<Rightarrow> u8 list \<Rightarrow> bytes \<Rightarrow> bytes res" where
  "parse_compact_loop input high [] acc =
    (if high \<noteq> None then Inl (invalid_hex_byte input) else Inr acc)"
| "parse_compact_loop input high (b # bs) acc =
    bind_res (ok_or (invalid_hex_byte input) (hex_nibble b)) (\<lambda>nibble.
      (case high of
         Some high_nibble \<Rightarrow> parse_compact_loop input None bs (acc @ [push_bit 4 high_nibble OR nibble])
       | None \<Rightarrow> parse_compact_loop input (Some nibble) bs acc))"

definition parse_compact_hex :: "string \<Rightarrow> bytes res" where
  "parse_compact_hex input =
    parse_compact_loop input None (map char_byte (filter (\<lambda>c. \<not> is_ascii_whitespace c) input)) []"

section \<open>Printing\<close>

text \<open>The \<open>{:02X}\<close> format of the standard library, and the space-separated form of a frame.\<close>

definition hex_digit :: "u8 \<Rightarrow> char" where
  "hex_digit n = (if n < 10 then char_of (unat (0x30 + n)) else char_of (unat (0x41 + (n - 10))))"

definition hex_byte :: "u8 \<Rightarrow> string" where
  "hex_byte b = [hex_digit (drop_bit 4 b), hex_digit (b AND 0x0F)]"

fun hex_spaced :: "bytes \<Rightarrow> string" where
  "hex_spaced [] = []"
| "hex_spaced [b] = hex_byte b"
| "hex_spaced (b # bs) = hex_byte b @ '' '' @ hex_spaced bs"

definition hex_compact :: "bytes \<Rightarrow> string" where
  "hex_compact bs = concat (map hex_byte bs)"

lemma nibble_cases: "(n :: u8) < 16 \<Longrightarrow>
  n \<in> {0, 1, 2, 3, 4, 5, 6, 7, 8, 9, 10, 11, 12, 13, 14, 15}"
proof -
  assume "n < 16"
  then have "unat n < 16" by (simp add: word_less_nat_alt)
  then have "unat n \<in> {0, 1, 2, 3, 4, 5, 6, 7, 8, 9, 10, 11, 12, 13, 14, 15}"
    by (simp only: insert_iff empty_iff) presburger
  then show ?thesis by (auto simp: word_unat_eq_iff)
qed

lemma char_byte_char_of [simp]: "char_byte (char_of (unat (b :: u8))) = b"
proof -
  have "char_byte (char_of (unat b)) = of_nat (of_char (char_of (unat b)))"
    by (simp only: char_byte_def of_nat_of_char)
  also have "\<dots> = of_nat (unat b mod 256)" by (simp only: of_char_of)
  also have "\<dots> = b" by simp
  finally show ?thesis .
qed

lemma char_byte_hex_digit: "char_byte (hex_digit n) = (if n < 10 then 0x30 + n else 0x41 + (n - 10))"
  unfolding hex_digit_def by (simp only: if_distrib [of char_byte] char_byte_char_of)

lemma hex_digit_nibble [simp]: "n < 16 \<Longrightarrow> hex_nibble (char_byte (hex_digit n)) = Some n"
  unfolding char_byte_hex_digit hex_nibble_def
  by (drule nibble_cases, elim insertE emptyE; hypsubst; simp)

lemma hex_digit_not_space [simp]:
  "n < 16 \<Longrightarrow> \<not> is_whitespace (hex_digit n)" "n < 16 \<Longrightarrow> \<not> is_ascii_whitespace (hex_digit n)"
  unfolding is_whitespace_def is_ascii_whitespace_def char_byte_hex_digit
  by (drule nibble_cases, elim insertE emptyE; hypsubst; simp)+

lemma nibbles_lt [simp]: "drop_bit 4 (b :: u8) < 16" "b AND 0x0F < 16"
proof -
  show "drop_bit 4 b < 16"
    using unat_u8_lt [of b] by (simp add: word_less_nat_alt unat_drop_bit del: unat_u8_lt)
  show "b AND 0x0F < 16"
    by (simp add: mask_simps word_less_nat_alt unat_and_mask)
qed

lemma nibbles_join [codec_simps]: "push_bit 4 (drop_bit 4 b) OR (b AND 0x0F) = (b :: u8)"
  by (rule bit_word_eqI) (auto simp: bit_simps mask_simps dest: bit_imp_le_length)

lemma hex_byte_not_Nil [simp]: "hex_byte b \<noteq> []"
  by (simp add: hex_byte_def)

lemma hex_pair_hex_byte [simp]: "hex_pair token (map char_byte (hex_byte b)) = Inr b"
  by (simp add: hex_pair_def hex_byte_def nibbles_join)

lemma hex_byte_no_space [simp]:
  "c \<in> set (hex_byte b) \<Longrightarrow> \<not> is_whitespace c" "c \<in> set (hex_byte b) \<Longrightarrow> \<not> is_ascii_whitespace c"
  by (auto simp: hex_byte_def)

section \<open>Splitting\<close>

lemma split_on_not_Nil [simp]: "split_on P s \<noteq> []"
  by (induction s) (auto split: list.split)

lemma split_on_token: "(\<And>c. c \<in> set t \<Longrightarrow> \<not> P c) \<Longrightarrow> split_on P t = [t]"
  by (induction t) auto

lemma split_on_token_sep:
  "(\<And>c. c \<in> set t \<Longrightarrow> \<not> P c) \<Longrightarrow> P d \<Longrightarrow> split_on P (t @ d # s) = t # split_on P s"
  by (induction t) auto

lemma split_whitespace_hex_spaced: "split_whitespace (hex_spaced bs) = map hex_byte bs"
proof (induction bs rule: hex_spaced.induct)
  case (3 b b' bs)
  have "is_whitespace CHR '' ''" by (simp add: is_whitespace_def char_byte_def)
  then have "split_on is_whitespace (hex_byte b @ CHR '' '' # hex_spaced (b' # bs))
      = hex_byte b # split_on is_whitespace (hex_spaced (b' # bs))"
    by (intro split_on_token_sep) auto
  with 3 show ?case by (simp add: split_whitespace_def)
qed (simp_all add: split_whitespace_def split_on_token)

lemma split_whitespace_not_Nil: "t \<in> set (split_whitespace s) \<Longrightarrow> t \<noteq> []"
  by (simp add: split_whitespace_def)

section \<open>Printing and parsing agree\<close>

lemma parse_hex_tokens_bytes: "parse_hex_tokens (map hex_byte bs) = Inr bs"
proof (induction bs)
  case (Cons b bs)
  have "chunks_exact 2 (map char_byte (hex_byte b)) = [map char_byte (hex_byte b)]"
    using chunks_exact_append [of "map char_byte (hex_byte b)" 2 "[]"] by (simp add: hex_byte_def)
  moreover have "length (hex_byte b) = 2" by (simp add: hex_byte_def)
  ultimately show ?case using Cons by simp
qed simp

lemma parse_compact_loop_bytes:
  "parse_compact_loop input None (map char_byte (hex_compact bs)) acc = Inr (acc @ bs)"
  by (induction bs arbitrary: acc) (simp_all add: hex_compact_def hex_byte_def nibbles_join)

lemma filter_hex_compact: "filter (\<lambda>c. \<not> is_ascii_whitespace c) (hex_compact bs) = hex_compact bs"
  by (simp add: filter_id_conv hex_compact_def)

lemma hex_line_roundtrip: "parse_hex_line (hex_spaced bs) = Inr bs"
  by (simp add: parse_hex_line_def split_whitespace_hex_spaced parse_hex_tokens_bytes)

text \<open>Reading back a byte string that was printed as two-digit upper-case hex, whether the bytes
  are separated by blanks (\<open>parse_hex_line\<close>) or run together (\<open>parse_compact_hex\<close>), gives
  the byte string.\<close>

theorem hex_print_parse:
  "parse_hex_line (hex_spaced bs) = Inr bs \<and> parse_compact_hex (hex_compact bs) = Inr bs"
  by (simp add: hex_line_roundtrip parse_compact_hex_def filter_hex_compact parse_compact_loop_bytes)

lemma parse_hex_tokens_ConsE:
  assumes "parse_hex_tokens (t # ts) = Inr bs" "t \<noteq> []"
  obtains cs rest where "length t = 2 * length cs" "0 < length cs"
    "parse_hex_tokens ts = Inr rest" "bs = cs @ rest"
proof -
  from assms obtain cs rest where e: "even (length t)"
    "try_map (hex_pair t) (chunks_exact 2 (map char_byte t)) = Inr cs"
    "parse_hex_tokens ts = Inr rest" "bs = cs @ rest"
    by (auto simp: Let_def even_iff_mod_2_eq_zero split: if_splits)
  from e(2) have "length cs = length t div 2"
    by (auto dest!: try_map_eq_Inr_length simp: length_chunks_exact)
  with e(1) have "length t = 2 * length cs" by simp
  with e(3,4) assms(2) show ?thesis by (intro that) auto
qed

lemma parse_hex_tokens_length: "parse_hex_tokens ts = Inr bs \<Longrightarrow> 2 * length bs = length (concat ts)"
proof (induction ts arbitrary: bs)
  case (Cons t ts)
  show ?case
  proof (cases "t = []")
    case False
    obtain cs rest where *: "length t = 2 * length cs" "parse_hex_tokens ts = Inr rest" "bs = cs @ rest"
      by (rule parse_hex_tokens_ConsE [OF Cons.prems False])
    with Cons.IH [of rest] show ?thesis by simp
  qed (use Cons in simp)
qed simp

lemma parse_hex_tokens_ge:
  "parse_hex_tokens ts = Inr bs \<Longrightarrow> (\<And>t. t \<in> set ts \<Longrightarrow> t \<noteq> []) \<Longrightarrow> length ts \<le> length bs"
proof (induction ts arbitrary: bs)
  case (Cons t ts)
  then have "t \<noteq> []" by simp
  obtain cs rest where *: "0 < length cs" "parse_hex_tokens ts = Inr rest" "bs = cs @ rest"
    by (rule parse_hex_tokens_ConsE [OF Cons.prems(1) \<open>t \<noteq> []\<close>])
  have "length ts \<le> length rest" by (rule Cons.IH) (use * Cons.prems(2) in auto)
  with * show ?case by (simp add: Suc_le_eq add_less_le_mono flip: length_greater_0_conv)
qed simp

end
