(* ===== verification/Codec.thy ===== *)
theory Codec
  imports Hex
begin

text \<open>
  Line decoding per bus family (\<open>protocol/codec.rs\<close>): a line of adapter output, as hex text with
  its headers, becomes a CAN, J1850 or K-line frame, and a frame of any family the common
  \<open>decoded_frame\<close>.
\<close>

datatype bus_family = Can | J1850 | Iso9141 | Kwp2000

datatype can_frame_kind = Single | First | Consecutive | FlowControl

record decoded_frame =
  df_family :: bus_family
  df_source :: "u32 option"
  df_target :: "u32 option"
  df_service :: "u8 option"
  df_identifier :: "u32 option"
  df_payload :: bytes

record can_frame =
  cf_identifier :: u32
  cf_source :: "u32 option"
  cf_target :: "u32 option"
  cf_kind :: can_frame_kind
  cf_payload :: bytes
  cf_declared_length :: "nat option"

record j1850_frame =
  j1850_priority :: u8
  j1850_target :: u8
  j1850_source :: u8
  j1850_payload :: bytes
  j1850_checksum :: "u8 option"

record kline_frame =
  kl_format :: u8
  kl_target :: u8
  kl_source :: u8
  kl_payload :: bytes
  kl_checksum :: u8
  kl_checksum_valid :: bool

section \<open>Operations\<close>

definition slice_first :: "'a list \<Rightarrow> 'a option" where
  "slice_first xs = (case xs of [] \<Rightarrow> None | x # _ \<Rightarrow> Some x)"

text \<open>
  \<open>u32::from_str_radix(s, 16)\<close> of the standard library: an optional plus sign and at least one
  digit, the value below \<open>2 ^ 32\<close>.
\<close>

fun hex_value :: "nat \<Rightarrow> u8 list \<Rightarrow> nat option" where
  "hex_value acc [] = Some acc"
| "hex_value acc (b # bs) =
    (case hex_nibble b of None \<Rightarrow> None | Some d \<Rightarrow> hex_value (16 * acc + unat d) bs)"

definition u32_from_hex :: "string \<Rightarrow> u32 option" where
  "u32_from_hex s =
    (let raw = map char_byte s;
         digits = (case raw of [] \<Rightarrow> [] | b # bs \<Rightarrow> if b = 0x2B then bs else raw)
     in if digits = [] then None
        else (case hex_value 0 digits of
                None \<Rightarrow> None
              | Some v \<Rightarrow> if v < 2 ^ 32 then Some (of_nat v) else None))"

definition can_kind_of_pci :: "u8 \<Rightarrow> can_frame_kind res" where
  "can_kind_of_pci pci =
    (let t = drop_bit 4 pci in
     if t = 0x0 then Inr Single
     else if t = 0x1 then Inr First
     else if t = 0x2 then Inr Consecutive
     else if t = 0x3 then Inr FlowControl
     else Inl (ParseError (CodecMsg (UnsupportedPci pci))))"

definition can_payload_of :: "can_frame_kind \<Rightarrow> bytes \<Rightarrow> bytes \<times> nat option" where
  "can_payload_of kind bs =
    (let pci = bs ! 0 in
     case kind of
       Single \<Rightarrow> (let len = unat (pci AND 0x0F) in (take len (drop 1 bs), Some len))
     | First \<Rightarrow>
         (let len = (push_bit 8 (unat (pci AND 0x0F))) OR
                    (if 1 < length bs then unat (bs ! 1) else 0)
          in (drop 2 bs, Some len))
     | Consecutive \<Rightarrow> (drop 1 bs, None)
     | FlowControl \<Rightarrow> (drop 1 bs, None))"

definition can_addresses :: "u32 \<Rightarrow> u32 option \<times> u32 option" where
  "can_addresses identifier =
    (if identifier \<le> 0x7FF then
       (if 0x7E8 \<le> identifier \<and> identifier \<le> 0x7EF then Some (identifier - 0x08) else None,
        if 0x7E0 \<le> identifier \<and> identifier \<le> 0x7E7 then Some identifier else None)
     else
       (let pdu_format = drop_bit 16 identifier AND 0xFF in
        (Some (identifier AND 0xFF),
         if pdu_format < 0xF0 then Some (drop_bit 8 identifier AND 0xFF) else None)))"

definition decode_can_headers_on :: "string \<Rightarrow> can_frame res" where
  "decode_can_headers_on line =
    (let tokens = split_whitespace line in
     if length tokens < 3 then Inl (ParseError (CodecMsg (InvalidCanFrame line)))
     else
       bind_res (ok_or (ParseError (CodecMsg (InvalidCanIdentifier (tokens ! 0))))
                  (u32_from_hex (tokens ! 0))) (\<lambda>identifier.
       bind_res (parse_hex_tokens (drop 1 tokens)) (\<lambda>bs.
       if bs = [] then Inl (ParseError (CodecMsg CanMissingPci))
       else
         bind_res (can_kind_of_pci (bs ! 0)) (\<lambda>kind.
         let (payload, declared_length) = can_payload_of kind bs;
             (source, target) = can_addresses identifier
         in Inr \<lparr>cf_identifier = identifier, cf_source = source, cf_target = target,
                 cf_kind = kind, cf_payload = payload, cf_declared_length = declared_length\<rparr>))))"

definition decode_can_headers_off :: "bytes \<Rightarrow> decoded_frame res" where
  "decode_can_headers_off bs =
    (if length bs < 2 then Inl (ParseError (CodecMsg CanPayloadTooShort))
     else Inr \<lparr>df_family = Can, df_source = None, df_target = None, df_service = slice_first bs,
               df_identifier = None, df_payload = bs\<rparr>)"

definition decode_j1850_headers_on :: "string \<Rightarrow> j1850_frame res" where
  "decode_j1850_headers_on line =
    bind_res (parse_hex_line line) (\<lambda>bs.
    if length bs < 4 then Inl (ParseError (CodecMsg (InvalidJ1850Frame line)))
    else Inr \<lparr>j1850_priority = bs ! 0, j1850_target = bs ! 1, j1850_source = bs ! 2,
              j1850_payload = drop 3 (butlast bs), j1850_checksum = Some (last bs)\<rparr>)"

definition decode_iso_kline_headers_on :: "string \<Rightarrow> kline_frame res" where
  "decode_iso_kline_headers_on line =
    bind_res (parse_hex_line line) (\<lambda>bs.
    if length bs < 5 then Inl (ParseError (CodecMsg (InvalidKLineFrame line)))
    else
      (let checksum = last bs;
           computed = fold (\<lambda>byte sum. sum + byte) (butlast bs) 0
       in Inr \<lparr>kl_format = bs ! 0, kl_target = bs ! 1, kl_source = bs ! 2,
               kl_payload = drop 3 (butlast bs), kl_checksum = checksum,
               kl_checksum_valid = (checksum = computed)\<rparr>))"

definition decode_kline_frame :: "string \<Rightarrow> bus_family \<Rightarrow> decoded_frame res" where
  "decode_kline_frame line family =
    bind_res (decode_iso_kline_headers_on line) (\<lambda>frame.
    Inr \<lparr>df_family = family, df_source = Some (ucast (kl_source frame)),
         df_target = Some (ucast (kl_target frame)),
         df_service = slice_first (kl_payload frame), df_identifier = None,
         df_payload = kl_payload frame\<rparr>)"

definition decode_frame :: "string \<Rightarrow> bus_family \<Rightarrow> decoded_frame res" where
  "decode_frame line family =
    (case family of
       Can \<Rightarrow>
         bind_res (decode_can_headers_on line) (\<lambda>frame.
         Inr \<lparr>df_family = family, df_source = cf_source frame, df_target = cf_target frame,
              df_service = slice_first (cf_payload frame),
              df_identifier = Some (cf_identifier frame), df_payload = cf_payload frame\<rparr>)
     | J1850 \<Rightarrow>
         bind_res (decode_j1850_headers_on line) (\<lambda>frame.
         Inr \<lparr>df_family = family, df_source = Some (ucast (j1850_source frame)),
              df_target = Some (ucast (j1850_target frame)),
              df_service = slice_first (j1850_payload frame), df_identifier = None,
              df_payload = j1850_payload frame\<rparr>)
     | Iso9141 \<Rightarrow> decode_kline_frame line family
     | Kwp2000 \<Rightarrow> decode_kline_frame line family)"

section \<open>Slices stay in range\<close>

text \<open>The first-frame branch slices from index 2, which would panic on a single byte. A line
  that passes the three-token check and parses has at least two bytes, so the slice is in range.\<close>

theorem can_first_frame_slice_in_range:
  assumes "3 \<le> length (split_whitespace line)"
    and "parse_hex_tokens (drop 1 (split_whitespace line)) = Inr bs"
  shows "2 \<le> length bs"
proof -
  have "length (drop 1 (split_whitespace line)) \<le> length bs"
    using assms(2) by (rule parse_hex_tokens_ge) (auto dest: in_set_dropD split_whitespace_not_Nil)
  with assms(1) show ?thesis by simp
qed

lemma split_whitespace_headed:
  assumes "idt \<noteq> []" "\<And>c. c \<in> set idt \<Longrightarrow> \<not> is_whitespace c"
  shows "split_whitespace (idt @ '' '' @ hex_spaced bs) = idt # map hex_byte bs"
proof -
  have "is_whitespace CHR '' ''" by (simp add: is_whitespace_def char_byte_def)
  with assms have "split_on is_whitespace (idt @ CHR '' '' # hex_spaced bs)
      = idt # split_on is_whitespace (hex_spaced bs)"
    by (intro split_on_token_sep) auto
  with assms(1) split_whitespace_hex_spaced [of bs] show ?thesis
    by (simp add: split_whitespace_def)
qed

lemma decode_can_headed:
  assumes "idt \<noteq> []" "\<And>c. c \<in> set idt \<Longrightarrow> \<not> is_whitespace c" "u32_from_hex idt = Some i"
    and "2 \<le> length bs" "can_kind_of_pci (bs ! 0) = Inr k"
  shows "decode_can_headers_on (idt @ '' '' @ hex_spaced bs) =
    Inr \<lparr>cf_identifier = i, cf_source = fst (can_addresses i), cf_target = snd (can_addresses i),
         cf_kind = k, cf_payload = fst (can_payload_of k bs),
         cf_declared_length = snd (can_payload_of k bs)\<rparr>"
proof -
  have "split_whitespace (idt @ '' '' @ hex_spaced bs) = idt # map hex_byte bs"
    by (rule split_whitespace_headed) (use assms in auto)
  moreover have "bs \<noteq> []" "\<not> Suc (length bs) < 3" using assms(4) by auto
  ultimately show ?thesis
    using assms(3,5) unfolding decode_can_headers_on_def
    by (simp add: Let_def parse_hex_tokens_bytes split: prod.split)
qed

lemma pci_single_nibble:
  assumes "n < 8"
  shows "drop_bit 4 (of_nat n :: u8) = 0" "unat ((of_nat n :: u8) AND 0x0F) = n"
  using assms
  by (auto dest!: less_8_cases)

text \<open>A single frame that carries \<open>pdu\<close> (at most seven bytes, then any padding), printed after its
  CAN identifier, decodes to a frame of kind \<open>Single\<close> whose payload and declared length are
  those of \<open>pdu\<close>; the padding is cut off.\<close>

theorem decode_can_single_frame:
  assumes "idt \<noteq> []" "\<And>c. c \<in> set idt \<Longrightarrow> \<not> is_whitespace c" "u32_from_hex idt = Some i"
    and "length pdu \<le> 7" "1 \<le> length (pdu @ padding)"
  shows "decode_can_headers_on (idt @ '' '' @ hex_spaced (of_nat (length pdu) # pdu @ padding)) =
    Inr \<lparr>cf_identifier = i, cf_source = fst (can_addresses i), cf_target = snd (can_addresses i),
         cf_kind = Single, cf_payload = pdu, cf_declared_length = Some (length pdu)\<rparr>"
proof -
  have "length pdu < 8" using assms(4) by simp
  note n = pci_single_nibble [OF this]
  have "can_kind_of_pci (of_nat (length pdu)) = Inr Single"
    by (simp add: can_kind_of_pci_def n)
  with assms show ?thesis
    by (subst decode_can_headed [where i = i and k = Single])
      (auto simp: can_payload_of_def n)
qed

lemma decode_can_single_frame_witness:
  "decode_can_headers_on (''7E8'' @ '' '' @ hex_spaced (of_nat (length [0x41, 0x0C :: u8]) # [0x41, 0x0C] @ [0x55])) =
    Inr \<lparr>cf_identifier = 0x7E8, cf_source = fst (can_addresses 0x7E8), cf_target = snd (can_addresses 0x7E8),
         cf_kind = Single, cf_payload = [0x41, 0x0C], cf_declared_length = Some (length [0x41, 0x0C :: u8])\<rparr>"
  by (rule decode_can_single_frame)
    (auto simp: u32_from_hex_def char_byte_def hex_nibble_def is_whitespace_def)

lemma can_first_frame_slice_in_range_witness: "2 \<le> length [0x10, 0x14 :: u8]"
  by (rule can_first_frame_slice_in_range [where line = "''7E8 10 14''"])
    (auto simp: split_whitespace_def is_whitespace_def char_byte_def hex_nibble_def hex_pair_def
      chunks_exact.simps)

section \<open>K-line checksum\<close>

lemma fold_sum: "fold (\<lambda>byte sum. sum + byte) bs (a :: u8) = a + sum_list bs"
  by (induction bs arbitrary: a) (auto simp: add_ac)

lemma decode_kline_hex:
  assumes "5 \<le> length bs"
  shows "decode_iso_kline_headers_on (hex_spaced bs) =
    Inr \<lparr>kl_format = bs ! 0, kl_target = bs ! 1, kl_source = bs ! 2, kl_payload = drop 3 (butlast bs),
         kl_checksum = last bs, kl_checksum_valid = (last bs = sum_list (butlast bs))\<rparr>"
  using assms hex_line_roundtrip [of bs]
  by (simp add: decode_iso_kline_headers_on_def fold_sum Let_def)

lemma sum_list_update_u8:
  "i < length xs \<Longrightarrow> sum_list (xs[i := x]) = sum_list xs + x - (xs ! i :: u8)"
  by (induction xs arbitrary: i) (auto split: nat.split)

text \<open>The K-line checksum detects every change of one byte: if a frame decodes with a valid
  checksum then the frame with any one of its bytes changed decodes with an invalid one.\<close>

theorem kline_checksum_detects_byte_change:
  assumes "decode_iso_kline_headers_on (hex_spaced bs) = Inr f" "kl_checksum_valid f"
    and "i < length bs" "b \<noteq> bs ! i"
  shows "\<exists>f'. decode_iso_kline_headers_on (hex_spaced (bs[i := b])) = Inr f' \<and> \<not> kl_checksum_valid f'"
proof -
  have len: "5 \<le> length bs"
    using assms(1) hex_line_roundtrip [of bs]
    by (auto simp: decode_iso_kline_headers_on_def split: if_splits)
  obtain xs c where bs: "bs = xs @ [c]" using len by (cases bs rule: rev_cases) auto
  from assms(1,2) len have "c = sum_list xs"
    by (auto simp: decode_kline_hex bs)
  then have "last (bs[i := b]) \<noteq> sum_list (butlast (bs[i := b]))"
    using assms(3,4) by (auto simp: bs list_update_append nth_append sum_list_update_u8 less_Suc_eq)
  with len show ?thesis by (simp add: decode_kline_hex)
qed

lemma kline_checksum_detects_byte_change_witness:
  "\<exists>f'. decode_iso_kline_headers_on (hex_spaced ([0x68, 0x6A, 0xF1, 0x01, 0x00, 0xC4][3 := 0x02])) = Inr f'
     \<and> \<not> kl_checksum_valid f'"
proof -
  let ?bs = "[0x68, 0x6A, 0xF1, 0x01, 0x00, 0xC4]"
  have "decode_iso_kline_headers_on (hex_spaced ?bs) = Inr \<lparr>kl_format = 0x68, kl_target = 0x6A,
    kl_source = 0xF1, kl_payload = [0x01, 0x00], kl_checksum = 0xC4, kl_checksum_valid = True\<rparr>"
    by (subst decode_kline_hex) simp_all
  then show ?thesis by (rule kline_checksum_detects_byte_change) simp_all
qed

end
