(* ===== verification/Framed.thy ===== *)
theory Framed
  imports Codec
begin

text \<open>
  Framed diagnostic exchange (\<open>transport/framed.rs\<close>) and the J1979 client over it
  (\<open>protocol/client.rs\<close>). The \<open>Transport\<close> trait is a record of its operations on a state \<open>'t\<close>; a
  definition that is generic over \<open>T: Transport\<close> takes the record as an argument.
\<close>

datatype transport_target = TBroadcast | TPhysical u32 | TFunctional u32 | TPgn u32

record transport_request =
  tq_target :: transport_target
  tq_pdu :: bytes

definition diagnostic_request :: "transport_target \<Rightarrow> u8 \<Rightarrow> bytes \<Rightarrow> transport_request" where
  "diagnostic_request target service_id data = \<lparr>tq_target = target, tq_pdu = service_id # data\<rparr>"

definition broadcast_diagnostic :: "u8 \<Rightarrow> bytes \<Rightarrow> transport_request" where
  "broadcast_diagnostic service_id data = diagnostic_request TBroadcast service_id data"

definition tq_service_id :: "transport_request \<Rightarrow> u8 option" where
  "tq_service_id req = slice_first (tq_pdu req)"

definition tq_service_data :: "transport_request \<Rightarrow> bytes" where
  "tq_service_data req = drop 1 (tq_pdu req)"

lemma broadcast_diagnostic_simps [simp]:
  "tq_pdu (broadcast_diagnostic sid data) = sid # data"
  "tq_target (broadcast_diagnostic sid data) = TBroadcast"
  "tq_service_id (broadcast_diagnostic sid data) = Some sid"
  "tq_service_data (broadcast_diagnostic sid data) = data"
  by (simp_all add: broadcast_diagnostic_def diagnostic_request_def tq_service_id_def
      tq_service_data_def slice_first_def)

record 't transport =
  exchange :: "transport_request \<Rightarrow> ('t, obd2_error, bytes) act"
  family :: bus_family

section \<open>The J1979 client\<close>

datatype request_kind =
    Mode01Pid u8
  | Did16 u8 u16
  | RawRequest u8 bytes

definition client_request :: "request_kind \<Rightarrow> transport_request" where
  "client_request kind =
    (case kind of
       Mode01Pid pid \<Rightarrow> broadcast_diagnostic 0x01 [pid]
     | Did16 service did \<Rightarrow> broadcast_diagnostic service (u16_to_be did)
     | RawRequest service data \<Rightarrow> \<lparr>tq_target = TBroadcast, tq_pdu = service # data\<rparr>)"

definition j1979_request :: "'t transport \<Rightarrow> request_kind \<Rightarrow> ('t, obd2_error, bytes) act" where
  "j1979_request t kind =
    bind_act (exchange t (client_request kind)) (\<lambda>payload. ret payload)"

end
