(* ===== verification/IsoTp.thy ===== *)
theory IsoTp
  imports Framed
begin

text \<open>
  Host-side ISO 15765-2 transport over raw CAN frames (\<open>transport/isotp.rs\<close>): segmentation,
  reassembly, flow control and the exchange of one diagnostic PDU.

  \<open>CanFrameIo\<close> is the record \<open>can_io\<close> of its operations on a state \<open>'io\<close>; \<open>tokio::time::sleep\<close> is a
  third operation of the record, which takes the delay in microseconds. \<open>IsoTpTransport\<close> has the
  fields \<open>io\<close> and \<open>config\<close>, and no method writes \<open>config\<close>: here the state of an action is the
  \<open>io\<close>, the configuration an argument. A \<open>while\<close> or \<open>loop\<close> of the code is a recursive function over
  the variables it changes.
\<close>

section \<open>Frames and configuration\<close>

record can_data_frame =
  fr_id :: u32
  fr_data :: bytes
  fr_extended :: bool

definition frame_with_extended_id :: "u32 \<Rightarrow> bool \<Rightarrow> bytes \<Rightarrow> can_data_frame res" where
  "frame_with_extended_id i ext data =
    (if 0x1FFFFFFF < i then Inl (ParseError (IsoTpMsg (CanIdTooWide i)))
     else if 8 < length data then Inl (ParseError (IsoTpMsg (CanTooManyBytes (length data))))
     else Inr \<lparr>fr_id = i, fr_data = data, fr_extended = ext\<rparr>)"

definition frame_new :: "u32 \<Rightarrow> bytes \<Rightarrow> can_data_frame res" where
  "frame_new i data = frame_with_extended_id i (0x7FF < i) data"

record 'io can_io =
  send_frame :: "can_data_frame \<Rightarrow> ('io, obd2_error, unit) act"
  recv_frame :: "('io, obd2_error, can_data_frame) act"
  sleep :: "nat \<Rightarrow> 'io \<Rightarrow> 'io"

record isotp_config =
  request_id :: u32
  response_id :: u32
  block_size :: u8
  st_min :: u8
  tx_padding :: "u8 option"
  max_payload_len :: nat
  max_unrelated_frames :: nat
  max_flow_control_wait_frames :: nat

definition max_classic_isotp_payload :: nat where
  "max_classic_isotp_payload = 4095"

definition max_response_pending_frames :: nat where
  "max_response_pending_frames = 8"

definition isotp_config_new :: "u32 \<Rightarrow> u32 \<Rightarrow> isotp_config" where
  "isotp_config_new req resp =
    \<lparr>request_id = req, response_id = resp, block_size = 8, st_min = 0, tx_padding = Some 0x00,
     max_payload_len = max_classic_isotp_payload, max_unrelated_frames = 32,
     max_flow_control_wait_frames = 16\<rparr>"

datatype flow_status = ContinueToSend | WaitFrames | Overflow

definition flow_status_from_nibble :: "u8 \<Rightarrow> flow_status res" where
  "flow_status_from_nibble nibble =
    (if nibble = 0x0 then Inr ContinueToSend
     else if nibble = 0x1 then Inr WaitFrames
     else if nibble = 0x2 then Inr Overflow
     else Inl (ParseError (IsoTpMsg (UnsupportedFlowStatus nibble))))"

primrec flow_status_nibble :: "flow_status \<Rightarrow> u8" where
  "flow_status_nibble ContinueToSend = 0x0"
| "flow_status_nibble WaitFrames = 0x1"
| "flow_status_nibble Overflow = 0x2"

record flow_control_frame =
  fc_status :: flow_status
  fc_block_size :: u8
  fc_st_min :: u8

text \<open>The separation delay in microseconds.\<close>

definition st_min_duration :: "u8 \<Rightarrow> nat res" where
  "st_min_duration st =
    (if st \<le> 0x7F then Inr (1000 * unat st)
     else if 0xF1 \<le> st \<and> st \<le> 0xF9 then Inr ((unat st - 0xF0) * 100)
     else Inr (1000 * 0x7F))"

section \<open>Receiving and sending one frame\<close>

definition first_pci_byte :: "can_data_frame \<Rightarrow> u8 res" where
  "first_pci_byte f = ok_or (ParseError (IsoTpMsg MissingPciByte)) (slice_first (fr_data f))"

definition validate_can_frame :: "can_data_frame \<Rightarrow> unit res" where
  "validate_can_frame f =
    (if 8 < length (fr_data f) then Inl (ParseError (IsoTpMsg (CanTooManyBytes (length (fr_data f)))))
     else if fr_data f = [] then Inl (ParseError (IsoTpMsg MissingPciByte))
     else Inr ())"

definition validate_pdu_len :: "isotp_config \<Rightarrow> nat \<Rightarrow> unit res" where
  "validate_pdu_len cfg len =
    (if max_payload_len cfg < len
     then Inl (ParseError (IsoTpMsg (PduExceedsMax len (max_payload_len cfg)))) else Inr ())"

function read_matching_loop ::
  "'io can_io \<Rightarrow> isotp_config \<Rightarrow> u32 \<Rightarrow> nat \<Rightarrow> ('io, obd2_error, can_data_frame) act" where
  "read_matching_loop ops cfg i unrelated =
    bind_act (recv_frame ops) (\<lambda>frame.
    bind_act (lift_res (validate_can_frame frame)) (\<lambda>_.
    if fr_id frame = i then ret frame
    else if max_unrelated_frames cfg < unrelated + 1
      then fail (ParseError (IsoTpMsg (TooManyUnrelated i)))
    else read_matching_loop ops cfg i (unrelated + 1)))"
  by pat_completeness auto
termination
  by (relation "measure (\<lambda>(ops, cfg, i, unrelated). max_unrelated_frames cfg - unrelated)") auto

declare read_matching_loop.simps [simp del]

definition read_matching_frame ::
  "'io can_io \<Rightarrow> isotp_config \<Rightarrow> u32 \<Rightarrow> ('io, obd2_error, can_data_frame) act" where
  "read_matching_frame ops cfg i = read_matching_loop ops cfg i 0"

definition pad_data :: "isotp_config \<Rightarrow> bytes \<Rightarrow> bytes" where
  "pad_data cfg data =
    (case tx_padding cfg of None \<Rightarrow> data | Some pad \<Rightarrow> data @ replicate (8 - length data) pad)"

definition send_frame_data :: "'io can_io \<Rightarrow> isotp_config \<Rightarrow> bytes \<Rightarrow> ('io, obd2_error, unit) act" where
  "send_frame_data ops cfg data =
    (if 8 < length data then fail (ParseError (IsoTpMsg (CanTooManyBytes (length data))))
     else bind_act (lift_res (frame_new (request_id cfg) (pad_data cfg data))) (send_frame ops))"

definition send_flow_control ::
  "'io can_io \<Rightarrow> isotp_config \<Rightarrow> flow_status \<Rightarrow> ('io, obd2_error, unit) act" where
  "send_flow_control ops cfg status =
    send_frame_data ops cfg [0x30 OR flow_status_nibble status, block_size cfg, st_min cfg]"

definition parse_flow_control :: "can_data_frame \<Rightarrow> flow_control_frame res" where
  "parse_flow_control frame =
    (if length (fr_data frame) < 3 then Inl (ParseError (IsoTpMsg FlowControlShort))
     else
       (let pci = fr_data frame ! 0 in
        if drop_bit 4 pci \<noteq> 0x3 then Inl (ParseError (IsoTpMsg (ExpectedFlowControl (drop_bit 4 pci))))
        else bind_res (flow_status_from_nibble (pci AND 0x0F)) (\<lambda>status.
          Inr \<lparr>fc_status = status, fc_block_size = fr_data frame ! 1, fc_st_min = fr_data frame ! 2\<rparr>)))"

definition read_flow_control ::
  "'io can_io \<Rightarrow> isotp_config \<Rightarrow> ('io, obd2_error, flow_control_frame) act" where
  "read_flow_control ops cfg =
    bind_act (read_matching_frame ops cfg (response_id cfg)) (\<lambda>frame. lift_res (parse_flow_control frame))"

definition sleep_act :: "'io can_io \<Rightarrow> nat \<Rightarrow> ('io, obd2_error, unit) act" where
  "sleep_act ops micros s = (Inr (), sleep ops micros s)"

function wait_loop ::
  "'io can_io \<Rightarrow> isotp_config \<Rightarrow> nat \<Rightarrow> ('io, obd2_error, flow_control_frame) act" where
  "wait_loop ops cfg wait_frames =
    bind_act (read_flow_control ops cfg) (\<lambda>fc.
    case fc_status fc of
      ContinueToSend \<Rightarrow> ret fc
    | WaitFrames \<Rightarrow>
        if max_flow_control_wait_frames cfg < wait_frames + 1 then fail Timeout
        else seq_act (sleep_act ops 1000) (wait_loop ops cfg (wait_frames + 1))
    | Overflow \<Rightarrow> fail (ParseError (IsoTpMsg FlowControlOverflow)))"
  by pat_completeness auto
termination
  by (relation "measure (\<lambda>(ops, cfg, n). max_flow_control_wait_frames cfg - n)") auto

declare wait_loop.simps [simp del]

definition wait_for_continue_to_send ::
  "'io can_io \<Rightarrow> isotp_config \<Rightarrow> ('io, obd2_error, flow_control_frame) act" where
  "wait_for_continue_to_send ops cfg = wait_loop ops cfg 0"

section \<open>Sending a PDU\<close>

function send_consecutive ::
  "'io can_io \<Rightarrow> isotp_config \<Rightarrow> bytes \<Rightarrow> flow_control_frame \<Rightarrow> nat \<Rightarrow> u8 \<Rightarrow> u8 \<Rightarrow> ('io, obd2_error, unit) act" where
  "send_consecutive ops cfg pdu fc offset sequence sent_in_block =
    (if offset < length pdu then
       bind_act (lift_res (st_min_duration (fc_st_min fc))) (\<lambda>delay.
       seq_act (if delay = 0 then ret () else sleep_act ops delay)
       (let chunk_len = min (length pdu - offset) 7;
            data = (0x20 OR (sequence AND 0x0F)) # take chunk_len (drop offset pdu);
            offset' = offset + chunk_len;
            sequence' = (sequence + 1) AND 0x0F;
            sent' = saturating_add sent_in_block 1
        in seq_act (send_frame_data ops cfg data)
           (if fc_block_size fc \<noteq> 0 \<and> fc_block_size fc \<le> sent' \<and> offset' < length pdu
            then bind_act (wait_for_continue_to_send ops cfg) (\<lambda>fc'.
                 send_consecutive ops cfg pdu fc' offset' sequence' 0)
            else send_consecutive ops cfg pdu fc offset' sequence' sent')))
     else ret ())"
  by pat_completeness auto
termination
  by (relation "measure (\<lambda>(ops, cfg, pdu, fc, offset, sequence, sent). length pdu - offset)") auto

declare send_consecutive.simps [simp del]

definition send_multi_frame_pdu :: "'io can_io \<Rightarrow> isotp_config \<Rightarrow> bytes \<Rightarrow> ('io, obd2_error, unit) act" where
  "send_multi_frame_pdu ops cfg pdu =
    (if max_classic_isotp_payload < length pdu
     then fail (ParseError (IsoTpMsg (PduExceedsClassic (length pdu))))
     else
       (let first = (0x10 OR (of_nat (drop_bit 8 (length pdu)) AND 0x0F))
                      # of_nat (length pdu AND 0xFF) # take 6 pdu
        in seq_act (send_frame_data ops cfg first)
             (bind_act (wait_for_continue_to_send ops cfg) (\<lambda>fc.
              send_consecutive ops cfg pdu fc 6 1 0))))"

definition send_pdu :: "'io can_io \<Rightarrow> isotp_config \<Rightarrow> bytes \<Rightarrow> ('io, obd2_error, unit) act" where
  "send_pdu ops cfg pdu =
    (if length pdu \<le> 7 then send_frame_data ops cfg (of_nat (length pdu) # pdu)
     else send_multi_frame_pdu ops cfg pdu)"

section \<open>Receiving a PDU\<close>

definition decode_single_frame :: "isotp_config \<Rightarrow> can_data_frame \<Rightarrow> bytes res" where
  "decode_single_frame cfg frame =
    bind_res (first_pci_byte frame) (\<lambda>pci.
    let len = unat (pci AND 0x0F) in
    if length (fr_data frame) < len + 1
    then Inl (ParseError (IsoTpMsg (SingleFrameShort len (length (fr_data frame) - 1))))
    else bind_res (validate_pdu_len cfg len) (\<lambda>_. Inr (take len (drop 1 (fr_data frame)))))"

definition consecutive_payload :: "u8 \<Rightarrow> nat \<Rightarrow> can_data_frame \<Rightarrow> bytes res" where
  "consecutive_payload expected_sequence remaining frame =
    bind_res (first_pci_byte frame) (\<lambda>pci.
    if drop_bit 4 pci \<noteq> 0x2 then Inl (ParseError (IsoTpMsg (ExpectedConsecutive (drop_bit 4 pci))))
    else if pci AND 0x0F \<noteq> expected_sequence
      then Inl (ParseError (IsoTpMsg (SequenceMismatch expected_sequence (pci AND 0x0F))))
    else
      (let available = length (fr_data frame) - 1 in
       if available = 0 then Inl (ParseError (IsoTpMsg ConsecutiveNoPayload))
       else Inr (take (min remaining available) (drop 1 (fr_data frame)))))"

lemma consecutive_payload_nonempty:
  "consecutive_payload q n f = Inr chunk \<Longrightarrow> 0 < n \<Longrightarrow> 0 < length chunk \<and> length chunk \<le> n"
  by (auto simp: consecutive_payload_def Let_def split: if_splits)

lemma consecutive_payload_decreases:
  "consecutive_payload q (n - m) f = Inr chunk \<Longrightarrow> m < n \<Longrightarrow> n - (m + length chunk) < n - m"
  using consecutive_payload_nonempty [of q "n - m" f chunk] by (cases chunk) auto

function recv_consecutive ::
  "'io can_io \<Rightarrow> isotp_config \<Rightarrow> nat \<Rightarrow> bytes \<Rightarrow> u8 \<Rightarrow> u8 \<Rightarrow> ('io, obd2_error, bytes) act" where
  "recv_consecutive ops cfg declared_len pdu expected_sequence received_in_block =
    (if length pdu < declared_len then
       bind_act (read_matching_frame ops cfg (response_id cfg)) (\<lambda>frame.
       case consecutive_payload expected_sequence (declared_len - length pdu) frame of
         Inl e \<Rightarrow> fail e
       | Inr chunk \<Rightarrow>
           (let pdu' = pdu @ chunk;
                expected' = (expected_sequence + 1) AND 0x0F;
                received' = saturating_add received_in_block 1
            in if block_size cfg \<noteq> 0 \<and> block_size cfg \<le> received' \<and> length pdu' < declared_len
               then seq_act (send_flow_control ops cfg ContinueToSend)
                      (recv_consecutive ops cfg declared_len pdu' expected' 0)
               else recv_consecutive ops cfg declared_len pdu' expected' received'))
     else ret pdu)"
  by pat_completeness auto
termination
  by (relation "measure (\<lambda>(ops, cfg, n, pdu, q, r). n - length pdu)")
    (auto intro: consecutive_payload_decreases)

declare recv_consecutive.simps [simp del]

definition recv_multi_frame_pdu ::
  "'io can_io \<Rightarrow> isotp_config \<Rightarrow> can_data_frame \<Rightarrow> ('io, obd2_error, bytes) act" where
  "recv_multi_frame_pdu ops cfg first_frame =
    (if length (fr_data first_frame) < 2 then fail (ParseError (IsoTpMsg FirstFrameMissingLength))
     else
       (let declared_len =
              push_bit 8 (unat (fr_data first_frame ! 0 AND 0x0F)) OR unat (fr_data first_frame ! 1)
        in if declared_len \<le> 7
           then fail (ParseError (IsoTpMsg (FirstFrameSingleLength declared_len)))
           else bind_act (lift_res (validate_pdu_len cfg declared_len)) (\<lambda>_.
                let initial_len = min declared_len (length (fr_data first_frame) - 2);
                    pdu = take initial_len (drop 2 (fr_data first_frame))
                in seq_act (send_flow_control ops cfg ContinueToSend)
                     (recv_consecutive ops cfg declared_len pdu 1 0))))"

definition recv_pdu :: "'io can_io \<Rightarrow> isotp_config \<Rightarrow> ('io, obd2_error, bytes) act" where
  "recv_pdu ops cfg =
    bind_act (read_matching_frame ops cfg (response_id cfg)) (\<lambda>frame.
    bind_act (lift_res (first_pci_byte frame)) (\<lambda>pci.
    let frame_type = drop_bit 4 pci in
    if frame_type = 0x0 then lift_res (decode_single_frame cfg frame)
    else if frame_type = 0x1 then recv_multi_frame_pdu ops cfg frame
    else fail (ParseError (IsoTpMsg (UnexpectedFrameType frame_type)))))"

section \<open>Exchanges\<close>

definition exchange_pdu :: "'io can_io \<Rightarrow> isotp_config \<Rightarrow> bytes \<Rightarrow> ('io, obd2_error, bytes) act" where
  "exchange_pdu ops cfg request_pdu =
    (if request_pdu = [] then fail (ParseError (IsoTpMsg RequestPduEmpty))
     else seq_act (lift_res (validate_pdu_len cfg (length request_pdu)))
            (seq_act (send_pdu ops cfg request_pdu) (recv_pdu ops cfg)))"

definition is_response_pending_for :: "u8 \<Rightarrow> bytes \<Rightarrow> bool" where
  "is_response_pending_for service_id response_pdu \<longleftrightarrow> response_pdu = [0x7F, service_id, 0x78]"

definition strip_response_for_request :: "u8 \<Rightarrow> bytes \<Rightarrow> bytes res" where
  "strip_response_for_request service_id response_pdu =
    (case response_pdu of
       [] \<Rightarrow> Inl (ParseError (IsoTpMsg ResponsePduEmpty))
     | first # rest \<Rightarrow>
         if first = 0x7F then
           (if length response_pdu < 3 then Inl (ParseError (IsoTpMsg NegativeResponseShort))
            else Inl (NegativeResponse (response_pdu ! 1) (nrc_from_byte_or_unknown (response_pdu ! 2))))
         else
           bind_res (ok_or (ParseError (IsoTpMsg (NoPositiveSid service_id)))
                      (checked_add service_id 0x40)) (\<lambda>expected.
           if first \<noteq> expected then Inl (ParseError (IsoTpMsg (UnexpectedResponseSid first expected)))
           else Inr rest))"

primrec pending_loop ::
  "'io can_io \<Rightarrow> isotp_config \<Rightarrow> u8 \<Rightarrow> nat \<Rightarrow> bytes \<Rightarrow> ('io, obd2_error, bytes) act" where
  "pending_loop ops cfg service_id 0 response_pdu =
    (if is_response_pending_for service_id response_pdu then fail Timeout
     else lift_res (strip_response_for_request service_id response_pdu))"
| "pending_loop ops cfg service_id (Suc n) response_pdu =
    (if \<not> is_response_pending_for service_id response_pdu
     then lift_res (strip_response_for_request service_id response_pdu)
     else bind_act (recv_pdu ops cfg) (pending_loop ops cfg service_id n))"

definition isotp_exchange ::
  "'io can_io \<Rightarrow> isotp_config \<Rightarrow> transport_request \<Rightarrow> ('io, obd2_error, bytes) act" where
  "isotp_exchange ops cfg req =
    bind_act (lift_res (ok_or (ParseError (IsoTpMsg RequestPduEmpty)) (tq_service_id req))) (\<lambda>service_id.
    seq_act (lift_res (validate_pdu_len cfg (length (tq_pdu req))))
    (seq_act (send_pdu ops cfg (tq_pdu req))
    (bind_act (recv_pdu ops cfg) (pending_loop ops cfg service_id max_response_pending_frames))))"

definition isotp_transport :: "'io can_io \<Rightarrow> isotp_config \<Rightarrow> 'io transport" where
  "isotp_transport ops cfg = \<lparr>exchange = isotp_exchange ops cfg, family = Can\<rparr>"

section \<open>The in-memory bus\<close>

record mock_can_io =
  rx :: "can_data_frame list"
  tx :: "can_data_frame list"

definition mock_send :: "can_data_frame \<Rightarrow> (mock_can_io, obd2_error, unit) act" where
  "mock_send f s = (Inr (), s\<lparr>tx := tx s @ [f]\<rparr>)"

definition mock_recv :: "(mock_can_io, obd2_error, can_data_frame) act" where
  "mock_recv s = (case rx s of [] \<Rightarrow> (Inl Timeout, s) | f # fs \<Rightarrow> (Inr f, s\<lparr>rx := fs\<rparr>))"

definition mock_can :: "mock_can_io can_io" where
  "mock_can = \<lparr>send_frame = mock_send, recv_frame = mock_recv, sleep = (\<lambda>_ s. s)\<rparr>"

end
