(* ===== verification/IsoTpLaws.thy ===== *)
theory IsoTpLaws
  imports IsoTp
begin

text \<open>
  What the ISO-TP transport does on a bus. The interface of the bus is the locale \<open>can_bus\<close>: an
  abstract inbox and an abstract list of sent frames, and the laws of the three operations over
  them. The client lemmas are proved once in the locale and rest on one notion, \<open>behaves\<close>: which
  frames an action consumes, what it returns and which frames it sends. The locale is interpreted
  on the in-memory bus of the code.
\<close>

definition behaves ::
  "('s \<Rightarrow> 'f list) \<Rightarrow> ('s \<Rightarrow> 'f list) \<Rightarrow> ('s, 'e, 'a) act \<Rightarrow> 'f list \<Rightarrow> 'e + 'a \<Rightarrow> 'f list \<Rightarrow> bool" where
  "behaves inbox sent m ins r outs \<longleftrightarrow>
    (\<forall>s rest. inbox s = ins @ rest \<longrightarrow>
       (\<exists>s'. m s = (r, s') \<and> inbox s' = rest \<and> sent s' = sent s @ outs))"

lemma behavesD:
  assumes "behaves inbox sent m ins r outs" "inbox s = ins @ rest"
  obtains s' where "m s = (r, s')" "inbox s' = rest" "sent s' = sent s @ outs"
  using assms unfolding behaves_def by blast

lemma behaves_ret [intro, simp]: "behaves inbox sent (ret a) [] (Inr a) []"
  and behaves_fail [intro, simp]: "behaves inbox sent (fail e) [] (Inl e) []"
  and behaves_lift [intro, simp]: "behaves inbox sent (lift_res r) [] r []"
  and behaves_Pair [intro, simp]: "behaves inbox sent (Pair r) [] r []"
  by (simp_all add: behaves_def)

lemma behaves_bind:
  assumes m: "behaves inbox sent m ins1 (Inr a) outs1"
    and f: "behaves inbox sent (f a) ins2 r outs2"
    and eq: "ins = ins1 @ ins2" "outs = outs1 @ outs2"
  shows "behaves inbox sent (bind_act m f) ins r outs"
  unfolding behaves_def
proof (intro allI impI)
  fix s rest assume "inbox s = ins @ rest"
  then have "inbox s = ins1 @ (ins2 @ rest)" by (simp add: eq)
  from behavesD [OF m this] obtain s1 where
    1: "m s = (Inr a, s1)" "inbox s1 = ins2 @ rest" "sent s1 = sent s @ outs1" by blast
  from behavesD [OF f 1(2)] obtain s2 where
    2: "f a s1 = (r, s2)" "inbox s2 = rest" "sent s2 = sent s1 @ outs2" by blast
  from 1 2 show "\<exists>s'. bind_act m f s = (r, s') \<and> inbox s' = rest \<and> sent s' = sent s @ outs"
    by (intro exI [of _ s2]) (simp add: bind_act_Inr eq)
qed

lemma behaves_bind_Inl:
  "behaves inbox sent m ins (Inl e) outs \<Longrightarrow> behaves inbox sent (bind_act m f) ins (Inl e) outs"
  unfolding behaves_def by (blast intro: bind_act_Inl)

lemma behaves_seq:
  "behaves inbox sent m ins1 (Inr ()) outs1 \<Longrightarrow> behaves inbox sent n ins2 r outs2
    \<Longrightarrow> ins = ins1 @ ins2 \<Longrightarrow> outs = outs1 @ outs2 \<Longrightarrow> behaves inbox sent (seq_act m n) ins r outs"
  unfolding seq_act_def by (rule behaves_bind)

section \<open>Segments\<close>

text \<open>
  The abstract specification: the data of the consecutive frames that carry \<open>xs\<close>, numbered from
  \<open>q\<close>, and the number of flow controls between them for a block size, \<open>n\<close> frames into a block.
\<close>

function segments :: "u8 \<Rightarrow> bytes \<Rightarrow> bytes list" where
  "segments q xs =
    (if xs = [] then []
     else ((0x20 OR (q AND 0x0F)) # take 7 xs) # segments ((q + 1) AND 0x0F) (drop 7 xs))"
  by pat_completeness auto
termination
  by (relation "measure (\<lambda>(q, xs). length xs)") (auto intro!: diff_less)

declare segments.simps [simp del]

function flow_count :: "u8 \<Rightarrow> u8 \<Rightarrow> bytes \<Rightarrow> nat" where
  "flow_count bs n xs =
    (if xs = [] then 0
     else if bs \<noteq> 0 \<and> bs \<le> saturating_add n 1 \<and> drop 7 xs \<noteq> []
       then Suc (flow_count bs 0 (drop 7 xs))
     else flow_count bs (saturating_add n 1) (drop 7 xs))"
  by pat_completeness auto
termination
  by (relation "measure (\<lambda>(bs, n, xs). length xs)") (auto intro!: diff_less)

declare flow_count.simps [simp del]

definition tx_frame :: "isotp_config \<Rightarrow> bytes \<Rightarrow> can_data_frame" where
  "tx_frame cfg data = \<lparr>fr_id = request_id cfg, fr_data = pad_data cfg data,
    fr_extended = (0x7FF < request_id cfg)\<rparr>"

definition first_frame_data :: "bytes \<Rightarrow> bytes" where
  "first_frame_data pdu =
    (0x10 OR (of_nat (drop_bit 8 (length pdu)) AND 0x0F)) # of_nat (length pdu AND 0xFF) # take 6 pdu"

definition flow_control_data :: "isotp_config \<Rightarrow> bytes" where
  "flow_control_data cfg = [0x30, block_size cfg, st_min cfg]"

definition pdu_frames :: "isotp_config \<Rightarrow> bytes \<Rightarrow> can_data_frame list" where
  "pdu_frames cfg pdu =
    (if length pdu \<le> 7 then [tx_frame cfg (of_nat (length pdu) # pdu)]
     else tx_frame cfg (first_frame_data pdu) # map (tx_frame cfg) (segments 1 (drop 6 pdu)))"

definition pdu_flow_controls :: "isotp_config \<Rightarrow> bytes \<Rightarrow> can_data_frame list" where
  "pdu_flow_controls cfg pdu =
    (if length pdu \<le> 7 then []
     else replicate (Suc (flow_count (block_size cfg) 0 (drop 6 pdu)))
            (tx_frame cfg (flow_control_data cfg)))"

lemma pad_data_extends: "\<exists>padding. pad_data cfg data = data @ padding"
  by (simp add: pad_data_def split: option.split)

lemma pad_data_length: "length data \<le> 8 \<Longrightarrow> length data \<le> length (pad_data cfg data) \<and> length (pad_data cfg data) \<le> 8"
  by (simp add: pad_data_def split: option.split)

lemma consecutive_pci:
  "drop_bit 4 (0x20 OR (q AND 0x0F)) = (2 :: u8)" "(0x20 OR (q AND 0x0F)) AND 0x0F = (q AND 0x0F :: u8)"
  using nibble_cases [OF nibbles_lt(2) [of q]] by (elim insertE emptyE; simp)+

lemma and_0F_idem: "((q :: u8) AND 0x0F) AND 0x0F = q AND 0x0F"
  by (simp add: and.assoc)

lemma first_frame_pci:
  "drop_bit 4 (0x10 OR (q AND 0x0F)) = (1 :: u8)" "(0x10 OR (q AND 0x0F)) AND 0x0F = (q AND 0x0F :: u8)"
  using nibble_cases [OF nibbles_lt(2) [of q]] by (elim insertE emptyE; simp)+

lemma nat_and_255: "(n :: nat) AND 0xFF = n mod 256"
proof -
  have "(0xFF :: nat) = mask 8" by (simp add: mask_eq_exp_minus_1)
  then have "n AND 0xFF = take_bit 8 n" by (simp only: take_bit_eq_mask)
  then show ?thesis by (simp add: take_bit_eq_mod)
qed

lemma first_frame_length:
  assumes "len \<le> 4095"
  shows "push_bit 8 (unat ((of_nat (drop_bit 8 len) :: u8) AND 0x0F)) OR unat (of_nat (len AND 0xFF) :: u8) = len"
proof -
  have "len div 256 < 16" using assms by auto
  then have "unat ((of_nat (drop_bit 8 len) :: u8) AND 0x0F) = drop_bit 8 len"
    by (simp add: mask_simps unat_and_mask drop_bit_eq_div unsigned_of_nat take_bit_eq_mod)
  moreover have "unat (of_nat (len AND 0xFF) :: u8) = take_bit 8 len"
    by (simp add: nat_and_255 unsigned_of_nat take_bit_eq_mod)
  moreover have "push_bit 8 (drop_bit 8 len) OR take_bit 8 len = len"
    by (rule bit_eqI) (auto simp: bit_simps)
  ultimately show ?thesis by simp
qed

lemma tx_frame_ok:
  "length d \<le> 8 \<Longrightarrow> d \<noteq> [] \<Longrightarrow> validate_can_frame (tx_frame p d) = Inr ()"
  "fr_id (tx_frame p d) = request_id p"
  using pad_data_length [of d p] by (auto simp: tx_frame_def validate_can_frame_def)

lemma consecutive_payload_segment:
  assumes "rest \<noteq> []" "q AND 0x0F = q"
  shows "consecutive_payload q (length rest) (tx_frame p ((0x20 OR (q AND 0x0F)) # take 7 rest)) = Inr (take 7 rest)"
proof -
  define pci where "pci = 0x20 OR (q AND 0x0F)"
  have pci: "drop_bit 4 pci = 2" "pci AND 0x0F = q"
    using consecutive_pci [of q] assms(2) by (simp_all add: pci_def)
  obtain pads where pads: "pad_data p (pci # take 7 rest) = pci # take 7 rest @ pads"
    using pad_data_extends [of p "pci # take 7 rest"] by auto
  have "pad_data p (pci # take 7 rest) = pci # take 7 rest" if "7 \<le> length rest"
    using that by (simp add: pad_data_def split: option.split)
  with pads have no_pads: "pads = []" if "7 \<le> length rest" using that by simp
  have "take (min (length rest) (length (take 7 rest @ pads))) (take 7 rest @ pads) = take 7 rest"
    by (cases "7 \<le> length rest") (auto simp: no_pads min_def)
  then show ?thesis
    unfolding pci_def [symmetric] using assms(1)
    by (simp add: consecutive_payload_def first_pci_byte_def slice_first_def tx_frame_def pads
        pci Let_def del: length_append take_append)
qed

section \<open>The bus interface\<close>

text \<open>A frame whose identifier fits the width that it claims; the transport sends no other.\<close>

definition addressable :: "can_data_frame \<Rightarrow> bool" where
  "addressable f \<longleftrightarrow> fr_id f \<le> (if fr_extended f then 0x1FFFFFFF else 0x7FF)"

lemma addressable_tx_frame: "request_id cfg \<le> 0x1FFFFFFF \<Longrightarrow> addressable (tx_frame cfg data)"
  by (simp add: addressable_def tx_frame_def not_less)

locale can_bus =
  fixes ops :: "'io can_io"
    and inbox :: "'io \<Rightarrow> can_data_frame list"
    and sent :: "'io \<Rightarrow> can_data_frame list"
  assumes bus_send: "addressable f \<Longrightarrow> \<exists>s'. send_frame ops f s = (Inr (), s') \<and> inbox s' = inbox s \<and> sent s' = sent s @ [f]"
    and bus_recv: "inbox s = f # fs \<Longrightarrow> \<exists>s'. recv_frame ops s = (Inr f, s') \<and> inbox s' = fs \<and> sent s' = sent s"
    and bus_sleep: "inbox (sleep ops d s) = inbox s" "sent (sleep ops d s) = sent s"
begin

abbreviation acts :: "('io, obd2_error, 'a) act \<Rightarrow> can_data_frame list \<Rightarrow> obd2_error + 'a \<Rightarrow> can_data_frame list \<Rightarrow> bool" where
  "acts \<equiv> behaves inbox sent"

lemma acts_send: "addressable f \<Longrightarrow> acts (send_frame ops f) [] (Inr ()) [f]"
  using bus_send by (simp add: behaves_def)

lemma acts_recv: "acts (recv_frame ops) [f] (Inr f) []"
  using bus_recv by (simp add: behaves_def)

lemma acts_sleep: "acts (sleep_act ops d) [] (Inr ()) []"
  by (simp add: behaves_def sleep_act_def bus_sleep)

lemma acts_read_matching:
  assumes "\<And>u. u \<in> set us \<Longrightarrow> validate_can_frame u = Inr () \<and> fr_id u \<noteq> i"
    and "validate_can_frame f = Inr ()" "fr_id f = i" "n + length us \<le> max_unrelated_frames cfg"
  shows "acts (read_matching_loop ops cfg i n) (us @ [f]) (Inr f) []"
  using assms
proof (induction us arbitrary: n)
  case Nil
  have "acts (bind_act (lift_res (validate_can_frame f)) (\<lambda>_. ret f)) [] (Inr f) []"
    using Nil by simp
  with Nil show ?case
    by (subst read_matching_loop.simps) (rule behaves_bind [OF acts_recv], auto)
next
  case (Cons u us)
  then have "acts (read_matching_loop ops cfg i (n + 1)) (us @ [f]) (Inr f) []" by simp
  with Cons.prems show ?case
    by (subst read_matching_loop.simps) (rule behaves_bind [OF acts_recv], auto)
qed

lemma acts_read_matching_frame:
  "validate_can_frame f = Inr () \<Longrightarrow> fr_id f = i \<Longrightarrow> acts (read_matching_frame ops cfg i) [f] (Inr f) []"
  unfolding read_matching_frame_def using acts_read_matching [of "[]" i f 0 cfg] by simp

lemma acts_send_frame_data:
  assumes "length data \<le> 8" "request_id cfg \<le> 0x1FFFFFFF"
  shows "acts (send_frame_data ops cfg data) [] (Inr ()) [tx_frame cfg data]"
proof -
  have "frame_new (request_id cfg) (pad_data cfg data) = Inr (tx_frame cfg data)"
    using assms pad_data_length [of data cfg]
    by (simp add: frame_new_def frame_with_extended_id_def tx_frame_def not_less [symmetric])
  then show ?thesis
    using assms acts_send [OF addressable_tx_frame [OF assms(2)]] by (simp add: send_frame_data_def not_less [symmetric])
qed

text \<open>A peer's clear-to-send ends the wait; \<open>n\<close> wait frames before it are tolerated up to the bound.\<close>

lemma acts_read_flow_control:
  "validate_can_frame f = Inr () \<Longrightarrow> fr_id f = response_id cfg \<Longrightarrow>
    acts (read_flow_control ops cfg) [f] (parse_flow_control f) []"
  unfolding read_flow_control_def by (rule behaves_bind [OF acts_read_matching_frame]) auto

lemma acts_wait_loop:
  assumes w: "validate_can_frame w = Inr ()" "fr_id w = response_id cfg"
      "parse_flow_control w = Inr wfc" "fc_status wfc = WaitFrames"
    and c: "validate_can_frame f = Inr ()" "fr_id f = response_id cfg"
      "parse_flow_control f = Inr fc" "fc_status fc = ContinueToSend"
    and "k + n \<le> max_flow_control_wait_frames cfg"
  shows "acts (wait_loop ops cfg k) (replicate n w @ [f]) (Inr fc) []"
  using assms(9)
proof (induction n arbitrary: k)
  case 0
  have "acts (read_flow_control ops cfg) [f] (Inr fc) []"
    using acts_read_flow_control [OF c(1,2)] c(3) by simp
  then show ?case
    by (subst wait_loop.simps) (rule behaves_bind, auto simp: c(4))
next
  case (Suc n)
  have "acts (read_flow_control ops cfg) [w] (Inr wfc) []"
    using acts_read_flow_control [OF w(1,2)] w(3) by simp
  moreover have "acts (seq_act (sleep_act ops 1000) (wait_loop ops cfg (k + 1))) (replicate n w @ [f]) (Inr fc) []"
    using Suc by (intro behaves_seq [OF acts_sleep]) auto
  ultimately show ?case
    using Suc.prems by (subst wait_loop.simps) (rule behaves_bind, auto simp: w(4))
qed

lemma acts_wait_timeout:
  assumes w: "validate_can_frame w = Inr ()" "fr_id w = response_id cfg"
      "parse_flow_control w = Inr wfc" "fc_status wfc = WaitFrames"
    and "k \<le> max_flow_control_wait_frames cfg"
  shows "acts (wait_loop ops cfg k) (replicate (Suc (max_flow_control_wait_frames cfg - k)) w) (Inl Timeout) []"
  using assms(5)
proof (induction "max_flow_control_wait_frames cfg - k" arbitrary: k)
  case 0
  have "acts (read_flow_control ops cfg) [w] (Inr wfc) []"
    using acts_read_flow_control [OF w(1,2)] w(3) by simp
  with 0 show ?case
    by (subst wait_loop.simps) (rule behaves_bind, auto simp: w(4))
next
  case (Suc d)
  have d: "max_flow_control_wait_frames cfg - k = Suc (max_flow_control_wait_frames cfg - (k + 1))"
    using Suc(2) by simp
  have "acts (read_flow_control ops cfg) [w] (Inr wfc) []"
    using acts_read_flow_control [OF w(1,2)] w(3) by simp
  moreover have "acts (seq_act (sleep_act ops 1000) (wait_loop ops cfg (k + 1)))
      (replicate (Suc (max_flow_control_wait_frames cfg - (k + 1))) w) (Inl Timeout) []"
    using Suc by (intro behaves_seq [OF acts_sleep Suc(1)]) auto
  moreover have "\<not> max_flow_control_wait_frames cfg < k + 1" using Suc(2) by simp
  ultimately show ?case
    unfolding d replicate_Suc [of "Suc _"]
    by (subst wait_loop.simps)
      (rule behaves_bind [where ?ins1.0 = "[w]" and ?outs1.0 = "[]" and a = wfc], simp_all add: w(4))
qed

text \<open>Sending the rest of a PDU: \<open>g\<close> are the frames by which the peer clears one block.\<close>

lemma acts_send_consecutive:
  assumes clear: "acts (wait_for_continue_to_send ops cfg) g (Inr fc) []"
    and cfg: "request_id cfg \<le> 0x1FFFFFFF"
  shows "acts (send_consecutive ops cfg pdu fc off q n)
    (concat (replicate (flow_count (fc_block_size fc) n (drop off pdu)) g)) (Inr ())
    (map (tx_frame cfg) (segments q (drop off pdu)))"
proof (induction "length pdu - off" arbitrary: off q n rule: less_induct)
  case less
  show ?case
  proof (cases "off < length pdu")
    case False
    then show ?thesis
      by (subst send_consecutive.simps) (simp add: segments.simps flow_count.simps)
  next
    case True
    define off' where "off' = off + min (length pdu - off) 7"
    define q' where "q' = (q + 1) AND 0x0F"
    have chunk: "take (min (length pdu - off) 7) (drop off pdu) = take 7 (drop off pdu)"
      by (simp add: min_def)
    have rest: "drop off' pdu = drop 7 (drop off pdu)"
      by (auto simp: off'_def min_def add.commute)
    have more: "off' < length pdu \<longleftrightarrow> drop 7 (drop off pdu) \<noteq> []"
      unfolding rest [symmetric] by auto
    have smaller: "length pdu - off' < length pdu - off" using True by (auto simp: off'_def)
    obtain delay where delay: "st_min_duration (fc_st_min fc) = Inr delay"
      by (cases "st_min_duration (fc_st_min fc)") (auto simp: st_min_duration_def split: if_splits)
    define frame where "frame = tx_frame cfg ((0x20 OR (q AND 0x0F)) # take 7 (drop off pdu))"
    have sent1: "acts (send_frame_data ops cfg ((0x20 OR (q AND 0x0F)) # take 7 (drop off pdu))) [] (Inr ()) [frame]"
      unfolding frame_def by (rule acts_send_frame_data) (use cfg in auto)
    have pause: "acts (if delay = 0 then ret () else sleep_act ops delay) [] (Inr ()) []"
      using acts_sleep by auto
    have segs: "map (tx_frame cfg) (segments q (drop off pdu)) = frame # map (tx_frame cfg) (segments q' (drop off' pdu))"
      using True by (subst segments.simps) (simp add: frame_def q'_def rest)
    have step: "send_consecutive ops cfg pdu fc off q n =
      seq_act (if delay = 0 then ret () else sleep_act ops delay)
       (seq_act (send_frame_data ops cfg ((0x20 OR (q AND 0x0F)) # take 7 (drop off pdu)))
         (if fc_block_size fc \<noteq> 0 \<and> fc_block_size fc \<le> saturating_add n 1 \<and> off' < length pdu
          then bind_act (wait_for_continue_to_send ops cfg) (\<lambda>fc'. send_consecutive ops cfg pdu fc' off' q' 0)
          else send_consecutive ops cfg pdu fc off' q' (saturating_add n 1)))"
      using True by (subst send_consecutive.simps)
        (simp only: if_True delay Let_def chunk off'_def [symmetric] q'_def [symmetric] bind_act_simps)
    note IH = less [OF smaller]
    show ?thesis
    proof (cases "fc_block_size fc \<noteq> 0 \<and> fc_block_size fc \<le> saturating_add n 1 \<and> off' < length pdu")
      case blk: True
      then have cnt: "flow_count (fc_block_size fc) n (drop off pdu)
          = Suc (flow_count (fc_block_size fc) 0 (drop off' pdu))"
        using True more rest by (subst flow_count.simps) auto
      have "acts (bind_act (wait_for_continue_to_send ops cfg) (\<lambda>fc'. send_consecutive ops cfg pdu fc' off' q' 0))
          (g @ concat (replicate (flow_count (fc_block_size fc) 0 (drop off' pdu)) g)) (Inr ())
          (map (tx_frame cfg) (segments q' (drop off' pdu)))"
        by (rule behaves_bind [OF clear], rule IH) auto
      from behaves_seq [OF pause behaves_seq [OF sent1 this refl refl] refl refl] show ?thesis
        unfolding step if_P [OF blk] cnt segs by simp
    next
      case blk: False
      then have cnt: "flow_count (fc_block_size fc) n (drop off pdu)
          = flow_count (fc_block_size fc) (saturating_add n 1) (drop off' pdu)"
        using True more rest by (subst flow_count.simps) auto
      from behaves_seq [OF pause behaves_seq [OF sent1 IH [of q' "saturating_add n 1"] refl refl] refl refl]
      show ?thesis
        unfolding step if_not_P [OF blk] cnt segs by simp
    qed
  qed
qed

lemma acts_send_pdu:
  assumes clear: "acts (wait_for_continue_to_send ops cfg) g (Inr fc) []"
    and cfg: "request_id cfg \<le> 0x1FFFFFFF" and len: "length pdu \<le> 4095"
  shows "acts (send_pdu ops cfg pdu)
    (if length pdu \<le> 7 then [] else concat (replicate (Suc (flow_count (fc_block_size fc) 0 (drop 6 pdu))) g))
    (Inr ()) (pdu_frames cfg pdu)"
proof (cases "length pdu \<le> 7")
  case True
  then show ?thesis
    using acts_send_frame_data [of "of_nat (length pdu) # pdu" cfg] cfg
    by (simp add: send_pdu_def pdu_frames_def)
next
  case False
  have first: "acts (send_frame_data ops cfg (first_frame_data pdu)) [] (Inr ()) [tx_frame cfg (first_frame_data pdu)]"
    by (rule acts_send_frame_data) (use cfg in \<open>auto simp: first_frame_data_def\<close>)
  have rest: "acts (bind_act (wait_for_continue_to_send ops cfg) (\<lambda>fc. send_consecutive ops cfg pdu fc 6 1 0))
      (concat (replicate (Suc (flow_count (fc_block_size fc) 0 (drop 6 pdu))) g)) (Inr ())
      (map (tx_frame cfg) (segments 1 (drop 6 pdu)))"
    by (rule behaves_bind [OF clear], rule acts_send_consecutive [OF clear cfg]) auto
  have "\<not> max_classic_isotp_payload < length pdu"
    using len by (simp add: max_classic_isotp_payload_def)
  then show ?thesis
    using False behaves_seq [OF first rest refl refl]
    by (simp add: send_pdu_def send_multi_frame_pdu_def pdu_frames_def first_frame_data_def Let_def)
qed

lemma acts_send_flow_control:
  "request_id cfg \<le> 0x1FFFFFFF \<Longrightarrow>
    acts (send_flow_control ops cfg ContinueToSend) [] (Inr ()) [tx_frame cfg (flow_control_data cfg)]"
  unfolding send_flow_control_def flow_control_data_def
  using acts_send_frame_data [of "[0x30, block_size cfg, st_min cfg]" cfg] by simp

lemma acts_recv_consecutive:
  assumes peer: "request_id p = response_id cfg" and cfg: "request_id cfg \<le> 0x1FFFFFFF"
  shows "q AND 0x0F = q \<Longrightarrow> acts (recv_consecutive ops cfg (length pdu + length rest) pdu q n)
    (map (tx_frame p) (segments q rest)) (Inr (pdu @ rest))
    (replicate (flow_count (block_size cfg) n rest) (tx_frame cfg (flow_control_data cfg)))"
proof (induction "length rest" arbitrary: rest pdu q n rule: less_induct)
  case less
  show ?case
  proof (cases "rest = []")
    case True
    then show ?thesis
      by (subst recv_consecutive.simps) (simp add: segments.simps flow_count.simps)
  next
    case False
    define frame where "frame = tx_frame p ((0x20 OR (q AND 0x0F)) # take 7 rest)"
    define pdu' where "pdu' = pdu @ take 7 rest"
    define rest' where "rest' = drop 7 rest"
    define q' where "q' = (q + 1) AND 0x0F"
    have read: "acts (read_matching_frame ops cfg (response_id cfg)) [frame] (Inr frame) []"
      unfolding frame_def
      by (rule acts_read_matching_frame) (auto simp: tx_frame_ok peer)
    have split: "pdu @ rest = pdu' @ rest'" "length pdu + length rest = length pdu' + length rest'"
      by (auto simp: pdu'_def rest'_def)
    have more: "length pdu' < length pdu + length rest \<longleftrightarrow> rest' \<noteq> []"
      unfolding split by auto
    have segs: "map (tx_frame p) (segments q rest) = frame # map (tx_frame p) (segments q' rest')"
      using False by (subst segments.simps) (simp add: frame_def q'_def rest'_def)
    define C where "C \<longleftrightarrow> block_size cfg \<noteq> 0 \<and> block_size cfg \<le> saturating_add n 1 \<and> rest' \<noteq> []"
    have step: "recv_consecutive ops cfg (length pdu + length rest) pdu q n =
      bind_act (read_matching_frame ops cfg (response_id cfg)) (\<lambda>frame.
       case consecutive_payload q (length rest) frame of
         Inl e \<Rightarrow> fail e
       | Inr chunk \<Rightarrow>
           (if block_size cfg \<noteq> 0 \<and> block_size cfg \<le> saturating_add n 1
               \<and> length (pdu @ chunk) < length pdu + length rest
            then seq_act (send_flow_control ops cfg ContinueToSend)
                   (recv_consecutive ops cfg (length pdu + length rest) (pdu @ chunk) q' 0)
            else recv_consecutive ops cfg (length pdu + length rest) (pdu @ chunk) q' (saturating_add n 1)))"
      unfolding q'_def using False
      by (subst recv_consecutive.simps) (simp add: Let_def cong: sum.case_cong)
    have "length rest' < length rest" using False by (cases rest) (auto simp: rest'_def)
    note IH = less(1) [OF this, of q' pdu']
    have q': "q' AND 0x0F = q'" by (simp add: q'_def and_0F_idem)
    have cont: "acts (if C then seq_act (send_flow_control ops cfg ContinueToSend)
                   (recv_consecutive ops cfg (length pdu + length rest) pdu' q' 0)
            else recv_consecutive ops cfg (length pdu + length rest) pdu' q' (saturating_add n 1))
        (map (tx_frame p) (segments q' rest')) (Inr (pdu @ rest))
        (replicate (flow_count (block_size cfg) n rest) (tx_frame cfg (flow_control_data cfg)))"
    proof (cases C)
      case True
      then have "flow_count (block_size cfg) n rest = Suc (flow_count (block_size cfg) 0 rest')"
        using False by (subst flow_count.simps) (simp add: C_def rest'_def)
      then show ?thesis
        using behaves_seq [OF acts_send_flow_control [OF cfg] IH [OF q', of 0] refl refl] True split by simp
    next
      case n: False
      then have "flow_count (block_size cfg) n rest = flow_count (block_size cfg) (saturating_add n 1) rest'"
        using False by (subst flow_count.simps) (auto simp: C_def rest'_def)
      then show ?thesis using IH [OF q', of "saturating_add n 1"] n split by simp
    qed
    have "consecutive_payload q (length rest) frame = Inr (take 7 rest)"
      unfolding frame_def by (rule consecutive_payload_segment) (use False less.prems in auto)
    with cont show ?thesis
      unfolding step segs
      by (intro behaves_bind [OF read])
        (auto simp: pdu'_def [symmetric] more C_def)
  qed
qed

lemma acts_recv_pdu:
  assumes peer: "request_id p = response_id cfg" and cfg: "request_id cfg \<le> 0x1FFFFFFF"
    and len: "1 \<le> length pdu" "length pdu \<le> 4095" "length pdu \<le> max_payload_len cfg"
  shows "acts (recv_pdu ops cfg) (pdu_frames p pdu) (Inr pdu) (pdu_flow_controls cfg pdu)"
proof (cases "length pdu \<le> 7")
  case True
  define frame where "frame = tx_frame p (of_nat (length pdu) # pdu)"
  have "length pdu < 8" using True by simp
  note pci = pci_single_nibble [OF this]
  obtain pads where pads: "fr_data frame = of_nat (length pdu) # pdu @ pads"
    using pad_data_extends [of p "of_nat (length pdu) # pdu"] by (auto simp: frame_def tx_frame_def)
  have read: "acts (read_matching_frame ops cfg (response_id cfg)) [frame] (Inr frame) []"
    unfolding frame_def by (rule acts_read_matching_frame) (use True in \<open>auto simp: tx_frame_ok peer\<close>)
  have pci1: "first_pci_byte frame = Inr (of_nat (length pdu))"
    by (simp add: first_pci_byte_def slice_first_def pads)
  then have "decode_single_frame cfg frame = Inr pdu"
    using len(3) by (simp add: decode_single_frame_def validate_pdu_len_def pci pads Let_def)
  with pci1 show ?thesis
    using True unfolding recv_pdu_def
    by (intro behaves_bind [OF read])
      (auto simp: pdu_frames_def pdu_flow_controls_def pci Let_def frame_def)
next
  case False
  define frame where "frame = tx_frame p (first_frame_data pdu)"
  have l8: "length (first_frame_data pdu) = 8"
    using False by (simp add: first_frame_data_def min_def)
  have "first_frame_data pdu \<noteq> []" by (simp add: first_frame_data_def)
  then have read: "acts (read_matching_frame ops cfg (response_id cfg)) [frame] (Inr frame) []"
    unfolding frame_def by (intro acts_read_matching_frame) (use l8 in \<open>auto simp: tx_frame_ok peer\<close>)
  have data: "fr_data frame = first_frame_data pdu"
    by (simp add: frame_def tx_frame_def pad_data_def l8 split: option.split)
  have pci: "first_pci_byte frame = Inr (0x10 OR (of_nat (drop_bit 8 (length pdu)) AND 0x0F))"
    by (simp add: first_pci_byte_def slice_first_def data first_frame_data_def)
  have declared: "push_bit 8 (unat (first_frame_data pdu ! 0 AND 0x0F)) OR unat (first_frame_data pdu ! 1) = length pdu"
    using first_frame_length [OF len(2)] by (simp add: first_frame_data_def first_frame_pci)
  have parts: "take 6 pdu @ drop 6 pdu = pdu" "length (take 6 pdu) + length (drop 6 pdu) = length pdu"
    "min (length pdu) 6 = 6" "take 6 (drop 2 (first_frame_data pdu)) = take 6 pdu"
    using False by (auto simp: first_frame_data_def)
  have rest: "acts (recv_consecutive ops cfg (length pdu) (take 6 pdu) 1 0)
      (map (tx_frame p) (segments 1 (drop 6 pdu))) (Inr pdu)
      (replicate (flow_count (block_size cfg) 0 (drop 6 pdu)) (tx_frame cfg (flow_control_data cfg)))"
    using acts_recv_consecutive [OF peer cfg, of 1 "take 6 pdu" "drop 6 pdu" 0] unfolding parts by simp
  have "acts (recv_multi_frame_pdu ops cfg frame) (map (tx_frame p) (segments 1 (drop 6 pdu))) (Inr pdu)
      (pdu_flow_controls cfg pdu)"
    using behaves_seq [OF acts_send_flow_control [OF cfg] rest refl refl] False len(3)
    unfolding recv_multi_frame_pdu_def data declared l8
    by (simp add: Let_def validate_pdu_len_def pdu_flow_controls_def parts not_less [symmetric])
  then show ?thesis
    using False unfolding recv_pdu_def
    by (intro behaves_bind [OF read])
      (auto simp: pdu_frames_def pci first_frame_pci Let_def frame_def [symmetric])
qed

text \<open>Exchanges: response-pending answers are read up to the bound.\<close>

lemma acts_recv_pending:
  assumes "request_id p = response_id cfg" "request_id cfg \<le> 0x1FFFFFFF" "3 \<le> max_payload_len cfg"
  shows "acts (recv_pdu ops cfg) (pdu_frames p [0x7F, sid, 0x78]) (Inr [0x7F, sid, 0x78]) []"
  using acts_recv_pdu [OF assms(1,2), of "[0x7F, sid, 0x78]"] assms(3) by (simp add: pdu_flow_controls_def)

lemma pending_loop_other:
  "\<not> is_response_pending_for sid resp \<Longrightarrow> pending_loop ops cfg sid k resp = lift_res (strip_response_for_request sid resp)"
  by (cases k) simp_all

lemma acts_pending_loop:
  assumes p: "request_id p = response_id cfg" and c: "request_id cfg \<le> 0x1FFFFFFF" "3 \<le> max_payload_len cfg"
    and resp: "acts (recv_pdu ops cfg) ins (Inr resp) outs" "\<not> is_response_pending_for sid resp"
  shows "n < k \<Longrightarrow> acts (pending_loop ops cfg sid k [0x7F, sid, 0x78])
    (concat (replicate n (pdu_frames p [0x7F, sid, 0x78])) @ ins) (strip_response_for_request sid resp) outs"
proof (induction n arbitrary: k)
  case 0
  then obtain k' where "k = Suc k'" by (cases k) auto
  with resp show ?case
    by (simp add: is_response_pending_for_def [of sid "[0x7F, sid, 0x78]"])
      (rule behaves_bind [OF resp(1)], auto simp: pending_loop_other)
next
  case (Suc n)
  then obtain k' where k: "k = Suc k'" "n < k'" by (cases k) auto
  show ?case
    unfolding k(1)
    by (simp add: is_response_pending_for_def [of sid "[0x7F, sid, 0x78]"])
      (rule behaves_bind [OF acts_recv_pending [OF p c]], rule Suc.IH [OF k(2)], auto)
qed

lemma acts_pending_timeout:
  assumes p: "request_id p = response_id cfg" and c: "request_id cfg \<le> 0x1FFFFFFF" "3 \<le> max_payload_len cfg"
  shows "acts (pending_loop ops cfg sid k [0x7F, sid, 0x78])
    (concat (replicate k (pdu_frames p [0x7F, sid, 0x78]))) (Inl Timeout) []"
proof (induction k)
  case 0
  show ?case by (simp add: is_response_pending_for_def)
next
  case (Suc k)
  show ?case
    by (simp add: is_response_pending_for_def [of sid "[0x7F, sid, 0x78]"])
      (rule behaves_bind [OF acts_recv_pending [OF p c]], rule Suc.IH, auto)
qed

lemma acts_isotp_exchange:
  assumes c: "request_id cfg \<le> 0x1FFFFFFF" "length data \<le> 6" "7 \<le> max_payload_len cfg"
    and m: "acts (bind_act (recv_pdu ops cfg) (pending_loop ops cfg sid max_response_pending_frames)) ins r outs"
  shows "acts (isotp_exchange ops cfg (broadcast_diagnostic sid data)) ins r (pdu_frames cfg (sid # data) @ outs)"
proof -
  have "acts (send_pdu ops cfg (sid # data)) [] (Inr ()) (pdu_frames cfg (sid # data))"
    using acts_send_frame_data [of "of_nat (Suc (length data)) # sid # data" cfg] c
    by (simp add: send_pdu_def pdu_frames_def)
  from behaves_seq [OF this m refl refl] show ?thesis
    using c by (simp add: isotp_exchange_def validate_pdu_len_def seq_act_def not_less [symmetric])
qed

end

interpretation mock_bus: can_bus mock_can rx tx
  by unfold_locales (auto simp: mock_can_def mock_send_def mock_recv_def)

lemma mock_behaves:
  assumes "behaves rx tx m ins r outs"
  shows "m \<lparr>rx = ins @ rest, tx = t\<rparr> = (r, \<lparr>rx = rest, tx = t @ outs\<rparr>)"
proof -
  obtain s' where "m \<lparr>rx = ins @ rest, tx = t\<rparr> = (r, s')" "rx s' = rest" "tx s' = t @ outs"
    by (rule behavesD [OF assms, of "\<lparr>rx = ins @ rest, tx = t\<rparr>" rest]) auto
  then show ?thesis by (cases s') simp
qed

section \<open>Properties\<close>

lemma parse_flow_control_of:
  "parse_flow_control (tx_frame cfg (flow_control_data cfg)) =
    Inr \<lparr>fc_status = ContinueToSend, fc_block_size = block_size cfg, fc_st_min = st_min cfg\<rparr>"
proof -
  obtain pads where "fr_data (tx_frame cfg (flow_control_data cfg)) = [0x30, block_size cfg, st_min cfg] @ pads"
    using pad_data_extends [of cfg "flow_control_data cfg"] by (auto simp: tx_frame_def flow_control_data_def)
  then show ?thesis
    by (simp add: parse_flow_control_def flow_status_from_nibble_def Let_def)
qed

lemma concat_replicate_single: "concat (replicate n [x]) = replicate n x"
  by (induction n) auto

text \<open>A sender on the in-memory bus that is given exactly the flow controls of its peer.\<close>

lemma mock_send_pdu:
  assumes "request_id b = response_id a" "request_id a \<le> 0x1FFFFFFF" "length pdu \<le> 4095"
  shows "send_pdu mock_can a pdu \<lparr>rx = pdu_flow_controls b pdu @ unread, tx = t\<rparr> =
      (Inr (), \<lparr>rx = unread, tx = t @ pdu_frames a pdu\<rparr>)"
proof -
  let ?g = "tx_frame b (flow_control_data b)"
  let ?fc = "\<lparr>fc_status = ContinueToSend, fc_block_size = block_size b, fc_st_min = st_min b\<rparr>"
  have "behaves rx tx (wait_for_continue_to_send mock_can a) [?g] (Inr ?fc) []"
    unfolding wait_for_continue_to_send_def
    by (subst wait_loop.simps)
      (rule behaves_bind [OF mock_bus.acts_read_flow_control [of ?g a, unfolded parse_flow_control_of]],
       simp_all add: tx_frame_ok assms(1) flow_control_data_def)
  from mock_bus.acts_send_pdu [OF this assms(2,3)] show ?thesis
    unfolding concat_replicate_single
    by (intro mock_behaves) (simp add: pdu_flow_controls_def split: if_splits)
qed

text \<open>C16: Two correctly addressed ends of an ISO-TP connection complete every transfer. For every PDU of 1 to
  4095 bytes, every block size, separation time and padding on either side, there are frames \<open>F\<close>
  and flow controls \<open>G\<close> such that the sender, given exactly \<open>G\<close>, sends exactly \<open>F\<close> and succeeds, and
  the receiver, given exactly \<open>F\<close>, sends exactly \<open>G\<close> and returns the PDU. Neither end reads or sends
  one frame more.\<close>

theorem isotp_closed_loop:
  assumes "request_id a = response_id b" "request_id b = response_id a"
    and "request_id a \<le> 0x1FFFFFFF" "request_id b \<le> 0x1FFFFFFF"
    and "1 \<le> length pdu" "length pdu \<le> 4095" "length pdu \<le> max_payload_len b"
  shows "\<exists>F G.
    (\<forall>more t. send_pdu mock_can a pdu \<lparr>rx = G @ more, tx = t\<rparr> = (Inr (), \<lparr>rx = more, tx = t @ F\<rparr>)) \<and>
    (\<forall>more t. recv_pdu mock_can b \<lparr>rx = F @ more, tx = t\<rparr> = (Inr pdu, \<lparr>rx = more, tx = t @ G\<rparr>))"
proof (intro exI conjI allI)
  fix more t
  show "send_pdu mock_can a pdu \<lparr>rx = pdu_flow_controls b pdu @ more, tx = t\<rparr> =
      (Inr (), \<lparr>rx = more, tx = t @ pdu_frames a pdu\<rparr>)"
    by (rule mock_send_pdu [OF assms(2,3,6)])
  show "recv_pdu mock_can b \<lparr>rx = pdu_frames a pdu @ more, tx = t\<rparr> =
      (Inr pdu, \<lparr>rx = more, tx = t @ pdu_flow_controls b pdu\<rparr>)"
    by (rule mock_behaves, rule mock_bus.acts_recv_pdu) (use assms in auto)
qed

lemma isotp_closed_loop_witness:
  "\<exists>F G.
    (\<forall>more t. send_pdu mock_can (isotp_config_new 0x7E0 0x7E8) (replicate 20 0x55)
        \<lparr>rx = G @ more, tx = t\<rparr> = (Inr (), \<lparr>rx = more, tx = t @ F\<rparr>)) \<and>
    (\<forall>more t. recv_pdu mock_can (isotp_config_new 0x7E8 0x7E0) \<lparr>rx = F @ more, tx = t\<rparr> =
        (Inr (replicate 20 0x55), \<lparr>rx = more, tx = t @ G\<rparr>))"
  by (rule isotp_closed_loop) (simp_all add: isotp_config_new_def max_classic_isotp_payload_def)

text \<open>C22: The wait for a clear-to-send is bounded: after at most \<open>max_flow_control_wait_frames\<close> wait
  frames the clear-to-send is returned and nothing after it is read; one wait frame more and the
  sender gives up with a timeout, having read exactly the bound plus one frames.\<close>

theorem wait_for_continue_to_send_bounded:
  defines "w \<equiv> \<lambda>cfg e x y. \<lparr>fr_id = response_id cfg, fr_data = [0x31, x, y], fr_extended = e\<rparr>"
    and "c \<equiv> \<lambda>cfg e x y. \<lparr>fr_id = response_id cfg, fr_data = [0x30, x, y], fr_extended = e\<rparr>"
  shows "wait_for_continue_to_send mock_can cfg \<lparr>rx = replicate n (w cfg e x y) @ c cfg e' bs st # rest, tx = t\<rparr> =
    (if n \<le> max_flow_control_wait_frames cfg
     then (Inr \<lparr>fc_status = ContinueToSend, fc_block_size = bs, fc_st_min = st\<rparr>, \<lparr>rx = rest, tx = t\<rparr>)
     else (Inl Timeout, \<lparr>rx = replicate (n - Suc (max_flow_control_wait_frames cfg)) (w cfg e x y) @ c cfg e' bs st # rest, tx = t\<rparr>))"
proof -
  let ?w = "w cfg e x y" and ?c = "c cfg e' bs st"
  have w: "validate_can_frame ?w = Inr ()" "fr_id ?w = response_id cfg"
    "parse_flow_control ?w = Inr \<lparr>fc_status = WaitFrames, fc_block_size = x, fc_st_min = y\<rparr>"
    and c: "validate_can_frame ?c = Inr ()" "fr_id ?c = response_id cfg"
    "parse_flow_control ?c = Inr \<lparr>fc_status = ContinueToSend, fc_block_size = bs, fc_st_min = st\<rparr>"
    by (simp_all add: w_def c_def validate_can_frame_def parse_flow_control_def flow_status_from_nibble_def Let_def)
  show ?thesis
  proof (cases "n \<le> max_flow_control_wait_frames cfg")
    case True
    from mock_behaves [OF mock_bus.acts_wait_loop [OF w _ c, of 0 n], of rest t] True
    show ?thesis by (simp add: wait_for_continue_to_send_def)
  next
    case False
    then have "replicate n ?w = replicate (Suc (max_flow_control_wait_frames cfg - 0)) ?w
        @ replicate (n - Suc (max_flow_control_wait_frames cfg)) ?w"
      by (simp only: replicate_add [symmetric]) simp
    with mock_behaves [OF mock_bus.acts_wait_timeout [OF w, of 0],
        of "replicate (n - Suc (max_flow_control_wait_frames cfg)) ?w @ ?c # rest" t] False
    show ?thesis by (simp add: wait_for_continue_to_send_def del: replicate_Suc)
  qed
qed

text \<open>C17: An exchange waits through response-pending answers, but not for ever. When \<open>n\<close> negative
  responses with code 0x78 come before the final response, the exchange of a single-frame
  request yields that response, stripped of its service id, if \<open>n\<close> is at most 8; otherwise it
  times out after the ninth and leaves the rest unread.\<close>

theorem isotp_exchange_response_pending:
  assumes ids: "request_id p = response_id cfg" "request_id cfg \<le> 0x1FFFFFFF"
    and req: "length data \<le> 6" "7 \<le> max_payload_len cfg"
    and resp: "1 \<le> length resp" "length resp \<le> 4095" "length resp \<le> max_payload_len cfg"
      "resp \<noteq> [0x7F, sid, 0x78]"
  shows "isotp_exchange mock_can cfg (broadcast_diagnostic sid data)
      \<lparr>rx = concat (replicate n (pdu_frames p [0x7F, sid, 0x78])) @ pdu_frames p resp @ unread, tx = t\<rparr> =
    (if n \<le> 8
     then (strip_response_for_request sid resp,
           \<lparr>rx = unread, tx = t @ pdu_frames cfg (sid # data) @ pdu_flow_controls cfg resp\<rparr>)
     else (Inl Timeout,
           \<lparr>rx = concat (replicate (n - 9) (pdu_frames p [0x7F, sid, 0x78])) @ pdu_frames p resp @ unread,
            tx = t @ pdu_frames cfg (sid # data)\<rparr>))"
proof -
  let ?P = "[0x7F, sid, 0x78]"
  note recv_p = mock_bus.acts_recv_pending [OF ids, of sid]
  note recv = mock_bus.acts_recv_pdu [OF ids resp(1-3)]
  have np: "\<not> is_response_pending_for sid resp" using resp(4) by (simp add: is_response_pending_for_def)
  have three: "3 \<le> max_payload_len cfg" using req(2) by simp
  have run: "behaves rx tx (bind_act (recv_pdu mock_can cfg) (pending_loop mock_can cfg sid max_response_pending_frames))
      (concat (replicate n (pdu_frames p ?P)) @ pdu_frames p resp) (strip_response_for_request sid resp)
      (pdu_flow_controls cfg resp)" if "n \<le> 8"
  proof (cases n)
    case 0
    then show ?thesis
      by (intro behaves_bind [OF recv, where ?ins2.0 = "[]"]) (auto simp: mock_bus.pending_loop_other [OF np])
  next
    case (Suc m)
    with that have "m < max_response_pending_frames" by (simp add: max_response_pending_frames_def)
    from mock_bus.acts_pending_loop [OF ids three recv np this] Suc show ?thesis
      by (intro behaves_bind [OF recv_p [OF three]]) auto
  qed
  have late: "behaves rx tx (bind_act (recv_pdu mock_can cfg) (pending_loop mock_can cfg sid max_response_pending_frames))
      (concat (replicate 9 (pdu_frames p ?P))) (Inl Timeout) []"
    using mock_bus.acts_pending_timeout [OF ids three, of sid max_response_pending_frames]
    by (intro behaves_bind [OF recv_p [OF three]])
      (auto simp: max_response_pending_frames_def eval_nat_numeral)
  show ?thesis
  proof (cases "n \<le> 8")
    case True
    from mock_behaves [OF mock_bus.acts_isotp_exchange [OF ids(2) req run [OF True]]] True
    show ?thesis by simp
  next
    case False
    then have "replicate n (pdu_frames p ?P) = replicate 9 (pdu_frames p ?P) @ replicate (n - 9) (pdu_frames p ?P)"
      by (simp only: replicate_add [symmetric]) simp
    with mock_behaves [OF mock_bus.acts_isotp_exchange [OF ids(2) req late],
        of "concat (replicate (n - 9) (pdu_frames p ?P)) @ pdu_frames p resp @ unread" t] False
    show ?thesis by (simp del: replicate_Suc)
  qed
qed

lemma isotp_exchange_response_pending_witness:
  "isotp_exchange mock_can (isotp_config_new 0x7E0 0x7E8) (broadcast_diagnostic 0x22 [0xF1, 0x90])
      \<lparr>rx = concat (replicate 2 (pdu_frames (isotp_config_new 0x7E8 0x7E0) [0x7F, 0x22, 0x78]))
          @ pdu_frames (isotp_config_new 0x7E8 0x7E0) [0x62, 0xF1, 0x90, 0x12] @ [], tx = []\<rparr> =
    (if 2 \<le> (8 :: nat)
     then (strip_response_for_request 0x22 [0x62, 0xF1, 0x90, 0x12],
           \<lparr>rx = [], tx = [] @ pdu_frames (isotp_config_new 0x7E0 0x7E8) (0x22 # [0xF1, 0x90])
              @ pdu_flow_controls (isotp_config_new 0x7E0 0x7E8) [0x62, 0xF1, 0x90, 0x12]\<rparr>)
     else (Inl Timeout,
           \<lparr>rx = concat (replicate (2 - 9) (pdu_frames (isotp_config_new 0x7E8 0x7E0) [0x7F, 0x22, 0x78]))
              @ pdu_frames (isotp_config_new 0x7E8 0x7E0) [0x62, 0xF1, 0x90, 0x12] @ [],
            tx = [] @ pdu_frames (isotp_config_new 0x7E0 0x7E8) (0x22 # [0xF1, 0x90])\<rparr>))"
  by (rule isotp_exchange_response_pending)
    (simp_all add: isotp_config_new_def max_classic_isotp_payload_def)

section \<open>Whatever the bus does\<close>

text \<open>
  A second interface: an invariant of the bus state that receiving, waiting and sending a
  well-formed frame of this connection keep. Nothing is assumed about what the bus returns.
\<close>

definition well_formed_frame :: "isotp_config \<Rightarrow> can_data_frame \<Rightarrow> bool" where
  "well_formed_frame cfg f \<longleftrightarrow>
    fr_id f = request_id cfg \<and> fr_id f \<le> 0x1FFFFFFF \<and> fr_extended f = (0x7FF < fr_id f)
    \<and> 1 \<le> length (fr_data f) \<and> length (fr_data f) \<le> 8
    \<and> (tx_padding cfg = None \<or> length (fr_data f) = 8)"

locale bus_monitor =
  fixes ops :: "'io can_io" and cfg :: isotp_config and I :: "'io \<Rightarrow> bool"
  assumes send_kept: "well_formed_frame cfg f \<Longrightarrow> preserves I (send_frame ops f)"
    and recv_kept: "preserves I (recv_frame ops)"
    and sleep_kept: "I s \<Longrightarrow> I (sleep ops d s)"
begin

lemma sleep_act_kept [simp]: "preserves I (sleep_act ops d)"
  by (simp add: preserves_def sleep_act_def sleep_kept)

lemma read_matching_kept [simp]: "preserves I (read_matching_frame ops cfg i)"
proof -
  have "preserves I (read_matching_loop ops cfg i n)" for n
  proof (induction "max_unrelated_frames cfg - n" arbitrary: n rule: less_induct)
    case less
    then show ?case
      by (subst read_matching_loop.simps) (auto intro!: preserves_bind recv_kept)
  qed
  then show ?thesis by (simp add: read_matching_frame_def)
qed

lemma send_frame_data_kept:
  assumes "data \<noteq> []" shows "preserves I (send_frame_data ops cfg data)"
proof -
  have "well_formed_frame cfg f" if "frame_new (request_id cfg) (pad_data cfg data) = Inr f" "length data \<le> 8" for f
    using that assms
    by (auto simp: frame_new_def frame_with_extended_id_def well_formed_frame_def pad_data_def Suc_le_eq
        split: if_splits option.splits)
  then have "preserves I (bind_act (lift_res (frame_new (request_id cfg) (pad_data cfg data))) (send_frame ops))"
    if "length data \<le> 8"
    using that by (intro preserves_bind_ret) (auto intro: send_kept)
  then show ?thesis by (auto simp: send_frame_data_def)
qed

lemma send_flow_control_kept [simp]: "preserves I (send_flow_control ops cfg status)"
  unfolding send_flow_control_def by (rule send_frame_data_kept) simp

lemma wait_kept [simp]: "preserves I (wait_for_continue_to_send ops cfg)"
proof -
  have "preserves I (wait_loop ops cfg n)" for n
  proof (induction "max_flow_control_wait_frames cfg - n" arbitrary: n rule: less_induct)
    case less
    then show ?case
      by (subst wait_loop.simps)
        (auto intro!: preserves_bind preserves_seq simp: read_flow_control_def split: flow_status.split)
  qed
  then show ?thesis by (simp add: wait_for_continue_to_send_def)
qed

lemma send_consecutive_kept: "preserves I (send_consecutive ops cfg pdu fc off q n)"
proof (induction "length pdu - off" arbitrary: fc off q n rule: less_induct)
  case less
  have *: "length pdu - (off + min (length pdu - off) 7) < length pdu - off" if "off < length pdu"
    using that by (auto simp: min_def)
  show ?case
    by (subst send_consecutive.simps)
      (auto simp: Let_def intro!: preserves_bind preserves_seq send_frame_data_kept less *)
qed

lemma send_pdu_kept [simp]: "preserves I (send_pdu ops cfg pdu)"
  unfolding send_pdu_def send_multi_frame_pdu_def
  by (auto simp: Let_def intro!: preserves_bind preserves_seq send_frame_data_kept send_consecutive_kept)

lemma recv_consecutive_kept: "preserves I (recv_consecutive ops cfg declared pdu q n)"
proof (induction "declared - length pdu" arbitrary: pdu q n rule: less_induct)
  case less
  have *: "declared - (length pdu + length chunk) < declared - length pdu"
    if "length pdu < declared" "consecutive_payload q (declared - length pdu) f = Inr chunk" for chunk f
    using that by (intro consecutive_payload_decreases)
  show ?case
    by (subst recv_consecutive.simps)
      (auto simp: Let_def intro!: preserves_bind preserves_seq less * split: sum.split)
qed

lemma recv_pdu_kept [simp]: "preserves I (recv_pdu ops cfg)"
  unfolding recv_pdu_def recv_multi_frame_pdu_def
  by (auto simp: Let_def intro!: preserves_bind preserves_seq recv_consecutive_kept)

lemma pending_loop_kept: "preserves I (pending_loop ops cfg sid k resp)"
  by (induction k arbitrary: resp) auto

lemma exchange_kept: "preserves I (isotp_exchange ops cfg req)" "preserves I (exchange_pdu ops cfg pdu)"
  unfolding isotp_exchange_def exchange_pdu_def by (auto intro!: preserves_bind preserves_seq pending_loop_kept)

end

interpretation mock_monitor: bus_monitor mock_can cfg "\<lambda>s. \<forall>f \<in> set (tx s). well_formed_frame cfg f"
  by unfold_locales (auto simp: mock_can_def mock_send_def mock_recv_def preserves_def split: list.split)

text \<open>C20: On any bus, whatever it delivers and even if it fails, an exchange puts only well-formed frames on
  the wire: an invariant that the bus operations keep for frames with the request identifier, 1 to
  8 data bytes (exactly 8 when padding is configured) and the right identifier format is kept by
  the whole exchange.\<close>

theorem isotp_exchange_sends_well_formed:
  assumes "\<And>f s. well_formed_frame cfg f \<Longrightarrow> I s \<Longrightarrow> I (snd (send_frame ops f s))"
    and "\<And>s. I s \<Longrightarrow> I (snd (recv_frame ops s))" and "\<And>d s. I s \<Longrightarrow> I (sleep ops d s)"
    and "I s"
  shows "I (snd (isotp_exchange ops cfg req s))"
proof -
  have "bus_monitor ops cfg I"
    unfolding bus_monitor_def preserves_def using assms(1-3) by blast
  from bus_monitor.exchange_kept(1) [OF this] assms(4) show ?thesis by (rule preservesD)
qed

lemma isotp_exchange_sends_well_formed_witness:
  "list_all (well_formed_frame (isotp_config_new 0x7E0 0x7E8))
    (tx (snd (isotp_exchange mock_can (isotp_config_new 0x7E0 0x7E8)
      (broadcast_diagnostic 0x22 [0xF1, 0x90]) \<lparr>rx = [], tx = []\<rparr>)))"
  unfolding list_all_iff
  by (rule isotp_exchange_sends_well_formed
      [where I = "\<lambda>s. \<forall>f \<in> set (tx s). well_formed_frame (isotp_config_new 0x7E0 0x7E8) f"])
    (simp_all add: mock_can_def mock_send_def mock_recv_def split: list.split)

lemma case_fail_eq_Inr:
  "(case r of Inl e \<Rightarrow> fail e | Inr c \<Rightarrow> f c) s = (Inr x, s') \<longleftrightarrow> (\<exists>c. r = Inr c \<and> f c s = (Inr x, s'))"
  by (cases r) auto

lemma recv_consecutive_length:
  "recv_consecutive ops cfg declared pdu q n s = (Inr out, s') \<Longrightarrow> length pdu \<le> declared
    \<Longrightarrow> length out = declared"
proof (induction "declared - length pdu" arbitrary: pdu q n s rule: less_induct)
  case less
  show ?case
  proof (cases "length pdu < declared")
    case False
    with less.prems show ?thesis by (simp add: recv_consecutive.simps [of ops cfg declared pdu])
  next
    case True
    from less.prems(1) [unfolded recv_consecutive.simps [of ops cfg declared pdu]] True
    obtain frame s1 chunk where
      chunk: "consecutive_payload q (declared - length pdu) frame = Inr chunk"
      and rest: "\<exists>q' n' s2. recv_consecutive ops cfg declared (pdu @ chunk) q' n' s2 = (Inr out, s')"
      by (auto simp: bind_act_eq_Inr seq_act_eq_Inr Let_def case_fail_eq_Inr split: if_split_asm; blast)
    have len: "declared - length (pdu @ chunk) < declared - length pdu" "length (pdu @ chunk) \<le> declared"
      using consecutive_payload_decreases [OF chunk True] consecutive_payload_nonempty [OF chunk] True
      by (simp_all add: le_diff_conv2 add.commute)
    from rest less.hyps [OF len(1) _ len(2)] show ?thesis by blast
  qed
qed

lemma unat_nibble: "unat ((b :: u8) AND 0x0F) < 16"
  by (simp add: mask_simps unat_and_mask)

lemma declared_length_bound: "push_bit 8 (unat ((b :: u8) AND 0x0F)) OR unat (c :: u8) \<le> 4095"
proof -
  have "push_bit 8 (unat (b AND 0x0F)) < 2 ^ 12" "unat c < 2 ^ 12"
    using unat_nibble [of b] unat_u8_lt [of c] by (simp_all add: push_bit_eq_mult del: unat_u8_lt)
  then have "take_bit 12 (push_bit 8 (unat (b AND 0x0F)) OR unat c) = push_bit 8 (unat (b AND 0x0F)) OR unat c"
    by (simp only: take_bit_or take_bit_nat_eq_self)
  then have "push_bit 8 (unat (b AND 0x0F)) OR unat c < 2 ^ 12"
    by (metis take_bit_nat_less_exp)
  then show ?thesis by simp
qed

text \<open>C21: On any bus, a PDU that the receiver returns is at most as long as the configured maximum and as
  the 4095 bytes of classic ISO-TP; the buffer never outgrows the announced length.\<close>

theorem recv_pdu_bounded:
  assumes "recv_pdu ops cfg s = (Inr pdu, s')"
  shows "length pdu \<le> max_payload_len cfg \<and> length pdu \<le> 4095"
proof -
  from assms obtain frame s1 where
    "decode_single_frame cfg frame = Inr pdu \<or> recv_multi_frame_pdu ops cfg frame s1 = (Inr pdu, s')"
    by (auto simp: recv_pdu_def bind_act_eq_Inr Let_def split: if_splits)
  then show ?thesis
  proof
    assume "decode_single_frame cfg frame = Inr pdu"
    then obtain b where "first_pci_byte frame = Inr b" by (auto simp: decode_single_frame_def)
    with \<open>decode_single_frame cfg frame = Inr pdu\<close>
    have "length pdu \<le> unat (b AND 0x0F)" "unat (b AND 0x0F) \<le> max_payload_len cfg"
      by (auto simp: decode_single_frame_def Let_def validate_pdu_len_def not_less split: if_split_asm)
    then show ?thesis using unat_nibble [of b] by simp
  next
    assume "recv_multi_frame_pdu ops cfg frame s1 = (Inr pdu, s')"
    then obtain declared initial q n s2 where
      "recv_consecutive ops cfg declared initial q n s2 = (Inr pdu, s')" "length initial \<le> declared"
      "declared \<le> max_payload_len cfg" "declared \<le> 4095"
      using declared_length_bound
      by (fastforce simp: recv_multi_frame_pdu_def bind_act_eq_Inr seq_act_eq_Inr Let_def
          validate_pdu_len_def split: if_splits)
    then show ?thesis using recv_consecutive_length by fastforce
  qed
qed

lemma recv_pdu_bounded_witness:
  "length [0x62 :: u8, 0xF1] \<le> max_payload_len (isotp_config_new 0x7E0 0x7E8) \<and> length [0x62 :: u8, 0xF1] \<le> 4095"
proof -
  have "recv_pdu mock_can (isotp_config_new 0x7E0 0x7E8)
      \<lparr>rx = pdu_frames (isotp_config_new 0x7E8 0x7E0) [0x62, 0xF1] @ [], tx = []\<rparr> =
    (Inr [0x62, 0xF1], \<lparr>rx = [], tx = [] @ pdu_flow_controls (isotp_config_new 0x7E0 0x7E8) [0x62, 0xF1]\<rparr>)"
    by (rule mock_behaves, rule mock_bus.acts_recv_pdu)
      (simp_all add: isotp_config_new_def max_classic_isotp_payload_def)
  then show ?thesis by (rule recv_pdu_bounded)
qed

end
