(* ===== verification/Dtc.thy ===== *)
theory Dtc
  imports Hex
begin

text \<open>
  Diagnostic trouble codes (\<open>protocol/dtc.rs\<close>): the five-character code of two raw bytes, the UDS
  status byte and the built-in description table. Codes given as text are ASCII.
\<close>

datatype dtc_category = Powertrain | Chassis | Body | Network

datatype dtc_status = Stored | Pending | Permanent

datatype severity = Info | Low | Medium | High | Critical

text \<open>\<open>#[derive(PartialOrd, Ord)]\<close> orders the levels as they are declared.\<close>

instantiation severity :: linorder
begin

primrec severity_rank :: "severity \<Rightarrow> nat" where
  "severity_rank Info = 0"
| "severity_rank Low = 1"
| "severity_rank Medium = 2"
| "severity_rank High = 3"
| "severity_rank Critical = 4"

definition less_eq_severity :: "severity \<Rightarrow> severity \<Rightarrow> bool" where
  "less_eq_severity a b \<longleftrightarrow> severity_rank a \<le> severity_rank b"

definition less_severity :: "severity \<Rightarrow> severity \<Rightarrow> bool" where
  "less_severity a b \<longleftrightarrow> severity_rank a < severity_rank b"

lemma severity_rank_inj: "severity_rank a = severity_rank b \<Longrightarrow> a = b"
  by (cases a; cases b) simp_all

instance
  by intro_classes (auto simp: less_eq_severity_def less_severity_def intro: severity_rank_inj)

end

record dtc =
  dtc_code :: string
  dtc_category :: dtc_category
  dtc_status :: dtc_status
  dtc_description :: "string option"
  dtc_severity :: "severity option"
  dtc_source_module :: "string option"
  dtc_notes :: "string option"

definition dtc_default :: dtc where
  "dtc_default = \<lparr>dtc_code = [], dtc_category = Powertrain, dtc_status = Stored,
    dtc_description = None, dtc_severity = None, dtc_source_module = None, dtc_notes = None\<rparr>"

section \<open>The description table\<close>

definition dtc_table_engine :: "(string \<times> string) list" where
  "dtc_table_engine = [
    (''P0010'', ''Intake Camshaft Position Actuator Circuit (Bank 1)''),
    (''P0011'', ''Intake Camshaft Position Timing Over-Advanced (Bank 1)''),
    (''P0012'', ''Intake Camshaft Position Timing Over-Retarded (Bank 1)''),
    (''P0014'', ''Exhaust Camshaft Position Timing Over-Advanced (Bank 1)''),
    (''P0016'', ''Crankshaft Position / Camshaft Position Correlation (Bank 1 Sensor A)''),
    (''P0030'', ''HO2S Heater Control Circuit (Bank 1 Sensor 1)''),
    (''P0036'', ''HO2S Heater Control Circuit (Bank 1 Sensor 2)''),
    (''P0087'', ''Fuel Rail/System Pressure Too Low''),
    (''P0088'', ''Fuel Rail/System Pressure Too High''),
    (''P0093'', ''Fuel System Leak Detected (Large)''),
    (''P0100'', ''MAF/VAF Circuit Malfunction''),
    (''P0101'', ''MAF/VAF Circuit Range/Performance''),
    (''P0102'', ''MAF/VAF Circuit Low Input''),
    (''P0103'', ''MAF/VAF Circuit High Input''),
    (''P0106'', ''MAP/Barometric Pressure Circuit Range/Performance''),
    (''P0107'', ''MAP/Barometric Pressure Circuit Low Input''),
    (''P0108'', ''MAP/Barometric Pressure Circuit High Input''),
    (''P0110'', ''Intake Air Temperature Sensor 1 Circuit''),
    (''P0111'', ''Intake Air Temperature Sensor 1 Circuit Range/Performance''),
    (''P0112'', ''Intake Air Temperature Sensor 1 Circuit Low''),
    (''P0113'', ''Intake Air Temperature Sensor 1 Circuit High''),
    (''P0115'', ''Engine Coolant Temperature Circuit''),
    (''P0116'', ''Engine Coolant Temperature Circuit Range/Performance''),
    (''P0117'', ''Engine Coolant Temperature Circuit Low''),
    (''P0118'', ''Engine Coolant Temperature Circuit High''),
    (''P0120'', ''Throttle Position Sensor A Circuit''),
    (''P0121'', ''Throttle Position Sensor A Circuit Range/Performance''),
    (''P0122'', ''Throttle Position Sensor A Circuit Low''),
    (''P0123'', ''Throttle Position Sensor A Circuit High''),
    (''P0125'', ''Insufficient Coolant Temperature for Closed Loop''),
    (''P0128'', ''Coolant Thermostat Below Operating Temperature''),
    (''P0130'', ''O2 Sensor Circuit Bank 1 Sensor 1''),
    (''P0131'', ''O2 Sensor Circuit Low Voltage B1S1''),
    (''P0132'', ''O2 Sensor Circuit High Voltage B1S1''),
    (''P0133'', ''O2 Sensor Circuit Slow Response B1S1''),
    (''P0134'', ''O2 Sensor Circuit No Activity B1S1''),
    (''P0135'', ''O2 Sensor Heater Circuit B1S1''),
    (''P0136'', ''O2 Sensor Circuit Bank 1 Sensor 2''),
    (''P0137'', ''O2 Sensor Circuit Low Voltage B1S2''),
    (''P0138'', ''O2 Sensor Circuit High Voltage B1S2''),
    (''P0139'', ''O2 Sensor Circuit Slow Response B1S2''),
    (''P0140'', ''O2 Sensor Circuit No Activity B1S2''),
    (''P0141'', ''O2 Sensor Heater Circuit B1S2''),
    (''P0150'', ''O2 Sensor Circuit Bank 2 Sensor 1''),
    (''P0151'', ''O2 Sensor Circuit Low Voltage B2S1''),
    (''P0152'', ''O2 Sensor Circuit High Voltage B2S1''),
    (''P0153'', ''O2 Sensor Circuit Slow Response B2S1''),
    (''P0154'', ''O2 Sensor Circuit No Activity B2S1''),
    (''P0155'', ''O2 Sensor Heater Circuit B2S1''),
    (''P0156'', ''O2 Sensor Circuit Bank 2 Sensor 2''),
    (''P0157'', ''O2 Sensor Circuit Low Voltage B2S2''),
    (''P0158'', ''O2 Sensor Circuit High Voltage B2S2''),
    (''P0159'', ''O2 Sensor Circuit Slow Response B2S2''),
    (''P0160'', ''O2 Sensor Circuit No Activity B2S2''),
    (''P0161'', ''O2 Sensor Heater Circuit B2S2''),
    (''P0171'', ''System Too Lean Bank 1''),
    (''P0172'', ''System Too Rich Bank 1''),
    (''P0174'', ''System Too Lean Bank 2''),
    (''P0175'', ''System Too Rich Bank 2''),
    (''P0192'', ''Fuel Rail Pressure Sensor Circuit Low''),
    (''P0193'', ''Fuel Rail Pressure Sensor Circuit High''),
    (''P0201'', ''Injector Circuit/Open Cylinder 1''),
    (''P0202'', ''Injector Circuit/Open Cylinder 2''),
    (''P0203'', ''Injector Circuit/Open Cylinder 3''),
    (''P0204'', ''Injector Circuit/Open Cylinder 4''),
    (''P0205'', ''Injector Circuit/Open Cylinder 5''),
    (''P0206'', ''Injector Circuit/Open Cylinder 6''),
    (''P0207'', ''Injector Circuit/Open Cylinder 7''),
    (''P0208'', ''Injector Circuit/Open Cylinder 8''),
    (''P0234'', ''Turbo/Supercharger Overboost Condition''),
    (''P0236'', ''Turbocharger Boost Sensor A Circuit Range/Performance''),
    (''P0299'', ''Turbo/Supercharger Underboost''),
    (''P0300'', ''Random/Multiple Cylinder Misfire Detected''),
    (''P0301'', ''Cylinder 1 Misfire Detected''),
    (''P0302'', ''Cylinder 2 Misfire Detected''),
    (''P0303'', ''Cylinder 3 Misfire Detected''),
    (''P0304'', ''Cylinder 4 Misfire Detected''),
    (''P0305'', ''Cylinder 5 Misfire Detected''),
    (''P0306'', ''Cylinder 6 Misfire Detected''),
    (''P0307'', ''Cylinder 7 Misfire Detected''),
    (''P0308'', ''Cylinder 8 Misfire Detected''),
    (''P0325'', ''Knock Sensor 1 Circuit Bank 1''),
    (''P0335'', ''Crankshaft Position Sensor A Circuit''),
    (''P0336'', ''Crankshaft Position Sensor A Range/Performance''),
    (''P0340'', ''Camshaft Position Sensor A Circuit Bank 1''),
    (''P0341'', ''Camshaft Position Sensor A Range/Performance Bank 1''),
    (''P0365'', ''Camshaft Position Sensor B Circuit (Bank 1)''),
    (''P0366'', ''Camshaft Position Sensor B Circuit Range/Performance (Bank 1)''),
    (''P0380'', ''Glow Plug/Heater Circuit A Malfunction''),
    (''P0400'', ''EGR Flow Malfunction''),
    (''P0401'', ''EGR Flow Insufficient''),
    (''P0402'', ''EGR Flow Excessive''),
    (''P0404'', ''EGR System Range/Performance''),
    (''P0405'', ''EGR Position Sensor A Circuit Low''),
    (''P0406'', ''EGR Position Sensor A Circuit High''),
    (''P0420'', ''Catalyst System Efficiency Below Threshold Bank 1''),
    (''P0430'', ''Catalyst System Efficiency Below Threshold Bank 2''),
    (''P0440'', ''Evaporative Emission System Malfunction''),
    (''P0441'', ''Evaporative Emission System Incorrect Purge Flow''),
    (''P0442'', ''Evaporative Emission System Leak Detected (Small)''),
    (''P0443'', ''Evaporative Emission System Purge Control Valve Circuit''),
    (''P0446'', ''Evaporative Emission System Vent Control Circuit''),
    (''P0449'', ''Evaporative Emission System Vent Valve/Solenoid Circuit''),
    (''P0451'', ''Evaporative Emission System Pressure Sensor Range/Performance''),
    (''P0455'', ''Evaporative Emission System Leak Detected (Large)''),
    (''P0456'', ''Evaporative Emission System Leak Detected (Very Small)''),
    (''P0496'', ''Evaporative Emission System High Purge Flow''),
    (''P0500'', ''Vehicle Speed Sensor A Malfunction''),
    (''P0503'', ''Vehicle Speed Sensor Intermittent/Erratic/High''),
    (''P0505'', ''Idle Air Control System Malfunction''),
    (''P0506'', ''Idle Air Control System RPM Lower Than Expected''),
    (''P0507'', ''Idle Air Control System RPM Higher Than Expected''),
    (''P0562'', ''System Voltage Low''),
    (''P0563'', ''System Voltage High''),
    (''P0597'', ''Thermostat Heater Control Circuit Open''),
    (''P0598'', ''Thermostat Heater Control Circuit Low''),
    (''P0599'', ''Thermostat Heater Control Circuit High''),
    (''P0600'', ''Serial Communication Link Malfunction''),
    (''P0601'', ''Internal Control Module Memory Check Sum Error''),
    (''P0602'', ''Control Module Programming Error''),
    (''P0606'', ''ECM/PCM Processor Fault'')]"

definition dtc_table_other :: "(string \<times> string) list" where
  "dtc_table_other = [
    (''P0700'', ''Transmission Control System Malfunction''),
    (''P0705'', ''Transmission Range Sensor Circuit Malfunction''),
    (''P0710'', ''Transmission Fluid Temperature Sensor Circuit''),
    (''P0711'', ''Transmission Fluid Temperature Sensor Circuit Range/Performance''),
    (''P0715'', ''Input/Turbine Speed Sensor Circuit''),
    (''P0717'', ''Input/Turbine Speed Sensor Circuit No Signal''),
    (''P0720'', ''Output Speed Sensor Circuit''),
    (''P0725'', ''Engine Speed Input Circuit''),
    (''P0730'', ''Incorrect Gear Ratio''),
    (''P0731'', ''Gear 1 Incorrect Ratio''),
    (''P0732'', ''Gear 2 Incorrect Ratio''),
    (''P0733'', ''Gear 3 Incorrect Ratio''),
    (''P0734'', ''Gear 4 Incorrect Ratio''),
    (''P0735'', ''Gear 5 Incorrect Ratio''),
    (''P0740'', ''Torque Converter Clutch Circuit Malfunction''),
    (''P0741'', ''Torque Converter Clutch System Stuck Off''),
    (''P0742'', ''Torque Converter Clutch System Stuck On''),
    (''P0743'', ''Torque Converter Clutch System Electrical''),
    (''P0747'', ''Pressure Control Solenoid A Stuck On''),
    (''P0748'', ''Pressure Control Solenoid A Electrical''),
    (''P0750'', ''Shift Solenoid A Malfunction''),
    (''P0751'', ''Shift Solenoid A Performance/Stuck Off''),
    (''P0752'', ''Shift Solenoid A Stuck On''),
    (''P0753'', ''Shift Solenoid A Electrical''),
    (''P0755'', ''Shift Solenoid B Malfunction''),
    (''P0756'', ''Shift Solenoid B Performance/Stuck Off''),
    (''P0757'', ''Shift Solenoid B Stuck On''),
    (''P0758'', ''Shift Solenoid B Electrical''),
    (''P1101'', ''Intake Airflow System Performance''),
    (''P2097'', ''Post Catalyst Fuel Trim System Too Rich (Bank 1)''),
    (''P2227'', ''Barometric Pressure Circuit Range/Performance''),
    (''P2270'', ''O2 Sensor Signal Stuck Lean (Bank 1 Sensor 2)''),
    (''P2271'', ''O2 Sensor Signal Stuck Rich (Bank 1 Sensor 2)''),
    (''P2797'', ''Auxiliary Transmission Fluid Pump Performance''),
    (''B0083'', ''Left Side/Front Impact Sensor Circuit''),
    (''B0092'', ''Left Side/Rear Impact Sensor Circuit''),
    (''B0096'', ''Right Side/Rear Impact Sensor Circuit''),
    (''B0408'', ''Temperature Control A Circuit''),
    (''B1325'', ''Control Module General Memory Failure''),
    (''B1517'', ''Steering Wheel Controls Switch 1 Circuit''),
    (''C0035'', ''Left Front Wheel Speed Sensor Circuit''),
    (''C0040'', ''Right Front Wheel Speed Sensor Circuit''),
    (''C0045'', ''Left Rear Wheel Speed Sensor Circuit''),
    (''C0050'', ''Right Rear Wheel Speed Sensor Circuit''),
    (''C0110'', ''Pump Motor Circuit Malfunction''),
    (''C0161'', ''ABS/TCS Brake Switch Circuit Malfunction''),
    (''C0186'', ''Lateral Accelerometer Circuit''),
    (''C0196'', ''Yaw Rate Sensor Circuit''),
    (''C0550'', ''ECU Malfunction (Stability System)''),
    (''C0899'', ''Device Voltage Low''),
    (''C0900'', ''Device Voltage High''),
    (''U0001'', ''High Speed CAN Communication Bus''),
    (''U0073'', ''Control Module Communication Bus Off''),
    (''U0100'', ''Lost Communication with ECM/PCM''),
    (''U0101'', ''Lost Communication with TCM''),
    (''U0121'', ''Lost Communication with ABS''),
    (''U0140'', ''Lost Communication with BCM''),
    (''U0146'', ''Lost Communication with Gateway A''),
    (''U0151'', ''Lost Communication with SIR Module''),
    (''U0155'', ''Lost Communication with Instrument Panel Cluster''),
    (''U0168'', ''Lost Communication with HVAC Control Module''),
    (''U0184'', ''Lost Communication with Radio''),
    (''U0401'', ''Invalid Data Received from ECM/PCM A'')]"

definition universal_dtc_description :: "string \<Rightarrow> string option" where
  "universal_dtc_description code = map_of (dtc_table_engine @ dtc_table_other) code"

section \<open>Codes\<close>

definition category_of_byte :: "u8 \<Rightarrow> dtc_category" where
  "category_of_byte a =
    (let n = drop_bit 6 a AND 0x03 in
     if n = 0 then Powertrain else if n = 1 then Chassis else if n = 2 then Body else Network)"

primrec category_prefix :: "dtc_category \<Rightarrow> char" where
  "category_prefix Powertrain = CHR ''P''"
| "category_prefix Chassis = CHR ''C''"
| "category_prefix Body = CHR ''B''"
| "category_prefix Network = CHR ''U''"

definition dtc_code_of_bytes :: "u8 \<Rightarrow> u8 \<Rightarrow> string" where
  "dtc_code_of_bytes a b =
    [category_prefix (category_of_byte a), hex_digit (drop_bit 4 a AND 0x03), hex_digit (a AND 0x0F),
     hex_digit (drop_bit 4 b AND 0x0F), hex_digit (b AND 0x0F)]"

definition dtc_from_bytes :: "u8 \<Rightarrow> u8 \<Rightarrow> dtc" where
  "dtc_from_bytes a b =
    (let code = dtc_code_of_bytes a b in
     \<lparr>dtc_code = code, dtc_category = category_of_byte a, dtc_status = Stored,
      dtc_description = universal_dtc_description code, dtc_severity = None,
      dtc_source_module = None, dtc_notes = None\<rparr>)"

definition category_of_code :: "string \<Rightarrow> dtc_category" where
  "category_of_code code =
    (case code of
       [] \<Rightarrow> Powertrain
     | c # _ \<Rightarrow>
         if c = CHR ''P'' \<or> c = CHR ''p'' then Powertrain
         else if c = CHR ''C'' \<or> c = CHR ''c'' then Chassis
         else if c = CHR ''B'' \<or> c = CHR ''b'' then Body
         else if c = CHR ''U'' \<or> c = CHR ''u'' then Network
         else Powertrain)"

definition to_upper :: "char \<Rightarrow> char" where
  "to_upper c =
    (let b = char_byte c in if 0x61 \<le> b \<and> b \<le> 0x7A then char_of (unat (b - 0x20)) else c)"

definition dtc_from_code :: "string \<Rightarrow> dtc" where
  "dtc_from_code code =
    (let upper = map to_upper code in
     \<lparr>dtc_code = upper, dtc_category = category_of_code code, dtc_status = Stored,
      dtc_description = universal_dtc_description upper, dtc_severity = None,
      dtc_source_module = None, dtc_notes = None\<rparr>)"

section \<open>The status byte\<close>

record dtc_status_byte =
  test_failed :: bool
  test_failed_this_cycle :: bool
  pending :: bool
  confirmed :: bool
  test_not_completed_since_clear :: bool
  test_failed_since_clear :: bool
  test_not_completed_this_cycle :: bool
  warning_indicator_requested :: bool

definition status_from_byte :: "u8 \<Rightarrow> dtc_status_byte" where
  "status_from_byte b =
    \<lparr>test_failed = (b AND 0x01) \<noteq> 0,
     test_failed_this_cycle = (b AND 0x02) \<noteq> 0,
     pending = (b AND 0x04) \<noteq> 0,
     confirmed = (b AND 0x08) \<noteq> 0,
     test_not_completed_since_clear = (b AND 0x10) \<noteq> 0,
     test_failed_since_clear = (b AND 0x20) \<noteq> 0,
     test_not_completed_this_cycle = (b AND 0x40) \<noteq> 0,
     warning_indicator_requested = (b AND 0x80) \<noteq> 0\<rparr>"

definition set_if :: "bool \<Rightarrow> u8 \<Rightarrow> u8 \<Rightarrow> u8" where
  "set_if flag m b = (if flag then b OR m else b)"

definition status_to_byte :: "dtc_status_byte \<Rightarrow> u8" where
  "status_to_byte s =
    (let b = 0;
         b = set_if (test_failed s) 0x01 b;
         b = set_if (test_failed_this_cycle s) 0x02 b;
         b = set_if (pending s) 0x04 b;
         b = set_if (confirmed s) 0x08 b;
         b = set_if (test_not_completed_since_clear s) 0x10 b;
         b = set_if (test_failed_since_clear s) 0x20 b;
         b = set_if (test_not_completed_this_cycle s) 0x40 b;
         b = set_if (warning_indicator_requested s) 0x80 b
     in b)"

section \<open>Lemmas\<close>

lemma hex_digit_inj: "m < 16 \<Longrightarrow> n < 16 \<Longrightarrow> hex_digit m = hex_digit n \<longleftrightarrow> m = n"
  by (metis hex_digit_nibble option.inject)

lemma small_fields [simp]: "(a :: u8) AND 0x03 < 16" "drop_bit 6 a AND 0x03 < 4"
  by (simp_all add: mask_simps word_less_nat_alt unat_and_mask)

lemma two_bit_cases: "(n :: u8) < 4 \<Longrightarrow> n = 0 \<or> n = 1 \<or> n = 2 \<or> n = 3"
proof -
  assume "n < 4"
  then have "unat n < 4" by (simp add: word_less_nat_alt)
  then have "unat n = 0 \<or> unat n = 1 \<or> unat n = 2 \<or> unat n = 3" by linarith
  then show ?thesis by (auto simp: word_unat_eq_iff)
qed

lemma category_prefix_inj: "category_prefix c = category_prefix d \<Longrightarrow> c = d"
  by (cases c; cases d) simp_all

lemma category_of_byte_inj:
  "category_of_byte a = category_of_byte b \<Longrightarrow> drop_bit 6 a AND 0x03 = drop_bit 6 b AND 0x03"
  using two_bit_cases [OF small_fields(2), of a] two_bit_cases [OF small_fields(2), of b]
  by (auto simp: category_of_byte_def split: if_splits)

lemma byte_fields:
  "a = push_bit 6 (drop_bit 6 a AND 0x03) OR (push_bit 4 (drop_bit 4 a AND 0x03) OR (a AND 0x0F))"
  for a :: u8
proof (rule bit_word_eqI)
  fix n assume "n < LENGTH(8)"
  then have "n < 8" by simp
  then show "bit a n = bit (push_bit 6 (drop_bit 6 a AND 0x03) OR
      (push_bit 4 (drop_bit 4 a AND 0x03) OR (a AND 0x0F))) n"
    by (auto simp: bit_simps mask_simps dest!: less_8_cases)
qed

lemma nibble_fields: "b = push_bit 4 (drop_bit 4 b AND 0x0F) OR (b AND 0x0F)" for b :: u8
  by (rule bit_word_eqI) (auto simp: bit_simps mask_simps dest: bit_imp_le_length)

lemma dtc_code_of_bytes_inj: "dtc_code_of_bytes a b = dtc_code_of_bytes a' b' \<Longrightarrow> a = a' \<and> b = b'"
proof
  assume "dtc_code_of_bytes a b = dtc_code_of_bytes a' b'"
  then have *: "category_of_byte a = category_of_byte a'"
    "drop_bit 4 a AND 0x03 = drop_bit 4 a' AND 0x03" "a AND 0x0F = a' AND 0x0F"
    "drop_bit 4 b AND 0x0F = drop_bit 4 b' AND 0x0F" "b AND 0x0F = b' AND 0x0F"
    by (simp_all only: dtc_code_of_bytes_def list.inject hex_digit_inj small_fields(1) nibbles_lt(2))
      (blast intro: category_prefix_inj)
  show "a = a'"
    by (subst byte_fields [of a], subst byte_fields [of a'])
      (simp only: *(2,3) category_of_byte_inj [OF *(1)])
  show "b = b'"
    by (subst nibble_fields [of b], subst nibble_fields [of b']) (simp only: *(4,5))
qed

lemma to_upper_hex_digit [simp]: "n < 16 \<Longrightarrow> to_upper (hex_digit n) = hex_digit n"
  unfolding to_upper_def Let_def char_byte_hex_digit
  by (drule nibble_cases, elim insertE emptyE; hypsubst; simp)

lemma to_upper_prefix [simp]: "to_upper (category_prefix c) = category_prefix c"
  by (cases c) (simp_all add: to_upper_def char_byte_def)

lemma category_of_prefix [simp]: "category_of_code (category_prefix c # cs) = c"
  by (cases c) (simp_all add: category_of_code_def)

text \<open>The five-character code determines the two raw bytes, and reading the code back as text
  gives the trouble code that the bytes decode to, description and category included.\<close>

theorem dtc_code_roundtrip:
  "length (dtc_code (dtc_from_bytes a b)) = 5
   \<and> dtc_from_code (dtc_code (dtc_from_bytes a b)) = dtc_from_bytes a b
   \<and> (dtc_code (dtc_from_bytes a b) = dtc_code (dtc_from_bytes a' b') \<longleftrightarrow> a = a' \<and> b = b')"
proof -
  have "map to_upper (dtc_code_of_bytes a b) = dtc_code_of_bytes a b"
    by (simp add: dtc_code_of_bytes_def)
  moreover have "category_of_code (dtc_code_of_bytes a b) = category_of_byte a"
    by (simp add: dtc_code_of_bytes_def)
  ultimately show ?thesis
    by (auto simp: dtc_from_bytes_def dtc_from_code_def Let_def dest: dtc_code_of_bytes_inj)
      (simp add: dtc_code_of_bytes_def)
qed

lemma status_from_byte_bits:
  "status_from_byte b = \<lparr>test_failed = bit b 0, test_failed_this_cycle = bit b 1, pending = bit b 2,
    confirmed = bit b 3, test_not_completed_since_clear = bit b 4, test_failed_since_clear = bit b 5,
    test_not_completed_this_cycle = bit b 6, warning_indicator_requested = bit b 7\<rparr>"
  by (simp add: status_from_byte_def and_bit_test)

lemma bit_set_if: "bit (set_if f m b) n \<longleftrightarrow> bit b n \<or> f \<and> bit m n"
  by (simp add: set_if_def bit_simps)

lemma bit_status_to_byte:
  "bit (status_to_byte s) 0 = test_failed s"
  "bit (status_to_byte s) 1 = test_failed_this_cycle s"
  "bit (status_to_byte s) 2 = pending s"
  "bit (status_to_byte s) 3 = confirmed s"
  "bit (status_to_byte s) 4 = test_not_completed_since_clear s"
  "bit (status_to_byte s) 5 = test_failed_since_clear s"
  "bit (status_to_byte s) 6 = test_not_completed_this_cycle s"
  "bit (status_to_byte s) 7 = warning_indicator_requested s"
  by (simp_all add: status_to_byte_def Let_def bit_set_if)

lemma dtc_status_byte_inverse [codec_simps]:
  "status_to_byte (status_from_byte b) = b" "status_from_byte (status_to_byte s) = s"
proof -
  show "status_to_byte (status_from_byte b) = b"
  proof (rule bit_word_eqI)
    fix n assume "n < LENGTH(8)"
    then have "n < 8" by simp
    then show "bit (status_to_byte (status_from_byte b)) n = bit b n"
      by (elim less_8_cases [THEN disjE] disjE; hypsubst; unfold bit_status_to_byte status_from_byte_bits; simp)
  qed
  show "status_from_byte (status_to_byte s) = s"
    unfolding status_from_byte_bits bit_status_to_byte by simp
qed

text \<open>The UDS status byte and its eight flags determine each other: encoding and decoding are
  inverse in both directions.\<close>

theorem dtc_status_byte_roundtrip:
  "status_to_byte (status_from_byte b) = b \<and> status_from_byte (status_to_byte s) = s"
  by (simp add: dtc_status_byte_inverse)

section \<open>Every row of the table can be reached\<close>

text \<open>The shape of a code, and that every code of this shape is the code of two raw bytes.\<close>

definition code_shape :: "string \<Rightarrow> bool" where
  "code_shape k \<longleftrightarrow> length k = 5 \<and> k ! 0 \<in> set ''PCBU'' \<and> k ! 1 \<in> set ''0123''
    \<and> k ! 2 \<in> set ''0123456789ABCDEF'' \<and> k ! 3 \<in> set ''0123456789ABCDEF''
    \<and> k ! 4 \<in> set ''0123456789ABCDEF''"

lemma hex_digit_ex:
  assumes "c \<in> set ''0123456789ABCDEF''" shows "\<exists>n < 16. hex_digit n = c"
proof -
  have "set ''0123456789ABCDEF'' = hex_digit ` {0, 1, 2, 3, 4, 5, 6, 7, 8, 9, 10, 11, 12, 13, 14, 15}"
    by (simp add: hex_digit_def char_of_def bit_0 insert_commute)
  with assms obtain n where "n \<in> {0, 1, 2, 3, 4, 5, 6, 7, 8, 9, 10, 11, 12, 13, 14, 15}" "c = hex_digit n"
    by blast
  moreover from this(1) have "n < 16" by auto
  ultimately show ?thesis by blast
qed

lemma quarter_digit_ex:
  assumes "c \<in> set ''0123''" shows "\<exists>n < 4. hex_digit n = c"
proof -
  have "set ''0123'' = hex_digit ` {0, 1, 2, 3}" by (simp add: hex_digit_def char_of_def bit_0)
  with assms obtain n where "n \<in> {0, 1, 2, 3}" "c = hex_digit n" by blast
  moreover from this(1) have "n < 4" by auto
  ultimately show ?thesis by blast
qed

lemma category_ex:
  assumes "c \<in> set ''PCBU''"
  shows "\<exists>n < 4. \<forall>a. drop_bit 6 a AND 0x03 = n \<longrightarrow> category_prefix (category_of_byte a) = c"
proof -
  from assms consider "c = CHR ''P''" | "c = CHR ''C''" | "c = CHR ''B''" | "c = CHR ''U''" by auto
  then show ?thesis
  proof cases
    case 1 then show ?thesis by (intro exI [of _ 0]) (simp add: category_of_byte_def)
  next
    case 2 then show ?thesis by (intro exI [of _ 1]) (simp add: category_of_byte_def)
  next
    case 3 then show ?thesis by (intro exI [of _ 2]) (simp add: category_of_byte_def)
  next
    case 4 then show ?thesis by (intro exI [of _ 3]) (simp add: category_of_byte_def)
  qed
qed

lemma bit_below: "unat (w :: u8) < 2 ^ k \<Longrightarrow> bit w n \<Longrightarrow> n < k"
proof -
  assume "unat w < 2 ^ k" "bit w n"
  then have "take_bit k w = w"
    by (simp add: word_unat_eq_iff unsigned_take_bit_eq take_bit_nat_eq_self)
  then show "n < k" using \<open>bit w n\<close> by (metis bit_take_bit_iff)
qed

lemma no_bit_above: "unat (w :: u8) < 2 ^ k \<Longrightarrow> k \<le> n \<Longrightarrow> bit w n = False"
  using bit_below [of w k n] by auto

lemma joined_fields:
  assumes "c < (4 :: u8)" "d < 4" "e < 16"
  defines "a \<equiv> push_bit 6 c OR (push_bit 4 d OR e)"
  shows "drop_bit 6 a AND 0x03 = c" "drop_bit 4 a AND 0x03 = d" "a AND 0x0F = e"
proof -
  have b: "unat c < 2 ^ 2" "unat d < 2 ^ 2" "unat e < 2 ^ 4"
    using assms(1-3) by (simp_all add: word_less_nat_alt)
  show "drop_bit 6 a AND 0x03 = c" "drop_bit 4 a AND 0x03 = d" "a AND 0x0F = e"
    by (auto intro!: bit_word_eqI simp: a_def bit_simps mask_simps no_bit_above [OF b(1)]
        no_bit_above [OF b(2)] no_bit_above [OF b(3)] dest: bit_below [OF b(1)] bit_below [OF b(2)] bit_below [OF b(3)])
qed

lemma joined_nibbles:
  assumes "d < (16 :: u8)" "e < 16"
  shows "drop_bit 4 (push_bit 4 d OR e) AND 0x0F = d" "(push_bit 4 d OR e) AND 0x0F = e"
proof -
  have b: "unat d < 2 ^ 4" "unat e < 2 ^ 4"
    using assms by (simp_all add: word_less_nat_alt)
  show "drop_bit 4 (push_bit 4 d OR e) AND 0x0F = d" "(push_bit 4 d OR e) AND 0x0F = e"
    by (auto intro!: bit_word_eqI simp: bit_simps mask_simps no_bit_above [OF b(1)]
        no_bit_above [OF b(2)] dest: bit_below [OF b(1)] bit_below [OF b(2)])
qed

lemma code_shape_ex:
  assumes "code_shape k" shows "\<exists>a b. dtc_code_of_bytes a b = k"
proof -
  from assms have "length k = 5" by (simp only: code_shape_def)
  then obtain c0 c1 c2 c3 c4 where k: "k = [c0, c1, c2, c3, c4]"
    by (auto simp: length_Suc_conv eval_nat_numeral)
  from assms have "c0 \<in> set ''PCBU''" "c1 \<in> set ''0123''" "c2 \<in> set ''0123456789ABCDEF''"
    "c3 \<in> set ''0123456789ABCDEF''" "c4 \<in> set ''0123456789ABCDEF''"
    unfolding code_shape_def k by (simp_all only: nth_Cons_0 nth_Cons_numeral nth_Cons_Suc One_nat_def) simp_all
  then obtain n0 n1 n2 n3 n4 where
    n0: "n0 < 4" "\<And>a. drop_bit 6 a AND 0x03 = n0 \<Longrightarrow> category_prefix (category_of_byte a) = c0"
    and n: "n1 < 4" "hex_digit n1 = c1" "n2 < 16" "hex_digit n2 = c2"
      "n3 < 16" "hex_digit n3 = c3" "n4 < 16" "hex_digit n4 = c4"
    using category_ex quarter_digit_ex hex_digit_ex by metis
  have "dtc_code_of_bytes (push_bit 6 n0 OR (push_bit 4 n1 OR n2)) (push_bit 4 n3 OR n4) = k"
    by (simp only: dtc_code_of_bytes_def k joined_fields [OF n0(1) n(1,3)] joined_nibbles [OF n(5,7)]
        n n0(2) [OF joined_fields(1) [OF n0(1) n(1,3)]])
  then show ?thesis by blast
qed

text \<open>The rows stand in the order of this number, so the keys are distinct.\<close>

fun code_number :: "string \<Rightarrow> nat" where
  "code_number [] = 0"
| "code_number (c # cs) =
    (if c = CHR ''P'' then 0 else if c = CHR ''B'' then 1 else if c = CHR ''C'' then 2 else 3) * 2 ^ 32
      + fold (\<lambda>d n. 256 * n + of_char d) cs 0"

fun ascending :: "nat list \<Rightarrow> bool" where
  "ascending (m # n # ns) \<longleftrightarrow> m < n \<and> ascending (n # ns)"
| "ascending _ \<longleftrightarrow> True"

lemma ascending_sorted: "ascending ns \<Longrightarrow> sorted_wrt (<) ns"
  by (induction ns rule: ascending.induct) (auto intro: less_trans)

lemma ascending_distinct: "ascending (map f xs) \<Longrightarrow> distinct xs"
  using ascending_sorted [of "map f xs"] strict_sorted_iff [of "map f xs"] by (simp add: distinct_map)

lemma table_rows_ok: "list_all code_shape (map fst (dtc_table_engine @ dtc_table_other))"
  by (simp add: dtc_table_engine_def dtc_table_other_def code_shape_def)

lemma table_keys_distinct: "distinct (map fst (dtc_table_engine @ dtc_table_other))"
  by (rule ascending_distinct [of code_number]) (simp add: dtc_table_engine_def dtc_table_other_def)

text \<open>No row of the description table is dead: every row's code is the code of some pair of raw
  bytes, and decoding those bytes attaches exactly that row's description (no earlier row
  shadows it).\<close>

theorem dtc_table_rows_reachable:
  "\<forall>(k, d) \<in> set (dtc_table_engine @ dtc_table_other).
     \<exists>a b. dtc_code (dtc_from_bytes a b) = k \<and> dtc_description (dtc_from_bytes a b) = Some d"
proof (clarify)
  fix k d assume kd: "(k, d) \<in> set (dtc_table_engine @ dtc_table_other)"
  then have "k \<in> set (map fst (dtc_table_engine @ dtc_table_other))"
    by (simp only: set_map) force
  then have "code_shape k" using table_rows_ok by (simp only: list_all_iff)
  then obtain a b where "dtc_code_of_bytes a b = k" using code_shape_ex by blast
  moreover have "universal_dtc_description k = Some d"
    unfolding universal_dtc_description_def
    using kd table_keys_distinct by (rule map_of_is_SomeI [rotated])
  ultimately show "\<exists>a b. dtc_code (dtc_from_bytes a b) = k \<and> dtc_description (dtc_from_bytes a b) = Some d"
    by (intro exI [of _ a] exI [of _ b]) (simp add: dtc_from_bytes_def)
qed

lemma dtc_table_rows_reachable_witness:
  "\<exists>a b. dtc_code (dtc_from_bytes a b) = ''P0700''
     \<and> dtc_description (dtc_from_bytes a b) = Some ''Transmission Control System Malfunction''"
  using dtc_table_rows_reachable [THEN bspec, of "(''P0700'', ''Transmission Control System Malfunction'')"]
  by (simp add: dtc_table_other_def)

end
