(* ===== verification/Uds.thy ===== *)
theory Uds
  imports IsoTpLaws Dtc
begin

text \<open>
  The UDS client over a framed transport (\<open>protocol/uds.rs\<close>): one operation per diagnostic service,
  with the checks of the echoed identifiers, and the decoding of trouble-code records. The client
  owns its transport, so the state of an action is the transport's state and the operations of the
  transport are an argument. Service identifiers are the constants of the code.
\<close>

section \<open>Responses\<close>

record uds_positive_response =
  up_service_id :: u8
  up_data :: bytes

definition positive_response_sid :: "u8 \<Rightarrow> u8 res" where
  "positive_response_sid service_id =
    ok_or (ParseError (IsoTpMsg (NoPositiveSid service_id))) (checked_add service_id 0x40)"

definition parse_uds_response :: "u8 \<Rightarrow> bytes \<Rightarrow> uds_positive_response res" where
  "parse_uds_response request_service_id response_pdu =
    bind_res (ok_or (ParseError (UdsMsg UdsResponseEmpty)) (slice_first response_pdu)) (\<lambda>service_id.
    if service_id = 0x7F then
      (if length response_pdu < 3 then Inl (ParseError (IsoTpMsg NegativeResponseShort))
       else Inl (NegativeResponse (response_pdu ! 1) (nrc_from_byte_or_unknown (response_pdu ! 2))))
    else bind_res (positive_response_sid request_service_id) (\<lambda>expected.
      if service_id \<noteq> expected then Inl (ParseError (UdsMsg (UdsUnexpectedSid service_id expected)))
      else Inr \<lparr>up_service_id = service_id, up_data = drop 1 response_pdu\<rparr>))"

record session_response =
  sn_session_type :: u8
  sn_timing :: bytes

record read_dtc_response =
  rd_subfunction :: u8
  rd_data :: bytes

record reset_response =
  er_reset_type :: u8
  er_data :: bytes

record subfunction_response =
  sf_subfunction :: u8
  sf_data :: bytes

record did_response =
  dr_did :: u16
  dr_data :: bytes

record routine_response =
  rr_control_type :: u8
  rr_routine_id :: u16
  rr_data :: bytes

section \<open>Trouble codes\<close>

record uds_dtc =
  ud_raw :: "u8 \<times> u8 \<times> u8"
  ud_code :: dtc
  ud_failure_type :: u8
  ud_status :: "dtc_status_byte option"

definition from_three_bytes_and_status :: "u8 \<times> u8 \<times> u8 \<Rightarrow> dtc_status_byte option \<Rightarrow> uds_dtc" where
  "from_three_bytes_and_status raw status =
    (case raw of (hi, lo, ftb) \<Rightarrow>
      \<lparr>ud_raw = raw, ud_code = dtc_from_bytes hi lo, ud_failure_type = ftb, ud_status = status\<rparr>)"

definition from_three_bytes :: "u8 \<times> u8 \<times> u8 \<Rightarrow> uds_dtc" where
  "from_three_bytes raw = from_three_bytes_and_status raw None"

record uds_dtc_report =
  ur_subfunction :: u8
  ur_status_availability_mask :: u8
  ur_dtcs :: "uds_dtc list"

definition decode_record :: "bytes \<Rightarrow> uds_dtc" where
  "decode_record chunk =
    from_three_bytes_and_status (chunk ! 0, chunk ! 1, chunk ! 2) (Some (status_from_byte (chunk ! 3)))"

definition decode_dtc_and_status_records :: "bytes \<Rightarrow> uds_dtc list res" where
  "decode_dtc_and_status_records records =
    (if chunks_remainder 4 records \<noteq> [] then Inl (ParseError (UdsMsg (DtcRecordsLength (length records))))
     else Inr (map decode_record (chunks_exact 4 records)))"

section \<open>Normalising the payload\<close>

definition raw_positive_response_matches_echo :: "u8 \<Rightarrow> bytes \<Rightarrow> bytes \<Rightarrow> bool" where
  "raw_positive_response_matches_echo service_id request_data response_data =
    (let echo_len =
       (if service_id = 0x14 then 0
        else if service_id = 0x22 \<or> service_id = 0x2E then 2
        else if service_id = 0x2F then 2
        else if service_id = 0x31 then 3
        else 1 :: nat)
     in if echo_len = 0 then response_data = []
        else if length request_data < echo_len then False
        else starts_with response_data (take echo_len request_data))"

definition normalize_transport_payload :: "u8 \<Rightarrow> bytes \<Rightarrow> bytes \<Rightarrow> bytes res" where
  "normalize_transport_payload service_id request_data payload =
    (case payload of
       [] \<Rightarrow> Inr payload
     | sid # rest \<Rightarrow>
         if sid = 0x7F then
           bind_res (parse_uds_response service_id payload) (\<lambda>resp. Inr (up_data resp))
         else bind_res (positive_response_sid service_id) (\<lambda>expected.
           if sid = expected \<and> raw_positive_response_matches_echo service_id request_data rest
           then Inr rest else Inr payload))"

definition split_required_echo :: "bytes \<Rightarrow> u8 \<Rightarrow> string \<Rightarrow> (u8 \<times> bytes) res" where
  "split_required_echo payload expected label =
    bind_res (ok_or (ParseError (UdsMsg (MissingEcho label))) (slice_first payload)) (\<lambda>echo.
    if echo \<noteq> expected then Inl (ParseError (UdsMsg (EchoMismatch label expected echo)))
    else Inr (echo, drop 1 payload))"

definition split_required_did :: "bytes \<Rightarrow> u16 \<Rightarrow> string \<Rightarrow> did_response res" where
  "split_required_did payload expected_did label =
    (if length payload < 2 then Inl (ParseError (UdsMsg (MissingDid label)))
     else
       (let echoed_did = u16_from_be (payload ! 0) (payload ! 1) in
        if echoed_did \<noteq> expected_did
        then Inl (ParseError (UdsMsg (DidMismatch label expected_did echoed_did)))
        else Inr \<lparr>dr_did = echoed_did, dr_data = drop 2 payload\<rparr>))"

section \<open>Services\<close>

definition request_service :: "'t transport \<Rightarrow> u8 \<Rightarrow> bytes \<Rightarrow> ('t, obd2_error, bytes) act" where
  "request_service t service_id data =
    bind_act (exchange t (broadcast_diagnostic service_id data)) (\<lambda>payload.
    lift_res (normalize_transport_payload service_id data payload))"

definition diagnostic_session_control :: "'t transport \<Rightarrow> u8 \<Rightarrow> ('t, obd2_error, session_response) act" where
  "diagnostic_session_control t session_type =
    bind_act (request_service t 0x10 [session_type]) (\<lambda>payload.
    lift_res (bind_res (split_required_echo payload session_type ''session type'') (\<lambda>(echo, timing).
      Inr \<lparr>sn_session_type = echo, sn_timing = timing\<rparr>)))"

definition read_data_by_identifier :: "'t transport \<Rightarrow> u16 \<Rightarrow> ('t, obd2_error, bytes) act" where
  "read_data_by_identifier t did =
    (let did_bytes = u16_to_be did in
     bind_act (request_service t 0x22 did_bytes) (\<lambda>payload.
     if starts_with payload did_bytes then ret (drop (length did_bytes) payload) else ret payload))"

definition read_obdonuds_identifier :: "'t transport \<Rightarrow> ('t, obd2_error, bytes) act" where
  "read_obdonuds_identifier t = read_data_by_identifier t 0xF810"

definition write_data_by_identifier :: "'t transport \<Rightarrow> u16 \<Rightarrow> bytes \<Rightarrow> ('t, obd2_error, did_response) act" where
  "write_data_by_identifier t did data =
    bind_act (request_service t 0x2E (u16_to_be did @ data)) (\<lambda>payload.
    lift_res (split_required_did payload did ''writeDataByIdentifier''))"

definition read_dtc_information :: "'t transport \<Rightarrow> u8 \<Rightarrow> bytes \<Rightarrow> ('t, obd2_error, read_dtc_response) act" where
  "read_dtc_information t subfunction data =
    bind_act (request_service t 0x19 (subfunction # data)) (\<lambda>payload.
    lift_res (bind_res (split_required_echo payload subfunction ''DTC subfunction'') (\<lambda>(echo, rest).
      Inr \<lparr>rd_subfunction = echo, rd_data = rest\<rparr>)))"

definition report_dtcs_by_status_mask :: "'t transport \<Rightarrow> u8 \<Rightarrow> ('t, obd2_error, uds_dtc_report) act" where
  "report_dtcs_by_status_mask t status_mask =
    bind_act (read_dtc_information t 0x02 [status_mask]) (\<lambda>response.
    lift_res (
      bind_res (ok_or (ParseError (UdsMsg DtcReportNoMask)) (slice_first (rd_data response))) (\<lambda>mask.
      bind_res (decode_dtc_and_status_records (drop 1 (rd_data response))) (\<lambda>dtcs.
      Inr \<lparr>ur_subfunction = rd_subfunction response, ur_status_availability_mask = mask,
           ur_dtcs = dtcs\<rparr>))))"

definition clear_diagnostic_information :: "'t transport \<Rightarrow> u32 \<Rightarrow> ('t, obd2_error, unit) act" where
  "clear_diagnostic_information t grp =
    (if 0xFFFFFF < grp then fail (ParseError (UdsMsg (DtcGroupTooWide grp)))
     else
       (let request = [ucast (drop_bit 16 grp AND 0xFF), ucast (drop_bit 8 grp AND 0xFF),
                       ucast (grp AND 0xFF)]
        in bind_act (request_service t 0x14 request) (\<lambda>payload.
           if payload \<noteq> [] then fail (ParseError (UdsMsg (ClearUnexpectedPayload payload)))
           else ret ())))"

definition security_access :: "'t transport \<Rightarrow> u8 \<Rightarrow> bytes \<Rightarrow> ('t, obd2_error, subfunction_response) act" where
  "security_access t subfunction data =
    bind_act (request_service t 0x27 (subfunction # data)) (\<lambda>payload.
    lift_res (bind_res (split_required_echo payload subfunction ''security-access subfunction'') (\<lambda>(echo, rest).
      Inr \<lparr>sf_subfunction = echo, sf_data = rest\<rparr>)))"

definition request_seed :: "'t transport \<Rightarrow> u8 \<Rightarrow> ('t, obd2_error, bytes) act" where
  "request_seed t security_level =
    bind_act (security_access t security_level []) (\<lambda>r. ret (sf_data r))"

definition send_key :: "'t transport \<Rightarrow> u8 \<Rightarrow> bytes \<Rightarrow> ('t, obd2_error, subfunction_response) act" where
  "send_key t security_level key = security_access t security_level key"

definition authentication :: "'t transport \<Rightarrow> u8 \<Rightarrow> bytes \<Rightarrow> ('t, obd2_error, subfunction_response) act" where
  "authentication t subfunction data =
    bind_act (request_service t 0x29 (subfunction # data)) (\<lambda>payload.
    lift_res (bind_res (split_required_echo payload subfunction ''authentication subfunction'') (\<lambda>(echo, rest).
      Inr \<lparr>sf_subfunction = echo, sf_data = rest\<rparr>)))"

definition input_output_control :: "'t transport \<Rightarrow> u16 \<Rightarrow> bytes \<Rightarrow> ('t, obd2_error, did_response) act" where
  "input_output_control t did control_option_record =
    bind_act (request_service t 0x2F (u16_to_be did @ control_option_record)) (\<lambda>payload.
    lift_res (split_required_did payload did ''inputOutputControlByIdentifier''))"

definition routine_control :: "'t transport \<Rightarrow> u8 \<Rightarrow> u16 \<Rightarrow> bytes \<Rightarrow> ('t, obd2_error, routine_response) act" where
  "routine_control t control_type routine_id option_record =
    bind_act (request_service t 0x31 (control_type # u16_to_be routine_id @ option_record)) (\<lambda>payload.
    lift_res (bind_res (split_required_echo payload control_type ''routine-control type'') (\<lambda>(echo, rest).
      if length rest < 2 then Inl (ParseError (UdsMsg RoutineNoId))
      else
        (let echoed = u16_from_be (rest ! 0) (rest ! 1) in
         if echoed \<noteq> routine_id then Inl (ParseError (UdsMsg (RoutineIdMismatch routine_id echoed)))
         else Inr \<lparr>rr_control_type = echo, rr_routine_id = echoed, rr_data = drop 2 rest\<rparr>))))"

definition control_dtc_setting :: "'t transport \<Rightarrow> u8 \<Rightarrow> bytes \<Rightarrow> ('t, obd2_error, subfunction_response) act" where
  "control_dtc_setting t setting_type data =
    bind_act (request_service t 0x85 (setting_type # data)) (\<lambda>payload.
    lift_res (bind_res (split_required_echo payload setting_type ''control-DTC-setting type'') (\<lambda>(echo, rest).
      Inr \<lparr>sf_subfunction = echo, sf_data = rest\<rparr>)))"

definition tester_present :: "'t transport \<Rightarrow> ('t, obd2_error, unit) act" where
  "tester_present t =
    bind_act (request_service t 0x3E [0x00]) (\<lambda>payload.
    lift_res (bind_res (split_required_echo payload 0x00 ''tester-present subfunction'') (\<lambda>_. Inr ())))"

definition ecu_reset :: "'t transport \<Rightarrow> u8 \<Rightarrow> ('t, obd2_error, reset_response) act" where
  "ecu_reset t reset_type =
    bind_act (request_service t 0x11 [reset_type]) (\<lambda>payload.
    lift_res (bind_res (split_required_echo payload reset_type ''reset type'') (\<lambda>(echo, rest).
      Inr \<lparr>er_reset_type = echo, er_data = rest\<rparr>)))"

definition uds_request :: "'t transport \<Rightarrow> request_kind \<Rightarrow> ('t, obd2_error, bytes) act" where
  "uds_request t kind =
    (case kind of
       Did16 service did \<Rightarrow> request_service t service (u16_to_be did)
     | RawRequest service data \<Rightarrow> request_service t service data
     | Mode01Pid pid \<Rightarrow> fail (ParseError (UdsMsg (UdsNoMode01 pid))))"

end
