(* ===== verification/UdsLaws.thy ===== *)
theory UdsLaws
  imports Uds
begin

text \<open>
  Properties of the UDS client: the record codec, the normalisation of transport payloads, and the
  client together with the ISO-TP transport on a bus.
\<close>

section \<open>Trouble-code records\<close>

text \<open>The four bytes that a trouble code with status is reported as.\<close>

definition record_bytes :: "uds_dtc \<Rightarrow> bytes" where
  "record_bytes d = (case ud_raw d of (hi, lo, ftb) \<Rightarrow>
    [hi, lo, ftb, (case ud_status d of Some s \<Rightarrow> status_to_byte s | None \<Rightarrow> 0)])"

definition well_formed_dtc :: "uds_dtc \<Rightarrow> bool" where
  "well_formed_dtc d \<longleftrightarrow> (case ud_raw d of (hi, lo, ftb) \<Rightarrow>
    ud_code d = dtc_from_bytes hi lo \<and> ud_failure_type d = ftb \<and> ud_status d \<noteq> None)"

lemma decode_record_bytes: "well_formed_dtc d \<Longrightarrow> decode_record (record_bytes d) = d"
  by (cases d)
    (auto simp: well_formed_dtc_def decode_record_def record_bytes_def from_three_bytes_and_status_def
      dtc_status_byte_inverse split: prod.splits)

lemma record_bytes_decode: "length c = 4 \<Longrightarrow> record_bytes (decode_record c) = c"
  by (auto simp: decode_record_def record_bytes_def from_three_bytes_and_status_def
      dtc_status_byte_inverse length_Suc_conv eval_nat_numeral)

lemma decode_record_well_formed: "well_formed_dtc (decode_record c)"
  by (simp add: decode_record_def well_formed_dtc_def from_three_bytes_and_status_def)

lemma decode_records_of_bytes:
  assumes "list_all well_formed_dtc ds"
  shows "decode_dtc_and_status_records (concat (map record_bytes ds)) = Inr ds"
proof -
  have four: "length (record_bytes d) = 4" for d by (simp add: record_bytes_def split: prod.split)
  then have "chunks_exact 4 (concat (map record_bytes ds)) = map record_bytes ds"
    by (auto intro!: chunks_exact_concat)
  moreover have "length (concat (map record_bytes ds)) = 4 * length ds"
    using length_concat_const [of "map record_bytes ds" 4] four by auto
  moreover have "map (\<lambda>d. decode_record (record_bytes d)) ds = ds"
    using assms by (auto intro!: map_idI decode_record_bytes simp: list_all_iff)
  ultimately show ?thesis
    by (simp add: decode_dtc_and_status_records_def chunks_remainder_Nil_iff comp_def)
qed

text \<open>C8: Decoding trouble-code-and-status records is exact: it succeeds with a list of codes precisely when
  the input is the concatenation of their four-byte records. So no byte is lost or invented, a
  partial record is rejected, and code, failure type and all eight status flags are recovered.\<close>

theorem decode_dtc_records_exact:
  "decode_dtc_and_status_records bs = Inr ds \<longleftrightarrow>
    bs = concat (map record_bytes ds) \<and> list_all well_formed_dtc ds"
proof
  assume "decode_dtc_and_status_records bs = Inr ds"
  then have len: "length bs mod 4 = 0" and ds: "ds = map decode_record (chunks_exact 4 bs)"
    by (auto simp: decode_dtc_and_status_records_def chunks_remainder_Nil_iff split: if_splits)
  have "map record_bytes ds = chunks_exact 4 bs"
    by (auto simp: ds comp_def intro!: map_idI record_bytes_decode dest: chunks_exact_elem_length)
  with len show "bs = concat (map record_bytes ds) \<and> list_all well_formed_dtc ds"
    by (simp add: concat_chunks_exact ds list_all_iff decode_record_well_formed)
qed (auto intro: decode_records_of_bytes)

section \<open>Normalisation\<close>

text \<open>The bytes of the request that a positive response repeats.\<close>

definition echo_of :: "u8 \<Rightarrow> bytes \<Rightarrow> bytes" where
  "echo_of sid req = take (if sid = 0x14 then 0 else if sid \<in> {0x22, 0x2E, 0x2F} then 2
    else if sid = 0x31 then 3 else 1) req"

definition complete_request :: "u8 \<Rightarrow> bytes \<Rightarrow> bool" where
  "complete_request sid req \<longleftrightarrow> (if sid = 0x14 then 0 else if sid \<in> {0x22, 0x2E, 0x2F} then 2
    else if sid = 0x31 then 3 else 1) \<le> length req"

lemma echo_match:
  "complete_request sid req \<Longrightarrow> raw_positive_response_matches_echo sid req d \<longleftrightarrow>
    (if sid = 0x14 then d = [] else starts_with d (echo_of sid req))"
  by (auto simp: raw_positive_response_matches_echo_def echo_of_def complete_request_def Let_def split: if_splits)

lemma positive_response_sid_Inr: "sid < 0xC0 \<Longrightarrow> positive_response_sid sid = Inr (sid + 0x40)"
  by (simp add: positive_response_sid_def checked_add_def word_less_nat_alt)

lemma positive_response_sid_Inl:
  "\<not> sid < 0xC0 \<Longrightarrow> positive_response_sid sid = Inl (ParseError (IsoTpMsg (NoPositiveSid sid)))"
  by (simp add: positive_response_sid_def checked_add_def word_less_nat_alt not_less)

text \<open>C9: A positive response is understood in both forms a transport can deliver. When the response data
  \<open>d\<close> repeats the request's identifiers, normalisation returns \<open>d\<close> from the full PDU (response
  service id first) and also from the stripped payload, as long as the stripped payload does not
  itself look like a negative response or like such a full PDU.\<close>

theorem normalize_accepts_both_forms:
  assumes "sid < 0xC0" "sid + 0x40 \<noteq> 0x7F" "complete_request sid req"
    and "if sid = 0x14 then d = [] else starts_with d (echo_of sid req)"
  shows "normalize_transport_payload sid req ((sid + 0x40) # d) = Inr d \<and>
    (d = [] \<or> hd d \<noteq> 0x7F \<and> \<not> (hd d = sid + 0x40 \<and> starts_with (tl d) (echo_of sid req))
      \<longrightarrow> normalize_transport_payload sid req d = Inr d)"
  using assms by (auto simp: normalize_transport_payload_def positive_response_sid_Inr echo_match
      split: list.split if_splits)

lemma normalize_accepts_both_forms_witness:
  "normalize_transport_payload 0x22 [0xF1, 0x90] ((0x22 + 0x40) # [0xF1, 0x90, 0x12]) = Inr [0xF1, 0x90, 0x12] \<and>
   normalize_transport_payload 0x22 [0xF1, 0x90] [0xF1, 0x90, 0x12] = Inr [0xF1, 0x90, 0x12]"
  using normalize_accepts_both_forms [of "0x22" "[0xF1, 0x90]" "[0xF1, 0x90, 0x12]"]
  by (simp add: complete_request_def echo_of_def)

lemma normalize_stripped:
  "sid < 0xC0 \<Longrightarrow> hd d \<noteq> 0x7F \<Longrightarrow> hd d \<noteq> sid + 0x40 \<Longrightarrow> normalize_transport_payload sid req d = Inr d"
  by (auto simp: normalize_transport_payload_def positive_response_sid_Inr split: list.split)

lemma strip_positive:
  "sid < 0xC0 \<Longrightarrow> sid + 0x40 \<noteq> 0x7F \<Longrightarrow> strip_response_for_request sid ((sid + 0x40) # d) = Inr d"
  by (simp add: strip_response_for_request_def checked_add_def word_less_nat_alt)

section \<open>UDS over ISO-TP\<close>

context can_bus
begin

lemma acts_isotp_response:
  assumes ids: "request_id p = response_id cfg" "request_id cfg \<le> 0x1FFFFFFF"
    and req: "length data \<le> 6" "7 \<le> max_payload_len cfg"
    and resp: "1 \<le> length resp" "length resp \<le> 4095" "length resp \<le> max_payload_len cfg"
      "\<not> is_response_pending_for sid resp"
  shows "acts (isotp_exchange ops cfg (broadcast_diagnostic sid data)) (pdu_frames p resp)
    (strip_response_for_request sid resp) (pdu_frames cfg (sid # data) @ pdu_flow_controls cfg resp)"
  by (rule acts_isotp_exchange [OF ids(2) req])
    (rule behaves_bind [OF acts_recv_pdu [OF ids resp(1-3)], where ?ins2.0 = "[]"],
     auto simp: pending_loop_other [OF resp(4)])

lemma acts_request_service:
  assumes ids: "request_id p = response_id cfg" "request_id cfg \<le> 0x1FFFFFFF"
    and req: "length data \<le> 6" "7 \<le> max_payload_len cfg"
    and sid: "sid < 0xC0" "sid + 0x40 \<noteq> 0x7F"
    and resp: "length d \<le> 4094" "Suc (length d) \<le> max_payload_len cfg"
  shows "acts (request_service (isotp_transport ops cfg) sid data) (pdu_frames p ((sid + 0x40) # d))
    (normalize_transport_payload sid data d)
    (pdu_frames cfg (sid # data) @ pdu_flow_controls cfg ((sid + 0x40) # d))"
proof -
  have "acts (isotp_exchange ops cfg (broadcast_diagnostic sid data)) (pdu_frames p ((sid + 0x40) # d))
      (Inr d) (pdu_frames cfg (sid # data) @ pdu_flow_controls cfg ((sid + 0x40) # d))"
    using acts_isotp_response [OF ids req, of "(sid + 0x40) # d" sid] resp sid
    by (simp add: is_response_pending_for_def strip_positive)
  then show ?thesis
    unfolding request_service_def isotp_transport_def
    by (intro behaves_bind [where ?ins2.0 = "[]" and ?outs2.0 = "[]"]) auto
qed

end

text \<open>C6: End to end on a bus: the client asks for a data identifier through the ISO-TP transport, the
  control unit answers with the identifier and any data, and the client returns exactly those data,
  having sent the request and the flow controls and read exactly the answer. Excluded are the
  identifiers whose high byte is 0x7F and the identifier 0x6262.\<close>

theorem uds_read_did_end_to_end:
  assumes "request_id p = response_id cfg" "request_id cfg \<le> 0x1FFFFFFF"
    and "length data \<le> 4092" "length data + 3 \<le> max_payload_len cfg" "7 \<le> max_payload_len cfg"
    and "hd (u16_to_be did) \<noteq> 0x7F" "did \<noteq> 0x6262"
  shows "read_data_by_identifier (isotp_transport mock_can cfg) did
      \<lparr>rx = pdu_frames p (0x62 # u16_to_be did @ data) @ unread, tx = t\<rparr> =
    (Inr data, \<lparr>rx = unread, tx = t @ pdu_frames cfg (0x22 # u16_to_be did)
      @ pdu_flow_controls cfg (0x62 # u16_to_be did @ data)\<rparr>)"
proof -
  have two: "u16_to_be did = [hd (u16_to_be did), last (u16_to_be did)]" by (simp add: u16_to_be_def)
  have "hd (u16_to_be did) \<noteq> 0x62 \<or> last (u16_to_be did) \<noteq> 0x62"
  proof (rule ccontr)
    assume "\<not> ?thesis"
    then have "did = u16_from_be 0x62 0x62"
      using u16_from_be_split [of did] by (simp add: u16_to_be_def)
    then have "did = 0x6262" by (simp add: u16_from_be_def)
    with assms(7) show False by simp
  qed
  with assms(6) have "normalize_transport_payload 0x22 (u16_to_be did) (u16_to_be did @ data)
      = Inr (u16_to_be did @ data)"
    by (subst (2 3) two, subst two)
      (auto simp: normalize_transport_payload_def positive_response_sid_Inr raw_positive_response_matches_echo_def Let_def)
  moreover have "behaves rx tx (request_service (isotp_transport mock_can cfg) 0x22 (u16_to_be did))
      (pdu_frames p (0x62 # u16_to_be did @ data)) (normalize_transport_payload 0x22 (u16_to_be did) (u16_to_be did @ data))
      (pdu_frames cfg (0x22 # u16_to_be did) @ pdu_flow_controls cfg (0x62 # u16_to_be did @ data))"
    using mock_bus.acts_request_service [OF assms(1,2), of "u16_to_be did" "0x22" "u16_to_be did @ data"] assms(3-5)
    by simp
  ultimately show ?thesis
    unfolding read_data_by_identifier_def Let_def
    by (intro mock_behaves behaves_bind [where ?ins2.0 = "[]" and ?outs2.0 = "[]"]) (auto simp: starts_with_iff)
qed

lemma uds_read_did_end_to_end_witness:
  "read_data_by_identifier (isotp_transport mock_can (isotp_config_new 0x7E0 0x7E8)) 0xF190
      \<lparr>rx = pdu_frames (isotp_config_new 0x7E8 0x7E0) (0x62 # u16_to_be 0xF190 @ replicate 17 0x41) @ [], tx = []\<rparr> =
    (Inr (replicate 17 0x41), \<lparr>rx = [], tx = [] @ pdu_frames (isotp_config_new 0x7E0 0x7E8) (0x22 # u16_to_be 0xF190)
      @ pdu_flow_controls (isotp_config_new 0x7E0 0x7E8) (0x62 # u16_to_be 0xF190 @ replicate 17 0x41)\<rparr>)"
  by (rule uds_read_did_end_to_end)
    (simp_all add: isotp_config_new_def max_classic_isotp_payload_def u16_to_be_def)

text \<open>C26: The identifiers with high byte 0x7F are lost: the transport has already removed the response
  service id, so a positive answer for such an identifier reaches the client with 0x7F in front and
  is reported as a negative response whose service is the identifier's low byte and whose code is
  the first data byte.\<close>

theorem uds_read_did_7f_misread:
  assumes "request_id p = response_id cfg" "request_id cfg \<le> 0x1FFFFFFF"
    and "length data \<le> 4091" "length data + 4 \<le> max_payload_len cfg" "7 \<le> max_payload_len cfg"
  shows "fst (read_data_by_identifier (isotp_transport mock_can cfg) (u16_from_be 0x7F lo)
      \<lparr>rx = pdu_frames p (0x62 # [0x7F, lo] @ b # data) @ unread, tx = t\<rparr>) =
    Inl (NegativeResponse lo (nrc_from_byte_or_unknown b))"
proof -
  have "normalize_transport_payload 0x22 [0x7F, lo] ([0x7F, lo] @ b # data)
      = Inl (NegativeResponse lo (nrc_from_byte_or_unknown b))"
    by (simp add: normalize_transport_payload_def parse_uds_response_def slice_first_def)
  moreover have "behaves rx tx (request_service (isotp_transport mock_can cfg) 0x22 [0x7F, lo])
      (pdu_frames p (0x62 # [0x7F, lo] @ b # data)) (normalize_transport_payload 0x22 [0x7F, lo] ([0x7F, lo] @ b # data))
      (pdu_frames cfg (0x22 # [0x7F, lo]) @ pdu_flow_controls cfg (0x62 # [0x7F, lo] @ b # data))"
    using mock_bus.acts_request_service [OF assms(1,2), of "[0x7F, lo]" "0x22" "[0x7F, lo] @ b # data"] assms(3-5)
    by simp
  ultimately have "behaves rx tx (request_service (isotp_transport mock_can cfg) 0x22 [0x7F, lo])
      (pdu_frames p (0x62 # [0x7F, lo] @ b # data)) (Inl (NegativeResponse lo (nrc_from_byte_or_unknown b)))
      (pdu_frames cfg (0x22 # [0x7F, lo]) @ pdu_flow_controls cfg (0x62 # [0x7F, lo] @ b # data))"
    by simp
  note run = mock_behaves [OF behaves_bind_Inl [OF this], of _ unread t]
  show ?thesis
    unfolding read_data_by_identifier_def Let_def u16_be_roundtrip run by simp
qed

lemma uds_read_did_7f_misread_witness:
  "fst (read_data_by_identifier (isotp_transport mock_can (isotp_config_new 0x7E0 0x7E8)) (u16_from_be 0x7F 0x10)
      \<lparr>rx = pdu_frames (isotp_config_new 0x7E8 0x7E0) (0x62 # [0x7F, 0x10] @ 0x31 # [0x05]) @ [], tx = []\<rparr>) =
    Inl (NegativeResponse 0x10 (nrc_from_byte_or_unknown 0x31))"
  by (rule uds_read_did_7f_misread)
    (simp_all add: isotp_config_new_def max_classic_isotp_payload_def)

text \<open>C7: End to end on a bus: the control unit reports its availability mask and any list of trouble codes
  with status that fits an ISO-TP message, and \<open>report_dtcs_by_status_mask\<close> returns the mask and
  exactly these codes, in order.\<close>

theorem uds_dtc_report_end_to_end:
  assumes "request_id p = response_id cfg" "request_id cfg \<le> 0x1FFFFFFF"
    and "list_all well_formed_dtc ds" "4 * length ds + 3 \<le> 4095"
    and "4 * length ds + 3 \<le> max_payload_len cfg" "7 \<le> max_payload_len cfg"
  shows "fst (report_dtcs_by_status_mask (isotp_transport mock_can cfg) wanted
      \<lparr>rx = pdu_frames p (0x59 # 0x02 # avail # concat (map record_bytes ds)) @ unread, tx = t\<rparr>) =
    Inr \<lparr>ur_subfunction = 0x02, ur_status_availability_mask = avail, ur_dtcs = ds\<rparr>"
proof -
  let ?d = "0x02 # avail # concat (map record_bytes ds)"
  have four: "length (record_bytes d) = 4" for d by (simp add: record_bytes_def split: prod.split)
  then have len: "length (concat (map record_bytes ds)) = 4 * length ds"
    using length_concat_const [of "map record_bytes ds" 4] by auto
  have decoded: "decode_dtc_and_status_records (concat (map record_bytes ds)) = Inr ds"
    using decode_records_of_bytes assms(3) .
  have "normalize_transport_payload 0x19 [0x02, wanted] ?d = Inr ?d"
    by (rule normalize_stripped) simp_all
  with mock_bus.acts_request_service [OF assms(1,2), of "[0x02, wanted]" "0x19" ?d] assms(4-6) len
  have "behaves rx tx (request_service (isotp_transport mock_can cfg) 0x19 [0x02, wanted])
      (pdu_frames p (0x59 # ?d)) (Inr ?d) (pdu_frames cfg [0x19, 0x02, wanted] @ pdu_flow_controls cfg (0x59 # ?d))"
    by simp
  from mock_behaves [OF this, of unread t] show ?thesis
    by (simp add: report_dtcs_by_status_mask_def read_dtc_information_def bind_act_def
        split_required_echo_def slice_first_def decoded)
qed

lemma uds_dtc_report_end_to_end_witness:
  "fst (report_dtcs_by_status_mask (isotp_transport mock_can (isotp_config_new 0x7E0 0x7E8)) 0xFF
      \<lparr>rx = pdu_frames (isotp_config_new 0x7E8 0x7E0)
          (0x59 # 0x02 # 0x8F # concat (map record_bytes [decode_record [0x03, 0x01, 0x11, 0x0B], decode_record [0x04, 0x20, 0x00, 0x2F]])) @ [],
       tx = []\<rparr>) =
    Inr \<lparr>ur_subfunction = 0x02, ur_status_availability_mask = 0x8F,
         ur_dtcs = [decode_record [0x03, 0x01, 0x11, 0x0B], decode_record [0x04, 0x20, 0x00, 0x2F]]\<rparr>"
  by (rule uds_dtc_report_end_to_end)
    (simp_all add: isotp_config_new_def max_classic_isotp_payload_def decode_record_well_formed)

end
