(* ===== verification/DoIp.thy ===== *)
theory DoIp
  imports Errors
begin

text \<open>
  Diagnostics over IP (\<open>protocol/doip.rs\<close>): the generic header, packets, payload codecs, the
  transport over a byte stream and the diagnostic client. A \<open>[u8; n]\<close> is a byte list, whose length the
  well-formedness predicates state. The byte stream (\<open>AsyncRead + AsyncWrite\<close>) is a parameter.
\<close>

section \<open>Constants and payload types\<close>

definition doip_header_len :: nat where "doip_header_len = 8"

definition doip_protocol_version_2012 :: u8 where "doip_protocol_version_2012 = 0x02"

definition doip_version_default :: u8 where "doip_version_default = doip_protocol_version_2012"

definition doip_max_payload_len :: u32 where "doip_max_payload_len = 16 * 1024 * 1024"

definition doip_routing_activation_success :: u8 where "doip_routing_activation_success = 0x10"

definition doip_max_diagnostic_events :: nat where "doip_max_diagnostic_events = 16"

datatype doip_payload_type =
    GenericNegativeAck | VehicleIdentificationRequest | VehicleIdentificationRequestWithEid
  | VehicleIdentificationRequestWithVin | VehicleAnnouncement | RoutingActivationRequest
  | RoutingActivationResponse | AliveCheckRequest | AliveCheckResponse | EntityStatusRequest
  | EntityStatusResponse | DiagnosticPowerModeRequest | DiagnosticPowerModeResponse
  | DiagnosticMessage | DiagnosticPositiveAck | DiagnosticNegativeAck | UnknownPayloadType u16

definition payload_type_from_u16 :: "u16 \<Rightarrow> doip_payload_type" where
  "payload_type_from_u16 v =
    (if v = 0x0000 then GenericNegativeAck
     else if v = 0x0001 then VehicleIdentificationRequest
     else if v = 0x0002 then VehicleIdentificationRequestWithEid
     else if v = 0x0003 then VehicleIdentificationRequestWithVin
     else if v = 0x0004 then VehicleAnnouncement
     else if v = 0x0005 then RoutingActivationRequest
     else if v = 0x0006 then RoutingActivationResponse
     else if v = 0x0007 then AliveCheckRequest
     else if v = 0x0008 then AliveCheckResponse
     else if v = 0x4001 then EntityStatusRequest
     else if v = 0x4002 then EntityStatusResponse
     else if v = 0x4003 then DiagnosticPowerModeRequest
     else if v = 0x4004 then DiagnosticPowerModeResponse
     else if v = 0x8001 then DiagnosticMessage
     else if v = 0x8002 then DiagnosticPositiveAck
     else if v = 0x8003 then DiagnosticNegativeAck
     else UnknownPayloadType v)"

primrec payload_type_as_u16 :: "doip_payload_type \<Rightarrow> u16" where
  "payload_type_as_u16 GenericNegativeAck = 0x0000"
| "payload_type_as_u16 VehicleIdentificationRequest = 0x0001"
| "payload_type_as_u16 VehicleIdentificationRequestWithEid = 0x0002"
| "payload_type_as_u16 VehicleIdentificationRequestWithVin = 0x0003"
| "payload_type_as_u16 VehicleAnnouncement = 0x0004"
| "payload_type_as_u16 RoutingActivationRequest = 0x0005"
| "payload_type_as_u16 RoutingActivationResponse = 0x0006"
| "payload_type_as_u16 AliveCheckRequest = 0x0007"
| "payload_type_as_u16 AliveCheckResponse = 0x0008"
| "payload_type_as_u16 EntityStatusRequest = 0x4001"
| "payload_type_as_u16 EntityStatusResponse = 0x4002"
| "payload_type_as_u16 DiagnosticPowerModeRequest = 0x4003"
| "payload_type_as_u16 DiagnosticPowerModeResponse = 0x4004"
| "payload_type_as_u16 DiagnosticMessage = 0x8001"
| "payload_type_as_u16 DiagnosticPositiveAck = 0x8002"
| "payload_type_as_u16 DiagnosticNegativeAck = 0x8003"
| "payload_type_as_u16 (UnknownPayloadType v) = v"

section \<open>Header and packet\<close>

record doip_header =
  dh_protocol_version :: u8
  dh_inverse_protocol_version :: u8
  dh_payload_type :: doip_payload_type
  dh_payload_length :: u32

definition doip_length_error :: "u32 \<Rightarrow> obd2_error" where
  "doip_length_error len =
    ParseError (Fmt ''DoIP payload length {} exceeds configured maximum {}''
      [ArgNat (unat len), ArgNat (unat doip_max_payload_len)])"

definition dh_with_version :: "u8 \<Rightarrow> doip_payload_type \<Rightarrow> u32 \<Rightarrow> doip_header res" where
  "dh_with_version version ptype len =
    (if doip_max_payload_len < len then Inl (doip_length_error len)
     else Inr \<lparr>dh_protocol_version = version, dh_inverse_protocol_version = NOT version,
               dh_payload_type = ptype, dh_payload_length = len\<rparr>)"

definition dh_new :: "doip_payload_type \<Rightarrow> u32 \<Rightarrow> doip_header res" where
  "dh_new ptype len = dh_with_version doip_version_default ptype len"

definition dh_parse :: "bytes \<Rightarrow> doip_header res" where
  "dh_parse bytes =
    (if length bytes < doip_header_len
     then Inl (ParseError (Fmt ''DoIP header requires {} bytes, got {}''
            [ArgNat doip_header_len, ArgNat (length bytes)]))
     else
       (let version = bytes ! 0; inverse = bytes ! 1
        in if inverse \<noteq> NOT version
           then Inl (ParseError (Fmt ''DoIP inverse protocol version mismatch: version 0x{:02X}, inverse 0x{:02X}''
                  [ArgNat (unat version), ArgNat (unat inverse)]))
           else
             (let ptype = payload_type_from_u16 (u16_from_be (bytes ! 2) (bytes ! 3));
                  len = u32_from_be (bytes ! 4) (bytes ! 5) (bytes ! 6) (bytes ! 7)
              in if doip_max_payload_len < len then Inl (doip_length_error len)
                 else Inr \<lparr>dh_protocol_version = version, dh_inverse_protocol_version = inverse,
                           dh_payload_type = ptype, dh_payload_length = len\<rparr>)))"

definition dh_encode :: "doip_header \<Rightarrow> bytes" where
  "dh_encode h =
    [dh_protocol_version h, dh_inverse_protocol_version h]
      @ u16_to_be (payload_type_as_u16 (dh_payload_type h)) @ u32_to_be (dh_payload_length h)"

record doip_message =
  dp_header :: doip_header
  dp_payload :: bytes

definition dp_with_version :: "u8 \<Rightarrow> doip_payload_type \<Rightarrow> bytes \<Rightarrow> doip_message res" where
  "dp_with_version version ptype payload =
    (if 2 ^ 32 \<le> length payload
     then Inl (ParseError (Fmt ''DoIP payload length {} exceeds u32 header range'' [ArgNat (length payload)]))
     else bind_res (dh_with_version version ptype (of_nat (length payload))) (\<lambda>h.
       Inr \<lparr>dp_header = h, dp_payload = payload\<rparr>))"

definition dp_new :: "doip_payload_type \<Rightarrow> bytes \<Rightarrow> doip_message res" where
  "dp_new ptype payload = dp_with_version doip_version_default ptype payload"

text \<open>
  \<open>DOIP_HEADER_LEN.checked_add(payload_length as usize)\<close> cannot overflow: the header parser has
  bounded the length by 16 MiB.
\<close>

definition dp_total_len :: "doip_header \<Rightarrow> nat" where
  "dp_total_len h = doip_header_len + unat (dh_payload_length h)"

definition dp_parse :: "bytes \<Rightarrow> doip_message res" where
  "dp_parse bytes =
    bind_res (dh_parse bytes) (\<lambda>h.
      let total_len = dp_total_len h
      in if length bytes \<noteq> total_len
         then Inl (ParseError (Fmt ''DoIP packet length mismatch: header says {} bytes, buffer has {}''
                [ArgNat total_len, ArgNat (length bytes)]))
         else Inr \<lparr>dp_header = h, dp_payload = drop doip_header_len bytes\<rparr>)"

definition dp_parse_prefix :: "bytes \<Rightarrow> (doip_message \<times> nat) option res" where
  "dp_parse_prefix bytes =
    (if length bytes < doip_header_len then Inr None
     else bind_res (dh_parse bytes) (\<lambda>h.
       let total_len = dp_total_len h
       in if length bytes < total_len then Inr None
          else Inr (Some (\<lparr>dp_header = h, dp_payload = drop doip_header_len (take total_len bytes)\<rparr>, total_len))))"

definition dp_encode :: "doip_message \<Rightarrow> bytes" where
  "dp_encode m = dh_encode (dp_header m) @ dp_payload m"

definition encode_doip_message :: "doip_payload_type \<Rightarrow> bytes \<Rightarrow> bytes res" where
  "encode_doip_message ptype payload = bind_res (dp_new ptype payload) (\<lambda>m. Inr (dp_encode m))"

definition parse_doip_message :: "bytes \<Rightarrow> doip_message res" where
  "parse_doip_message bytes = dp_parse bytes"

definition parse_doip_message_prefix :: "bytes \<Rightarrow> (doip_message \<times> nat) option res" where
  "parse_doip_message_prefix bytes = dp_parse_prefix bytes"

section \<open>Payloads\<close>

datatype doip_generic_nack = GenericNack (nack_code: u8)

definition gna_parse :: "bytes \<Rightarrow> doip_generic_nack res" where
  "gna_parse payload =
    (if length payload \<noteq> 1
     then Inl (ParseError (Fmt ''DoIP generic negative ACK payload must be 1 byte, got {}'' [ArgNat (length payload)]))
     else Inr (GenericNack (payload ! 0)))"

definition gna_to_payload :: "doip_generic_nack \<Rightarrow> bytes" where
  "gna_to_payload n = [nack_code n]"

record doip_diagnostic_message =
  dg_source :: u16
  dg_target :: u16
  dg_user_data :: bytes

definition dg_parse :: "bytes \<Rightarrow> doip_diagnostic_message res" where
  "dg_parse payload =
    (if length payload < 4
     then Inl (ParseError (Fmt ''DoIP diagnostic payload requires at least 4 bytes, got {}'' [ArgNat (length payload)]))
     else Inr \<lparr>dg_source = u16_from_be (payload ! 0) (payload ! 1),
               dg_target = u16_from_be (payload ! 2) (payload ! 3),
               dg_user_data = drop 4 payload\<rparr>)"

definition dg_to_payload :: "doip_diagnostic_message \<Rightarrow> bytes" where
  "dg_to_payload d = u16_to_be (dg_source d) @ u16_to_be (dg_target d) @ dg_user_data d"

record doip_diagnostic_ack =
  da_source :: u16
  da_target :: u16
  da_ack_code :: u8
  da_previous_message_data :: bytes

definition da_parse :: "bytes \<Rightarrow> doip_diagnostic_ack res" where
  "da_parse payload =
    (if length payload < 5
     then Inl (ParseError (Fmt ''DoIP diagnostic ACK payload requires at least 5 bytes, got {}'' [ArgNat (length payload)]))
     else Inr \<lparr>da_source = u16_from_be (payload ! 0) (payload ! 1),
               da_target = u16_from_be (payload ! 2) (payload ! 3),
               da_ack_code = payload ! 4,
               da_previous_message_data = drop 5 payload\<rparr>)"

definition da_to_payload :: "doip_diagnostic_ack \<Rightarrow> bytes" where
  "da_to_payload d = u16_to_be (da_source d) @ u16_to_be (da_target d) @ [da_ack_code d] @ da_previous_message_data d"

record routing_activation_request =
  rq_source :: u16
  rq_activation_type :: u8
  rq_reserved_iso :: bytes
  rq_reserved_oem :: "bytes option"

definition rq_new :: "u16 \<Rightarrow> u8 \<Rightarrow> routing_activation_request" where
  "rq_new source activation_type =
    \<lparr>rq_source = source, rq_activation_type = activation_type, rq_reserved_iso = [0, 0, 0, 0], rq_reserved_oem = None\<rparr>"

definition rq_parse :: "bytes \<Rightarrow> routing_activation_request res" where
  "rq_parse payload =
    (if length payload \<noteq> 7 \<and> length payload \<noteq> 11
     then Inl (ParseError (Fmt ''DoIP routing activation request must be 7 or 11 bytes, got {}'' [ArgNat (length payload)]))
     else Inr \<lparr>rq_source = u16_from_be (payload ! 0) (payload ! 1),
               rq_activation_type = payload ! 2,
               rq_reserved_iso = take 4 (drop 3 payload),
               rq_reserved_oem = (if length payload = 11 then Some (take 4 (drop 7 payload)) else None)\<rparr>)"

definition rq_to_payload :: "routing_activation_request \<Rightarrow> bytes" where
  "rq_to_payload r =
    u16_to_be (rq_source r) @ [rq_activation_type r] @ rq_reserved_iso r
      @ (case rq_reserved_oem r of Some oem \<Rightarrow> oem | None \<Rightarrow> [])"

record routing_activation_response =
  rs_tester :: u16
  rs_entity :: u16
  rs_response_code :: u8
  rs_reserved_iso :: bytes
  rs_reserved_oem :: "bytes option"

definition rs_parse :: "bytes \<Rightarrow> routing_activation_response res" where
  "rs_parse payload =
    (if length payload \<noteq> 9 \<and> length payload \<noteq> 13
     then Inl (ParseError (Fmt ''DoIP routing activation response must be 9 or 13 bytes, got {}'' [ArgNat (length payload)]))
     else Inr \<lparr>rs_tester = u16_from_be (payload ! 0) (payload ! 1),
               rs_entity = u16_from_be (payload ! 2) (payload ! 3),
               rs_response_code = payload ! 4,
               rs_reserved_iso = take 4 (drop 5 payload),
               rs_reserved_oem = (if length payload = 13 then Some (take 4 (drop 9 payload)) else None)\<rparr>)"

definition rs_to_payload :: "routing_activation_response \<Rightarrow> bytes" where
  "rs_to_payload r =
    u16_to_be (rs_tester r) @ u16_to_be (rs_entity r) @ [rs_response_code r] @ rs_reserved_iso r
      @ (case rs_reserved_oem r of Some oem \<Rightarrow> oem | None \<Rightarrow> [])"

record doip_vehicle_identification =
  vi_vin :: bytes
  vi_logical_address :: u16
  vi_eid :: bytes
  vi_gid :: bytes
  vi_further_action_required :: u8
  vi_vin_gid_sync_status :: "u8 option"

definition vi_parse :: "bytes \<Rightarrow> doip_vehicle_identification res" where
  "vi_parse payload =
    (if length payload \<noteq> 32 \<and> length payload \<noteq> 33
     then Inl (ParseError (Fmt ''DoIP vehicle-identification payload must be 32 or 33 bytes, got {}'' [ArgNat (length payload)]))
     else Inr \<lparr>vi_vin = take 17 payload,
               vi_logical_address = u16_from_be (payload ! 17) (payload ! 18),
               vi_eid = take 6 (drop 19 payload),
               vi_gid = take 6 (drop 25 payload),
               vi_further_action_required = payload ! 31,
               vi_vin_gid_sync_status = (if 32 < length payload then Some (payload ! 32) else None)\<rparr>)"

definition vi_to_payload :: "doip_vehicle_identification \<Rightarrow> bytes" where
  "vi_to_payload v =
    vi_vin v @ u16_to_be (vi_logical_address v) @ vi_eid v @ vi_gid v @ [vi_further_action_required v]
      @ (case vi_vin_gid_sync_status v of Some s \<Rightarrow> [s] | None \<Rightarrow> [])"

definition dp_diagnostic :: "u16 \<Rightarrow> u16 \<Rightarrow> bytes \<Rightarrow> doip_message res" where
  "dp_diagnostic source target user_data =
    dp_new DiagnosticMessage (dg_to_payload \<lparr>dg_source = source, dg_target = target, dg_user_data = user_data\<rparr>)"

definition dp_routing_activation_request :: "routing_activation_request \<Rightarrow> doip_message res" where
  "dp_routing_activation_request r = dp_new RoutingActivationRequest (rq_to_payload r)"

section \<open>Transport over a byte stream\<close>

record 's byte_stream =
  write_all :: "bytes \<Rightarrow> ('s, obd2_error, unit) act"
  flush_stream :: "('s, obd2_error, unit) act"
  read_exact :: "nat \<Rightarrow> ('s, obd2_error, bytes) act"

record 's doip_transport =
  dt_send :: "doip_message \<Rightarrow> ('s, obd2_error, unit) act"
  dt_recv :: "('s, obd2_error, doip_message) act"

definition dt_exchange :: "'s doip_transport \<Rightarrow> doip_message \<Rightarrow> ('s, obd2_error, doip_message) act" where
  "dt_exchange t m = seq_act (dt_send t m) (dt_recv t)"

definition stream_send :: "'s byte_stream \<Rightarrow> doip_message \<Rightarrow> ('s, obd2_error, unit) act" where
  "stream_send st m =
    seq_act (write_all st (dh_encode (dp_header m)))
      (seq_act (write_all st (dp_payload m))
        (seq_act (flush_stream st) (ret ())))"

definition stream_recv :: "'s byte_stream \<Rightarrow> ('s, obd2_error, doip_message) act" where
  "stream_recv st =
    bind_act (read_exact st doip_header_len) (\<lambda>header_bytes.
    bind_act (lift_res (dh_parse header_bytes)) (\<lambda>h.
    bind_act (read_exact st (unat (dh_payload_length h))) (\<lambda>payload.
    ret \<lparr>dp_header = h, dp_payload = payload\<rparr>)))"

definition stream_transport :: "'s byte_stream \<Rightarrow> 's doip_transport" where
  "stream_transport st = \<lparr>dt_send = stream_send st, dt_recv = stream_recv st\<rparr>"

section \<open>Client\<close>

record 't doip_client =
  dc_transport :: 't
  dc_tester :: u16
  dc_entity :: u16

definition dc_new :: "'t \<Rightarrow> u16 \<Rightarrow> u16 \<Rightarrow> 't doip_client" where
  "dc_new t tester entity = \<lparr>dc_transport = t, dc_tester = tester, dc_entity = entity\<rparr>"

definition dc_set_entity_address :: "'t doip_client \<Rightarrow> u16 \<Rightarrow> 't doip_client" where
  "dc_set_entity_address c entity = c\<lparr>dc_entity := entity\<rparr>"

text \<open>\<open>self.transport.op(..).await?\<close> and an assignment to a field.\<close>

definition on_transport :: "('t, obd2_error, 'a) act \<Rightarrow> ('t doip_client, obd2_error, 'a) act" where
  "on_transport m c = (let (r, t) = m (dc_transport c) in (r, c\<lparr>dc_transport := t\<rparr>))"

definition set_entity :: "u16 \<Rightarrow> ('t doip_client, obd2_error, unit) act" where
  "set_entity entity c = (Inr (), dc_set_entity_address c entity)"

definition doip_generic_nack_error :: "bytes \<Rightarrow> 'a res" where
  "doip_generic_nack_error payload =
    bind_res (gna_parse payload) (\<lambda>n.
      Inl (Transport (Fmt ''DoIP generic negative ACK 0x{:02X}'' [ArgNat (unat (nack_code n))])))"

definition dc_routing_activation ::
  "'t doip_transport \<Rightarrow> u8 \<Rightarrow> ('t doip_client, obd2_error, routing_activation_response) act" where
  "dc_routing_activation t activation_type c =
    bind_act (lift_res (dp_routing_activation_request (rq_new (dc_tester c) activation_type))) (\<lambda>message.
    bind_act (on_transport (dt_exchange t message)) (\<lambda>response.
    let ptype = dh_payload_type (dp_header response) in
    if ptype = GenericNegativeAck then lift_res (doip_generic_nack_error (dp_payload response))
    else if ptype \<noteq> RoutingActivationResponse
      then fail (ParseError (Fmt ''expected DoIP routing activation response, got payload type 0x{:04X}''
             [ArgNat (unat (payload_type_as_u16 ptype))]))
    else bind_act (lift_res (rs_parse (dp_payload response))) (\<lambda>activation.
      if rs_tester activation \<noteq> dc_tester c
      then fail (ParseError (Fmt ''DoIP routing activation response tester address 0x{:04X} does not match request 0x{:04X}''
             [ArgNat (unat (rs_tester activation)), ArgNat (unat (dc_tester c))]))
      else seq_act (set_entity (rs_entity activation)) (ret activation)))) c"

definition dc_activate_routing ::
  "'t doip_transport \<Rightarrow> u8 \<Rightarrow> ('t doip_client, obd2_error, routing_activation_response) act" where
  "dc_activate_routing t activation_type =
    bind_act (dc_routing_activation t activation_type) (\<lambda>activation.
    if rs_response_code activation = doip_routing_activation_success then ret activation
    else fail (Transport (Fmt ''DoIP routing activation failed with response code 0x{:02X}''
           [ArgNat (unat (rs_response_code activation))])))"

definition dc_validate_addresses :: "'t doip_client \<Rightarrow> u16 \<Rightarrow> u16 \<Rightarrow> string \<Rightarrow> unit res" where
  "dc_validate_addresses c source target label =
    (if source \<noteq> dc_entity c \<or> target \<noteq> dc_tester c
     then Inl (ParseError (Fmt ''DoIP {} addresses source=0x{:04X} target=0x{:04X}; expected source=0x{:04X} target=0x{:04X}''
            [ArgStr label, ArgNat (unat source), ArgNat (unat target), ArgNat (unat (dc_entity c)), ArgNat (unat (dc_tester c))]))
     else Inr ())"

primrec diag_events :: "'t doip_transport \<Rightarrow> nat \<Rightarrow> ('t doip_client, obd2_error, bytes) act" where
  "diag_events t 0 = fail Timeout"
| "diag_events t (Suc n) =
    bind_act (on_transport (dt_recv t)) (\<lambda>response c.
      let ptype = dh_payload_type (dp_header response) in
      if ptype = DiagnosticMessage then
        bind_act (lift_res (dg_parse (dp_payload response))) (\<lambda>d.
        seq_act (lift_res (dc_validate_addresses c (dg_source d) (dg_target d) ''diagnostic response''))
          (ret (dg_user_data d))) c
      else if ptype = DiagnosticPositiveAck then
        bind_act (lift_res (da_parse (dp_payload response))) (\<lambda>a.
        seq_act (lift_res (dc_validate_addresses c (da_source a) (da_target a) ''diagnostic positive ACK''))
          (diag_events t n)) c
      else if ptype = DiagnosticNegativeAck then
        bind_act (lift_res (da_parse (dp_payload response))) (\<lambda>a.
        seq_act (lift_res (dc_validate_addresses c (da_source a) (da_target a) ''diagnostic negative ACK''))
          (fail (Transport (Fmt ''DoIP diagnostic negative ACK 0x{:02X}'' [ArgNat (unat (da_ack_code a))])))) c
      else if ptype = GenericNegativeAck then lift_res (doip_generic_nack_error (dp_payload response)) c
      else fail (ParseError (Fmt ''unexpected DoIP payload type 0x{:04X} during diagnostic exchange''
             [ArgNat (unat (payload_type_as_u16 ptype))])) c)"

definition dc_send_diagnostic :: "'t doip_transport \<Rightarrow> bytes \<Rightarrow> ('t doip_client, obd2_error, bytes) act" where
  "dc_send_diagnostic t user_data c =
    (if user_data = [] then fail (ParseError (Text ''DoIP diagnostic user data is empty''))
     else
       bind_act (lift_res (dp_diagnostic (dc_tester c) (dc_entity c) user_data)) (\<lambda>request.
       seq_act (on_transport (dt_send t request)) (diag_events t doip_max_diagnostic_events))) c"

end
