(* ===== verification/DoIpLaws.thy ===== *)
theory DoIpLaws
  imports DoIp
begin

text \<open>
  Correctness of the DoIP codec and client: packets and payloads round trip, a stream prefix is cut
  into the packets that were written to it, and the client, proved once against any link that
  delivers messages (locale \<open>doip_link\<close>), runs over the model of \<open>DoIpStreamTransport\<close>.
\<close>

section \<open>Packets\<close>

lemma payload_type_from_as: "payload_type_as_u16 (payload_type_from_u16 v) = v"
  by (simp add: payload_type_from_u16_def)

definition payload_type_wf :: "doip_payload_type \<Rightarrow> bool" where
  "payload_type_wf p \<longleftrightarrow> payload_type_from_u16 (payload_type_as_u16 p) = p"

lemma payload_type_wf_simps [simp]: "payload_type_wf (payload_type_from_u16 v)"
  "payload_type_wf DiagnosticMessage" "payload_type_wf DiagnosticPositiveAck" "payload_type_wf DiagnosticNegativeAck"
  "payload_type_wf RoutingActivationRequest" "payload_type_wf RoutingActivationResponse" "payload_type_wf GenericNegativeAck"
  by (simp_all add: payload_type_wf_def payload_type_from_as) (simp_all add: payload_type_from_u16_def)

definition dh_wf :: "doip_header \<Rightarrow> bool" where
  "dh_wf h \<longleftrightarrow> dh_inverse_protocol_version h = NOT (dh_protocol_version h)
     \<and> payload_type_wf (dh_payload_type h) \<and> dh_payload_length h \<le> doip_max_payload_len"

definition dp_wf :: "doip_message \<Rightarrow> bool" where
  "dp_wf m \<longleftrightarrow> dh_wf (dp_header m) \<and> length (dp_payload m) = unat (dh_payload_length (dp_header m))"

lemma length_dh_encode [simp]: "length (dh_encode h) = 8"
  by (simp add: dh_encode_def)

lemma u16_to_be_bytes: "u16_from_be (u16_to_be w ! 0) (u16_to_be w ! Suc 0) = w"
  by (simp add: u16_to_be_def u16_from_be_split)

lemma u32_to_be_bytes: "u32_from_be (u32_to_be w ! 0) (u32_to_be w ! Suc 0) (u32_to_be w ! 2) (u32_to_be w ! 3) = w"
  by (simp add: u32_to_be_def u32_from_be_split)

lemma dh_parse_encode: "dh_wf h \<Longrightarrow> dh_parse (dh_encode h @ rest) = Inr h"
  by (cases h) (simp add: dh_parse_def dh_encode_def dh_wf_def doip_header_len_def Let_def payload_type_wf_def
      nth_append u16_to_be_bytes u32_to_be_bytes not_less)

lemma dh_parse_Inr: "dh_parse bytes = Inr h \<longleftrightarrow> 8 \<le> length bytes \<and> dh_wf h \<and> dh_encode h = take 8 bytes"
proof
  assume p: "dh_parse bytes = Inr h"
  then have "8 \<le> length bytes" by (auto simp: dh_parse_def doip_header_len_def split: if_splits)
  then obtain a b c d e f g i rest where "bytes = a # b # c # d # e # f # g # i # rest"
    by (auto simp: numeral_eq_Suc Suc_le_length_iff)
  with p show "8 \<le> length bytes \<and> dh_wf h \<and> dh_encode h = take 8 bytes"
    by (auto simp: dh_parse_def dh_wf_def dh_encode_def Let_def payload_type_from_as u16_be_roundtrip u32_be_roundtrip
        not_less split: if_splits)
next
  assume "8 \<le> length bytes \<and> dh_wf h \<and> dh_encode h = take 8 bytes"
  then show "dh_parse bytes = Inr h" using dh_parse_encode [of h "drop 8 bytes"] by simp
qed

lemma dp_parse_Inr: "dp_parse bytes = Inr m \<longleftrightarrow> dp_wf m \<and> dp_encode m = bytes"
proof
  assume "dp_parse bytes = Inr m"
  then obtain h where h: "dh_parse bytes = Inr h" and len: "length bytes = dp_total_len h"
    and m: "m = \<lparr>dp_header = h, dp_payload = drop 8 bytes\<rparr>"
    by (auto simp: dp_parse_def Let_def doip_header_len_def split: if_splits)
  then show "dp_wf m \<and> dp_encode m = bytes"
    by (auto simp: dh_parse_Inr dp_wf_def dp_encode_def dp_total_len_def doip_header_len_def)
next
  assume m: "dp_wf m \<and> dp_encode m = bytes"
  then have "dh_parse bytes = Inr (dp_header m)" using dh_parse_encode [of "dp_header m" "dp_payload m"]
    by (auto simp: dp_wf_def dp_encode_def)
  with m show "dp_parse bytes = Inr m"
    by (cases m) (auto simp: dp_parse_def dp_total_len_def doip_header_len_def dp_wf_def dp_encode_def)
qed

lemma dp_parse_prefix_encode: "dp_wf m \<Longrightarrow> dp_parse_prefix (dp_encode m @ rest) = Inr (Some (m, length (dp_encode m)))"
  using dh_parse_encode [of "dp_header m" "dp_payload m @ rest"]
  by (cases m) (auto simp: dp_parse_prefix_def dp_total_len_def doip_header_len_def dp_wf_def dp_encode_def)

text \<open>C24: A buffer parses to a packet exactly when the packet is well formed and prints to the buffer. The stream parser
  finds a packet exactly when the buffer starts with its encoding, and asks for more bytes on every proper prefix of
  an encoding.\<close>

theorem doip_packet_roundtrip:
  "(parse_doip_message bytes = Inr m \<longleftrightarrow> dp_wf m \<and> dp_encode m = bytes)
   \<and> (parse_doip_message_prefix bytes = Inr (Some (m, n)) \<longleftrightarrow>
        dp_wf m \<and> n = length (dp_encode m) \<and> starts_with bytes (dp_encode m))
   \<and> (dp_wf m \<and> k < length (dp_encode m) \<longrightarrow> parse_doip_message_prefix (take k (dp_encode m)) = Inr None)"
proof (intro conjI impI)
  show "parse_doip_message bytes = Inr m \<longleftrightarrow> dp_wf m \<and> dp_encode m = bytes"
    by (simp add: parse_doip_message_def dp_parse_Inr)
  show "parse_doip_message_prefix bytes = Inr (Some (m, n)) \<longleftrightarrow>
        dp_wf m \<and> n = length (dp_encode m) \<and> starts_with bytes (dp_encode m)"
  proof
    assume "parse_doip_message_prefix bytes = Inr (Some (m, n))"
    then obtain h where h: "dh_parse bytes = Inr h" and len: "dp_total_len h \<le> length bytes" and n: "n = dp_total_len h"
      and m: "m = \<lparr>dp_header = h, dp_payload = drop 8 (take (dp_total_len h) bytes)\<rparr>"
      by (auto simp: parse_doip_message_prefix_def dp_parse_prefix_def Let_def doip_header_len_def not_less split: if_splits)
    have "dp_encode m = take (dp_total_len h) bytes"
      using h len by (auto simp: m dh_parse_Inr dp_encode_def dp_total_len_def doip_header_len_def drop_take take_add)
    then have "starts_with bytes (dp_encode m)" by (metis append_take_drop_id starts_with_iff)
    moreover have "dp_wf m" "n = length (dp_encode m)"
      using h len by (auto simp: m n dh_parse_Inr dp_wf_def dp_encode_def dp_total_len_def doip_header_len_def)
    ultimately show "dp_wf m \<and> n = length (dp_encode m) \<and> starts_with bytes (dp_encode m)" by simp
  next
    assume "dp_wf m \<and> n = length (dp_encode m) \<and> starts_with bytes (dp_encode m)"
    then show "parse_doip_message_prefix bytes = Inr (Some (m, n))"
      by (auto simp: parse_doip_message_prefix_def starts_with_iff dp_parse_prefix_encode)
  qed
  assume *: "dp_wf m \<and> k < length (dp_encode m)"
  show "parse_doip_message_prefix (take k (dp_encode m)) = Inr None"
  proof (cases "k < 8")
    case True
    then have "length (take k (dp_encode m)) < 8" by simp
    then show ?thesis by (simp only: parse_doip_message_prefix_def dp_parse_prefix_def doip_header_len_def if_True)
  next
    case False
    then have "take k (dp_encode m) = dh_encode (dp_header m) @ take (k - 8) (dp_payload m)"
      by (simp add: dp_encode_def)
    then have "dh_parse (take k (dp_encode m)) = Inr (dp_header m)"
      using * dh_parse_encode by (simp add: dp_wf_def)
    with * False show ?thesis
      by (auto simp: parse_doip_message_prefix_def dp_parse_prefix_def doip_header_len_def dp_total_len_def dp_wf_def dp_encode_def Let_def)
  qed
qed

lemma dp_new_Inr:
  "dp_new p payload = Inr m \<longleftrightarrow> length payload \<le> 16 * 1024 * 1024 \<and>
    m = \<lparr>dp_header = \<lparr>dh_protocol_version = 2, dh_inverse_protocol_version = NOT 2, dh_payload_type = p,
          dh_payload_length = of_nat (length payload)\<rparr>, dp_payload = payload\<rparr>"
proof -
  have "doip_max_payload_len < of_nat (length payload) \<longleftrightarrow> 16 * 1024 * 1024 < length payload" if "length payload < 2 ^ 32"
    using that by (simp add: doip_max_payload_len_def word_less_nat_alt unat_of_nat)
  then show ?thesis
    by (auto simp: dp_new_def dp_with_version_def dh_with_version_def doip_version_default_def
        doip_protocol_version_2012_def not_le not_less split: if_splits)
qed

lemma dp_new_wf: "dp_new p payload = Inr m \<Longrightarrow> payload_type_wf p \<Longrightarrow> dp_wf m"
  by (auto simp: dp_new_Inr dp_wf_def dh_wf_def doip_max_payload_len_def word_le_nat_alt unat_of_nat)

lemma doip_packet_roundtrip_witness:
  "parse_doip_message_prefix [0x02, 0xFD, 0x80, 0x01, 0, 0, 0, 6, 0x0E] = Inr None"
proof -
  let ?m = "\<lparr>dp_header = \<lparr>dh_protocol_version = 2, dh_inverse_protocol_version = 0xFD,
      dh_payload_type = DiagnosticMessage, dh_payload_length = 6\<rparr>, dp_payload = [0x0E, 0, 0x10, 0x01, 0x3E, 0]\<rparr>"
  have wf: "dp_wf ?m" by (simp add: dp_wf_def dh_wf_def doip_max_payload_len_def)
  have enc: "dp_encode ?m = [0x02, 0xFD, 0x80, 0x01, 0, 0, 0, 6, 0x0E, 0, 0x10, 0x01, 0x3E, 0]"
    by (simp add: dp_encode_def dh_encode_def u16_to_be_def u32_to_be_def)
  have "parse_doip_message_prefix (take 9 (dp_encode ?m)) = Inr None"
    using doip_packet_roundtrip [of "[]" ?m 0 9] wf by (simp add: enc)
  then show ?thesis by (simp add: enc)
qed

section \<open>Payloads\<close>

definition opt_len :: "nat \<Rightarrow> 'a list option \<Rightarrow> bool" where
  "opt_len n x \<longleftrightarrow> (case x of None \<Rightarrow> True | Some xs \<Rightarrow> length xs = n)"

definition vi_wf :: "doip_vehicle_identification \<Rightarrow> bool" where
  "vi_wf v \<longleftrightarrow> length (vi_vin v) = 17 \<and> length (vi_eid v) = 6 \<and> length (vi_gid v) = 6"

lemma length_4: "length xs = 4 \<longleftrightarrow> (\<exists>a b c d. xs = [a, b, c, d])"
  by (auto simp: numeral_eq_Suc length_Suc_conv)

lemma dg_roundtrip: "dg_parse payload = Inr d \<longleftrightarrow> dg_to_payload d = payload"
proof
  assume p: "dg_parse payload = Inr d"
  then have "4 \<le> length payload" by (auto simp: dg_parse_def split: if_splits)
  then obtain a b c e rest where "payload = a # b # c # e # rest" by (auto simp: numeral_eq_Suc Suc_le_length_iff)
  with p show "dg_to_payload d = payload" by (auto simp: dg_parse_def dg_to_payload_def u16_be_roundtrip)
qed (cases d, auto simp: dg_parse_def dg_to_payload_def u16_to_be_def u16_from_be_split)

lemma da_roundtrip: "da_parse payload = Inr d \<longleftrightarrow> da_to_payload d = payload"
proof
  assume p: "da_parse payload = Inr d"
  then have "5 \<le> length payload" by (auto simp: da_parse_def split: if_splits)
  then obtain a b c e f rest where "payload = a # b # c # e # f # rest" by (auto simp: numeral_eq_Suc Suc_le_length_iff)
  with p show "da_to_payload d = payload" by (auto simp: da_parse_def da_to_payload_def u16_be_roundtrip)
qed (cases d, auto simp: da_parse_def da_to_payload_def u16_to_be_def u16_from_be_split)

lemma rq_roundtrip:
  "rq_parse payload = Inr r \<longleftrightarrow> length (rq_reserved_iso r) = 4 \<and> opt_len 4 (rq_reserved_oem r) \<and> rq_to_payload r = payload"
proof
  assume p: "rq_parse payload = Inr r"
  then have len: "length payload = 7 \<or> length payload = 11" by (auto simp: rq_parse_def split: if_splits)
  then have "7 \<le> length payload" by auto
  then obtain a b c d e f g rest where "payload = a # b # c # d # e # f # g # rest"
    by (auto simp: numeral_eq_Suc Suc_le_length_iff)
  with p len show "length (rq_reserved_iso r) = 4 \<and> opt_len 4 (rq_reserved_oem r) \<and> rq_to_payload r = payload"
    by (auto simp: rq_parse_def rq_to_payload_def opt_len_def u16_be_roundtrip)
next
  assume "length (rq_reserved_iso r) = 4 \<and> opt_len 4 (rq_reserved_oem r) \<and> rq_to_payload r = payload"
  then show "rq_parse payload = Inr r"
    by (cases r) (auto simp: rq_parse_def rq_to_payload_def opt_len_def u16_to_be_def u16_from_be_split length_4
        split: option.splits)
qed

lemma rs_roundtrip:
  "rs_parse payload = Inr r \<longleftrightarrow> length (rs_reserved_iso r) = 4 \<and> opt_len 4 (rs_reserved_oem r) \<and> rs_to_payload r = payload"
proof
  assume p: "rs_parse payload = Inr r"
  then have len: "length payload = 9 \<or> length payload = 13" by (auto simp: rs_parse_def split: if_splits)
  then have "9 \<le> length payload" by auto
  then obtain a b c d e f g h i rest where "payload = a # b # c # d # e # f # g # h # i # rest"
    by (auto simp: numeral_eq_Suc Suc_le_length_iff)
  with p len show "length (rs_reserved_iso r) = 4 \<and> opt_len 4 (rs_reserved_oem r) \<and> rs_to_payload r = payload"
    by (auto simp: rs_parse_def rs_to_payload_def opt_len_def u16_be_roundtrip)
next
  assume "length (rs_reserved_iso r) = 4 \<and> opt_len 4 (rs_reserved_oem r) \<and> rs_to_payload r = payload"
  then show "rs_parse payload = Inr r"
    by (cases r) (auto simp: rs_parse_def rs_to_payload_def opt_len_def u16_to_be_def u16_from_be_split length_4
        split: option.splits)
qed

text \<open>The vehicle identification is cut at fixed offsets.\<close>

lemma split_at: "n \<le> length xs \<Longrightarrow> \<exists>ys zs. xs = ys @ zs \<and> length ys = n"
  by (intro exI [of _ "take n xs"] exI [of _ "drop n xs"]) simp

lemma vi_roundtrip: "vi_parse payload = Inr v \<longleftrightarrow> vi_wf v \<and> vi_to_payload v = payload"
proof
  assume p: "vi_parse payload = Inr v"
  then have len: "length payload = 32 \<or> length payload = 33" by (auto simp: vi_parse_def split: if_splits)
  then obtain vin r1 where 1: "payload = vin @ r1" "length vin = 17" using split_at [of 17 payload] by auto
  with len obtain addr r2 where 2: "r1 = addr @ r2" "length addr = 2" using split_at [of 2 r1] by auto
  with 1 len obtain eid r3 where 3: "r2 = eid @ r3" "length eid = 6" using split_at [of 6 r2] by auto
  with 1 2 len obtain gid r4 where 4: "r3 = gid @ r4" "length gid = 6" using split_at [of 6 r3] by auto
  with 1 2 3 len have "length r4 = 1 \<or> length r4 = 2" by auto
  then obtain f sync where 5: "r4 = f # sync" "sync = [] \<or> (\<exists>s. sync = [s])"
    by (auto simp: numeral_eq_Suc length_Suc_conv)
  from 2 obtain a b where "addr = [a, b]" by (auto simp: numeral_eq_Suc length_Suc_conv)
  with p 1 2 3 4 5 show "vi_wf v \<and> vi_to_payload v = payload"
    by (auto simp: vi_parse_def vi_wf_def vi_to_payload_def nth_append u16_be_roundtrip)
next
  assume "vi_wf v \<and> vi_to_payload v = payload"
  then show "vi_parse payload = Inr v"
    by (cases v) (auto simp: vi_parse_def vi_wf_def vi_to_payload_def nth_append u16_to_be_def u16_from_be_split
        split: option.splits)
qed

text \<open>Every DoIP payload codec is a bijection between the well-formed values and the byte strings it accepts:
  a payload parses to a value exactly when the value prints to the payload.\<close>

theorem doip_payload_roundtrips:
  "(gna_parse payload = Inr n \<longleftrightarrow> gna_to_payload n = payload)
   \<and> (dg_parse payload = Inr d \<longleftrightarrow> dg_to_payload d = payload)
   \<and> (da_parse payload = Inr a \<longleftrightarrow> da_to_payload a = payload)
   \<and> (rq_parse payload = Inr q \<longleftrightarrow> length (rq_reserved_iso q) = 4 \<and> opt_len 4 (rq_reserved_oem q) \<and> rq_to_payload q = payload)
   \<and> (rs_parse payload = Inr r \<longleftrightarrow> length (rs_reserved_iso r) = 4 \<and> opt_len 4 (rs_reserved_oem r) \<and> rs_to_payload r = payload)
   \<and> (vi_parse payload = Inr v \<longleftrightarrow> vi_wf v \<and> vi_to_payload v = payload)"
proof (intro conjI dg_roundtrip da_roundtrip rq_roundtrip rs_roundtrip vi_roundtrip)
  show "gna_parse payload = Inr n \<longleftrightarrow> gna_to_payload n = payload"
    by (cases n) (auto simp: gna_parse_def gna_to_payload_def length_Suc_conv)
qed

section \<open>Links\<close>

text \<open>
  What the client relies on: a link has messages waiting and a record of the bytes sent; sending a well-formed message
  appends its encoding to what was sent, receiving returns the first waiting message.
\<close>

locale doip_link =
  fixes link :: "'s doip_transport"
    and inbox :: "'s \<Rightarrow> doip_message list"
    and sent :: "'s \<Rightarrow> bytes"
  assumes link_send: "dp_wf m \<Longrightarrow>
      \<exists>s'. dt_send link m s = (Inr (), s') \<and> inbox s' = inbox s \<and> sent s' = sent s @ dp_encode m"
    and link_recv: "inbox s = m # ms \<Longrightarrow> \<exists>s'. dt_recv link s = (Inr m, s') \<and> inbox s' = ms \<and> sent s' = sent s"

text \<open>The answer an entity gives: positive acknowledgements, then the diagnostic message.\<close>

definition ack_message :: "'t doip_client \<Rightarrow> doip_message \<Rightarrow> bool" where
  "ack_message c m \<longleftrightarrow> (\<exists>a. dp_new DiagnosticPositiveAck (da_to_payload a) = Inr m
     \<and> da_source a = dc_entity c \<and> da_target a = dc_tester c)"

definition reply_message :: "'t doip_client \<Rightarrow> bytes \<Rightarrow> doip_message \<Rightarrow> bool" where
  "reply_message c data m \<longleftrightarrow> dp_diagnostic (dc_entity c) (dc_tester c) data = Inr m"

lemma ack_message_payload:
  "ack_message c m \<Longrightarrow> dh_payload_type (dp_header m) = DiagnosticPositiveAck \<and>
    (\<exists>a. da_parse (dp_payload m) = Inr a \<and> da_source a = dc_entity c \<and> da_target a = dc_tester c)"
  by (auto simp: ack_message_def dp_new_Inr da_roundtrip)

lemma reply_message_payload:
  "reply_message c data m \<Longrightarrow> dh_payload_type (dp_header m) = DiagnosticMessage \<and>
    dg_parse (dp_payload m) = Inr \<lparr>dg_source = dc_entity c, dg_target = dc_tester c, dg_user_data = data\<rparr>"
  by (auto simp: reply_message_def dp_diagnostic_def dp_new_Inr dg_roundtrip)

lemma ack_message_wf: "ack_message c m \<Longrightarrow> dp_wf m"
  using dp_new_wf [of DiagnosticPositiveAck] by (auto simp: ack_message_def)

lemma reply_message_wf: "reply_message c data m \<Longrightarrow> dp_wf m"
  using dp_new_wf [of DiagnosticMessage] by (auto simp: reply_message_def dp_diagnostic_def)

lemma ack_message_transport [simp]: "ack_message (c\<lparr>dc_transport := t\<rparr>) = ack_message c"
  by (simp add: ack_message_def fun_eq_iff)

lemma reply_message_transport [simp]: "reply_message (c\<lparr>dc_transport := t\<rparr>) = reply_message c"
  by (simp add: reply_message_def fun_eq_iff)

lemma on_transport_eq: "m (dc_transport c) = (r, t) \<Longrightarrow> on_transport m c = (r, c\<lparr>dc_transport := t\<rparr>)"
  by (simp add: on_transport_def)

lemma diag_event_ack:
  assumes "dt_recv link (dc_transport c) = (Inr m, t)" and "ack_message c m"
  shows "diag_events link (Suc n) c = diag_events link n (c\<lparr>dc_transport := t\<rparr>)"
  using ack_message_payload [OF assms(2)] on_transport_eq [of "dt_recv link", OF assms(1)]
  by (auto simp: bind_act_def seq_act_def dc_validate_addresses_def Let_def)

lemma diag_event_reply:
  assumes "dt_recv link (dc_transport c) = (Inr m, t)" and "reply_message c data m"
  shows "diag_events link (Suc n) c = (Inr data, c\<lparr>dc_transport := t\<rparr>)"
  using reply_message_payload [OF assms(2)] on_transport_eq [of "dt_recv link", OF assms(1)]
  by (auto simp: bind_act_def seq_act_def dc_validate_addresses_def Let_def)

lemma dp_diagnostic_request:
  "length data \<le> 16 * 1024 * 1024 - 4 \<Longrightarrow> \<exists>m. dp_diagnostic s t data = Inr m \<and> dp_wf m"
proof -
  assume "length data \<le> 16 * 1024 * 1024 - 4"
  then have "\<exists>m. dp_diagnostic s t data = Inr m" by (simp add: dp_diagnostic_def dp_new_Inr dg_to_payload_def)
  then show ?thesis using dp_new_wf [of DiagnosticMessage] by (auto simp: dp_diagnostic_def)
qed

context doip_link
begin

lemma events_answered:
  "inbox (dc_transport c) = acks @ reply # rest \<Longrightarrow> \<forall>m \<in> set acks. ack_message c m \<Longrightarrow> reply_message c data reply \<Longrightarrow>
   length acks < n \<Longrightarrow>
   \<exists>t. diag_events link n c = (Inr data, c\<lparr>dc_transport := t\<rparr>) \<and> inbox t = rest \<and> sent t = sent (dc_transport c)"
proof (induction acks arbitrary: n c)
  case Nil
  then obtain k where n: "n = Suc k" by (cases n) auto
  from link_recv Nil obtain t where t: "dt_recv link (dc_transport c) = (Inr reply, t)" "inbox t = rest"
    "sent t = sent (dc_transport c)" by (metis append_Nil)
  with diag_event_reply [OF t(1) Nil.prems(3)] n show ?case by auto
next
  case (Cons a acks)
  then obtain k where n: "n = Suc k" by (cases n) auto
  from link_recv Cons.prems obtain t where t: "dt_recv link (dc_transport c) = (Inr a, t)" "inbox t = acks @ reply # rest"
    "sent t = sent (dc_transport c)" by (metis append_Cons)
  have "diag_events link n c = diag_events link k (c\<lparr>dc_transport := t\<rparr>)"
    using diag_event_ack [OF t(1)] Cons.prems n by simp
  moreover have "\<exists>t'. diag_events link k (c\<lparr>dc_transport := t\<rparr>) = (Inr data, c\<lparr>dc_transport := t, dc_transport := t'\<rparr>)
      \<and> inbox t' = rest \<and> sent t' = sent t"
    using Cons.IH [of "c\<lparr>dc_transport := t\<rparr>" k] Cons.prems t n by simp
  ultimately show ?case using t(3) by auto
qed

lemma events_only_acks:
  "inbox (dc_transport c) = acks @ rest \<Longrightarrow> \<forall>m \<in> set acks. ack_message c m \<Longrightarrow> length acks = n \<Longrightarrow>
   \<exists>t. diag_events link n c = (Inl Timeout, c\<lparr>dc_transport := t\<rparr>) \<and> inbox t = rest \<and> sent t = sent (dc_transport c)"
proof (induction acks arbitrary: n c)
  case Nil
  then show ?case by (auto intro!: exI [of _ "dc_transport c"])
next
  case (Cons a acks)
  from link_recv Cons.prems obtain t where t: "dt_recv link (dc_transport c) = (Inr a, t)" "inbox t = acks @ rest"
    "sent t = sent (dc_transport c)" by (metis append_Cons)
  have "diag_events link n c = diag_events link (length acks) (c\<lparr>dc_transport := t\<rparr>)"
    using diag_event_ack [OF t(1)] Cons.prems by auto
  then show ?case using Cons.IH [of "c\<lparr>dc_transport := t\<rparr>" "length acks"] Cons.prems t by auto
qed

lemma send_diagnostic_sends:
  assumes "data \<noteq> []" and "length data \<le> 16 * 1024 * 1024 - 4"
  shows "\<exists>m t. dp_diagnostic (dc_tester c) (dc_entity c) data = Inr m \<and> inbox t = inbox (dc_transport c)
    \<and> sent t = sent (dc_transport c) @ dp_encode m
    \<and> dc_send_diagnostic link data c = diag_events link 16 (c\<lparr>dc_transport := t\<rparr>)"
proof -
  obtain m where m: "dp_diagnostic (dc_tester c) (dc_entity c) data = Inr m" "dp_wf m"
    using dp_diagnostic_request [OF assms(2)] by blast
  with link_send obtain t where t: "dt_send link m (dc_transport c) = (Inr (), t)" "inbox t = inbox (dc_transport c)"
    "sent t = sent (dc_transport c) @ dp_encode m" by blast
  then have "dc_send_diagnostic link data c = diag_events link 16 (c\<lparr>dc_transport := t\<rparr>)"
    using assms(1) m(1) on_transport_eq [of "dt_send link m", OF t(1)]
    by (simp add: dc_send_diagnostic_def seq_act_Inr doip_max_diagnostic_events_def del: diag_events.simps)
  with m t show ?thesis by blast
qed

end

section \<open>The stream transport is a link\<close>

text \<open>
  An open byte stream held in memory: what the peer wrote and what was written to the peer. \<open>read_exact\<close>
  waits for the bytes it asks for and fails when the peer has closed the stream before them.
\<close>

record mem_stream =
  ms_in :: bytes
  ms_out :: bytes

definition mem_write :: "bytes \<Rightarrow> (mem_stream, obd2_error, unit) act" where
  "mem_write bs s = (Inr (), s\<lparr>ms_out := ms_out s @ bs\<rparr>)"

definition mem_read :: "nat \<Rightarrow> (mem_stream, obd2_error, bytes) act" where
  "mem_read n s =
    (if length (ms_in s) < n then (Inl (Io ''early eof''), s\<lparr>ms_in := []\<rparr>)
     else (Inr (take n (ms_in s)), s\<lparr>ms_in := drop n (ms_in s)\<rparr>))"

definition mem_byte_stream :: "mem_stream byte_stream" where
  "mem_byte_stream = \<lparr>write_all = mem_write, flush_stream = ret (), read_exact = mem_read\<rparr>"

text \<open>The messages in a buffer, cut off one by one by the prefix parser.\<close>

lemma dp_parse_prefix_progress: "dp_parse_prefix bytes = Inr (Some (m, n)) \<Longrightarrow> 0 < n \<and> n \<le> length bytes"
  by (auto simp: dp_parse_prefix_def dp_total_len_def doip_header_len_def Let_def split: if_splits)

function doip_messages :: "bytes \<Rightarrow> doip_message list" where
  "doip_messages bytes =
    (case dp_parse_prefix bytes of
       Inr (Some (m, n)) \<Rightarrow> m # doip_messages (drop n bytes)
     | _ \<Rightarrow> [])"
  by pat_completeness auto
termination
  by (relation "measure length") (auto dest: dp_parse_prefix_progress)

declare doip_messages.simps [simp del]

lemma doip_messages_encode: "dp_wf m \<Longrightarrow> doip_messages (dp_encode m @ rest) = m # doip_messages rest"
  by (subst doip_messages.simps) (simp add: dp_parse_prefix_encode)

lemma doip_messages_encodes: "\<forall>m \<in> set ms. dp_wf m \<Longrightarrow> doip_messages (concat (map dp_encode ms) @ rest) = ms @ doip_messages rest"
  by (induction ms) (auto simp: doip_messages_encode)

lemma stream_recv_message:
  assumes "doip_messages (ms_in s) = m # ms"
  shows "\<exists>s'. stream_recv mem_byte_stream s = (Inr m, s') \<and> doip_messages (ms_in s') = ms \<and> ms_out s' = ms_out s"
proof -
  obtain n where p: "dp_parse_prefix (ms_in s) = Inr (Some (m, n))" and ms: "doip_messages (drop n (ms_in s)) = ms"
    using assms by (subst (asm) doip_messages.simps) (auto split: sum.splits option.splits)
  then obtain h where h: "dh_parse (ms_in s) = Inr h" and len: "dp_total_len h \<le> length (ms_in s)"
    and n: "n = dp_total_len h" and m: "m = \<lparr>dp_header = h, dp_payload = drop 8 (take (dp_total_len h) (ms_in s))\<rparr>"
    by (auto simp: dp_parse_prefix_def Let_def doip_header_len_def not_less split: if_splits)
  have "dh_parse (take 8 (ms_in s)) = Inr h" using h by (simp add: dh_parse_Inr)
  then show ?thesis
    using len ms n
    by (auto simp: stream_recv_def mem_byte_stream_def mem_read_def bind_act_def m dp_total_len_def doip_header_len_def
        drop_take add.commute)
qed

interpretation sl: doip_link "stream_transport mem_byte_stream" "\<lambda>s. doip_messages (ms_in s)" ms_out
proof
  fix m :: doip_message and s
  show "\<exists>s'. dt_send (stream_transport mem_byte_stream) m s = (Inr (), s') \<and>
      doip_messages (ms_in s') = doip_messages (ms_in s) \<and> ms_out s' = ms_out s @ dp_encode m"
    by (simp add: stream_transport_def stream_send_def mem_byte_stream_def mem_write_def seq_act_def bind_act_def dp_encode_def)
next
  fix s :: mem_stream and m ms assume "doip_messages (ms_in s) = m # ms"
  then show "\<exists>s'. dt_recv (stream_transport mem_byte_stream) s = (Inr m, s') \<and>
      doip_messages (ms_in s') = ms \<and> ms_out s' = ms_out s"
    by (simp add: stream_transport_def stream_recv_message)
qed

text \<open>C23: A diagnostic exchange over a DoIP byte stream. When the peer has written up to 15 positive acknowledgements and
  then the response for our addresses, the client sends exactly one request packet and returns exactly the
  response data, leaving whatever follows the response for the next exchange; when it has written 16 or
  more acknowledgements, the client gives up with a timeout.\<close>

theorem doip_diagnostic_over_stream:
  assumes "data \<noteq> []" and "length data \<le> 16 * 1024 * 1024 - 4"
    and "\<forall>m \<in> set acks. ack_message c m" and "reply_message c answer reply"
    and "ms_in (dc_transport c) = concat (map dp_encode acks) @ dp_encode reply @ rest"
  shows "\<exists>m c' r. dp_diagnostic (dc_tester c) (dc_entity c) data = Inr m
    \<and> dc_send_diagnostic (stream_transport mem_byte_stream) data c = (r, c')
    \<and> ms_out (dc_transport c') = ms_out (dc_transport c) @ dp_encode m
    \<and> dc_entity c' = dc_entity c \<and> dc_tester c' = dc_tester c
    \<and> (length acks < 16 \<longrightarrow> r = Inr answer \<and> doip_messages (ms_in (dc_transport c')) = doip_messages rest)
    \<and> (16 \<le> length acks \<longrightarrow> r = Inl Timeout)"
proof -
  let ?link = "stream_transport mem_byte_stream"
  have wf: "\<forall>m \<in> set acks. dp_wf m" "dp_wf reply"
    using assms(3,4) by (auto intro: ack_message_wf reply_message_wf)
  obtain m t where m: "dp_diagnostic (dc_tester c) (dc_entity c) data = Inr m"
    and t: "doip_messages (ms_in t) = doip_messages (ms_in (dc_transport c))" "ms_out t = ms_out (dc_transport c) @ dp_encode m"
    and run: "dc_send_diagnostic ?link data c = diag_events ?link 16 (c\<lparr>dc_transport := t\<rparr>)"
    using sl.send_diagnostic_sends [OF assms(1,2), of c] by blast
  have inbox: "doip_messages (ms_in t) = acks @ reply # doip_messages rest"
    using wf by (simp add: t(1) assms(5) doip_messages_encodes doip_messages_encode)
  show ?thesis
  proof (cases "length acks < 16")
    case True
    with sl.events_answered [of "c\<lparr>dc_transport := t\<rparr>" acks reply "doip_messages rest" answer 16] inbox assms(3,4)
    obtain t' where "diag_events ?link 16 (c\<lparr>dc_transport := t\<rparr>) = (Inr answer, c\<lparr>dc_transport := t'\<rparr>)"
      "doip_messages (ms_in t') = doip_messages rest" "ms_out t' = ms_out t" by auto
    with True m run t(2) show ?thesis by auto
  next
    case False
    have "\<forall>m \<in> set (take 16 acks). ack_message c m" using assms(3) by (auto dest: in_set_takeD)
    with False sl.events_only_acks [of "c\<lparr>dc_transport := t\<rparr>" "take 16 acks" "drop 16 acks @ reply # doip_messages rest" 16] inbox
    obtain t' where "diag_events ?link 16 (c\<lparr>dc_transport := t\<rparr>) = (Inl Timeout, c\<lparr>dc_transport := t'\<rparr>)" "ms_out t' = ms_out t"
      by auto
    with False m run t(2) show ?thesis by auto
  qed
qed

lemma doip_diagnostic_over_stream_witness:
  "fst (dc_send_diagnostic (stream_transport mem_byte_stream) [0x3E, 0]
    (dc_new \<lparr>ms_in = [0x02, 0xFD, 0x80, 0x01, 0, 0, 0, 6, 0x10, 0x01, 0x0E, 0x00, 0x7E, 0x00], ms_out = []\<rparr> 0x0E00 0x1001))
   = Inr [0x7E, 0]"
proof -
  let ?in = "[0x02, 0xFD, 0x80, 0x01, 0, 0, 0, 6, 0x10, 0x01, 0x0E, 0x00, 0x7E, 0x00] :: bytes"
  let ?c = "dc_new \<lparr>ms_in = ?in, ms_out = []\<rparr> 0x0E00 0x1001"
  obtain reply where reply: "reply_message ?c [0x7E, 0] reply" and enc: "dp_encode reply = ?in"
    by (simp add: reply_message_def dp_diagnostic_def dp_new_Inr dg_to_payload_def dc_new_def dp_encode_def dh_encode_def
        u16_to_be_def u32_to_be_def)
  show ?thesis
    using doip_diagnostic_over_stream [of "[0x3E, 0]" "[]" ?c "[0x7E, 0]" reply "[]"] reply enc
    by (auto simp: dc_new_def)
qed

text \<open>Routing activation, over any transport. The client returns an activation only when it answers its own tester address,
  and then talks to the entity that answered; on an error before that its addresses are unchanged. A refused
  activation is an error of \<open>activate_routing\<close>, although the entity address has been taken over.\<close>

theorem doip_routing_activation_addresses:
  "(dc_routing_activation t ty c = (Inr a, c') \<longrightarrow>
      rs_tester a = dc_tester c \<and> dc_tester c' = dc_tester c \<and> dc_entity c' = rs_entity a)
   \<and> (dc_routing_activation t ty c = (Inl e, c') \<longrightarrow> dc_tester c' = dc_tester c \<and> dc_entity c' = dc_entity c)
   \<and> (dc_routing_activation t ty c = (Inr a, c') \<longrightarrow>
      dc_activate_routing t ty c = (if rs_response_code a = 0x10 then (Inr a, c')
        else (Inl (Transport (Fmt ''DoIP routing activation failed with response code 0x{:02X}''
               [ArgNat (unat (rs_response_code a))])), c')))"
  by (auto simp: dc_routing_activation_def dc_activate_routing_def bind_act_def seq_act_def on_transport_def set_entity_def
      dc_set_entity_address_def doip_routing_activation_success_def Let_def doip_generic_nack_error_def
      split: prod.splits sum.splits if_splits)

lemma doip_routing_activation_addresses_witness:
  "dc_entity (snd (dc_routing_activation (stream_transport mem_byte_stream) 0
      (dc_new \<lparr>ms_in = [0x02, 0xFD, 0, 6, 0, 0, 0, 9, 0x0E, 0, 0x10, 0x01, 0x10, 0, 0, 0, 0], ms_out = []\<rparr> 0x0E00 0))) = 0x1001"
proof -
  let ?t = "stream_transport mem_byte_stream"
  let ?c = "dc_new \<lparr>ms_in = [0x02, 0xFD, 0, 6, 0, 0, 0, 9, 0x0E, 0, 0x10, 0x01, 0x10, 0, 0, 0, 0], ms_out = []\<rparr> 0x0E00 0"
  let ?a = "\<lparr>rs_tester = 0x0E00, rs_entity = 0x1001, rs_response_code = 0x10, rs_reserved_iso = [0, 0, 0, 0], rs_reserved_oem = None\<rparr>"
  obtain c' where "dc_routing_activation ?t 0 ?c = (Inr ?a, c')"
    by (simp add: dc_routing_activation_def dc_new_def dp_routing_activation_request_def rq_new_def rq_to_payload_def
        dp_new_def dp_with_version_def dh_with_version_def dh_new_def doip_max_payload_len_def u16_to_be_def
        on_transport_def dt_exchange_def stream_transport_def stream_send_def stream_recv_def mem_byte_stream_def
        mem_write_def mem_read_def bind_act_def seq_act_def doip_header_len_def dh_parse_def u16_from_be_def u32_from_be_def
        payload_type_from_u16_def rs_parse_def set_entity_def)
  then show ?thesis using doip_routing_activation_addresses [of ?t 0 ?c ?a c'] by simp
qed

end
