(* ===== verification/Values.thy ===== *)
theory Values
  imports Errors Complex_Main
begin

text \<open>
  Decoded values and the enhanced (manufacturer-specific) PID types (\<open>protocol/enhanced.rs\<close>).
  An \<open>f64\<close> is an exact rational: the arithmetic of the code is modelled without its rounding, so
  the theorems state what the formulas mean, not the last bit of a double.
\<close>

type_synonym f64 = rat

datatype confidence = Verified | Community | Inferred | Unverified

datatype formula =
    Linear f64 f64
  | TwoByte f64 f64
  | Centered f64 f64
  | Bitmask "(u8 \<times> string) list"
  | Enumerated "(u8 \<times> string) list"
  | Expression string

record bitfield =
  bf_raw :: u32
  bf_flags :: "(string \<times> bool) list"

datatype obd_value = Scalar f64 | Bits bitfield | State string | Raw bytes

datatype value_type = ScalarType | BitfieldType | StateType

record enhanced_pid =
  ep_service_id :: u8
  ep_did :: u16
  ep_name :: string
  ep_unit :: string
  ep_formula :: formula
  ep_bytes :: u8
  ep_module :: string
  ep_value_type :: value_type
  ep_confidence :: confidence
  ep_command_suffix :: "bytes option"

fun as_f64 :: "obd_value \<Rightarrow> f64 res" where
  "as_f64 (Scalar v) = Inr v"
| "as_f64 _ = Inl (ParseError (PidMsg ExpectedScalar))"

fun as_bitfield :: "obd_value \<Rightarrow> bitfield res" where
  "as_bitfield (Bits b) = Inr b"
| "as_bitfield _ = Inl (ParseError (PidMsg ExpectedBitfield))"

text \<open>The kind of a decoded value; raw bytes have none of the declared types.\<close>

fun value_kind :: "obd_value \<Rightarrow> value_type option" where
  "value_kind (Scalar _) = Some ScalarType"
| "value_kind (Bits _) = Some BitfieldType"
| "value_kind (State _) = Some StateType"
| "value_kind (Raw _) = None"

text \<open>Decimal printing (\<open>{}\<close> of an unsigned integer).\<close>

fun decimal_loop :: "nat \<Rightarrow> string \<Rightarrow> string" where
  "decimal_loop n acc =
    (if n < 10 then char_of (48 + n) # acc else decimal_loop (n div 10) (char_of (48 + n mod 10) # acc))"

declare decimal_loop.simps [simp del]

definition decimal :: "nat \<Rightarrow> string" where
  "decimal n = decimal_loop n []"

end
