(* ===== verification/Vin.thy ===== *)
theory Vin
  imports Values Dtc
begin

text \<open>
  Offline decoding of a VIN (\<open>vehicle/vin.rs\<close>): model year, manufacturer and vehicle class. VINs and
  WMIs are ASCII text, so a byte of the string is a character and \<open>to_uppercase\<close> is \<open>to_upper\<close> on
  each of them.
\<close>

record decoded_vin =
  dv_year :: "int option"
  dv_year_alt :: "int option"
  dv_manufacturer :: "string option"
  dv_truck_class :: "string option"

text \<open>The tenth character encodes a year of two thirty-year cycles.\<close>

definition year_table :: "(char \<times> int \<times> int) list" where
  "year_table = [
    (CHR ''A'', 2010, 1980), (CHR ''B'', 2011, 1981), (CHR ''C'', 2012, 1982), (CHR ''D'', 2013, 1983),
    (CHR ''E'', 2014, 1984), (CHR ''F'', 2015, 1985), (CHR ''G'', 2016, 1986), (CHR ''H'', 2017, 1987),
    (CHR ''J'', 2018, 1988), (CHR ''K'', 2019, 1989), (CHR ''L'', 2020, 1990), (CHR ''M'', 2021, 1991),
    (CHR ''N'', 2022, 1992), (CHR ''P'', 2023, 1993), (CHR ''R'', 2024, 1994), (CHR ''S'', 2025, 1995),
    (CHR ''T'', 2026, 1996), (CHR ''V'', 2027, 1997), (CHR ''W'', 2028, 1998), (CHR ''X'', 2029, 1999),
    (CHR ''Y'', 2030, 2000), (CHR ''1'', 2031, 2001), (CHR ''2'', 2032, 2002), (CHR ''3'', 2033, 2003),
    (CHR ''4'', 2034, 2004), (CHR ''5'', 2035, 2005), (CHR ''6'', 2036, 2006), (CHR ''7'', 2037, 2007),
    (CHR ''8'', 2038, 2008), (CHR ''9'', 2039, 2009)]"

definition decode_year_candidates :: "string \<Rightarrow> int option \<times> int option" where
  "decode_year_candidates vin =
    (if length vin \<le> 9 then (None, None)
     else case map_of year_table (vin ! 9) of
       Some (current, previous) \<Rightarrow> (Some current, Some previous)
     | None \<Rightarrow> (None, None))"

definition decode_year :: "string \<Rightarrow> int option" where
  "decode_year vin = fst (decode_year_candidates vin)"

definition wmi_table :: "(string list \<times> string) list" where
  "wmi_table = [
    ([''1GC'', ''1GT'', ''2GC''], ''Chevrolet''),
    ([''1G1''], ''Chevrolet''),
    ([''1G2''], ''Pontiac''),
    ([''1GK'', ''1GD''], ''GMC''),
    ([''1G6''], ''Cadillac''),
    ([''1GB''], ''GM Bus/Incomplete''),
    ([''1FA'', ''1FT'', ''1FM'', ''1FD'', ''3FA''], ''Ford''),
    ([''1LN''], ''Lincoln''),
    ([''2FA'', ''2FM'', ''2FT''], ''Ford (Canada)''),
    ([''1C3'', ''1C6'', ''2C3'', ''2C4''], ''Chrysler''),
    ([''1B3'', ''1B7'', ''3B7'', ''3D7''], ''Dodge/Ram''),
    ([''1C4'', ''1J4'', ''1J8''], ''Jeep''),
    ([''1TM'', ''4T1'', ''5TD'', ''JTD'', ''JTE'', ''JTN''], ''Toyota''),
    ([''2T1'', ''2T3''], ''Toyota (Canada)''),
    ([''1HG'', ''2HG'', ''JHM'', ''5FN'', ''5J6''], ''Honda''),
    ([''JH4'', ''19U''], ''Acura''),
    ([''1N4'', ''1N6'', ''3N1'', ''5N1'', ''JN8''], ''Nissan''),
    ([''JN1''], ''Infiniti''),
    ([''JF1'', ''JF2'', ''4S3'', ''4S4''], ''Subaru''),
    ([''JM1'', ''JM3'', ''3MZ''], ''Mazda''),
    ([''WBA'', ''WBS'', ''WBY'', ''5UX'', ''5UJ''], ''BMW''),
    ([''WMW'', ''WME''], ''MINI''),
    ([''WDB'', ''WDC'', ''WDD'', ''4JG'', ''55S''], ''Mercedes-Benz''),
    ([''WVW'', ''WV1'', ''WV2'', ''3VW''], ''Volkswagen''),
    ([''WAU'', ''WA1''], ''Audi''),
    ([''WP0'', ''WP1''], ''Porsche''),
    ([''KMH'', ''5NP'', ''5NM''], ''Hyundai''),
    ([''KNA'', ''KND'', ''5XY''], ''Kia''),
    ([''5YJ'', ''7SA''], ''Tesla''),
    ([''YV1'', ''YV4''], ''Volvo'')]"

definition country_of_char :: "char \<Rightarrow> string option" where
  "country_of_char c =
    (if c \<in> {CHR ''1'', CHR ''4'', CHR ''5''} then Some ''United States''
     else if c = CHR ''2'' then Some ''Canada''
     else if c = CHR ''3'' then Some ''Mexico''
     else if c = CHR ''J'' then Some ''Japan''
     else if c = CHR ''K'' then Some ''South Korea''
     else if c = CHR ''S'' then Some ''United Kingdom''
     else if c = CHR ''W'' then Some ''Germany''
     else if c = CHR ''Z'' then Some ''Italy''
     else if c = CHR ''Y'' then Some ''Sweden/Finland''
     else None)"

definition decode_manufacturer :: "string \<Rightarrow> string option" where
  "decode_manufacturer wmi =
    (let wmi_upper = map to_upper wmi in
     if length wmi_upper < 3 then None
     else let wmi3 = take 3 wmi_upper in
       case find (\<lambda>(codes, _). wmi3 \<in> set codes) wmi_table of
         Some (_, name) \<Rightarrow> Some name
       | None \<Rightarrow> country_of_char (hd wmi_upper))"

definition detect_truck_class :: "string \<Rightarrow> string option" where
  "detect_truck_class vin =
    (if length vin < 17 then None
     else let wmi = map to_upper (take 3 vin) in
       if wmi \<in> {''1GC'', ''1GT'', ''2GC''} then
         (if vin ! 7 \<in> {CHR ''1'', CHR ''2'', CHR ''5'', CHR ''6''} then Some ''diesel-truck''
          else Some ''gas-truck-v8'')
       else if wmi \<in> {''1FT'', ''1FD'', ''3FT''} then Some ''gas-truck-v8''
       else if wmi \<in> {''3D7'', ''1B7'', ''3B7'', ''3C6''} then Some ''gas-truck-v8''
       else if wmi \<in> {''1FM'', ''5FN'', ''5J6'', ''5TD''} then Some ''suv''
       else if wmi \<in> {''1G1'', ''1HG'', ''2HG'', ''1FA'', ''3FA'', ''4T1''} then Some ''sedan''
       else if wmi \<in> {''WBA'', ''WBS'', ''WP0''} then Some ''performance''
       else None)"

definition vin_decode :: "string \<Rightarrow> decoded_vin" where
  "vin_decode vin =
    (let (year, year_alt) = decode_year_candidates vin;
         manufacturer = (if 17 \<le> length vin then decode_manufacturer (take 3 vin) else None);
         truck_class = detect_truck_class vin
     in \<lparr>dv_year = year, dv_year_alt = year_alt, dv_manufacturer = manufacturer,
         dv_truck_class = truck_class\<rparr>)"

lemma year_table_rows:
  "list_all (\<lambda>(c, current, previous). current = previous + 30 \<and> 2010 \<le> current \<and> current \<le> 2039) year_table"
  by (simp add: year_table_def)

text \<open>The two candidate years are thirty years apart, the first one of the 2010 cycle.\<close>

lemma decode_year_candidates_Some:
  assumes "decode_year_candidates vin = (Some y, alt)"
  shows "alt = Some (y - 30) \<and> 2010 \<le> y \<and> y \<le> 2039"
proof -
  from assms obtain previous where row: "map_of year_table (vin ! 9) = Some (y, previous)"
    and alt: "alt = Some previous"
    by (auto simp: decode_year_candidates_def split: if_splits option.splits)
  from map_of_SomeD [OF row] year_table_rows have "y = previous + 30 \<and> 2010 \<le> y \<and> y \<le> 2039"
    by (fastforce simp: list_all_iff)
  with alt show ?thesis by simp
qed

lemma decode_year_candidates_None:
  "decode_year_candidates vin = (None, alt) \<Longrightarrow> alt = None"
  by (auto simp: decode_year_candidates_def split: if_splits option.splits)

end
