(* ===== verification/Pid.thy ===== *)
theory Pid
  imports Values
begin

text \<open>
  Standard OBD-II PIDs of Mode 01 and 02 (\<open>protocol/pid.rs\<close>): their names and units, the number of
  data bytes, the type of their value and the decoding formulas of SAE J1979. Strings are
  their UTF-8 bytes, so the degree sign and the lambda of \<open>unit()\<close> are two characters each.
\<close>

datatype pid = Pid (pid_code: u8)

section \<open>Tables\<close>

definition pid_names :: "(u8 \<times> string) list" where
  "pid_names = [
    (0x00, ''Supported PIDs [01-20]''),
    (0x01, ''Monitor Status''),
    (0x03, ''Fuel System Status''),
    (0x04, ''Engine Load''),
    (0x05, ''Coolant Temperature''),
    (0x06, ''Short Term Fuel Trim (Bank 1)''),
    (0x07, ''Long Term Fuel Trim (Bank 1)''),
    (0x08, ''Short Term Fuel Trim (Bank 2)''),
    (0x09, ''Long Term Fuel Trim (Bank 2)''),
    (0x0A, ''Fuel Pressure''),
    (0x0B, ''Intake MAP''),
    (0x0C, ''Engine RPM''),
    (0x0D, ''Vehicle Speed''),
    (0x0E, ''Timing Advance''),
    (0x0F, ''Intake Air Temperature''),
    (0x10, ''MAF Air Flow Rate''),
    (0x11, ''Throttle Position''),
    (0x1C, ''OBD Standard''),
    (0x1F, ''Run Time Since Start''),
    (0xA6, ''Total Vehicle Distance''),
    (0x20, ''Supported PIDs [21-40]''),
    (0x21, ''Distance with MIL On''),
    (0x23, ''Fuel Rail Gauge Pressure''),
    (0x2C, ''Commanded EGR''),
    (0x2D, ''EGR Error''),
    (0x2E, ''Commanded Evaporative Purge''),
    (0x2F, ''Fuel Tank Level''),
    (0x30, ''Warm-ups Since Clear''),
    (0x31, ''Distance Since DTC Clear''),
    (0x33, ''Barometric Pressure''),
    (0x3C, ''Catalyst Temp B1S1''),
    (0x3D, ''Catalyst Temp B2S1''),
    (0x3E, ''Catalyst Temp B1S2''),
    (0x3F, ''Catalyst Temp B2S2''),
    (0x40, ''Supported PIDs [41-60]''),
    (0x42, ''Control Module Voltage''),
    (0x43, ''Absolute Load''),
    (0x44, ''Commanded Equivalence Ratio''),
    (0x45, ''Relative Throttle Position''),
    (0x46, ''Ambient Air Temperature''),
    (0x47, ''Absolute Throttle Position B''),
    (0x49, ''Accelerator Pedal Position D''),
    (0x4A, ''Accelerator Pedal Position E''),
    (0x4C, ''Commanded Throttle Actuator''),
    (0x59, ''Fuel Rail Absolute Pressure''),
    (0x5C, ''Engine Oil Temperature''),
    (0x5E, ''Engine Fuel Rate''),
    (0x60, ''Supported PIDs [61-80]''),
    (0x61, ''Demanded Torque''),
    (0x62, ''Actual Torque''),
    (0x63, ''Reference Torque'')]"

definition pid_name :: "pid \<Rightarrow> string" where
  "pid_name p = (case map_of pid_names (pid_code p) of Some n \<Rightarrow> n | None \<Rightarrow> ''Unknown PID'')"

definition pid_all :: "pid list" where
  "pid_all =
    [Pid 0x00, Pid 0x01, Pid 0x03, Pid 0x04, Pid 0x05, Pid 0x06, Pid 0x07, Pid 0x08,
     Pid 0x09, Pid 0x0A, Pid 0x0B, Pid 0x0C, Pid 0x0D, Pid 0x0E, Pid 0x0F, Pid 0x10,
     Pid 0x11, Pid 0x1C, Pid 0x1F, Pid 0x20, Pid 0x21, Pid 0x23, Pid 0x2C, Pid 0x2D,
     Pid 0x2E, Pid 0x2F, Pid 0x30, Pid 0x31, Pid 0x33, Pid 0x3C, Pid 0x3D, Pid 0x3E,
     Pid 0x3F, Pid 0x40, Pid 0x42, Pid 0x43, Pid 0x44, Pid 0x45, Pid 0x46, Pid 0x47,
     Pid 0x49, Pid 0x4A, Pid 0x4C, Pid 0x59, Pid 0x5C, Pid 0x5E, Pid 0x60, Pid 0x61,
     Pid 0x62, Pid 0x63, Pid 0xA6]"

definition pid_unit :: "pid \<Rightarrow> string" where
  "pid_unit p =
    (let c = pid_code p in
     if c \<in> {0x00, 0x01, 0x03, 0x20, 0x40, 0x60} then ''bitfield''
     else if c \<in> {0x04, 0x06, 0x07, 0x08, 0x09, 0x11, 0x2C, 0x2D, 0x2E, 0x2F, 0x43, 0x45, 0x47, 0x49,
                  0x4A, 0x4C, 0x61, 0x62} then ''%''
     else if c \<in> {0x05, 0x0F, 0x3C, 0x3D, 0x3E, 0x3F, 0x46, 0x5C} then [CHR 0xC2, CHR 0xB0, CHR ''C'']
     else if c \<in> {0x0A, 0x0B, 0x23, 0x33, 0x59} then ''kPa''
     else if c = 0x0C then ''RPM''
     else if c = 0x0D then ''km/h''
     else if c = 0x0E then [CHR 0xC2, CHR 0xB0]
     else if c = 0x10 then ''g/s''
     else if c = 0x1F then ''s''
     else if c \<in> {0x21, 0x31, 0xA6} then ''km''
     else if c = 0x30 then ''count''
     else if c = 0x42 then ''V''
     else if c = 0x44 then [CHR 0xCE, CHR 0xBB]
     else if c = 0x5E then ''L/h''
     else if c = 0x63 then ''Nm''
     else [])"

definition response_bytes :: "pid \<Rightarrow> u8" where
  "response_bytes p =
    (let c = pid_code p in
     if c \<in> {0x00, 0x01, 0x20, 0x40, 0x60, 0xA6} then 4
     else if c \<in> {0x0C, 0x10, 0x1F, 0x21, 0x23, 0x31, 0x3C, 0x3D, 0x3E, 0x3F, 0x42, 0x43, 0x44, 0x59,
                  0x5E, 0x63} then 2
     else 1)"

definition pid_value_type :: "pid \<Rightarrow> value_type" where
  "pid_value_type p =
    (let c = pid_code p in
     if c \<in> {0x00, 0x01, 0x03, 0x20, 0x40, 0x60} then BitfieldType
     else if c = 0x1C then StateType
     else ScalarType)"

section \<open>Decoding\<close>

definition monitor_status_flags :: "bytes \<Rightarrow> (string \<times> bool) list" where
  "monitor_status_flags data =
    (let mil_on = (data ! 0 AND 0x80) \<noteq> 0;
         dtc_count = data ! 0 AND 0x7F
     in [(''MIL'', mil_on),
         (decimal (unat dtc_count) @ '' DTCs'', 0 < dtc_count),
         (''Compression Ignition'', (data ! 1 AND 0x08) \<noteq> 0)])"

definition pid_parse :: "pid \<Rightarrow> bytes \<Rightarrow> obd_value res" where
  "pid_parse p data =
    (let c = pid_code p; expected = unat (response_bytes p) in
     if length data < expected then Inl (ParseError (PidMsg (PidShort c expected (length data))))
     else
       (let a = of_nat (unat (data ! 0)) :: f64;
            b = (if 1 < length data then of_nat (unat (data ! 1)) else 0) :: f64;
            raw = u32_from_be (data ! 0) (data ! 1) (data ! 2) (data ! 3)
        in
        if c \<in> {0x00, 0x20, 0x40, 0x60} then Inr (Bits \<lparr>bf_raw = raw, bf_flags = []\<rparr>)
        else if c = 0x01 then Inr (Bits \<lparr>bf_raw = raw, bf_flags = monitor_status_flags data\<rparr>)
        else if c = 0x03 then Inr (Bits \<lparr>bf_raw = ucast (data ! 0), bf_flags = []\<rparr>)
        else if c \<in> {0x04, 0x11, 0x2C, 0x2E, 0x2F, 0x45, 0x47, 0x49, 0x4A, 0x4C}
          then Inr (Scalar (a * 100 / 255))
        else if c \<in> {0x05, 0x0F, 0x46, 0x5C} then Inr (Scalar (a - 40))
        else if c \<in> {0x06, 0x07, 0x08, 0x09, 0x2D} then Inr (Scalar ((a - 128) * 100 / 128))
        else if c = 0x0A then Inr (Scalar (a * 3))
        else if c \<in> {0x0B, 0x33} then Inr (Scalar a)
        else if c = 0x0C then Inr (Scalar ((256 * a + b) / 4))
        else if c = 0x0D then Inr (Scalar a)
        else if c = 0x0E then Inr (Scalar (a / 2 - 64))
        else if c = 0x10 then Inr (Scalar ((256 * a + b) / 100))
        else if c = 0x1C then Inr (State (''Standard '' @ decimal (unat (data ! 0))))
        else if c \<in> {0x1F, 0x21, 0x31} then Inr (Scalar (256 * a + b))
        else if c = 0xA6 then Inr (Scalar (of_nat (unat raw) / 10))
        else if c = 0x23 then Inr (Scalar ((256 * a + b) * 10))
        else if c = 0x30 then Inr (Scalar a)
        else if c \<in> {0x3C, 0x3D, 0x3E, 0x3F} then Inr (Scalar ((256 * a + b) / 10 - 40))
        else if c = 0x42 then Inr (Scalar ((256 * a + b) / 1000))
        else if c = 0x43 then Inr (Scalar ((256 * a + b) * 100 / 255))
        else if c = 0x44 then Inr (Scalar ((256 * a + b) / 32768))
        else if c = 0x59 then Inr (Scalar ((256 * a + b) * 10))
        else if c = 0x5E then Inr (Scalar ((256 * a + b) / 20))
        else if c \<in> {0x61, 0x62} then Inr (Scalar (a - 125))
        else if c = 0x63 then Inr (Scalar (256 * a + b))
        else Inl (ParseError (PidMsg (NoPidFormula c)))))"

section \<open>Properties\<close>

lemma response_bytes_pos: "1 \<le> unat (response_bytes p)"
  by (simp add: response_bytes_def Let_def)

lemma four_bytes_read: "pid_code p \<in> {0x00, 0x01, 0x20, 0x40, 0x60, 0xA6} \<Longrightarrow> unat (response_bytes p) = 4"
  by (simp add: response_bytes_def Let_def)

definition has_formula :: "u8 \<Rightarrow> bool" where
  "has_formula c \<longleftrightarrow> c \<in> pid_code ` set pid_all"

lemma pid_in_all: "p \<in> set pid_all \<longleftrightarrow> has_formula (pid_code p)"
  unfolding has_formula_def by (metis image_iff pid.collapse)

lemma has_formula_simp: "has_formula c \<longleftrightarrow> c \<in>
  {0x00, 0x01, 0x03, 0x04, 0x05, 0x06, 0x07, 0x08, 0x09, 0x0A, 0x0B, 0x0C, 0x0D, 0x0E, 0x0F, 0x10, 0x11,
   0x1C, 0x1F, 0x20, 0x21, 0x23, 0x2C, 0x2D, 0x2E, 0x2F, 0x30, 0x31, 0x33, 0x3C, 0x3D, 0x3E, 0x3F, 0x40,
   0x42, 0x43, 0x44, 0x45, 0x46, 0x47, 0x49, 0x4A, 0x4C, 0x59, 0x5C, 0x5E, 0x60, 0x61, 0x62, 0x63, 0xA6}"
  by (simp only: has_formula_def pid_all_def list.set image_insert image_empty pid.sel)

lemma pid_parse_no_formula:
  "\<not> has_formula (pid_code p) \<Longrightarrow> unat (response_bytes p) \<le> length data
    \<Longrightarrow> pid_parse p data = Inl (ParseError (PidMsg (NoPidFormula (pid_code p))))"
  unfolding has_formula_simp pid_parse_def Let_def
  by (simp only: insert_iff empty_iff de_Morgan_disj simp_thms not_less [symmetric] if_False)

lemma pid_parse_formula:
  "has_formula (pid_code p) \<Longrightarrow> unat (response_bytes p) \<le> length data
    \<Longrightarrow> \<exists>v. pid_parse p data = Inr v \<and> value_kind v = Some (pid_value_type p)"
  unfolding has_formula_simp pid_parse_def Let_def pid_value_type_def
  by (elim insertE emptyE; simp)

lemma pid_parse_length: "pid_parse p data = Inr v \<Longrightarrow> unat (response_bytes p) \<le> length data"
  by (simp add: pid_parse_def Let_def split: if_splits)

lemma pid_parse_listed: "pid_parse p data = Inr v \<Longrightarrow> has_formula (pid_code p)"
  using pid_parse_no_formula [of p data] pid_parse_length [of p data v] by fastforce

text \<open>C25: Decoding succeeds exactly for the PIDs listed by \<open>Pid::all()\<close> on at least the announced number
  of data bytes, and whenever it succeeds the decoded value has the type that \<open>value_type()\<close>
  announces. A short response and a PID without a formula are parse errors.\<close>

theorem pid_parse_characterised:
  "((\<exists>v. pid_parse p data = Inr v) \<longleftrightarrow> p \<in> set pid_all \<and> unat (response_bytes p) \<le> length data)
   \<and> ((\<exists>v. pid_parse p data = Inr v) \<longleftrightarrow>
       (\<exists>v. pid_parse p data = Inr v \<and> value_kind v = Some (pid_value_type p)))"
  using pid_parse_formula [of p data] pid_parse_length [of p data] pid_parse_listed [of p data]
  unfolding pid_in_all by blast

text \<open>The ranges that SAE J1979 gives for the scalar PIDs, from the scaling and the width of the data.\<close>

definition pid_range :: "u8 \<Rightarrow> (f64 \<times> f64) option" where
  "pid_range c =
    (if c \<in> {0x04, 0x11, 0x2C, 0x2E, 0x2F, 0x45, 0x47, 0x49, 0x4A, 0x4C} then Some (0, 100)
     else if c \<in> {0x05, 0x0F, 0x46, 0x5C} then Some (-40, 215)
     else if c \<in> {0x06, 0x07, 0x08, 0x09, 0x2D} then Some (-100, 99.22)
     else if c = 0x0A then Some (0, 765)
     else if c \<in> {0x0B, 0x33, 0x0D, 0x30} then Some (0, 255)
     else if c = 0x0C then Some (0, 16383.75)
     else if c = 0x0E then Some (-64, 63.5)
     else if c = 0x10 then Some (0, 655.35)
     else if c \<in> {0x1F, 0x21, 0x31, 0x63} then Some (0, 65535)
     else if c \<in> {0x23, 0x59} then Some (0, 655350)
     else if c \<in> {0x3C, 0x3D, 0x3E, 0x3F} then Some (-40, 6513.5)
     else if c = 0x42 then Some (0, 65.535)
     else if c = 0x43 then Some (0, 25700)
     else if c = 0x44 then Some (0, 2)
     else if c = 0x5E then Some (0, 3276.75)
     else if c \<in> {0x61, 0x62} then Some (-125, 130)
     else if c = 0xA6 then Some (0, 429496729.5)
     else None)"

lemma of_byte_bounds: "(0 :: rat) \<le> of_nat (unat (x :: u8))" "(of_nat (unat (x :: u8)) :: rat) \<le> 255"
proof -
  show "(of_nat (unat x) :: rat) \<le> 255"
    using of_nat_mono [of "unat x" 255, where 'a = rat] unat_u8_lt [of x] by simp
qed (rule of_nat_0_le_iff)

lemma of_u32_bound: "(of_nat (unat (x :: u32)) :: rat) \<le> 4294967295"
proof -
  have "unat x \<le> 4294967295" using unsigned_less [of x, where 'a = nat] by simp
  then show ?thesis using of_nat_mono [of "unat x" 4294967295, where 'a = rat] by simp
qed

text \<open>Every scalar that a PID decodes to lies in the range that SAE J1979 gives for it; no response
  bytes, however many, lead outside.\<close>

theorem pid_parse_in_range:
  assumes "pid_parse p data = Inr (Scalar v)" and "pid_range (pid_code p) = Some (lo, hi)"
  shows "lo \<le> v \<and> v \<le> hi"
proof -
  define a where "a = (of_nat (unat (data ! 0)) :: rat)"
  define b where "b = (if 1 < length data then of_nat (unat (data ! 1)) else 0 :: rat)"
  define r where "r = (of_nat (unat (u32_from_be (data ! 0) (data ! 1) (data ! 2) (data ! 3))) :: rat)"
  have bounds: "0 \<le> a" "a \<le> 255" "0 \<le> b" "b \<le> 255" "0 \<le> r" "r \<le> 4294967295"
    unfolding a_def b_def r_def if_distrib [of "\<lambda>x. 0 \<le> x"] if_distrib [of "\<lambda>x. x \<le> 255"]
    by (simp_all only: of_byte_bounds of_u32_bound of_nat_0_le_iff if_cancel order_refl zero_le_numeral split: if_split)
  from pid_parse_length [OF assms(1)] have len: "\<not> length data < unat (response_bytes p)" by simp
  from pid_parse_listed [OF assms(1)] assms(1,2) len bounds show ?thesis
    unfolding has_formula_simp pid_parse_def Let_def pid_range_def
      a_def [symmetric] b_def [symmetric] r_def [symmetric]
    by (elim insertE emptyE; simp; auto; simp add: field_simps)
qed

lemma pid_parse_in_range_witness: "(0 :: f64) \<le> 680 \<and> (680 :: f64) \<le> 16383.75"
  by (rule pid_parse_in_range [where p = "Pid 0x0C" and data = "[0x0A, 0xA0]"])
    (simp_all add: pid_parse_def response_bytes_def pid_range_def)

end
