(* ===== verification/Service.thy ===== *)
theory Service
  imports Pid
begin

text \<open>
  Diagnostic service definitions (\<open>protocol/service.rs\<close>): request building, the Mode 05 oxygen sensor
  tests and the result records of Modes 01, 05, 06, 09, 10, 19 and 2F.
\<close>

datatype diag_session = DefaultSession | ProgrammingSession | ExtendedSession

datatype actuator_command = ReturnToEcu | Adjust bytes | Activate

record monitor_status =
  mon_name :: string
  mon_supported :: bool
  mon_complete :: bool

record readiness_status =
  rs_mil_on :: bool
  rs_dtc_count :: u8
  rs_compression_ignition :: bool
  rs_monitors :: "monitor_status list"

record test_result =
  tr_test_id :: u8
  tr_name :: string
  tr_value :: f64
  tr_min :: "f64 option"
  tr_max :: "f64 option"
  tr_passed :: bool
  tr_unit :: string

record vehicle_info =
  vi_vin :: string
  vi_calibration_ids :: "string list"
  vi_cvns :: "u32 list"
  vi_ecu_name :: "string option"

record dtc_detail =
  dd_code :: string
  dd_occurrence_count :: u16
  dd_aging_counter :: u16

section \<open>Oxygen sensor tests\<close>

datatype o2_sensor_location =
    Bank1Sensor1 | Bank1Sensor2 | Bank2Sensor1 | Bank2Sensor2
  | Bank3Sensor1 | Bank3Sensor2 | Bank4Sensor1 | Bank4Sensor2

record o2_test_result =
  o2_test_id :: u8
  o2_test_name :: string
  o2_sensor :: o2_sensor_location
  o2_value :: f64
  o2_unit :: string

definition o2_location_from_byte :: "u8 \<Rightarrow> o2_sensor_location option" where
  "o2_location_from_byte b =
    (if b = 0x01 then Some Bank1Sensor1
     else if b = 0x02 then Some Bank1Sensor2
     else if b = 0x03 then Some Bank2Sensor1
     else if b = 0x04 then Some Bank2Sensor2
     else if b = 0x05 then Some Bank3Sensor1
     else if b = 0x06 then Some Bank3Sensor2
     else if b = 0x07 then Some Bank4Sensor1
     else if b = 0x08 then Some Bank4Sensor2
     else None)"

primrec o2_location_text :: "o2_sensor_location \<Rightarrow> string" where
  "o2_location_text Bank1Sensor1 = ''B1S1''"
| "o2_location_text Bank1Sensor2 = ''B1S2''"
| "o2_location_text Bank2Sensor1 = ''B2S1''"
| "o2_location_text Bank2Sensor2 = ''B2S2''"
| "o2_location_text Bank3Sensor1 = ''B3S1''"
| "o2_location_text Bank3Sensor2 = ''B3S2''"
| "o2_location_text Bank4Sensor1 = ''B4S1''"
| "o2_location_text Bank4Sensor2 = ''B4S2''"

definition o2_test_info :: "u8 \<Rightarrow> string \<times> string \<times> (u16 \<Rightarrow> f64)" where
  "o2_test_info tid =
    (if tid = 0x01 then (''Rich-to-Lean Threshold Voltage'', ''V'', \<lambda>v. of_nat (unat v) * 0.005)
     else if tid = 0x02 then (''Lean-to-Rich Threshold Voltage'', ''V'', \<lambda>v. of_nat (unat v) * 0.005)
     else if tid = 0x03 then (''Low Sensor Voltage for Switch Time'', ''V'', \<lambda>v. of_nat (unat v) * 0.005)
     else if tid = 0x04 then (''High Sensor Voltage for Switch Time'', ''V'', \<lambda>v. of_nat (unat v) * 0.005)
     else if tid = 0x05 then (''Rich-to-Lean Switch Time'', ''s'', \<lambda>v. of_nat (unat v) * 0.004)
     else if tid = 0x06 then (''Lean-to-Rich Switch Time'', ''s'', \<lambda>v. of_nat (unat v) * 0.004)
     else if tid = 0x07 then (''Minimum Sensor Voltage'', ''V'', \<lambda>v. of_nat (unat v) * 0.005)
     else if tid = 0x08 then (''Maximum Sensor Voltage'', ''V'', \<lambda>v. of_nat (unat v) * 0.005)
     else if tid = 0x09 then (''Time Between Transitions'', ''s'', \<lambda>v. of_nat (unat v) * 0.04)
     else (''Unknown O2 Test'', [], \<lambda>v. of_nat (unat v)))"

section \<open>Requests\<close>

datatype target = Broadcast | Module string

record service_request =
  sr_service_id :: u8
  sr_data :: bytes
  sr_target :: target

definition read_pid_request :: "pid \<Rightarrow> service_request" where
  "read_pid_request p = \<lparr>sr_service_id = 0x01, sr_data = [pid_code p], sr_target = Broadcast\<rparr>"

definition read_vin_request :: service_request where
  "read_vin_request = \<lparr>sr_service_id = 0x09, sr_data = [0x02], sr_target = Broadcast\<rparr>"

definition read_dtcs_request :: service_request where
  "read_dtcs_request = \<lparr>sr_service_id = 0x03, sr_data = [], sr_target = Broadcast\<rparr>"

definition enhanced_read_request :: "u8 \<Rightarrow> u16 \<Rightarrow> target \<Rightarrow> service_request" where
  "enhanced_read_request service_id did t =
    \<lparr>sr_service_id = service_id, sr_data = [ucast (drop_bit 8 did), ucast (did AND 0xFF)],
     sr_target = t\<rparr>"

lemma o2_location_from_byte_Some:
  "(\<exists>l. o2_location_from_byte b = Some l) \<longleftrightarrow> 1 \<le> b \<and> b \<le> 8"
proof -
  have "b \<in> {1, 2, 3, 4, 5, 6, 7, 8}" if "1 \<le> b" "b \<le> 8"
  proof -
    from that have "1 \<le> unat b" "unat b \<le> 8" by (simp_all add: word_le_nat_alt)
    then have "unat b \<in> {1, 2, 3, 4, 5, 6, 7, 8}" by (simp only: insert_iff empty_iff) presburger
    then show ?thesis by (auto simp: word_unat_eq_iff)
  qed
  then show ?thesis by (auto simp: o2_location_from_byte_def)
qed

lemma o2_location_from_byte_inj:
  "o2_location_from_byte b = Some l \<Longrightarrow> o2_location_from_byte b' = Some l \<Longrightarrow> b = b'"
  by (cases l) (auto simp: o2_location_from_byte_def split: if_splits)

lemma u16_be_bytes: "[ucast (drop_bit 8 did), ucast (did AND 0xFF)] = u16_to_be did"
proof -
  have "ucast (did AND 0xFF) = (ucast did :: u8)"
    by (rule bit_word_eqI) (auto simp: bit_simps mask_simps dest: bit_imp_le_length)
  then show ?thesis by (simp add: u16_to_be_def)
qed

end
