(* ===== verification/Vehicle.thy ===== *)
theory Vehicle
  imports Vin Service
begin

text \<open>
  Vehicle specifications (\<open>vehicle/mod.rs\<close>): the data that a spec file holds, VIN matching, alert
  thresholds, the DTC library and the registry of loaded specs. Reading YAML files and directories
  is not modelled: a registry is the list of specs that were loaded.
\<close>

section \<open>Buses and modules\<close>

type_synonym module_id = string
type_synonym bus_id = string

datatype physical_address =
    AddrJ1850 u8 "u8 \<times> u8 \<times> u8"
  | AddrCan11Bit u16 u16
  | AddrCan29Bit u32 u32
  | AddrJ1939 u8

datatype kline_init = SlowInit | FastInit

datatype protocol =
    J1850Vpw | J1850Pwm | ProtoIso9141 kline_init | ProtoKwp2000 kline_init
  | Can11Bit500 | Can11Bit250 | Can29Bit500 | Can29Bit250 | ProtoAuto

record vmodule =
  vm_id :: module_id
  vm_name :: string
  vm_address :: physical_address
  vm_bus :: bus_id

record bus_config =
  bc_id :: bus_id
  bc_protocol :: protocol
  bc_speed_bps :: u32
  bc_modules :: "vmodule list"
  bc_description :: "string option"

section \<open>VIN matching\<close>

record vin_matcher =
  vin_8th_digit :: "char list option"
  wmi_prefixes :: "string list"
  year_range :: "(u16 \<times> u16) option"

text \<open>\<open>str::eq_ignore_ascii_case\<close>.\<close>

definition eq_ignore_ascii_case :: "string \<Rightarrow> string \<Rightarrow> bool" where
  "eq_ignore_ascii_case a b \<longleftrightarrow> map to_upper a = map to_upper b"

definition year_in_range :: "u16 \<Rightarrow> u16 \<Rightarrow> int option \<Rightarrow> bool" where
  "year_in_range lo hi y =
    (case y of None \<Rightarrow> False | Some y \<Rightarrow> uint lo \<le> y \<and> y \<le> uint hi)"

definition matcher_matches :: "vin_matcher \<Rightarrow> string \<Rightarrow> bool" where
  "matcher_matches m vin =
    (if length vin < 17 then False
     else
       let wmi = take 3 vin;
           wmi_ok = (wmi_prefixes m = [] \<or> list_ex (eq_ignore_ascii_case wmi) (wmi_prefixes m));
           digit_ok = (case vin_8th_digit m of None \<Rightarrow> True | Some digits \<Rightarrow> vin ! 7 \<in> set digits);
           year_ok = (case year_range m of None \<Rightarrow> True
             | Some (lo, hi) \<Rightarrow>
                 let (current, previous) = decode_year_candidates vin
                 in year_in_range lo hi current \<or> year_in_range lo hi previous)
       in wmi_ok \<and> digit_ok \<and> year_ok)"

section \<open>Specification data\<close>

record engine_spec =
  en_code :: string
  en_displacement_l :: f64
  en_cylinders :: u8
  en_layout :: string
  en_aspiration :: string
  en_fuel_type :: string
  en_fuel_system :: "string option"
  en_compression_ratio :: "f64 option"
  en_max_power_kw :: "f64 option"
  en_max_torque_nm :: "f64 option"
  en_redline_rpm :: u16
  en_idle_rpm_warm :: u16
  en_idle_rpm_cold :: u16
  en_firing_order :: "bytes option"
  en_ecm_hardware :: "string option"

datatype transmission_type =
    Geared u8 "(string \<times> f64) list"
  | Cvt "f64 \<times> f64" "u8 option"
  | Dct u8 "(string \<times> f64) list"
  | Manual u8 "(string \<times> f64) list"

record transmission_spec =
  tx_model :: string
  tx_transmission_type :: transmission_type
  tx_fluid_capacity_l :: "f64 option"

record communication_spec =
  cs_buses :: "bus_config list"
  cs_elm327_protocol_code :: "string option"

record spec_identity =
  si_name :: string
  si_model_years :: "u16 \<times> u16"
  si_makes :: "string list"
  si_models :: "string list"
  si_engine :: engine_spec
  si_transmission :: "transmission_spec option"
  si_vin_match :: "vin_matcher option"

record poll_step =
  ps_target :: string
  ps_standard_pids :: "u8 list"
  ps_enhanced_pids :: "u16 list"

record polling_group =
  pg_name :: string
  pg_description :: string
  pg_target_interval_ms :: u32
  pg_steps :: "poll_step list"

datatype rule_trigger = DtcPresent string | DtcRange string string

datatype rule_action =
    QueryModule string u8
  | CheckFirst u16 string string
  | Alert string
  | MonitorPids "u16 list"

record diagnostic_rule =
  dr_name :: string
  dr_trigger :: rule_trigger
  dr_action :: rule_action
  dr_description :: string

record quick_test =
  qt_description :: string
  qt_pass_criteria :: string

record known_issue =
  ki_rank :: u8
  ki_name :: string
  ki_description :: string
  ki_symptoms :: "string list"
  ki_root_cause :: string
  ki_quick_test :: "quick_test option"
  ki_fix :: string

section \<open>Thresholds\<close>

record threshold =
  th_min :: "f64 option"
  th_max :: "f64 option"
  th_warning_low :: "f64 option"
  th_warning_high :: "f64 option"
  th_critical_low :: "f64 option"
  th_critical_high :: "f64 option"
  th_unit :: string

datatype alert_level = AlertNormal | AlertWarning | AlertCritical

text \<open>\<open>#[derive(PartialOrd, Ord)]\<close>, in the order of the declaration.\<close>

instantiation alert_level :: linorder
begin

primrec alert_rank :: "alert_level \<Rightarrow> nat" where
  "alert_rank AlertNormal = 0"
| "alert_rank AlertWarning = 1"
| "alert_rank AlertCritical = 2"

definition less_eq_alert_level :: "alert_level \<Rightarrow> alert_level \<Rightarrow> bool" where
  "less_eq_alert_level a b \<longleftrightarrow> alert_rank a \<le> alert_rank b"

definition less_alert_level :: "alert_level \<Rightarrow> alert_level \<Rightarrow> bool" where
  "less_alert_level a b \<longleftrightarrow> alert_rank a < alert_rank b"

lemma alert_rank_inj: "alert_rank a = alert_rank b \<Longrightarrow> a = b"
  by (cases a; cases b) simp_all

instance
  by intro_classes (auto simp: less_eq_alert_level_def less_alert_level_def intro: alert_rank_inj)

end

datatype alert_direction = DirLow | DirHigh

text \<open>The message of a result is its format string with the values that it interpolates.\<close>

datatype threshold_message = ThresholdMsg string string f64 f64 string

record threshold_result =
  thr_level :: alert_level
  thr_reading :: f64
  thr_limit :: f64
  thr_direction :: alert_direction
  thr_message :: threshold_message

text \<open>A limit that is set and crossed returns its result; otherwise the next check runs.\<close>

definition check_limit :: "f64 option \<Rightarrow> (f64 \<Rightarrow> bool) \<Rightarrow> (f64 \<Rightarrow> threshold_result)
    \<Rightarrow> threshold_result option \<Rightarrow> threshold_result option" where
  "check_limit limit crossed result next =
    (case limit of Some l \<Rightarrow> if crossed l then Some (result l) else next | None \<Rightarrow> next)"

definition threshold_evaluate :: "threshold \<Rightarrow> f64 \<Rightarrow> string \<Rightarrow> threshold_result option" where
  "threshold_evaluate th v name =
    check_limit (th_critical_high th) (\<lambda>limit. limit \<le> v)
      (\<lambda>limit. \<lparr>thr_level = AlertCritical, thr_reading = v, thr_limit = limit, thr_direction = DirHigh,
        thr_message = ThresholdMsg ''{} critically high: {:.1} >= {:.1} {}'' name v limit (th_unit th)\<rparr>)
    (check_limit (th_critical_low th) (\<lambda>limit. v \<le> limit)
      (\<lambda>limit. \<lparr>thr_level = AlertCritical, thr_reading = v, thr_limit = limit, thr_direction = DirLow,
        thr_message = ThresholdMsg ''{} critically low: {:.1} <= {:.1} {}'' name v limit (th_unit th)\<rparr>)
    (check_limit (th_warning_high th) (\<lambda>limit. limit \<le> v)
      (\<lambda>limit. \<lparr>thr_level = AlertWarning, thr_reading = v, thr_limit = limit, thr_direction = DirHigh,
        thr_message = ThresholdMsg ''{} warning high: {:.1} >= {:.1} {}'' name v limit (th_unit th)\<rparr>)
    (check_limit (th_warning_low th) (\<lambda>limit. v \<le> limit)
      (\<lambda>limit. \<lparr>thr_level = AlertWarning, thr_reading = v, thr_limit = limit, thr_direction = DirLow,
        thr_message = ThresholdMsg ''{} warning low: {:.1} <= {:.1} {}'' name v limit (th_unit th)\<rparr>)
    None)))"

record named_threshold =
  nt_name :: string
  nt_threshold :: threshold

record threshold_set =
  ts_engine :: "named_threshold list"
  ts_transmission :: "named_threshold list"

section \<open>The DTC library\<close>

record dtc_entry =
  de_code :: string
  de_meaning :: string
  de_severity :: severity
  de_notes :: "string option"
  de_related_pids :: "u16 list option"
  de_category :: "string option"

record dtc_library =
  dl_ecm :: "dtc_entry list"
  dl_tcm :: "dtc_entry list"
  dl_bcm :: "dtc_entry list"
  dl_network :: "dtc_entry list"

definition dtc_library_lookup :: "dtc_library \<Rightarrow> string \<Rightarrow> dtc_entry option" where
  "dtc_library_lookup lib code =
    find (\<lambda>e. de_code e = code) (dl_ecm lib @ dl_tcm lib @ dl_bcm lib @ dl_network lib)"

section \<open>Specs and their registry\<close>

record vehicle_spec =
  vs_spec_version :: "string option"
  vs_identity :: spec_identity
  vs_communication :: communication_spec
  vs_thresholds :: "threshold_set option"
  vs_polling_groups :: "polling_group list"
  vs_diagnostic_rules :: "diagnostic_rule list"
  vs_known_issues :: "known_issue list"
  vs_dtc_library :: "dtc_library option"
  vs_enhanced_pids :: "enhanced_pid list"

definition spec_lookup_dtc :: "vehicle_spec \<Rightarrow> string \<Rightarrow> dtc_entry option" where
  "spec_lookup_dtc spec code =
    Option.bind (vs_dtc_library spec) (\<lambda>lib. dtc_library_lookup lib code)"

record vehicle_profile =
  vp_vin :: string
  vp_decoded_vin :: "decoded_vin option"
  vp_info :: "vehicle_info option"
  vp_spec :: "vehicle_spec option"
  vp_supported_pids :: "pid set"

type_synonym spec_registry = "vehicle_spec list"

definition registry_new :: spec_registry where
  "registry_new = []"

definition spec_matches_vin :: "vehicle_spec \<Rightarrow> string \<Rightarrow> bool" where
  "spec_matches_vin spec vin =
    (case si_vin_match (vs_identity spec) of None \<Rightarrow> False | Some matcher \<Rightarrow> matcher_matches matcher vin)"

definition match_vin_all :: "spec_registry \<Rightarrow> string \<Rightarrow> vehicle_spec list" where
  "match_vin_all specs vin = filter (\<lambda>spec. spec_matches_vin spec vin) specs"

text \<open>The loop of \<open>match_vin\<close>: it keeps the match found so far and gives up at a second one.\<close>

fun match_vin_loop :: "string \<Rightarrow> vehicle_spec option \<Rightarrow> vehicle_spec list \<Rightarrow> vehicle_spec option" where
  "match_vin_loop vin found [] = found"
| "match_vin_loop vin found (spec # specs) =
    (if spec_matches_vin spec vin then
       (if found \<noteq> None then None else match_vin_loop vin (Some spec) specs)
     else match_vin_loop vin found specs)"

definition match_vin :: "spec_registry \<Rightarrow> string \<Rightarrow> vehicle_spec option" where
  "match_vin specs vin = match_vin_loop vin None specs"

definition match_vehicle :: "spec_registry \<Rightarrow> string \<Rightarrow> string \<Rightarrow> u16 \<Rightarrow> vehicle_spec option" where
  "match_vehicle specs mk mdl year =
    find (\<lambda>s.
      let year_ok = (fst (si_model_years (vs_identity s)) \<le> year
            \<and> year \<le> snd (si_model_years (vs_identity s)));
          make_ok = list_ex (\<lambda>m. eq_ignore_ascii_case m mk) (si_makes (vs_identity s));
          model_ok = list_ex (\<lambda>m. eq_ignore_ascii_case m mdl) (si_models (vs_identity s))
      in year_ok \<and> make_ok \<and> model_ok) specs"

definition registry_lookup_dtc :: "spec_registry \<Rightarrow> string \<Rightarrow> dtc_entry option" where
  "registry_lookup_dtc specs code = find_map (\<lambda>spec. spec_lookup_dtc spec code) specs"

section \<open>Lemmas\<close>

lemma check_limit_simps [simp]:
  "check_limit None p r n = n"
  "check_limit (Some l) p r n = (if p l then Some (r l) else n)"
  by (simp_all add: check_limit_def)

lemma match_vin_loop_found:
  "match_vin_loop vin (Some s) specs = (if filter (\<lambda>spec. spec_matches_vin spec vin) specs = [] then Some s else None)"
  by (induction specs) auto

lemma match_vin_loop_None:
  "match_vin_loop vin None specs =
    (case filter (\<lambda>spec. spec_matches_vin spec vin) specs of [s] \<Rightarrow> Some s | _ \<Rightarrow> None)"
  by (induction specs) (auto simp: match_vin_loop_found split: list.split)

lemma dtc_library_lookup_Some:
  "dtc_library_lookup lib code = Some e \<Longrightarrow> de_code e = code
     \<and> e \<in> set (dl_ecm lib @ dl_tcm lib @ dl_bcm lib @ dl_network lib)"
  unfolding dtc_library_lookup_def by (rule find_SomeD)

text \<open>The value that a threshold accepts: inside every limit that is set.\<close>

definition below :: "f64 option \<Rightarrow> f64 \<Rightarrow> bool" where
  "below limit v = (case limit of None \<Rightarrow> True | Some l \<Rightarrow> v < l)"

definition above :: "f64 option \<Rightarrow> f64 \<Rightarrow> bool" where
  "above limit v = (case limit of None \<Rightarrow> True | Some l \<Rightarrow> l < v)"

lemma below_above_simps [simp]: "below None v" "above None v" "below (Some l) v = (v < l)" "above (Some l) v = (l < v)"
  by (simp_all add: below_def above_def)

text \<open>C40: \<open>match_vin\<close> returns a spec exactly when it is the only loaded spec, counted with its
  position, whose VIN matcher accepts the VIN; with no match and with several it returns none. The
  loop agrees with the reference \<open>match_vin_all\<close>.\<close>

theorem match_vin_equals_unique_match:
  "(match_vin specs vin = Some s) = (match_vin_all specs vin = [s])
   \<and> (match_vin specs vin = None) = (\<not> length (match_vin_all specs vin) = 1)"
  by (auto simp: match_vin_def match_vin_all_def match_vin_loop_None length_Suc_conv split: list.split)

text \<open>A reading raises no alert exactly when it lies strictly inside all four limits that are set,
  a critical alert exactly when it reaches a critical limit (a warning never hides it), and
  otherwise a warning. The alert reports the reading, a limit of the spec that the reading has
  reached, and the side it lies on.\<close>

theorem threshold_alert_levels:
  "(threshold_evaluate th v name = None) =
     (below (th_critical_high th) v \<and> above (th_critical_low th) v
      \<and> below (th_warning_high th) v \<and> above (th_warning_low th) v)
   \<and> (map_option thr_level (threshold_evaluate th v name) = Some AlertCritical) =
     (\<not> (below (th_critical_high th) v \<and> above (th_critical_low th) v))
   \<and> pred_option (\<lambda>r. thr_level r \<noteq> AlertNormal \<and> thr_reading r = v
     \<and> (case (thr_level r, thr_direction r) of
          (AlertCritical, DirHigh) \<Rightarrow> th_critical_high th = Some (thr_limit r) \<and> thr_limit r \<le> v
        | (AlertCritical, DirLow) \<Rightarrow> th_critical_low th = Some (thr_limit r) \<and> v \<le> thr_limit r
        | (_, DirHigh) \<Rightarrow> th_warning_high th = Some (thr_limit r) \<and> thr_limit r \<le> v
        | (_, DirLow) \<Rightarrow> th_warning_low th = Some (thr_limit r) \<and> v \<le> thr_limit r))
     (threshold_evaluate th v name)"
  by (cases "th_critical_high th"; cases "th_critical_low th"; cases "th_warning_high th";
      cases "th_warning_low th"; auto simp: threshold_evaluate_def)+

text \<open>Without lower limits a higher reading never has a lower alert level; the warning limit may even lie
  above the critical one.\<close>

definition alert_of :: "threshold \<Rightarrow> f64 \<Rightarrow> alert_level" where
  "alert_of th v = (case threshold_evaluate th v [] of Some r \<Rightarrow> thr_level r | None \<Rightarrow> AlertNormal)"

lemma alert_of_mono:
  assumes "th_critical_low th = None" "th_warning_low th = None" "v \<le> w"
  shows "alert_of th v \<le> alert_of th w"
  using assms by (cases "th_critical_high th"; cases "th_warning_high th")
    (auto simp: alert_of_def threshold_evaluate_def less_eq_alert_level_def)

end
