(* ===== verification/SpecLookup.thy ===== *)
theory SpecLookup
  imports Vehicle "HOL-Library.List_Lexorder" "HOL-Library.Char_ord"
begin

text \<open>
  What a session looks up in the matched spec: thresholds by PID (\<open>session/threshold.rs\<close>), enhanced
  PIDs and their formulas (\<open>session/enhanced.rs\<close>), and the enrichment of trouble codes, the rules and
  the known issues (\<open>session/diagnostics.rs\<close>). Strings are ordered byte by byte, which is the
  lexicographic order of \<open>List_Lexorder\<close> over \<open>Char_ord\<close>. Arithmetic is that of a release build: a
  shift takes its amount modulo the width.
\<close>

section \<open>Thresholds\<close>

definition pid_threshold_name :: "pid \<Rightarrow> string list option" where
  "pid_threshold_name p =
    (let c = pid_code p in
     if c = 0x05 then Some [''coolant_temp'', ''coolant_temp_c'']
     else if c = 0x0C then Some [''rpm'']
     else if c = 0x5C then Some [''oil_temp'', ''oil_temp_c'']
     else if c = 0x0B then Some [''intake_map_kpa'']
     else if c = 0x10 then Some [''maf_gs'']
     else if c = 0x42 then Some [''battery_voltage'']
     else if c = 0x2F then Some [''fuel_tank_pct'']
     else if c = 0x5E then Some [''fuel_rate_lh'']
     else if c = 0x46 then Some [''ambient_temp_c'', ''ambient_temp'']
     else if c = 0x0F then Some [''intake_air_temp_c'', ''intake_air_temp'']
     else if c = 0x33 then Some [''barometric_kpa'']
     else None)"

definition evaluate_pid_threshold :: "vehicle_spec option \<Rightarrow> pid \<Rightarrow> f64 \<Rightarrow> threshold_result option" where
  "evaluate_pid_threshold spec p v =
    Option.bind spec (\<lambda>spec.
    Option.bind (vs_thresholds spec) (\<lambda>thresholds.
    Option.bind (pid_threshold_name p) (\<lambda>names.
      case find (\<lambda>named. nt_name named \<in> set names) (ts_engine thresholds @ ts_transmission thresholds) of
        Some named \<Rightarrow> threshold_evaluate (nt_threshold named) v (pid_name p)
      | None \<Rightarrow> None)))"

text \<open>\<open>format!("{:#06X}", did)\<close>.\<close>

definition did_name :: "u16 \<Rightarrow> string" where
  "did_name did = ''0x'' @ hex_compact (u16_to_be did)"

definition evaluate_enhanced_threshold :: "vehicle_spec option \<Rightarrow> u16 \<Rightarrow> f64 \<Rightarrow> threshold_result option" where
  "evaluate_enhanced_threshold spec did v =
    Option.bind spec (\<lambda>spec.
    Option.bind (vs_thresholds spec) (\<lambda>thresholds.
      case find (\<lambda>named. nt_name named = did_name did) (ts_engine thresholds @ ts_transmission thresholds) of
        Some named \<Rightarrow> threshold_evaluate (nt_threshold named) v (did_name did)
      | None \<Rightarrow> None))"

section \<open>Enhanced PIDs\<close>

definition list_module_pids :: "vehicle_spec option \<Rightarrow> module_id \<Rightarrow> enhanced_pid list" where
  "list_module_pids spec m =
    (case spec of
       None \<Rightarrow> []
     | Some spec \<Rightarrow> filter (\<lambda>epid. eq_ignore_ascii_case (ep_module epid) m) (vs_enhanced_pids spec))"

definition find_enhanced_pid :: "vehicle_spec option \<Rightarrow> u16 \<Rightarrow> module_id \<Rightarrow> enhanced_pid option" where
  "find_enhanced_pid spec did m =
    Option.bind spec (\<lambda>spec.
      find (\<lambda>epid. ep_did epid = did \<and> eq_ignore_ascii_case (ep_module epid) m) (vs_enhanced_pids spec))"

definition find_service_id :: "vehicle_spec option \<Rightarrow> u16 \<Rightarrow> module_id \<Rightarrow> u8" where
  "find_service_id spec did m =
    (case find_enhanced_pid spec did m of Some epid \<Rightarrow> ep_service_id epid | None \<Rightarrow> 0x22)"

text \<open>
  A zero divisor is the rational 0 here, an infinity in the code. A bit index of 32 and more panics
  in a debug build.
\<close>

definition bitmask_raw :: "bytes \<Rightarrow> u32" where
  "bitmask_raw data =
    (if 4 \<le> length data then u32_from_be (data ! 0) (data ! 1) (data ! 2) (data ! 3)
     else if 2 \<le> length data then push_bit 8 (ucast (data ! 0)) OR ucast (data ! 1)
     else ucast (data ! 0))"

definition decode_with_formula :: "enhanced_pid \<Rightarrow> bytes \<Rightarrow> obd_value" where
  "decode_with_formula epid data =
    (if data = [] then Raw data
     else
       let a = of_nat (unat (data ! 0));
           b = (if 1 < length data then of_nat (unat (data ! 1)) else 0)
       in case ep_formula epid of
            Linear scale offset \<Rightarrow> Scalar (a * scale + offset)
          | TwoByte scale offset \<Rightarrow> Scalar ((a * 256 + b) * scale + offset)
          | Centered center divisor \<Rightarrow> Scalar ((a * 256 + b - center) / divisor)
          | Bitmask bits \<Rightarrow>
              let raw = bitmask_raw data;
                  flags = map (\<lambda>(b, name). (name, bit raw (unat b mod 32))) bits
              in Bits \<lparr>bf_raw = raw, bf_flags = flags\<rparr>
          | Enumerated values \<Rightarrow>
              (case map_of values (data ! 0) of
                 Some label \<Rightarrow> State label
               | None \<Rightarrow> State (''Unknown('' @ decimal (unat (data ! 0)) @ '')''))
          | Expression _ \<Rightarrow> Raw data)"

definition decode_enhanced_value :: "vehicle_spec option \<Rightarrow> u16 \<Rightarrow> module_id \<Rightarrow> bytes \<Rightarrow> obd_value" where
  "decode_enhanced_value spec did m data =
    (case find_enhanced_pid spec did m of
       Some epid \<Rightarrow> decode_with_formula epid data
     | None \<Rightarrow> Raw data)"

section \<open>Trouble codes\<close>

definition enrich_dtc :: "vehicle_spec option \<Rightarrow> dtc \<Rightarrow> dtc" where
  "enrich_dtc spec d =
    (case Option.bind spec (\<lambda>spec. Option.bind (vs_dtc_library spec) (\<lambda>lib. dtc_library_lookup lib (dtc_code d))) of
       Some entry \<Rightarrow> d\<lparr>dtc_description := Some (de_meaning entry), dtc_severity := Some (de_severity entry),
         dtc_notes := de_notes entry\<rparr>
     | None \<Rightarrow> if dtc_description d = None
         then d\<lparr>dtc_description := universal_dtc_description (dtc_code d)\<rparr> else d)"

definition enrich_dtcs :: "vehicle_spec option \<Rightarrow> dtc list \<Rightarrow> dtc list" where
  "enrich_dtcs spec dtcs = map (enrich_dtc spec) dtcs"

definition rule_fires :: "dtc list \<Rightarrow> diagnostic_rule \<Rightarrow> bool" where
  "rule_fires dtcs rule =
    (case dr_trigger rule of
       DtcPresent code \<Rightarrow> list_ex (\<lambda>d. dtc_code d = code) dtcs
     | DtcRange lo hi \<Rightarrow> list_ex (\<lambda>d. lo \<le> dtc_code d \<and> dtc_code d \<le> hi) dtcs)"

definition active_rules :: "dtc list \<Rightarrow> vehicle_spec option \<Rightarrow> diagnostic_rule list" where
  "active_rules dtcs spec =
    (case spec of None \<Rightarrow> [] | Some s \<Rightarrow> filter (rule_fires dtcs) (vs_diagnostic_rules s))"

definition matching_issues :: "dtc list \<Rightarrow> vehicle_spec option \<Rightarrow> known_issue list" where
  "matching_issues dtcs spec =
    (case spec of
       None \<Rightarrow> []
     | Some s \<Rightarrow>
         let dtc_codes = map dtc_code dtcs;
             matches = filter (\<lambda>issue. list_ex (\<lambda>symptom. symptom \<in> set dtc_codes) (ki_symptoms issue))
               (vs_known_issues s)
         in sort_key ki_rank matches)"

text \<open>\<open>retain\<close> with a set of the keys seen so far: an entry stays when its key is new.\<close>

definition dedup_key :: "dtc \<Rightarrow> string \<times> string option \<times> dtc_status" where
  "dedup_key d = (dtc_code d, dtc_source_module d, dtc_status d)"

fun dedup_loop :: "(string \<times> string option \<times> dtc_status) set \<Rightarrow> dtc list \<Rightarrow> dtc list" where
  "dedup_loop seen [] = []"
| "dedup_loop seen (d # ds) =
    (if dedup_key d \<in> seen then dedup_loop seen ds else d # dedup_loop (insert (dedup_key d) seen) ds)"

definition dedup_dtcs :: "dtc list \<Rightarrow> dtc list" where
  "dedup_dtcs dtcs = dedup_loop {} dtcs"

section \<open>Lemmas\<close>

lemma set_dedup_loop: "dedup_key ` set (dedup_loop seen ds) = dedup_key ` set ds - seen"
  by (induction seen ds rule: dedup_loop.induct) auto

lemma distinct_dedup_loop: "distinct (map dedup_key (dedup_loop seen ds))"
  using set_dedup_loop by (induction seen ds rule: dedup_loop.induct) auto

text \<open>The first entry of every key survives.\<close>

lemma find_dedup_loop:
  "k \<notin> seen \<Longrightarrow> find (\<lambda>d. dedup_key d = k) (dedup_loop seen ds) = find (\<lambda>d. dedup_key d = k) ds"
  by (induction seen ds rule: dedup_loop.induct) auto

lemma dedup_loop_id:
  "distinct (map dedup_key ds) \<Longrightarrow> dedup_key ` set ds \<inter> seen = {} \<Longrightarrow> dedup_loop seen ds = ds"
  by (induction seen ds rule: dedup_loop.induct) auto

lemma enrich_dtc_key: "dedup_key (enrich_dtc spec d) = dedup_key d"
  by (simp add: enrich_dtc_def dedup_key_def split: option.split)

lemma enrich_dtc_idem: "enrich_dtc spec (enrich_dtc spec d) = enrich_dtc spec d"
  by (auto simp: enrich_dtc_def split: option.split)

lemma enrich_dtc_spec_entry:
  "vs_dtc_library spec = Some lib \<Longrightarrow> dtc_library_lookup lib (dtc_code d) = Some entry
   \<Longrightarrow> dtc_description (enrich_dtc (Some spec) d) = Some (de_meaning entry)
     \<and> dtc_severity (enrich_dtc (Some spec) d) = Some (de_severity entry)
     \<and> dtc_notes (enrich_dtc (Some spec) d) = de_notes entry"
  by (simp add: enrich_dtc_def)

text \<open>The issues are those with a present symptom, in rank order; equal ranks keep the spec's order.\<close>

lemma matching_issues_spec:
  "set (matching_issues dtcs (Some s)) =
     {i \<in> set (vs_known_issues s). set (ki_symptoms i) \<inter> dtc_code ` set dtcs \<noteq> {}}"
  "sorted (map ki_rank (matching_issues dtcs (Some s)))"
  "filter (\<lambda>i. ki_rank i = r) (matching_issues dtcs (Some s)) =
     filter (\<lambda>i. list_ex (\<lambda>symptom. symptom \<in> dtc_code ` set dtcs) (ki_symptoms i) \<and> ki_rank i = r) (vs_known_issues s)"
  by (auto simp: matching_issues_def list_ex_iff sort_key_stable)

text \<open>Deduplication keeps exactly one entry of every key (code, source module, status), the first
  one; it is idempotent, and so is the enrichment that follows it, which changes no key and puts
  the entry of the spec's library, where there is one, over any earlier description.\<close>

theorem dedup_and_enrich_dtcs:
  "distinct (map dedup_key (dedup_dtcs ds)) \<and> dedup_key ` set (dedup_dtcs ds) = dedup_key ` set ds
   \<and> find (\<lambda>d. dedup_key d = k) (dedup_dtcs ds) = find (\<lambda>d. dedup_key d = k) ds
   \<and> dedup_dtcs (dedup_dtcs ds) = dedup_dtcs ds
   \<and> map dedup_key (enrich_dtcs spec ds) = map dedup_key ds
   \<and> enrich_dtcs spec (enrich_dtcs spec ds) = enrich_dtcs spec ds
   \<and> dedup_dtcs (enrich_dtcs spec (dedup_dtcs ds)) = enrich_dtcs spec (dedup_dtcs ds)"
  using distinct_dedup_loop [of "{}" ds]
  by (simp add: dedup_dtcs_def enrich_dtcs_def set_dedup_loop find_dedup_loop dedup_loop_id
      enrich_dtc_key enrich_dtc_idem o_def)

end
