(* ===== verification/Modes.thy ===== *)
theory Modes
  imports Service Dtc
begin

text \<open>
  Decoders of the Mode 01 readiness bytes, the Mode 06 test results and the trouble codes of Modes
  03, 07 and 0A (\<open>session/modes.rs\<close>).
\<close>

text \<open>The loop runs while eight bytes are left; a shorter rest is ignored.\<close>

fun decode_test_results :: "bytes \<Rightarrow> test_result list" where
  "decode_test_results (tid # comp_id # v1 # v0 # lo1 # lo0 # hi1 # hi0 # rest) =
    (let v = of_nat (unat (u16_from_be v1 v0));
         lo = of_nat (unat (u16_from_be lo1 lo0));
         hi = of_nat (unat (u16_from_be hi1 hi0));
         passed = (lo \<le> v \<and> v \<le> hi)
     in \<lparr>tr_test_id = tid, tr_name = ''Test 0x'' @ hex_byte tid, tr_value = v, tr_min = Some lo,
         tr_max = Some hi, tr_passed = passed, tr_unit = []\<rparr> # decode_test_results rest)"
| "decode_test_results _ = []"

definition diesel_monitors :: "(nat \<times> string) list" where
  "diesel_monitors = [(0, ''EGR/VVT System''), (1, ''Boost Pressure''), (2, ''NOx/SCR Monitor''),
    (3, ''NMHC Catalyst''), (4, ''Misfire''), (5, ''Fuel System''), (6, ''Comprehensive Component'')]"

definition gas_monitors :: "(nat \<times> string) list" where
  "gas_monitors = [(0, ''Catalyst''), (1, ''Heated Catalyst''), (2, ''EVAP System''),
    (3, ''Secondary Air''), (4, ''A/C Refrigerant''), (5, ''O2 Sensor''), (6, ''O2 Sensor Heater''),
    (7, ''EGR System'')]"

definition monitor_of :: "u8 \<Rightarrow> u8 \<Rightarrow> nat \<times> string \<Rightarrow> monitor_status" where
  "monitor_of supported done_bits m =
    \<lparr>mon_name = snd m, mon_supported = (drop_bit (fst m) supported AND 1 = 1),
     mon_complete = (drop_bit (fst m) done_bits AND 1 \<noteq> 1)\<rparr>"

definition decode_readiness :: "bytes \<Rightarrow> readiness_status res" where
  "decode_readiness data =
    (if length data < 4 then
       Inl (ParseError (Fmt ''readiness status needs 4 bytes, got {}'' [ArgNat (length data)]))
     else
       let mil_on = (data ! 0 AND 0x80 \<noteq> 0);
           dtc_count = data ! 0 AND 0x7F;
           compression_ignition = (data ! 1 AND 0x08 \<noteq> 0);
           supported = data ! 2;
           done_bits = data ! 3;
           monitors = map (monitor_of supported done_bits)
             (if compression_ignition then diesel_monitors else gas_monitors)
       in Inr \<lparr>rs_mil_on = mil_on, rs_dtc_count = dtc_count,
            rs_compression_ignition = compression_ignition, rs_monitors = monitors\<rparr>)"

text \<open>Pairs of zero bytes are padding; a single byte at the end is ignored.\<close>

fun decode_dtc_bytes :: "bytes \<Rightarrow> dtc_status \<Rightarrow> dtc list" where
  "decode_dtc_bytes (a # b # rest) status =
    (if a = 0 \<and> b = 0 then decode_dtc_bytes rest status
     else (dtc_from_bytes a b)\<lparr>dtc_status := status\<rparr> # decode_dtc_bytes rest status)"
| "decode_dtc_bytes _ status = []"

lemma decode_dtc_bytes_pairs:
  "length rest < 2 \<Longrightarrow> decode_dtc_bytes (concat (map (\<lambda>(a, b). [a, b]) ps) @ rest) status =
     map (\<lambda>(a, b). (dtc_from_bytes a b)\<lparr>dtc_status := status\<rparr>) (filter (\<lambda>p. p \<noteq> (0, 0)) ps)"
proof (induction ps)
  case Nil
  then show ?case by (cases rest) (auto simp: Suc_lessI)
next
  case (Cons p ps)
  obtain a b where "p = (a, b)" by (cases p)
  with Cons show ?case by (cases "a = 0 \<and> b = 0") simp_all
qed

lemma decode_dtc_bytes_status: "d \<in> set (decode_dtc_bytes data status) \<Longrightarrow> dtc_status d = status"
  by (induction data status rule: decode_dtc_bytes.induct) (auto split: if_splits)

lemma length_decode_test_results: "length (decode_test_results data) = length data div 8"
  by (induction data rule: decode_test_results.induct) (auto simp: Let_def)

text \<open>The readiness flags are single bits of the four bytes.\<close>

lemma bit_of_shift: "(drop_bit n w AND 1 = 1) = bit (w :: u8) n"
  by (simp add: bit_iff_odd_drop_bit and_one_eq odd_iff_mod_2_eq_one)

lemma monitor_of_bits:
  "monitor_of c d = (\<lambda>(n, name). \<lparr>mon_name = name, mon_supported = bit c n, mon_complete = \<not> bit d n\<rparr>)"
  by (simp add: monitor_of_def bit_of_shift fun_eq_iff)

lemma decode_readiness_bits:
  "decode_readiness (a # b # c # d # rest) = Inr
    \<lparr>rs_mil_on = bit a 7, rs_dtc_count = a AND 0x7F, rs_compression_ignition = bit b 3,
     rs_monitors = map (\<lambda>(n, name). \<lparr>mon_name = name, mon_supported = bit c n, mon_complete = \<not> bit d n\<rparr>)
       (if bit b 3 then diesel_monitors else gas_monitors)\<rparr>"
  by (simp add: decode_readiness_def Let_def and_bit_test monitor_of_bits)

end
