(* ===== verification/Strings.thy ===== *)
theory Strings
  imports Values Hex
begin

text \<open>
  The operations of the standard library on \<open>str\<close> that the adapter code uses. Text is a byte string;
  white space is the ASCII white space, so the functions are those of the library on ASCII text.
\<close>

text \<open>\<open>trim\<close>, \<open>trim_end_matches(c)\<close>.\<close>

definition trim_end :: "(char \<Rightarrow> bool) \<Rightarrow> string \<Rightarrow> string" where
  "trim_end p s = rev (dropWhile p (rev s))"

definition str_trim :: "string \<Rightarrow> string" where
  "str_trim s = trim_end is_whitespace (dropWhile is_whitespace s)"

text \<open>\<open>contains(p)\<close>: \<open>p\<close> is a substring.\<close>

fun str_contains :: "string \<Rightarrow> string \<Rightarrow> bool" where
  "str_contains [] p = (p = [])"
| "str_contains (c # s) p = (starts_with (c # s) p \<or> str_contains s p)"

text \<open>\<open>find(p)\<close> followed by slicing: the rest of the text from the first occurrence of \<open>p\<close>.\<close>

fun str_from :: "string \<Rightarrow> string \<Rightarrow> string option" where
  "str_from [] p = (if p = [] then Some [] else None)"
| "str_from (c # s) p = (if starts_with (c # s) p then Some (c # s) else str_from s p)"

text \<open>\<open>replace(chars, "")\<close>.\<close>

definition str_remove :: "char set \<Rightarrow> string \<Rightarrow> string" where
  "str_remove cs s = filter (\<lambda>c. c \<notin> cs) s"

definition is_ascii_digit :: "char \<Rightarrow> bool" where
  "is_ascii_digit c \<longleftrightarrow> 0x30 \<le> char_byte c \<and> char_byte c \<le> 0x39"

definition to_lower :: "char \<Rightarrow> char" where
  "to_lower c =
    (let b = char_byte c in if 0x41 \<le> b \<and> b \<le> 0x5A then char_of (unat (b + 0x20)) else c)"

definition digit_value :: "char \<Rightarrow> nat" where
  "digit_value c = unat (char_byte c - 0x30)"

text \<open>
  \<open>parse::<f64>()\<close>: an optional sign, digits with at most one point and at least one digit, and an
  optional decimal exponent. The words for infinities and NaN are not numbers of the model.
\<close>

definition digits_value :: "string \<Rightarrow> nat" where
  "digits_value ds = foldl (\<lambda>n c. 10 * n + digit_value c) 0 ds"

definition split_sign :: "string \<Rightarrow> int \<times> string" where
  "split_sign s =
    (case s of
       c # cs \<Rightarrow> if c = CHR ''-'' then (- 1, cs) else if c = CHR ''+'' then (1, cs) else (1, s)
     | [] \<Rightarrow> (1, []))"

definition parse_exponent :: "string \<Rightarrow> int option" where
  "parse_exponent s =
    (case s of
       [] \<Rightarrow> Some 0
     | c # cs \<Rightarrow>
         if c = CHR ''e'' \<or> c = CHR ''E'' then
           (let (sg, ds) = split_sign cs in
            if ds \<noteq> [] \<and> list_all is_ascii_digit ds then Some (sg * int (digits_value ds)) else None)
         else None)"

definition parse_f64 :: "string \<Rightarrow> f64 option" where
  "parse_f64 s =
    (let (sg, body) = split_sign s;
         whole = takeWhile is_ascii_digit body;
         rest = dropWhile is_ascii_digit body;
         (frac, rest') = (case rest of
             c # cs \<Rightarrow> if c = CHR ''.'' then (takeWhile is_ascii_digit cs, dropWhile is_ascii_digit cs)
                       else ([], rest)
           | [] \<Rightarrow> ([], []))
     in if whole = [] \<and> frac = [] then None
        else case parse_exponent rest' of
          None \<Rightarrow> None
        | Some e \<Rightarrow>
            Some (of_int sg * (of_nat (digits_value whole) + of_nat (digits_value frac) / 10 ^ length frac)
              * (if 0 \<le> e then 10 ^ nat e else 1 / 10 ^ nat (- e))))"

lemma trim_end_snoc [simp]: "trim_end p (s @ [c]) = (if p c then trim_end p s else s @ [c])"
  by (simp add: trim_end_def)

lemma trim_end_Nil [simp]: "trim_end p [] = []"
  by (simp add: trim_end_def)

lemma trim_end_id: "s = [] \<or> \<not> p (last s) \<Longrightarrow> trim_end p s = s"
  by (cases s rule: rev_cases) auto

lemma dropWhile_id: "s = [] \<or> \<not> p (hd s) \<Longrightarrow> dropWhile p s = s"
  by (cases s) auto

lemma str_trim_id: "s = [] \<or> (\<not> is_whitespace (hd s) \<and> \<not> is_whitespace (last s)) \<Longrightarrow> str_trim s = s"
  unfolding str_trim_def by (metis trim_end_id dropWhile_id)

lemma str_contains_iff: "str_contains s p \<longleftrightarrow> (\<exists>a b. s = a @ p @ b)"
proof (induction s)
  case (Cons c s)
  show ?case
  proof
    assume "str_contains (c # s) p"
    then consider ys where "c # s = p @ ys" | a b where "s = a @ p @ b"
      using Cons by (auto simp: starts_with_iff)
    then show "\<exists>a b. c # s = a @ p @ b"
      by cases (metis append_Nil, metis append_Cons)
  next
    assume "\<exists>a b. c # s = a @ p @ b"
    then obtain a b where "c # s = a @ p @ b" by blast
    then show "str_contains (c # s) p"
      unfolding str_contains.simps starts_with_iff using Cons.IH by (cases a) auto
  qed
qed auto

section \<open>Decimal numbers\<close>

lemma of_nat_nibble: "m < 16 \<Longrightarrow> (of_nat m :: u8) < 16"
  by (simp add: word_less_nat_alt unsigned_of_nat take_bit_eq_mod)

lemma decimal_digit: "m < 10 \<Longrightarrow> (char_of (48 + m) :: char) = hex_digit (of_nat m)"
proof -
  assume "m < 10"
  then have "unat (0x30 + of_nat m :: u8) = 48 + m" "(of_nat m :: u8) < 10"
    by (simp_all add: unat_word_ariths unsigned_of_nat take_bit_eq_mod word_less_nat_alt)
  then show ?thesis by (simp add: hex_digit_def)
qed

definition decimal_char :: "char \<Rightarrow> bool" where
  "decimal_char c \<longleftrightarrow> (\<exists>m < (10 :: nat). c = char_of (48 + m))"

lemma decimal_charI: "m < (10 :: nat) \<Longrightarrow> decimal_char (char_of (48 + m))"
  by (auto simp: decimal_char_def)

lemma decimal_loop_chars: "c \<in> set (decimal_loop n acc) \<Longrightarrow> c \<in> set acc \<or> decimal_char c"
proof (induction n acc rule: decimal_loop.induct)
  case (1 n acc)
  then show ?case
    using decimal_charI [of n] decimal_charI [of "n mod 10"]
    by (subst (asm) decimal_loop.simps) (auto split: if_splits)
qed

lemma decimal_chars: "c \<in> set (decimal n) \<Longrightarrow> \<exists>m < (16 :: nat). c = hex_digit (of_nat m)"
proof -
  assume "c \<in> set (decimal n)"
  then obtain m :: nat where "m < 10" "c = char_of (48 + m)"
    using decimal_loop_chars [of c n "[]"] by (auto simp: decimal_def decimal_char_def)
  then have "m < 16 \<and> c = hex_digit (of_nat m)" by (simp add: decimal_digit)
  then show ?thesis ..
qed

lemma decimal_no_space: "c \<in> set (decimal n) \<Longrightarrow> \<not> is_whitespace c"
  using decimal_chars [of c n] of_nat_nibble by auto

lemma decimal_loop_not_Nil [simp]: "decimal_loop n acc \<noteq> []"
  by (induction n acc rule: decimal_loop.induct) (subst decimal_loop.simps, simp)

lemma decimal_not_Nil [simp]: "decimal n \<noteq> []"
  by (simp add: decimal_def)

lemma decimal_last: "decimal n \<noteq> []" "\<not> is_whitespace (last (decimal n))"
  using decimal_no_space [of "last (decimal n)" n] by auto

end
