(* ===== verification/AdapterTypes.thy ===== *)
theory AdapterTypes
  imports Vehicle Strings
begin

text \<open>
  The adapter interface (\<open>adapter/mod.rs\<close>): routed requests, probe attempts, adapter events, adapter
  information, and the \<open>Adapter\<close> trait as a record of its operations on an adapter state \<open>'a\<close>. A
  definition that is generic over \<open>A: Adapter\<close> takes the record as an argument. Chipset and
  capability detection from the reset response is \<open>adapter/detect.rs\<close>.
\<close>

datatype physical_target = PBroadcast | Addressed physical_address

record routed_request =
  rr_service_id :: u8
  rr_data :: bytes
  rr_target :: physical_target

datatype protocol_selection_source = AutoDetect | ExplicitProbe | SpecPreference

datatype probe_result =
    ProbeSuccess | NoResponse | BusInitFailure | ProbeBusError | ProbeCanError | UnableToConnect
  | ProbeUnsupportedProtocol | AdapterFault

record probe_attempt =
  pa_protocol :: protocol
  pa_source :: protocol_selection_source
  pa_result :: probe_result
  pa_detail :: "string option"

datatype adapter_event_kind =
    EvReset | ProtocolSearching | ProtocolSelected protocol | HeaderChanged string
  | HeaderReset string | NullBytesFiltered nat | SearchingDisplayed | BusBusy | BusError
  | CanError | DataError | RxError | Stopped | Err94 | LowVoltageReset | UnknownCommand
  | UnsupportedProtocol | RecoveryAction string

record adapter_event =
  ae_kind :: adapter_event_kind
  ae_detail :: "string option"

datatype chipset = Elm327Clone | Elm327Genuine | Stn | UnknownChipset

record capabilities =
  cap_can_clear_dtcs :: bool
  cap_dual_can :: bool
  cap_enhanced_diag :: bool
  cap_battery_voltage :: bool
  cap_adaptive_timing :: bool
  cap_kline_init :: bool
  cap_kline_wakeup :: bool
  cap_can_filtering :: bool
  cap_can_flow_control :: bool
  cap_can_extended_addressing :: bool
  cap_can_silent_mode :: bool

text \<open>\<open>#[derive(Default)]\<close>.\<close>

definition capabilities_default :: capabilities where
  "capabilities_default =
    \<lparr>cap_can_clear_dtcs = False, cap_dual_can = False, cap_enhanced_diag = False,
     cap_battery_voltage = False, cap_adaptive_timing = False, cap_kline_init = False,
     cap_kline_wakeup = False, cap_can_filtering = False, cap_can_flow_control = False,
     cap_can_extended_addressing = False, cap_can_silent_mode = False\<rparr>"

record adapter_info =
  ai_chipset :: chipset
  ai_firmware :: string
  ai_protocol :: protocol
  ai_capabilities :: capabilities

record initialization_report =
  ir_info :: adapter_info
  ir_probe_attempts :: "probe_attempt list"
  ir_events :: "adapter_event list"

record 'a adapter =
  ad_initialize :: "('a, obd2_error, initialization_report) act"
  ad_request :: "service_request \<Rightarrow> ('a, obd2_error, bytes) act"
  ad_routed_request :: "routed_request \<Rightarrow> ('a, obd2_error, bytes) act"
  ad_supported_pids :: "('a, obd2_error, pid set) act"
  ad_battery_voltage :: "('a, obd2_error, f64 option) act"
  ad_info :: "'a \<Rightarrow> adapter_info"
  ad_drain_events :: "'a \<Rightarrow> adapter_event list \<times> 'a"

text \<open>The provided bodies of \<open>routed_request\<close> and \<open>drain_events\<close>.\<close>

definition default_routed_request ::
    "(service_request \<Rightarrow> ('a, obd2_error, bytes) act) \<Rightarrow> routed_request \<Rightarrow> ('a, obd2_error, bytes) act" where
  "default_routed_request request req =
    (case rr_target req of
       Addressed _ \<Rightarrow> fail (Adapter (Text ''adapter does not support addressed routed requests''))
     | PBroadcast \<Rightarrow> request \<lparr>sr_service_id = rr_service_id req, sr_data = rr_data req, sr_target = Broadcast\<rparr>)"

definition default_drain_events :: "'a \<Rightarrow> adapter_event list \<times> 'a" where
  "default_drain_events a = ([], a)"

definition protocol_from_elm_code :: "char \<Rightarrow> protocol option" where
  "protocol_from_elm_code code =
    (if code = CHR ''1'' then Some J1850Pwm
     else if code = CHR ''2'' then Some J1850Vpw
     else if code = CHR ''3'' then Some (ProtoIso9141 SlowInit)
     else if code = CHR ''4'' then Some (ProtoKwp2000 SlowInit)
     else if code = CHR ''5'' then Some (ProtoKwp2000 FastInit)
     else if code = CHR ''6'' then Some Can11Bit500
     else if code = CHR ''7'' then Some Can29Bit500
     else if code = CHR ''8'' then Some Can11Bit250
     else if code = CHR ''9'' then Some Can29Bit250
     else None)"

section \<open>Chipset detection\<close>

text \<open>
  The version is the run of digits and points after the first \<open>v\<close>, else \<open>V\<close>; text that is no number
  counts as 0. Its \<open>f32\<close> is an exact rational here.
\<close>

definition version_of :: "string \<Rightarrow> f64" where
  "version_of ver_str =
    (case parse_f64 (takeWhile (\<lambda>c. is_ascii_digit c \<or> c = CHR ''.'') ver_str) of
       Some v \<Rightarrow> v | None \<Rightarrow> 0)"

definition detect_elm_version :: "string \<Rightarrow> chipset \<times> string" where
  "detect_elm_version response =
    (let response = str_trim response in
     case str_from response ''ELM327'' of
       None \<Rightarrow> (UnknownChipset, response)
     | Some rest \<Rightarrow>
         let firmware = str_trim rest in
         (case (case str_from firmware ''v'' of Some r \<Rightarrow> Some r | None \<Rightarrow> str_from firmware ''V'') of
            None \<Rightarrow> (Elm327Clone, firmware)
          | Some r \<Rightarrow> if 2 \<le> version_of (drop 1 r) then (Elm327Genuine, firmware) else (Elm327Clone, firmware)))"

definition capabilities_of_chipset :: "chipset \<Rightarrow> capabilities" where
  "capabilities_of_chipset c =
    (case c of
       Stn \<Rightarrow> \<lparr>cap_can_clear_dtcs = True, cap_dual_can = True, cap_enhanced_diag = True,
         cap_battery_voltage = True, cap_adaptive_timing = True, cap_kline_init = True,
         cap_kline_wakeup = True, cap_can_filtering = True, cap_can_flow_control = True,
         cap_can_extended_addressing = True, cap_can_silent_mode = True\<rparr>
     | Elm327Genuine \<Rightarrow> \<lparr>cap_can_clear_dtcs = True, cap_dual_can = False, cap_enhanced_diag = True,
         cap_battery_voltage = True, cap_adaptive_timing = True, cap_kline_init = True,
         cap_kline_wakeup = True, cap_can_filtering = True, cap_can_flow_control = True,
         cap_can_extended_addressing = True, cap_can_silent_mode = True\<rparr>
     | Elm327Clone \<Rightarrow> \<lparr>cap_can_clear_dtcs = False, cap_dual_can = False, cap_enhanced_diag = False,
         cap_battery_voltage = True, cap_adaptive_timing = False, cap_kline_init = False,
         cap_kline_wakeup = False, cap_can_filtering = False, cap_can_flow_control = False,
         cap_can_extended_addressing = False, cap_can_silent_mode = False\<rparr>
     | UnknownChipset \<Rightarrow> capabilities_default)"

definition adapter_info_detect :: "string \<Rightarrow> string option \<Rightarrow> adapter_info" where
  "adapter_info_detect atz_response sti_response =
    (let (chipset, firmware) =
        (case sti_response of
           Some sti \<Rightarrow> if str_contains sti ''STN'' then (Stn, str_trim sti) else detect_elm_version atz_response
         | None \<Rightarrow> detect_elm_version atz_response)
     in \<lparr>ai_chipset = chipset, ai_firmware = firmware, ai_protocol = ProtoAuto,
         ai_capabilities = capabilities_of_chipset chipset\<rparr>)"

lemma protocol_from_elm_code_not_Auto: "protocol_from_elm_code c = Some p \<Longrightarrow> p \<noteq> ProtoAuto"
  by (auto simp: protocol_from_elm_code_def split: if_splits)

section \<open>The contract of an adapter\<close>

text \<open>
  What a session relies on. \<open>ready\<close> describes an adapter whose initialization has succeeded: it stays
  ready under every call, only initialization changes the adapter information, a repeated
  initialization succeeds without changing it, and draining the events leaves none.
\<close>

locale adapter_contract =
  fixes A :: "'a adapter"
    and ready :: "'a \<Rightarrow> bool"
  assumes init_ready: "ad_initialize A a = (Inr rep, a') \<Longrightarrow> ready a' \<and> ir_info rep = ad_info A a'"
    and ready_init: "ready a \<Longrightarrow> \<exists>rep a'. ad_initialize A a = (Inr rep, a') \<and> ad_info A a' = ad_info A a"
    and routed_ready: "ready a \<Longrightarrow> ready (snd (ad_routed_request A req a))"
    and routed_info: "ad_info A (snd (ad_routed_request A req a)) = ad_info A a"
    and battery_ready: "ready a \<Longrightarrow> ready (snd (ad_battery_voltage A a))"
    and battery_info: "ad_info A (snd (ad_battery_voltage A a)) = ad_info A a"
    and drain_ready: "ready a \<Longrightarrow> ready (snd (ad_drain_events A a))"
    and drain_info: "ad_info A (snd (ad_drain_events A a)) = ad_info A a"
    and drain_empties: "fst (ad_drain_events A (snd (ad_drain_events A a))) = []"

end
