(* ===== verification/Discovery.thy ===== *)
theory Discovery
  imports AdapterTypes "HOL-Library.AList"
begin

text \<open>
  Resolution of the active bus and of the routable modules from the adapter's protocol and the
  matched spec (\<open>session/discovery.rs\<close>). The hash map of modules is an association list with one
  entry for each key, kept so by \<open>AList.update\<close>.
\<close>

record resolved_bus =
  rb_id :: bus_id
  rb_protocol :: protocol
  rb_speed_bps :: u32
  rb_description :: "string option"

record resolved_module =
  rm_id :: module_id
  rm_name :: string
  rm_bus :: bus_id
  rm_address :: physical_address

record visible_ecu =
  ve_id :: string
  ve_bus :: "bus_id option"
  ve_module :: "module_id option"
  ve_address :: "physical_address option"
  ve_observation_count :: u32

type_synonym module_map = "(module_id \<times> resolved_module) list"

record discovery_profile =
  dp_adapter :: adapter_info
  dp_selected_protocol :: protocol
  dp_protocol_choice_source :: protocol_selection_source
  dp_active_bus :: "resolved_bus option"
  dp_modules :: module_map
  dp_probe_attempts :: "probe_attempt list"
  dp_visible_ecus :: "visible_ecu list"

definition to_resolved_bus :: "bus_config \<Rightarrow> resolved_bus" where
  "to_resolved_bus b =
    \<lparr>rb_id = bc_id b, rb_protocol = bc_protocol b, rb_speed_bps = bc_speed_bps b,
     rb_description = bc_description b\<rparr>"

definition resolve_active_bus :: "protocol \<Rightarrow> vehicle_spec option \<Rightarrow> resolved_bus option" where
  "resolve_active_bus protocol spec =
    Option.bind spec (\<lambda>spec.
      let buses = cs_buses (vs_communication spec) in
      map_option to_resolved_bus
        (case find (\<lambda>b. bc_protocol b = protocol) buses of
           Some b \<Rightarrow> Some b
         | None \<Rightarrow> if length buses = 1 then Some (hd buses) else None))"

definition resolved_of_module :: "vmodule \<Rightarrow> resolved_module" where
  "resolved_of_module m =
    \<lparr>rm_id = vm_id m, rm_name = vm_name m, rm_bus = vm_bus m, rm_address = vm_address m\<rparr>"

fun collect_modules :: "module_map \<Rightarrow> vmodule list \<Rightarrow> module_map" where
  "collect_modules target [] = target"
| "collect_modules target (m # ms) = collect_modules (AList.update (vm_id m) (resolved_of_module m) target) ms"

fun collect_buses :: "module_map \<Rightarrow> bus_config list \<Rightarrow> module_map" where
  "collect_buses target [] = target"
| "collect_buses target (b # bs) = collect_buses (collect_modules target (bc_modules b)) bs"

definition resolve_modules :: "vehicle_spec option \<Rightarrow> resolved_bus option \<Rightarrow> module_map" where
  "resolve_modules spec active_bus =
    (case spec of
       None \<Rightarrow> []
     | Some spec \<Rightarrow>
         (case active_bus of
            Some active \<Rightarrow>
              (case find (\<lambda>b. bc_id b = rb_id active) (cs_buses (vs_communication spec)) of
                 Some b \<Rightarrow> collect_modules [] (bc_modules b)
               | None \<Rightarrow> [])
          | None \<Rightarrow> collect_buses [] (cs_buses (vs_communication spec))))"

definition resolve_discovery_profile ::
    "adapter_info \<Rightarrow> vehicle_spec option \<Rightarrow> probe_attempt list \<Rightarrow> visible_ecu list \<Rightarrow> discovery_profile" where
  "resolve_discovery_profile adapter spec probe_attempts visible_ecus =
    (let selected_protocol = ai_protocol adapter;
         active_bus = resolve_active_bus selected_protocol spec;
         modules = resolve_modules spec active_bus;
         protocol_choice_source = (if probe_attempts = [] then AutoDetect else pa_source (last probe_attempts))
     in \<lparr>dp_adapter = adapter, dp_selected_protocol = selected_protocol,
         dp_protocol_choice_source = protocol_choice_source, dp_active_bus = active_bus,
         dp_modules = modules, dp_probe_attempts = probe_attempts, dp_visible_ecus = visible_ecus\<rparr>)"

section \<open>Lemmas\<close>

lemma distinct_collect_modules:
  "distinct (map fst target) \<Longrightarrow> distinct (map fst (collect_modules target ms))"
  by (induction target ms rule: collect_modules.induct) (auto simp: distinct_update)

lemma distinct_collect_buses:
  "distinct (map fst target) \<Longrightarrow> distinct (map fst (collect_buses target bs))"
  by (induction target bs rule: collect_buses.induct) (auto simp: distinct_collect_modules)

lemma distinct_resolve_modules: "distinct (map fst (resolve_modules spec active_bus))"
  by (auto simp: resolve_modules_def distinct_collect_modules distinct_collect_buses split: option.split)

text \<open>The last module of a list with an identifier is the one that the map holds.\<close>

lemma map_of_collect_modules:
  "map_of (collect_modules target ms) k =
    (case find (\<lambda>m. vm_id m = k) (rev ms) of Some m \<Rightarrow> Some (resolved_of_module m) | None \<Rightarrow> map_of target k)"
proof (induction target ms rule: collect_modules.induct)
  case (2 target m ms)
  have snoc: "find P (xs @ [x]) = (case find P xs of Some y \<Rightarrow> Some y | None \<Rightarrow> if P x then Some x else None)"
    for P :: "vmodule \<Rightarrow> bool" and xs x
    by (induction xs) auto
  from 2 show ?case by (auto simp: snoc update_conv' split: option.split)
qed simp

lemma resolved_from_active_bus:
  assumes "map_of (resolve_modules (Some spec) (Some active)) k = Some r"
  shows "\<exists>b \<in> set (cs_buses (vs_communication spec)). bc_id b = rb_id active
    \<and> (\<exists>m \<in> set (bc_modules b). vm_id m = k \<and> r = resolved_of_module m)"
proof -
  from assms obtain b where b: "find (\<lambda>b. bc_id b = rb_id active) (cs_buses (vs_communication spec)) = Some b"
    and r: "map_of (collect_modules [] (bc_modules b)) k = Some r"
    by (auto simp: resolve_modules_def split: option.splits)
  from r obtain m where m: "find (\<lambda>m. vm_id m = k) (rev (bc_modules b)) = Some m"
    and rm: "r = resolved_of_module m"
    by (auto simp: map_of_collect_modules split: option.splits)
  from find_SomeD [OF b] find_SomeD [OF m] rm show ?thesis by auto
qed

lemma collect_buses_member:
  "map_of (collect_buses target bs) k = Some r \<Longrightarrow> map_of target k = Some r
     \<or> (\<exists>b \<in> set bs. \<exists>m \<in> set (bc_modules b). vm_id m = k \<and> r = resolved_of_module m)"
proof (induction target bs rule: collect_buses.induct)
  case (2 target b bs)
  then show ?case by (auto simp: map_of_collect_modules split: option.splits dest!: find_SomeD)
qed simp

lemma resolve_active_bus_member:
  "resolve_active_bus p (Some spec) = Some active \<Longrightarrow>
     \<exists>b \<in> set (cs_buses (vs_communication spec)). active = to_resolved_bus b
       \<and> (bc_protocol b = p \<or> cs_buses (vs_communication spec) = [b])"
  by (auto simp: resolve_active_bus_def Let_def length_Suc_conv dest: find_SomeD split: option.splits if_splits)

end
