(* ===== verification/J1939Ids.thy ===== *)
theory J1939Ids
  imports Errors
begin

text \<open>
  J1939 identifiers and frames (\<open>protocol/j1939.rs\<close>, first part): parameter group numbers, suspect
  parameter numbers, failure modes, the 29-bit CAN identifier, frames, requests and the NAME used
  for address claiming.
\<close>

section \<open>Constants\<close>

definition global_address :: u8 where "global_address = 0xFF"

definition default_priority :: u8 where "default_priority = 6"

definition max_pgn :: u32 where "max_pgn = 0x03FFFF"

definition max_spn :: u32 where "max_spn = 0x07FFFF"

definition max_frame_data_len :: nat where "max_frame_data_len = 8"

section \<open>Parameter group numbers\<close>

datatype pgn = Pgn (pgn_value: u32)

definition PGN_DM1 :: pgn where "PGN_DM1 = Pgn 65226"

definition PGN_DM2 :: pgn where "PGN_DM2 = Pgn 65227"

definition PGN_REQUEST :: pgn where "PGN_REQUEST = Pgn 59904"

definition PGN_ACKNOWLEDGEMENT :: pgn where "PGN_ACKNOWLEDGEMENT = Pgn 59392"

definition PGN_ADDRESS_CLAIMED :: pgn where "PGN_ADDRESS_CLAIMED = Pgn 60928"

definition PGN_DM3 :: pgn where "PGN_DM3 = Pgn 65228"

definition PGN_DM5 :: pgn where "PGN_DM5 = Pgn 65230"

definition PGN_DM11 :: pgn where "PGN_DM11 = Pgn 65235"

definition PGN_DM24 :: pgn where "PGN_DM24 = Pgn 64950"

definition PGN_DM25 :: pgn where "PGN_DM25 = Pgn 64951"

definition pgn_from_le :: "u8 \<Rightarrow> u8 \<Rightarrow> u8 \<Rightarrow> pgn" where
  "pgn_from_le a b c = Pgn (ucast a OR push_bit 8 (ucast b) OR push_bit 16 (ucast c))"

definition pgn_to_le :: "pgn \<Rightarrow> bytes" where
  "pgn_to_le p =
    [ucast (pgn_value p AND 0xFF), ucast (drop_bit 8 (pgn_value p) AND 0xFF),
     ucast (drop_bit 16 (pgn_value p) AND 0xFF)]"

definition pdu_format :: "pgn \<Rightarrow> u8" where
  "pdu_format p = ucast (drop_bit 8 (pgn_value p) AND 0xFF)"

definition pdu_specific :: "pgn \<Rightarrow> u8" where
  "pdu_specific p = ucast (pgn_value p AND 0xFF)"

definition is_pdu1 :: "pgn \<Rightarrow> bool" where
  "is_pdu1 p \<longleftrightarrow> pdu_format p < 240"

definition normalized :: "pgn \<Rightarrow> pgn" where
  "normalized p = (if is_pdu1 p then Pgn (pgn_value p AND 0x03FF00) else Pgn (pgn_value p AND max_pgn))"

definition pgn_is_valid :: "pgn \<Rightarrow> bool" where
  "pgn_is_valid p \<longleftrightarrow> pgn_value p \<le> max_pgn"

definition pgn_names :: "(u32 \<times> string) list" where
  "pgn_names = [
    (61444, ''EEC1 (Electronic Engine Controller 1)''),
    (65262, ''ET1 (Engine Temperature 1)''),
    (65263, ''EFLP1 (Engine Fluid Level/Pressure 1)''),
    (65265, ''CCVS (Cruise Control/Vehicle Speed)''),
    (65266, ''LFE (Fuel Economy - Liquid)''),
    (65226, ''DM1 (Active DTCs)''),
    (65227, ''DM2 (Previously Active DTCs)''),
    (65228, ''DM3 (Clear Previously Active DTCs)''),
    (65230, ''DM5 (Diagnostic Readiness 1)''),
    (65235, ''DM11 (Clear Active DTCs)''),
    (64950, ''DM24 (SPNs Supported)''),
    (64951, ''DM25 (Expanded Freeze Frame)''),
    (59392, ''Acknowledgement''),
    (59904, ''Request''),
    (60160, ''TP.DT (Transport Protocol Data Transfer)''),
    (60416, ''TP.CM (Transport Protocol Connection Management)''),
    (60928, ''Address Claimed'')]"

definition pgn_name :: "pgn \<Rightarrow> string" where
  "pgn_name p = (case map_of pgn_names (pgn_value p) of Some n \<Rightarrow> n | None \<Rightarrow> ''Unknown PGN'')"

section \<open>Suspect parameters and failure modes\<close>

datatype spn = Spn (spn_value: u32)

definition spn_try_new :: "u32 \<Rightarrow> spn res" where
  "spn_try_new v = (if v \<le> max_spn then Inr (Spn v) else Inl (ParseError (J1939Msg (SpnTooWide v))))"

datatype fmi = Fmi (fmi_value: u8)

definition fmi_try_new :: "u8 \<Rightarrow> fmi res" where
  "fmi_try_new v = (if v \<le> 31 then Inr (Fmi v) else Inl (ParseError (J1939Msg (FmiTooWide v))))"

definition fmi_table :: "(u8 \<times> string) list" where
  "fmi_table = [
    (0, ''Data Valid But Above Normal Operational Range - Most Severe''),
    (1, ''Data Valid But Below Normal Operational Range - Most Severe''),
    (2, ''Data Erratic, Intermittent Or Incorrect''),
    (3, ''Voltage Above Normal, Or Shorted To High Source''),
    (4, ''Voltage Below Normal, Or Shorted To Low Source''),
    (5, ''Current Below Normal Or Open Circuit''),
    (6, ''Current Above Normal Or Grounded Circuit''),
    (7, ''Mechanical System Not Responding Or Out Of Adjustment''),
    (8, ''Abnormal Frequency Or Pulse Width Or Period''),
    (9, ''Abnormal Update Rate''),
    (10, ''Abnormal Rate Of Change''),
    (11, ''Root Cause Not Known''),
    (12, ''Bad Intelligent Device Or Component''),
    (13, ''Out Of Calibration''),
    (14, ''Special Instructions''),
    (15, ''Data Valid But Above Normal Operating Range - Least Severe''),
    (16, ''Data Valid But Above Normal Operating Range - Moderately Severe''),
    (17, ''Data Valid But Below Normal Operating Range - Least Severe''),
    (18, ''Data Valid But Below Normal Operating Range - Moderately Severe''),
    (19, ''Received Network Data In Error''),
    (20, ''Data Drifted High''),
    (21, ''Data Drifted Low''),
    (31, ''Condition Exists'')]"

definition fmi_description :: "u8 \<Rightarrow> string" where
  "fmi_description v = (case map_of fmi_table v of Some d \<Rightarrow> d | None \<Rightarrow> ''Reserved'')"

section \<open>CAN identifiers\<close>

record j1939_can_id =
  jid_priority :: u8
  jid_pgn :: pgn
  jid_source :: u8
  jid_destination :: "u8 option"

definition jid_new :: "u8 \<Rightarrow> pgn \<Rightarrow> u8 \<Rightarrow> u8 option \<Rightarrow> j1939_can_id res" where
  "jid_new priority p source destination =
    (if 7 < priority then Inl (ParseError (J1939Msg (PriorityTooWide priority)))
     else if \<not> pgn_is_valid p then Inl (ParseError (J1939Msg (PgnTooWide (pgn_value p))))
     else if is_pdu1 p \<and> destination = None
       then Inl (ParseError (J1939Msg (Pdu1NeedsDestination (pgn_value p))))
     else Inr \<lparr>jid_priority = priority, jid_pgn = normalized p, jid_source = source,
               jid_destination = destination\<rparr>)"

definition jid_encode :: "j1939_can_id \<Rightarrow> u32" where
  "jid_encode i =
    (let p = normalized (jid_pgn i);
         ps = (if is_pdu1 p then ucast (case jid_destination i of Some d \<Rightarrow> d | None \<Rightarrow> global_address)
               else pgn_value p AND 0xFF);
         rdp_pf = pgn_value p AND 0x03FF00
     in push_bit 26 (ucast (jid_priority i)) OR push_bit 8 rdp_pf OR push_bit 8 ps OR ucast (jid_source i))"

definition jid_decode :: "u32 \<Rightarrow> j1939_can_id res" where
  "jid_decode identifier =
    (if 0x1FFFFFFF < identifier then Inl (ParseError (J1939Msg (IdentifierTooWide identifier)))
     else
       (let priority = ucast (drop_bit 26 identifier AND 0x07);
            source = ucast (identifier AND 0xFF);
            pf = ucast (drop_bit 16 identifier AND 0xFF) :: u8;
            ps = ucast (drop_bit 8 identifier AND 0xFF);
            raw_pgn = drop_bit 8 identifier AND max_pgn;
            (p, destination) =
              (if pf < 240 then (Pgn (raw_pgn AND 0x03FF00), Some ps) else (Pgn raw_pgn, None))
        in Inr \<lparr>jid_priority = priority, jid_pgn = p, jid_source = source,
                jid_destination = destination\<rparr>))"

section \<open>Frames, messages and requests\<close>

text \<open>The data array of a frame has eight bytes, of which \<open>jf_len\<close> are valid.\<close>

record j1939_frame =
  jf_id :: j1939_can_id
  jf_data :: bytes
  jf_len :: u8

definition jf_new :: "j1939_can_id \<Rightarrow> bytes \<Rightarrow> j1939_frame res" where
  "jf_new i payload =
    (if max_frame_data_len < length payload
     then Inl (ParseError (J1939Msg (FramePayloadTooLong (length payload))))
     else Inr \<lparr>jf_id = i, jf_data = payload @ replicate (max_frame_data_len - length payload) 0,
               jf_len = of_nat (length payload)\<rparr>)"

definition jf_from_parts :: "u8 \<Rightarrow> pgn \<Rightarrow> u8 \<Rightarrow> u8 option \<Rightarrow> bytes \<Rightarrow> j1939_frame res" where
  "jf_from_parts priority p source destination payload =
    bind_res (jid_new priority p source destination) (\<lambda>i. jf_new i payload)"

definition jf_payload :: "j1939_frame \<Rightarrow> bytes" where
  "jf_payload f = take (unat (jf_len f)) (jf_data f)"

definition jf_can_identifier :: "j1939_frame \<Rightarrow> u32" where
  "jf_can_identifier f = jid_encode (jf_id f)"

record j1939_message =
  jm_source :: u8
  jm_destination :: "u8 option"
  jm_pgn :: pgn
  jm_payload :: bytes

definition jm_from_frame :: "j1939_frame \<Rightarrow> j1939_message" where
  "jm_from_frame f =
    \<lparr>jm_source = jid_source (jf_id f), jm_destination = jid_destination (jf_id f),
     jm_pgn = jid_pgn (jf_id f), jm_payload = jf_payload f\<rparr>"

record j1939_request =
  jr_source :: u8
  jr_destination :: u8
  jr_requested_pgn :: pgn

definition jr_new :: "u8 \<Rightarrow> u8 \<Rightarrow> pgn \<Rightarrow> j1939_request" where
  "jr_new source destination p =
    \<lparr>jr_source = source, jr_destination = destination, jr_requested_pgn = p\<rparr>"

definition jr_global :: "u8 \<Rightarrow> pgn \<Rightarrow> j1939_request" where
  "jr_global source p = jr_new source global_address p"

definition jr_to_frame :: "j1939_request \<Rightarrow> j1939_frame res" where
  "jr_to_frame r =
    jf_from_parts default_priority PGN_REQUEST (jr_source r) (Some (jr_destination r))
      (pgn_to_le (jr_requested_pgn r))"

section \<open>NAME and address claims\<close>

text \<open>\<open>u64::from_le_bytes\<close> and \<open>to_le_bytes\<close> on eight bytes.\<close>

fun u64_from_le :: "bytes \<Rightarrow> u64" where
  "u64_from_le [] = 0"
| "u64_from_le (b # bs) = ucast b OR push_bit 8 (u64_from_le bs)"

definition u64_to_le :: "u64 \<Rightarrow> bytes" where
  "u64_to_le w = map (\<lambda>i. ucast (drop_bit (8 * i) w)) [0..<8]"

datatype j1939_name = Name (name_value: u64)

definition name_from_payload :: "bytes \<Rightarrow> j1939_name res" where
  "name_from_payload payload =
    (if length payload < 8 then Inl (ParseError (J1939Msg (NameShort (length payload))))
     else Inr (Name (u64_from_le (take 8 payload))))"

definition name_to_payload :: "j1939_name \<Rightarrow> bytes" where
  "name_to_payload n = u64_to_le (name_value n)"

definition identity_number :: "j1939_name \<Rightarrow> u32" where
  "identity_number n = ucast (name_value n AND 0x1FFFFF)"

definition manufacturer_code :: "j1939_name \<Rightarrow> u16" where
  "manufacturer_code n = ucast (drop_bit 21 (name_value n) AND 0x07FF)"

definition ecu_instance :: "j1939_name \<Rightarrow> u8" where
  "ecu_instance n = ucast (drop_bit 32 (name_value n) AND 0x07)"

definition function_instance :: "j1939_name \<Rightarrow> u8" where
  "function_instance n = ucast (drop_bit 35 (name_value n) AND 0x1F)"

definition name_function :: "j1939_name \<Rightarrow> u8" where
  "name_function n = ucast (drop_bit 40 (name_value n) AND 0xFF)"

definition vehicle_system :: "j1939_name \<Rightarrow> u8" where
  "vehicle_system n = ucast (drop_bit 49 (name_value n) AND 0x7F)"

definition vehicle_system_instance :: "j1939_name \<Rightarrow> u8" where
  "vehicle_system_instance n = ucast (drop_bit 56 (name_value n) AND 0x0F)"

definition industry_group :: "j1939_name \<Rightarrow> u8" where
  "industry_group n = ucast (drop_bit 60 (name_value n) AND 0x07)"

definition arbitrary_address_capable :: "j1939_name \<Rightarrow> bool" where
  "arbitrary_address_capable n \<longleftrightarrow> drop_bit 63 (name_value n) AND 0x01 \<noteq> 0"

definition wins_arbitration_against :: "j1939_name \<Rightarrow> j1939_name \<Rightarrow> bool" where
  "wins_arbitration_against a b \<longleftrightarrow> name_value a < name_value b"

record address_claim =
  ac_source_address :: u8
  ac_name :: j1939_name

definition address_claim_parse :: "j1939_frame \<Rightarrow> address_claim res" where
  "address_claim_parse f =
    (if jid_pgn (jf_id f) \<noteq> PGN_ADDRESS_CLAIMED
     then Inl (ParseError (J1939Msg (NotAddressClaim (pgn_value (jid_pgn (jf_id f))))))
     else bind_res (name_from_payload (jf_payload f)) (\<lambda>n.
       Inr \<lparr>ac_source_address = jid_source (jf_id f), ac_name = n\<rparr>))"

section \<open>Properties\<close>

lemma word_mask_lits29 [mask_simps]:
  "(0x03FFFF :: 'a::len word) = mask 18" "(0x1FFFFF :: 'a::len word) = mask 21" "(0x3FF :: 'a::len word) = mask 10"
  by (simp_all add: mask_eq_exp_minus_1)

lemma bit_group_masks:
  "bit (0x03FF00 :: int) n \<longleftrightarrow> 8 \<le> n \<and> n < 18" "bit (0x03FF0000 :: int) n \<longleftrightarrow> 16 \<le> n \<and> n < 26"
  "bit (0x3FF :: int) n \<longleftrightarrow> n < 10"
proof -
  have "(0x03FF00 :: int) = push_bit 8 (mask 10)" "(0x03FF0000 :: int) = push_bit 16 (mask 10)"
    "(0x3FF :: int) = mask 10" by (simp_all add: mask_eq_exp_minus_1)
  then show "bit (0x03FF00 :: int) n \<longleftrightarrow> 8 \<le> n \<and> n < 18" "bit (0x03FF0000 :: int) n \<longleftrightarrow> 16 \<le> n \<and> n < 26"
    "bit (0x3FF :: int) n \<longleftrightarrow> n < 10"
    by (simp_all only: bit_push_bit_iff bit_mask_iff) auto
qed

lemma pgn_le_roundtrip:
  "pgn_value p \<le> 0xFFFFFF \<Longrightarrow> pgn_from_le (pgn_to_le p ! 0) (pgn_to_le p ! 1) (pgn_to_le p ! 2) = p"
proof -
  assume "pgn_value p \<le> 0xFFFFFF"
  then have b: "bit (pgn_value p) n \<Longrightarrow> n < 24" for n
    using le_mask_bit [of "pgn_value p" 24] by (simp add: mask_simps)
  have "ucast (ucast (pgn_value p AND 0xFF) :: u8)
      OR push_bit 8 (ucast (ucast (drop_bit 8 (pgn_value p) AND 0xFF) :: u8))
      OR push_bit 16 (ucast (ucast (drop_bit 16 (pgn_value p) AND 0xFF) :: u8)) = (pgn_value p :: u32)"
  proof (rule bit_word_eqI)
    fix n assume "n < LENGTH(32)"
    then consider "n < 8" | "8 \<le> n" "n < 16" | "16 \<le> n" "n < 24" | "24 \<le> n" by fastforce
    then show "bit (ucast (ucast (pgn_value p AND 0xFF) :: u8)
      OR push_bit 8 (ucast (ucast (drop_bit 8 (pgn_value p) AND 0xFF) :: u8))
      OR push_bit 16 (ucast (ucast (drop_bit 16 (pgn_value p) AND 0xFF) :: u8)) :: u32) n = bit (pgn_value p) n"
      by cases (auto simp: bit_simps mask_simps dest: b)
  qed
  then show ?thesis by (cases p) (simp add: pgn_from_le_def pgn_to_le_def)
qed

lemma pgn_le_bytes: "pgn_to_le (pgn_from_le a b c) = [a, b, c]"
  by (auto intro!: bit_word_eqI simp: pgn_to_le_def pgn_from_le_def bit_simps mask_simps
      dest: bit_imp_le_length)

lemmas id_bits = bit_simps mask_simps bit_group_masks max_pgn_def

lemma pdu_format_raw:
  "pdu_format (Pgn (drop_bit 8 w AND max_pgn)) = ucast (drop_bit 16 w AND 0xFF)"
  "pdu_format (Pgn ((drop_bit 8 w AND max_pgn) AND 0x03FF00)) = ucast (drop_bit 16 w AND 0xFF)"
  by (auto intro!: bit_word_eqI simp: pdu_format_def id_bits)

lemma pdu_format_normalized: "pdu_format (normalized p) = pdu_format p"
  by (auto intro!: bit_word_eqI simp: pdu_format_def normalized_def id_bits)

lemma is_pdu1_normalized [simp]: "is_pdu1 (normalized p) = is_pdu1 p"
  by (simp add: is_pdu1_def pdu_format_normalized)

lemma normalized_idem [simp]: "normalized (normalized p) = normalized p"
  unfolding normalized_def [of "normalized p"] is_pdu1_normalized
  by (simp add: normalized_def and.assoc)

lemma jid_encode_bits:
  "jid_encode i = push_bit 26 (ucast (jid_priority i)) OR push_bit 8 (pgn_value (normalized (jid_pgn i)) AND 0x03FF00)
    OR push_bit 8 (if is_pdu1 (jid_pgn i) then ucast (case jid_destination i of Some d \<Rightarrow> d | None \<Rightarrow> global_address)
                   else pgn_value (normalized (jid_pgn i)) AND 0xFF) OR ucast (jid_source i)"
  by (simp add: jid_encode_def Let_def)

text \<open>C29: Decoding any 29-bit identifier succeeds and encoding the result gives back the identifier: no bit
  of priority, data page, PDU format, PDU specific or source address is lost, for destination-specific
  and for broadcast groups.\<close>

theorem jid_encode_decode:
  assumes "w \<le> 0x1FFFFFFF"
  shows "\<exists>i. jid_decode w = Inr i \<and> jid_encode i = w"
proof -
  have b: "bit w n \<Longrightarrow> n < 29" for n
    using assms le_mask_bit [of w 29] by (simp add: mask_simps)
  let ?pf = "ucast (drop_bit 16 w AND 0xFF) :: u8"
  let ?raw = "drop_bit 8 w AND max_pgn"
  show ?thesis
  proof (cases "?pf < 240")
    case True
    let ?i = "\<lparr>jid_priority = ucast (drop_bit 26 w AND 0x07), jid_pgn = Pgn (?raw AND 0x03FF00),
      jid_source = ucast (w AND 0xFF), jid_destination = Some (ucast (drop_bit 8 w AND 0xFF))\<rparr>"
    have pdu1: "is_pdu1 (Pgn (?raw AND 0x03FF00))" using True by (simp add: is_pdu1_def pdu_format_raw)
    have "jid_encode ?i = w"
    proof (rule bit_word_eqI)
      fix n assume "n < LENGTH(32)"
      then consider "n < 8" | "8 \<le> n" "n < 16" | "16 \<le> n" "n < 26" | "26 \<le> n" "n < 29" | "29 \<le> n"
        by fastforce
      then show "bit (jid_encode ?i) n = bit w n"
        unfolding jid_encode_bits using pdu1
        by cases (auto simp: normalized_def id_bits dest: b)
    qed
    with True assms show ?thesis by (auto simp: jid_decode_def Let_def not_less)
  next
    case False
    let ?i = "\<lparr>jid_priority = ucast (drop_bit 26 w AND 0x07), jid_pgn = Pgn ?raw,
      jid_source = ucast (w AND 0xFF), jid_destination = None\<rparr>"
    have pdu2: "\<not> is_pdu1 (Pgn ?raw)" using False by (simp add: is_pdu1_def pdu_format_raw)
    have "jid_encode ?i = w"
    proof (rule bit_word_eqI)
      fix n assume "n < LENGTH(32)"
      then consider "n < 8" | "8 \<le> n" "n < 16" | "16 \<le> n" "n < 26" | "26 \<le> n" "n < 29" | "29 \<le> n"
        by fastforce
      then show "bit (jid_encode ?i) n = bit w n"
        unfolding jid_encode_bits using pdu2
        by cases (auto simp: normalized_def id_bits dest: b)
    qed
    with False assms show ?thesis by (auto simp: jid_decode_def Let_def not_less)
  qed
qed

text \<open>The other direction: an identifier built by \<open>J1939CanId::new\<close> comes back from its encoding with
  the same priority, group and source; the destination comes back for destination-specific groups
  and is dropped for broadcast groups, whose encoding has no room for it.\<close>

theorem jid_decode_encode:
  assumes "jid_new priority p source destination = Inr i"
  shows "jid_decode (jid_encode i) = Inr (if is_pdu1 p then i else i\<lparr>jid_destination := None\<rparr>)"
proof -
  from assms have i: "i = \<lparr>jid_priority = priority, jid_pgn = normalized p, jid_source = source, jid_destination = destination\<rparr>"
    and pri: "priority \<le> mask 3" and dest: "is_pdu1 p \<Longrightarrow> destination \<noteq> None"
    by (auto simp: jid_new_def mask_eq_exp_minus_1 not_less split: if_splits)
  have pb: "bit priority n \<Longrightarrow> n < 3" for n using le_mask_bit [OF pri] .
  define ps where "ps = (if is_pdu1 p then case destination of Some d \<Rightarrow> d | None \<Rightarrow> global_address
    else ucast (pgn_value p))"
  have enc: "bit (jid_encode i) n \<longleftrightarrow> (if n < 8 then bit source n else if n < 16 then bit ps (n - 8)
      else if n < 26 then bit (pgn_value p) (n - 8) else n < 32 \<and> bit priority (n - 26))" for n
  proof -
    consider "n < 8" | "8 \<le> n" "n < 16" | "16 \<le> n" "n < 26" | "26 \<le> n" "n < 29" | "29 \<le> n" by fastforce
    then show ?thesis
      unfolding jid_encode_bits i j1939_can_id.select_convs is_pdu1_normalized normalized_idem
      by cases (auto simp: ps_def normalized_def id_bits dest: pb)
  qed
  have "jid_encode i \<le> mask 29"
    unfolding le_mask_iff_bits by (auto simp: enc dest!: pb split: if_splits)
  then have range: "\<not> 0x1FFFFFFF < jid_encode i" by (simp add: mask_eq_exp_minus_1 not_less)
  have prio: "ucast (drop_bit 26 (jid_encode i) AND 0x07) = priority"
  proof (rule bit_word_eqI)
    fix n assume "n < LENGTH(8)"
    then show "bit (ucast (drop_bit 26 (jid_encode i) AND 0x07) :: u8) n = bit priority n"
      using pb [of n] by (auto simp: id_bits enc)
  qed
  have fields: "ucast (jid_encode i AND 0xFF) = source"
    "ucast (drop_bit 16 (jid_encode i) AND 0xFF) = pdu_format p" "ucast (drop_bit 8 (jid_encode i) AND 0xFF) = ps"
    by (auto intro!: bit_word_eqI simp: id_bits enc pdu_format_def)
  have groups: "is_pdu1 p \<Longrightarrow> Pgn ((drop_bit 8 (jid_encode i) AND max_pgn) AND 0x03FF00) = normalized p"
    "\<not> is_pdu1 p \<Longrightarrow> Pgn (drop_bit 8 (jid_encode i) AND max_pgn) = normalized p"
    by (auto intro!: bit_word_eqI simp: id_bits enc normalized_def ps_def split: if_splits)
  have "is_pdu1 p \<Longrightarrow> destination = Some ps" using dest by (auto simp: ps_def)
  then have "jid_decode (jid_encode i) = Inr (if is_pdu1 p
      then \<lparr>jid_priority = priority, jid_pgn = normalized p, jid_source = source, jid_destination = destination\<rparr>
      else \<lparr>jid_priority = priority, jid_pgn = normalized p, jid_source = source, jid_destination = None\<rparr>)"
    using range groups
    by (simp add: jid_decode_def Let_def prio fields del: j1939_can_id.ext_inject) (simp add: is_pdu1_def)
  then show ?thesis by (simp add: i)
qed

lemma jid_decode_encode_witness:
  "jid_decode (jid_encode \<lparr>jid_priority = 6, jid_pgn = normalized PGN_REQUEST, jid_source = 0xF9, jid_destination = Some 0\<rparr>) =
    Inr (if is_pdu1 PGN_REQUEST
      then \<lparr>jid_priority = 6, jid_pgn = normalized PGN_REQUEST, jid_source = 0xF9, jid_destination = Some 0\<rparr>
      else \<lparr>jid_priority = 6, jid_pgn = normalized PGN_REQUEST, jid_source = 0xF9, jid_destination = Some 0\<rparr>\<lparr>jid_destination := None\<rparr>)"
  by (rule jid_decode_encode [where priority = 6 and source = "0xF9" and destination = "Some 0"])
    (simp add: jid_new_def PGN_REQUEST_def pgn_is_valid_def max_pgn_def)

lemma jid_encode_decode_witness: "\<exists>i. jid_decode 0x18EA00F9 = Inr i \<and> jid_encode i = 0x18EA00F9"
  by (rule jid_encode_decode) simp

lemma bit_u64_from_le:
  "length bs \<le> 8 \<Longrightarrow> bit (u64_from_le bs) n \<longleftrightarrow> n div 8 < length bs \<and> bit (bs ! (n div 8)) (n mod 8)"
proof (induction bs arbitrary: n)
  case (Cons b bs)
  show ?case
  proof (cases "n < 8")
    case True
    then show ?thesis by (simp add: bit_simps)
  next
    case False
    then have "n div 8 = Suc ((n - 8) div 8)" "n mod 8 = (n - 8) mod 8"
      by (simp_all add: div_if [of n] mod_if [of n])
    with False Cons show ?thesis by (auto simp: bit_simps)
  qed
qed simp

lemma length_u64_to_le [simp]: "length (u64_to_le w) = 8"
  by (simp add: u64_to_le_def)

lemma u64_from_to_le: "u64_from_le (u64_to_le w) = w"
proof (rule bit_word_eqI)
  fix n assume "n < LENGTH(64)"
  then have "n div 8 < 8" "n mod 8 < 8" by auto
  moreover have "8 * (n div 8) + n mod 8 = n" by simp
  ultimately show "bit (u64_from_le (u64_to_le w)) n = bit w n"
    by (simp add: bit_u64_from_le u64_to_le_def bit_simps)
qed

lemma u64_to_from_le: "length bs = 8 \<Longrightarrow> u64_to_le (u64_from_le bs) = bs"
proof (rule nth_equalityI)
  assume len: "length bs = 8"
  then show "length (u64_to_le (u64_from_le bs)) = length bs" by (simp add: u64_to_le_def)
  fix i assume "i < length (u64_to_le (u64_from_le bs))"
  then have i: "i < 8" by (simp add: u64_to_le_def)
  show "u64_to_le (u64_from_le bs) ! i = bs ! i"
  proof (rule bit_word_eqI)
    fix n assume "n < LENGTH(8)"
    then have n: "n < 8" by simp
    then have "(8 * i + n) div 8 = i" "(8 * i + n) mod 8 = n" by simp_all
    with i n len show "bit (u64_to_le (u64_from_le bs) ! i) n = bit (bs ! i) n"
      by (simp add: u64_to_le_def bit_simps bit_u64_from_le)
  qed
qed

lemma name_field_bits:
  "n < 21 \<Longrightarrow> bit (name_value a) n = bit (identity_number a) n"
  "21 \<le> n \<Longrightarrow> n < 32 \<Longrightarrow> bit (name_value a) n = bit (manufacturer_code a) (n - 21)"
  "32 \<le> n \<Longrightarrow> n < 35 \<Longrightarrow> bit (name_value a) n = bit (ecu_instance a) (n - 32)"
  "35 \<le> n \<Longrightarrow> n < 40 \<Longrightarrow> bit (name_value a) n = bit (function_instance a) (n - 35)"
  "40 \<le> n \<Longrightarrow> n < 48 \<Longrightarrow> bit (name_value a) n = bit (name_function a) (n - 40)"
  "49 \<le> n \<Longrightarrow> n < 56 \<Longrightarrow> bit (name_value a) n = bit (vehicle_system a) (n - 49)"
  "56 \<le> n \<Longrightarrow> n < 60 \<Longrightarrow> bit (name_value a) n = bit (vehicle_system_instance a) (n - 56)"
  "60 \<le> n \<Longrightarrow> n < 63 \<Longrightarrow> bit (name_value a) n = bit (industry_group a) (n - 60)"
  "bit (name_value a) 63 = arbitrary_address_capable a"
proof -
  show "bit (name_value a) 63 = arbitrary_address_capable a"
    by (simp add: arbitrary_address_capable_def bit_iff_odd_drop_bit and_one_eq mod_2_eq_odd)
qed (auto simp: identity_number_def manufacturer_code_def ecu_instance_def function_instance_def
      name_function_def vehicle_system_def vehicle_system_instance_def industry_group_def id_bits)

lemma name_fields:
  "m = n \<longleftrightarrow> identity_number m = identity_number n \<and> manufacturer_code m = manufacturer_code n
     \<and> ecu_instance m = ecu_instance n \<and> function_instance m = function_instance n
     \<and> name_function m = name_function n \<and> vehicle_system m = vehicle_system n
     \<and> vehicle_system_instance m = vehicle_system_instance n \<and> industry_group m = industry_group n
     \<and> arbitrary_address_capable m = arbitrary_address_capable n
     \<and> bit (name_value m) 48 = bit (name_value n) 48"
proof (intro iffI)
  assume *: "identity_number m = identity_number n \<and> manufacturer_code m = manufacturer_code n
     \<and> ecu_instance m = ecu_instance n \<and> function_instance m = function_instance n
     \<and> name_function m = name_function n \<and> vehicle_system m = vehicle_system n
     \<and> vehicle_system_instance m = vehicle_system_instance n \<and> industry_group m = industry_group n
     \<and> arbitrary_address_capable m = arbitrary_address_capable n
     \<and> bit (name_value m) 48 = bit (name_value n) 48"
  have "name_value m = name_value n"
  proof (rule bit_word_eqI)
    fix k assume "k < LENGTH(64)"
    then consider "k < 21" | "21 \<le> k" "k < 32" | "32 \<le> k" "k < 35" | "35 \<le> k" "k < 40"
      | "40 \<le> k" "k < 48" | "k = 48" | "49 \<le> k" "k < 56" | "56 \<le> k" "k < 60" | "60 \<le> k" "k < 63" | "k = 63"
      by (simp only: len_bit0 len_num1) linarith
    then show "bit (name_value m) k = bit (name_value n) k"
      using * by cases (simp_all add: name_field_bits)
  qed
  then show "m = n" by (rule j1939_name.expand)
qed simp

text \<open>A NAME and its eight-byte address-claim payload determine each other, the fields and the reserved bit 48
  determine the NAME, and arbitration has exactly one winner among two different NAMEs.\<close>

theorem name_codec_and_arbitration:
  "name_from_payload (name_to_payload n) = Inr n
   \<and> (name_from_payload payload = Inr m \<longleftrightarrow> 8 \<le> length payload \<and> name_to_payload m = take 8 payload)
   \<and> (m = n \<longleftrightarrow> identity_number m = identity_number n \<and> manufacturer_code m = manufacturer_code n
       \<and> ecu_instance m = ecu_instance n \<and> function_instance m = function_instance n
       \<and> name_function m = name_function n \<and> vehicle_system m = vehicle_system n
       \<and> vehicle_system_instance m = vehicle_system_instance n \<and> industry_group m = industry_group n
       \<and> arbitrary_address_capable m = arbitrary_address_capable n
       \<and> bit (name_value m) 48 = bit (name_value n) 48)
   \<and> (m = n \<or> (wins_arbitration_against m n \<longleftrightarrow> \<not> wins_arbitration_against n m))"
proof (intro conjI)
  show "name_from_payload (name_to_payload n) = Inr n"
    by (simp add: name_from_payload_def name_to_payload_def u64_from_to_le)
  show "name_from_payload payload = Inr m \<longleftrightarrow> 8 \<le> length payload \<and> name_to_payload m = take 8 payload"
    by (cases m)
      (auto simp: name_from_payload_def name_to_payload_def u64_to_from_le u64_from_to_le
        dest: arg_cong [of "u64_to_le _" _ u64_from_le])
  show "m = n \<or> (wins_arbitration_against m n \<longleftrightarrow> \<not> wins_arbitration_against n m)"
    by (cases m; cases n) (auto simp: wins_arbitration_against_def)
qed (rule name_fields)

end
