(* ===== verification/J1939Tp.thy ===== *)
theory J1939Tp
  imports J1939Ids
begin

text \<open>
  J1939 acknowledgements and the J1939-21 transport protocol (\<open>protocol/j1939.rs\<close>, second part):
  control messages, data packets and the reassembler of multi-packet messages. A \<open>[u8; n]\<close> is a
  byte list; the well-formedness predicates state the length its type guarantees.
\<close>

section \<open>Acknowledgements\<close>

definition tp_packet_data_len :: nat where "tp_packet_data_len = 7"

definition tp_max_message_size :: nat where "tp_max_message_size = 1785"

datatype ack_control = Ack | NegativeAck | AccessDenied | CannotRespond | ReservedAck u8

definition ack_from_byte :: "u8 \<Rightarrow> ack_control" where
  "ack_from_byte b =
    (if b = 0 then Ack else if b = 1 then NegativeAck else if b = 2 then AccessDenied
     else if b = 3 then CannotRespond else ReservedAck b)"

primrec ack_as_byte :: "ack_control \<Rightarrow> u8" where
  "ack_as_byte Ack = 0"
| "ack_as_byte NegativeAck = 1"
| "ack_as_byte AccessDenied = 2"
| "ack_as_byte CannotRespond = 3"
| "ack_as_byte (ReservedAck v) = v"

record acknowledgement =
  ack_ctrl :: ack_control
  ack_group_function_value :: u8
  ack_address_acknowledged :: u8
  ack_pgn :: pgn

definition ack_parse :: "bytes \<Rightarrow> acknowledgement res" where
  "ack_parse payload =
    (if length payload < 8 then Inl (ParseError (J1939Msg (AckShort (length payload))))
     else Inr \<lparr>ack_ctrl = ack_from_byte (payload ! 0),
               ack_group_function_value = payload ! 1,
               ack_address_acknowledged = payload ! 4,
               ack_pgn = pgn_from_le (payload ! 5) (payload ! 6) (payload ! 7)\<rparr>)"

definition ack_to_payload :: "acknowledgement \<Rightarrow> bytes" where
  "ack_to_payload a =
    [ack_as_byte (ack_ctrl a), ack_group_function_value a, 0xFF, 0xFF, ack_address_acknowledged a]
      @ pgn_to_le (ack_pgn a)"

section \<open>Transport control messages\<close>

datatype tp_control =
    RequestToSend u16 u8 u8 pgn
  | ClearToSend u8 u8 pgn
  | EndOfMessageAck u16 u8 pgn
  | BroadcastAnnounce u16 u8 pgn
  | ConnectionAbort u8 pgn
  | UnknownControl u8 bytes

definition TP_RTS :: u8 where "TP_RTS = 0x10"

definition TP_CTS :: u8 where "TP_CTS = 0x11"

definition TP_EOM_ACK :: u8 where "TP_EOM_ACK = 0x13"

definition TP_BAM :: u8 where "TP_BAM = 0x20"

definition TP_ABORT :: u8 where "TP_ABORT = 0xFF"

definition tp_control_parse :: "bytes \<Rightarrow> tp_control res" where
  "tp_control_parse payload =
    (if length payload < 8 then Inl (ParseError (J1939Msg (TpCmShort (length payload))))
     else
       (let message_size = u16_from_le (payload ! 1) (payload ! 2);
            p = pgn_from_le (payload ! 5) (payload ! 6) (payload ! 7);
            control = payload ! 0
        in Inr
          (if control = TP_RTS then RequestToSend message_size (payload ! 3) (payload ! 4) p
           else if control = TP_CTS then ClearToSend (payload ! 1) (payload ! 2) p
           else if control = TP_EOM_ACK then EndOfMessageAck message_size (payload ! 3) p
           else if control = TP_BAM then BroadcastAnnounce message_size (payload ! 3) p
           else if control = TP_ABORT then ConnectionAbort (payload ! 1) p
           else UnknownControl control (take 7 (drop 1 payload)))))"

primrec tp_control_to_payload :: "tp_control \<Rightarrow> bytes" where
  "tp_control_to_payload (RequestToSend msize packets max_per_cts p) =
     [TP_RTS] @ u16_to_le msize @ [packets, max_per_cts] @ pgn_to_le p"
| "tp_control_to_payload (ClearToSend packets_to_send next_packet p) =
     [TP_CTS, packets_to_send, next_packet, 0xFF, 0xFF] @ pgn_to_le p"
| "tp_control_to_payload (EndOfMessageAck msize packets p) =
     [TP_EOM_ACK] @ u16_to_le msize @ [packets, 0xFF] @ pgn_to_le p"
| "tp_control_to_payload (BroadcastAnnounce msize packets p) =
     [TP_BAM] @ u16_to_le msize @ [packets, 0xFF] @ pgn_to_le p"
| "tp_control_to_payload (ConnectionAbort reason p) =
     [TP_ABORT, reason, 0xFF, 0xFF, 0xFF] @ pgn_to_le p"
| "tp_control_to_payload (UnknownControl control data) = control # data"

primrec tp_control_pgn :: "tp_control \<Rightarrow> pgn option" where
  "tp_control_pgn (RequestToSend _ _ _ p) = Some p"
| "tp_control_pgn (ClearToSend _ _ p) = Some p"
| "tp_control_pgn (EndOfMessageAck _ _ p) = Some p"
| "tp_control_pgn (BroadcastAnnounce _ _ p) = Some p"
| "tp_control_pgn (ConnectionAbort _ p) = Some p"
| "tp_control_pgn (UnknownControl _ _) = None"

section \<open>Data packets and reassembly\<close>

record tp_data_transfer =
  td_sequence :: u8
  td_data :: bytes

definition tp_data_parse :: "bytes \<Rightarrow> tp_data_transfer res" where
  "tp_data_parse payload =
    (if length payload < 8 then Inl (ParseError (J1939Msg (TpDtShort (length payload))))
     else Inr \<lparr>td_sequence = payload ! 0, td_data = take 7 (drop 1 payload)\<rparr>)"

definition tp_data_to_payload :: "tp_data_transfer \<Rightarrow> bytes" where
  "tp_data_to_payload d = td_sequence d # td_data d"

record tp_reassembler =
  tr_source :: u8
  tr_destination :: "u8 option"
  tr_pgn :: pgn
  tr_expected_size :: nat
  tr_expected_packets :: u8
  tr_next_sequence :: u8
  tr_payload :: bytes

text \<open>\<open>usize::div_ceil\<close> is \<open>(n + 6) div 7\<close> for the divisor 7.\<close>

definition validate_tp_size :: "nat \<Rightarrow> u8 \<Rightarrow> unit res" where
  "validate_tp_size message_size packets =
    (if message_size = 0 \<or> tp_max_message_size < message_size
     then Inl (ParseError (J1939Msg (TpSizeOutside message_size)))
     else
       (let required_packets = (message_size + (tp_packet_data_len - 1)) div tp_packet_data_len
        in if required_packets \<noteq> unat packets
           then Inl (ParseError (J1939Msg (TpPacketCountMismatch packets message_size)))
           else Inr ()))"

definition tp_start :: "u8 \<Rightarrow> u8 option \<Rightarrow> tp_control \<Rightarrow> tp_reassembler res" where
  "tp_start source destination control =
    bind_res
      (case control of
         BroadcastAnnounce msize packets p \<Rightarrow> Inr (unat msize, packets, p)
       | RequestToSend msize packets _ p \<Rightarrow> Inr (unat msize, packets, p)
       | _ \<Rightarrow> Inl (ParseError (J1939Msg TpStartNotBamOrRts)))
      (\<lambda>(message_size, expected_packets, p).
        bind_res (validate_tp_size message_size expected_packets) (\<lambda>_.
          Inr \<lparr>tr_source = source, tr_destination = destination, tr_pgn = p,
               tr_expected_size = message_size, tr_expected_packets = expected_packets,
               tr_next_sequence = 1, tr_payload = []\<rparr>))"

definition accept_dt :: "tp_data_transfer \<Rightarrow> (tp_reassembler, obd2_error, j1939_message option) act" where
  "accept_dt packet r =
    (if td_sequence packet \<noteq> tr_next_sequence r
     then (Inl (ParseError (J1939Msg (TpSequenceMismatch (tr_next_sequence r) (td_sequence packet)))), r)
     else if tr_expected_packets r < td_sequence packet
     then (Inl (ParseError (J1939Msg (TpSequenceExceeds (td_sequence packet) (tr_expected_packets r)))), r)
     else
       (let remaining = tr_expected_size r - length (tr_payload r);
            n = min remaining tp_packet_data_len;
            r' = r\<lparr>tr_payload := tr_payload r @ take n (td_data packet),
                   tr_next_sequence := saturating_add (tr_next_sequence r) 1\<rparr>
        in if length (tr_payload r') = tr_expected_size r'
           then (Inr (Some \<lparr>jm_source = tr_source r', jm_destination = tr_destination r',
                            jm_pgn = tr_pgn r', jm_payload = tr_payload r'\<rparr>),
                 r'\<lparr>tr_payload := []\<rparr>)
           else (Inr None, r')))"

section \<open>Round trips\<close>

lemma ack_as_byte_from_byte [simp]: "ack_as_byte (ack_from_byte b) = b"
  by (simp add: ack_from_byte_def)

lemma ack_from_as_byte: "ack_from_byte (ack_as_byte c) = c \<longleftrightarrow> (\<forall>v. c = ReservedAck v \<longrightarrow> v \<notin> {0, 1, 2, 3})"
  by (cases c) (auto simp: ack_from_byte_def)

lemma length_pgn_to_le [simp]: "length (pgn_to_le p) = 3"
  by (simp add: pgn_to_le_def)

lemma pgn_from_le_bound: "pgn_value (pgn_from_le a b c) \<le> 0xFFFFFF"
proof -
  have "ucast a OR push_bit 8 (ucast b) OR push_bit 16 (ucast c) \<le> (mask 24 :: u32)"
    unfolding le_mask_iff_bits by (auto simp: bit_simps dest: bit_imp_le_length)
  then show ?thesis by (simp add: pgn_from_le_def mask_eq_exp_minus_1)
qed

lemma pgn_from_to_le_iff:
  "pgn_from_le (pgn_to_le p ! 0) (pgn_to_le p ! Suc 0) (pgn_to_le p ! 2) = p \<longleftrightarrow> pgn_value p \<le> 0xFFFFFF"
  using pgn_le_roundtrip [of p] pgn_from_le_bound by (metis One_nat_def)

definition ack_wf :: "acknowledgement \<Rightarrow> bool" where
  "ack_wf a \<longleftrightarrow> pgn_value (ack_pgn a) \<le> 0xFFFFFF \<and>
     (case ack_ctrl a of ReservedAck v \<Rightarrow> v \<notin> {0, 1, 2, 3} | _ \<Rightarrow> True)"

definition tp_control_wf :: "tp_control \<Rightarrow> bool" where
  "tp_control_wf m \<longleftrightarrow>
    (case m of UnknownControl control data \<Rightarrow>
        control \<notin> {TP_RTS, TP_CTS, TP_EOM_ACK, TP_BAM, TP_ABORT} \<and> length data = 7
      | _ \<Rightarrow> pgn_value (the (tp_control_pgn m)) \<le> 0xFFFFFF)"

lemmas tp_consts = TP_RTS_def TP_CTS_def TP_EOM_ACK_def TP_BAM_def TP_ABORT_def

text \<open>An acknowledgement, a transport control message and a data packet come back from the payload they
  print to exactly when they are well formed: a 24-bit group number, and reserved or unknown
  control bytes that are not one of the named ones. Everything that parsing returns is well formed.\<close>

theorem j1939_tp_roundtrips:
  "(ack_parse (ack_to_payload a) = Inr a \<longleftrightarrow> ack_wf a)
   \<and> (tp_control_parse (tp_control_to_payload m) = Inr m \<longleftrightarrow> tp_control_wf m)
   \<and> (tp_data_parse (tp_data_to_payload d) = Inr d \<longleftrightarrow> length (td_data d) = 7)
   \<and> (ack_parse payload = Inr a \<longrightarrow> ack_wf a)
   \<and> (tp_control_parse payload = Inr m \<longrightarrow> tp_control_wf m)
   \<and> (tp_data_parse payload = Inr d \<longrightarrow> length (td_data d) = 7)"
proof (intro conjI)
  show "ack_parse (ack_to_payload a) = Inr a \<longleftrightarrow> ack_wf a"
    by (cases a)
      (auto simp: ack_parse_def ack_to_payload_def ack_wf_def pgn_from_to_le_iff ack_from_as_byte split: ack_control.splits)
  show "tp_control_parse (tp_control_to_payload m) = Inr m \<longleftrightarrow> tp_control_wf m"
    by (cases m)
      (auto simp: tp_control_parse_def tp_control_wf_def Let_def pgn_from_to_le_iff u16_to_le_def u16_from_le_split tp_consts)
  show "tp_data_parse (tp_data_to_payload d) = Inr d \<longleftrightarrow> length (td_data d) = 7"
    by (cases d) (auto simp: tp_data_parse_def tp_data_to_payload_def)
  show "ack_parse payload = Inr a \<longrightarrow> ack_wf a"
    by (auto simp: ack_parse_def ack_wf_def pgn_from_le_bound ack_from_byte_def split: if_splits)
  show "tp_control_parse payload = Inr m \<longrightarrow> tp_control_wf m"
    by (auto simp: tp_control_parse_def tp_control_wf_def Let_def pgn_from_le_bound split: if_splits)
  show "tp_data_parse payload = Inr d \<longrightarrow> length (td_data d) = 7"
    by (auto simp: tp_data_parse_def split: if_splits)
qed

lemma j1939_tp_roundtrips_witness:
  "ack_wf \<lparr>ack_ctrl = NegativeAck, ack_group_function_value = 0xFF, ack_address_acknowledged = 0xF9, ack_pgn = PGN_DM11\<rparr>
   \<and> tp_control_wf (BroadcastAnnounce 9 2 PGN_DM1)
   \<and> length (td_data \<lparr>td_sequence = 1, td_data = [2, 3, 4, 5, 6, 7, 8]\<rparr>) = 7"
proof (intro conjI)
  let ?a = "\<lparr>ack_ctrl = NegativeAck, ack_group_function_value = 0xFF, ack_address_acknowledged = 0xF9, ack_pgn = PGN_DM11\<rparr>"
  have "ack_parse (ack_to_payload ?a) = Inr ?a"
    by (simp add: ack_to_payload_def ack_parse_def ack_from_byte_def PGN_DM11_def pgn_to_le_def pgn_from_le_def)
  then show "ack_wf ?a" using j1939_tp_roundtrips by blast
  have "tp_control_parse [0x20, 9, 0, 2, 0xFF, 0xCA, 0xFE, 0] = Inr (BroadcastAnnounce 9 2 PGN_DM1)"
    by (simp add: tp_control_parse_def tp_consts PGN_DM1_def pgn_from_le_def u16_from_le_def u16_from_be_def)
  then show "tp_control_wf (BroadcastAnnounce 9 2 PGN_DM1)" using j1939_tp_roundtrips by blast
  have "tp_data_parse [1, 2, 3, 4, 5, 6, 7, 8] = Inr \<lparr>td_sequence = 1, td_data = [2, 3, 4, 5, 6, 7, 8]\<rparr>"
    by (simp add: tp_data_parse_def)
  then show "length (td_data \<lparr>td_sequence = 1, td_data = [2, 3, 4, 5, 6, 7, 8]\<rparr>) = 7"
    using j1939_tp_roundtrips by blast
qed

section \<open>Reassembly\<close>

text \<open>
  A receiver that feeds the packets of a session to the reassembler one by one, whatever errors it
  reports, until a message is complete; and the specification: the message is made of the packets
  whose sequence numbers count up from 1, any other packet being ignored.
\<close>

fun tp_feed :: "tp_data_transfer list \<Rightarrow> tp_reassembler \<Rightarrow> j1939_message option" where
  "tp_feed [] r = None"
| "tp_feed (p # ps) r =
    (case accept_dt p r of (Inr (Some m), _) \<Rightarrow> Some m | (_, r') \<Rightarrow> tp_feed ps r')"

fun in_sequence :: "nat \<Rightarrow> tp_data_transfer list \<Rightarrow> tp_data_transfer list" where
  "in_sequence k [] = []"
| "in_sequence k (p # ps) =
    (if unat (td_sequence p) = k then p # in_sequence (Suc k) ps else in_sequence k ps)"

definition tp_message :: "tp_reassembler \<Rightarrow> tp_data_transfer list \<Rightarrow> j1939_message" where
  "tp_message r qs =
    \<lparr>jm_source = tr_source r, jm_destination = tr_destination r, jm_pgn = tr_pgn r,
     jm_payload = take (tr_expected_size r) (concat (map td_data qs))\<rparr>"

text \<open>The state of a session that has accepted the packets \<open>qs\<close>.\<close>

definition tp_at :: "tp_reassembler \<Rightarrow> tp_data_transfer list \<Rightarrow> tp_reassembler" where
  "tp_at r qs = r\<lparr>tr_payload := take (tr_expected_size r) (concat (map td_data qs)),
                  tr_next_sequence := of_nat (Suc (length qs))\<rparr>"

definition tp_started :: "tp_reassembler \<Rightarrow> bool" where
  "tp_started r \<longleftrightarrow> 0 < tr_expected_size r \<and> tr_expected_size r \<le> 1785
     \<and> unat (tr_expected_packets r) = (tr_expected_size r + 6) div 7
     \<and> tr_next_sequence r = 1 \<and> tr_payload r = []"

lemma tp_start_started: "tp_start s d c = Inr r \<Longrightarrow> tp_started r"
  by (auto simp: tp_start_def validate_tp_size_def tp_packet_data_len_def tp_max_message_size_def Let_def
      tp_started_def split: tp_control.splits if_splits)

lemma tp_at_Nil: "tp_started r \<Longrightarrow> tp_at r [] = r"
  by (simp add: tp_at_def tp_started_def)

lemma unat_Suc_u8: "k < 255 \<Longrightarrow> unat (of_nat (Suc k) :: u8) = Suc k"
  by (simp add: unat_of_nat del: of_nat_Suc)

lemma saturating_Suc_u8: "k < 254 \<Longrightarrow> saturating_add (of_nat (Suc k) :: u8) 1 = of_nat (Suc (Suc k))"
  by (simp add: word_unat_eq_iff unat_saturating_add unat_Suc_u8 del: of_nat_Suc)

lemma div_ceil_le_iff: "(m :: nat) \<le> 7 * k \<longleftrightarrow> (m + 6) div 7 \<le> k"
  using div_less_iff_less_mult [of 7 "m + 6" "Suc k"] by (simp add: less_Suc_eq_le, linarith)

lemma accept_dt_at:
  assumes r: "tp_started r" and k: "length qs < unat (tr_expected_packets r)"
    and len: "\<forall>q \<in> set (p # qs). length (td_data q) = 7"
  shows "unat (td_sequence p) \<noteq> Suc (length qs) \<Longrightarrow> \<exists>e. accept_dt p (tp_at r qs) = (Inl e, tp_at r qs)"
    and "unat (td_sequence p) = Suc (length qs) \<Longrightarrow> Suc (length qs) < unat (tr_expected_packets r) \<Longrightarrow>
      accept_dt p (tp_at r qs) = (Inr None, tp_at r (qs @ [p]))"
    and "unat (td_sequence p) = Suc (length qs) \<Longrightarrow> Suc (length qs) = unat (tr_expected_packets r) \<Longrightarrow>
      fst (accept_dt p (tp_at r qs)) = Inr (Some (tp_message r (qs @ [p])))"
proof -
  let ?s = "tr_expected_size r" and ?c = "concat (map td_data qs)"
  have n: "unat (tr_expected_packets r) = (?s + 6) div 7" and s: "?s \<le> 1785" using r by (auto simp: tp_started_def)
  have c: "length ?c = 7 * length qs" using len by (induction qs) auto
  have k7: "7 * length qs < ?s" and k255: "length qs < 255" using k s unfolding n by linarith+
  have seq: "td_sequence p = of_nat (Suc (length qs)) \<longleftrightarrow> unat (td_sequence p) = Suc (length qs)"
    by (simp add: word_unat_eq_iff unat_Suc_u8 k255 del: of_nat_Suc)
  show "unat (td_sequence p) \<noteq> Suc (length qs) \<Longrightarrow> \<exists>e. accept_dt p (tp_at r qs) = (Inl e, tp_at r qs)"
    by (auto simp: accept_dt_def tp_at_def seq simp del: of_nat_Suc)
  define X where "X = take ?s ?c"
  define Y where "Y = take ?s (concat (map td_data (qs @ [p])))"
  have at: "tp_at r qs = r\<lparr>tr_payload := X, tr_next_sequence := of_nat (Suc (length qs))\<rparr>"
    and at': "tp_at r (qs @ [p]) = r\<lparr>tr_payload := Y, tr_next_sequence := of_nat (Suc (Suc (length qs)))\<rparr>"
    and msg: "tp_message r (qs @ [p]) = \<lparr>jm_source = tr_source r, jm_destination = tr_destination r,
      jm_pgn = tr_pgn r, jm_payload = Y\<rparr>"
    by (simp_all add: tp_at_def tp_message_def X_def Y_def)
  have pay: "X @ take (min (?s - length X) 7) (td_data p) = Y"
    using c k7 len by (simp add: X_def Y_def min_def)
  have le: "unat (td_sequence p) = Suc (length qs) \<Longrightarrow> \<not> tr_expected_packets r < td_sequence p"
    using k by (simp add: word_less_nat_alt)
  have last: "?s \<le> 7 * Suc (length qs) \<longleftrightarrow> unat (tr_expected_packets r) \<le> Suc (length qs)"
    unfolding n by (rule div_ceil_le_iff)
  have total: "length Y = ?s \<longleftrightarrow> unat (tr_expected_packets r) \<le> Suc (length qs)"
    using c len last by (auto simp: Y_def)
  show "accept_dt p (tp_at r qs) = (Inr None, tp_at r (qs @ [p]))"
    if "unat (td_sequence p) = Suc (length qs)" "Suc (length qs) < unat (tr_expected_packets r)"
  proof -
    have "length qs < 254" using that(2) unat_u8_lt [of "tr_expected_packets r"] by linarith
    with that le total show ?thesis
      by (simp add: accept_dt_def at at' seq pay Let_def tp_packet_data_len_def saturating_Suc_u8 del: of_nat_Suc length_append)
  qed
  show "fst (accept_dt p (tp_at r qs)) = Inr (Some (tp_message r (qs @ [p])))"
    if "unat (td_sequence p) = Suc (length qs)" "Suc (length qs) = unat (tr_expected_packets r)"
    using that le total
    by (simp add: accept_dt_def at msg seq pay Let_def word_unat_eq_iff [of "td_sequence p"] tp_packet_data_len_def del: of_nat_Suc length_append)
qed

lemma tp_feed_at:
  assumes r: "tp_started r"
  shows "length qs < unat (tr_expected_packets r) \<Longrightarrow> \<forall>q \<in> set (qs @ ps). length (td_data q) = 7 \<Longrightarrow>
    tp_feed ps (tp_at r qs) =
      (let all = qs @ in_sequence (Suc (length qs)) ps; n = unat (tr_expected_packets r)
       in if n \<le> length all then Some (tp_message r (take n all)) else None)"
proof (induction ps arbitrary: qs)
  case (Cons p ps)
  let ?n = "unat (tr_expected_packets r)"
  have len: "\<forall>q \<in> set (p # qs). length (td_data q) = 7" using Cons.prems by auto
  note step = accept_dt_at [OF r Cons.prems(1) len]
  consider "unat (td_sequence p) \<noteq> Suc (length qs)"
    | "unat (td_sequence p) = Suc (length qs)" "Suc (length qs) < ?n"
    | "unat (td_sequence p) = Suc (length qs)" "Suc (length qs) = ?n"
    using Cons.prems(1) by fastforce
  then show ?case
  proof cases
    case 1
    with step(1) Cons show ?thesis by (auto simp: Let_def)
  next
    case 2
    with step(2) Cons.IH [of "qs @ [p]"] Cons.prems show ?thesis by (simp add: Let_def)
  next
    case 3
    obtain r' where "accept_dt p (tp_at r qs) = (Inr (Some (tp_message r (qs @ [p]))), r')"
      using step(3) [OF 3] by (cases "accept_dt p (tp_at r qs)") auto
    then show ?thesis using 3(1) by (simp add: Let_def flip: 3(2))
  qed
qed simp

text \<open>C27: The reassembler implements its specification: fed any packets, in any order and with any
  duplicates or strangers among them, it completes exactly when the packets numbered 1 to the announced
  count occur in this order, and the message is then their data, cut to the announced size, with the session's
  source, destination and group number.\<close>

theorem tp_reassembly_refines_spec:
  assumes "tp_start source destination control = Inr r"
    and "\<forall>q \<in> set ps. length (td_data q) = 7"
  shows "tp_feed ps r =
    (let qs = in_sequence 1 ps; n = unat (tr_expected_packets r)
     in if n \<le> length qs then Some (tp_message r (take n qs)) else None)"
proof -
  have started: "tp_started r" using assms(1) by (rule tp_start_started)
  then have "0 < unat (tr_expected_packets r)" by (simp add: tp_started_def div_greater_zero_iff)
  then show ?thesis
    using tp_feed_at [OF started, of "[]" ps] assms(2) by (simp add: tp_at_Nil [OF started])
qed

text \<open>The sender's side: a payload cut into packets of seven bytes, the last one padded.\<close>

definition tp_segment :: "bytes \<Rightarrow> tp_data_transfer list" where
  "tp_segment payload =
    map (\<lambda>k. \<lparr>td_sequence = of_nat (Suc k),
              td_data = take 7 (drop (7 * k) payload @ replicate 7 0xFF)\<rparr>) [0..<(length payload + 6) div 7]"

lemma tp_feed_witness_state:
  "tp_start 0 None (BroadcastAnnounce 9 2 PGN_DM1) = Inr \<lparr>tr_source = 0, tr_destination = None, tr_pgn = PGN_DM1,
    tr_expected_size = 9, tr_expected_packets = 2, tr_next_sequence = 1, tr_payload = []\<rparr>"
  by (simp add: tp_start_def validate_tp_size_def tp_packet_data_len_def tp_max_message_size_def)

lemma tp_reassembly_refines_spec_witness:
  "tp_feed [\<lparr>td_sequence = 1, td_data = [1, 2, 3, 4, 5, 6, 7]\<rparr>, \<lparr>td_sequence = 1, td_data = [1, 2, 3, 4, 5, 6, 7]\<rparr>,
      \<lparr>td_sequence = 2, td_data = [8, 9, 0xFF, 0xFF, 0xFF, 0xFF, 0xFF]\<rparr>]
    \<lparr>tr_source = 0, tr_destination = None, tr_pgn = PGN_DM1,
     tr_expected_size = 9, tr_expected_packets = 2, tr_next_sequence = 1, tr_payload = []\<rparr>
   = Some \<lparr>jm_source = 0, jm_destination = None, jm_pgn = PGN_DM1, jm_payload = [1, 2, 3, 4, 5, 6, 7, 8, 9]\<rparr>"
  by (subst tp_reassembly_refines_spec [OF tp_feed_witness_state]) (simp_all add: tp_message_def)

lemma in_sequence_numbered:
  "m \<le> 255 \<Longrightarrow> in_sequence (Suc j) (map (\<lambda>k. \<lparr>td_sequence = of_nat (Suc k), td_data = g k\<rparr>) [j..<m]) =
    map (\<lambda>k. \<lparr>td_sequence = of_nat (Suc k), td_data = g k\<rparr>) [j..<m]"
proof (induction "m - j" arbitrary: j)
  case (Suc d)
  then have "[j..<m] = j # [Suc j..<m]" "j < 255" by (simp_all add: upt_conv_Cons)
  with Suc(1) [of "Suc j"] Suc(2,3) show ?case by (simp add: unat_Suc_u8 del: of_nat_Suc)
qed simp

lemma segment_data:
  "7 * m \<le> length payload + 6 \<Longrightarrow>
    take (length payload) (concat (map (\<lambda>k. take 7 (drop (7 * k) payload @ replicate 7 x)) [0..<m])) = take (7 * m) payload"
proof (induction m)
  case (Suc m)
  define g where "g = (\<lambda>k. take 7 (drop (7 * k) payload @ replicate 7 x))"
  have len: "length (concat (map g [0..<m])) = 7 * m"
    by (subst length_concat_const [where n = 7]) (auto simp: g_def)
  have 1: "take (length payload) (concat (map g [0..<m])) = take (7 * m) payload" using Suc by (simp add: g_def)
  have 2: "take (length payload - 7 * m) (g m) = take 7 (drop (7 * m) payload)"
    by (simp add: min_def g_def)
  have "take (length payload) (concat (map g [0..<Suc m])) = take (7 * m) payload @ take 7 (drop (7 * m) payload)"
    using 1 2 by (simp add: len)
  also have "\<dots> = take (7 * Suc m) payload"
    using take_add [of "7 * m" 7 payload] by (simp add: add.commute)
  finally show ?case unfolding g_def .
qed simp

lemma tp_transfer:
  assumes "payload \<noteq> []" and "length payload \<le> 1785"
  shows "\<exists>r. tp_start source destination
        (BroadcastAnnounce (of_nat (length payload)) (of_nat ((length payload + 6) div 7)) p) = Inr r
      \<and> tp_feed (tp_segment payload) r =
          Some \<lparr>jm_source = source, jm_destination = destination, jm_pgn = p, jm_payload = payload\<rparr>"
proof -
  let ?n = "(length payload + 6) div 7"
  have n: "?n \<le> 255" using assms(2) by linarith
  then have un: "unat (of_nat ?n :: u8) = ?n" by (simp add: unat_of_nat)
  have us: "unat (of_nat (length payload) :: u16) = length payload" using assms(2) by (simp add: unat_of_nat)
  let ?r = "\<lparr>tr_source = source, tr_destination = destination, tr_pgn = p, tr_expected_size = length payload,
     tr_expected_packets = of_nat ?n, tr_next_sequence = 1, tr_payload = []\<rparr>"
  have start: "tp_start source destination (BroadcastAnnounce (of_nat (length payload)) (of_nat ?n) p) = Inr ?r"
    using assms by (simp add: tp_start_def validate_tp_size_def un us tp_packet_data_len_def tp_max_message_size_def)
  have pos: "0 < ?n" using assms(1) by (cases payload) (simp_all add: div_greater_zero_iff)
  have seven: "7 * ?n \<le> length payload + 6" "length payload \<le> 7 * ?n"
    using div_mult_mod_eq [of "length payload + 6" 7] mod_less_divisor [of 7 "length payload + 6"] by linarith+
  have "in_sequence 1 (tp_segment payload) = tp_segment payload"
    unfolding tp_segment_def One_nat_def by (rule in_sequence_numbered [OF n])
  moreover have "length (tp_segment payload) = ?n" by (simp add: tp_segment_def)
  moreover have "take (length payload) (concat (map td_data (tp_segment payload))) = payload"
    using segment_data [OF seven(1), of "0xFF"] seven(2) by (simp add: tp_segment_def o_def)
  moreover have "\<forall>q \<in> set (tp_segment payload). length (td_data q) = 7" by (auto simp: tp_segment_def)
  ultimately have "tp_feed (tp_segment payload) ?r =
      Some \<lparr>jm_source = source, jm_destination = destination, jm_pgn = p, jm_payload = payload\<rparr>"
    using tp_feed_at [OF tp_start_started [OF start], of "[]" "tp_segment payload"] un pos
    by (simp add: tp_at_Nil [OF tp_start_started [OF start]] tp_message_def Let_def)
  with start show ?thesis by blast
qed

text \<open>C28: A whole transfer: announce a payload of 1 to 1785 bytes, send it in seven-byte packets, and the reassembler
  yields one message with exactly that payload, whatever its length modulo seven.\<close>

theorem tp_transfer_complete:
  assumes "payload \<noteq> []" and "length payload \<le> 1785"
  shows "\<exists>r. tp_start source destination
        (BroadcastAnnounce (of_nat (length payload)) (of_nat ((length payload + 6) div 7)) p) = Inr r
      \<and> tp_feed (tp_segment payload) r =
          Some \<lparr>jm_source = source, jm_destination = destination, jm_pgn = p, jm_payload = payload\<rparr>"
  using assms by (rule tp_transfer)

lemma tp_transfer_complete_witness:
  "\<exists>r. tp_start 0 None (BroadcastAnnounce (of_nat (length [1::u8, 2, 3])) (of_nat ((length [1::u8, 2, 3] + 6) div 7)) PGN_DM1) = Inr r
      \<and> tp_feed (tp_segment [1, 2, 3]) r = Some \<lparr>jm_source = 0, jm_destination = None, jm_pgn = PGN_DM1, jm_payload = [1, 2, 3]\<rparr>"
  by (rule tp_transfer_complete) simp_all

text \<open>C30: After the last packet of a transfer every packet is an error that changes nothing, except a
  packet 255 after a transfer of 255 packets: there the sequence counter is saturated, so any packet
  255 is accepted once more without an error and its data buffered. Every other packet is an error
  there too.\<close>

theorem tp_after_completion:
  assumes "tp_started r" and "\<forall>q \<in> set (p # qs). length (td_data q) = 7"
    and "unat (td_sequence p) = Suc (length qs)" and "Suc (length qs) = unat (tr_expected_packets r)"
    and "accept_dt p (tp_at r qs) = (Inr (Some m), r')"
  shows "if tr_expected_packets r = 255 \<and> td_sequence q = 255
    then accept_dt q r' = (Inr None, r'\<lparr>tr_payload := take 7 (td_data q)\<rparr>)
    else \<exists>e. accept_dt q r' = (Inl e, r')"
proof -
  have seq: "td_sequence p = tr_expected_packets r" using assms(3,4) by (simp add: word_unat_eq_iff)
  have next1: "tr_next_sequence (tp_at r qs) = tr_expected_packets r"
    using assms(4) by (simp add: tp_at_def)
  have r': "tr_next_sequence r' = saturating_add (tr_expected_packets r) 1" "tr_payload r' = []"
    "tr_expected_packets r' = tr_expected_packets r" "tr_expected_size r' = tr_expected_size r"
    using assms(5) next1 seq by (auto simp: accept_dt_def Let_def tp_at_def split: if_splits)
  show ?thesis
  proof (cases "tr_expected_packets r = 255")
    case True
    have 255: "saturating_add 255 1 = (255 :: u8)" by (simp add: saturating_add_def)
    have "unat (tr_expected_packets r) = (tr_expected_size r + 6) div 7" using assms(1) by (simp add: tp_started_def)
    then have "7 < tr_expected_size r" using True by simp
    moreover have "length (take 7 (td_data q)) \<le> 7" by simp
    ultimately show ?thesis using True r' 255
      by (auto simp: accept_dt_def Let_def tp_packet_data_len_def min_def)
  next
    case False
    then have "unat (tr_expected_packets r) \<noteq> 255" by (simp add: word_unat_eq_iff)
    moreover have "unat (tr_expected_packets r) < 256" by (rule unat_u8_lt)
    ultimately have "tr_expected_packets r < 255" by (simp add: word_less_nat_alt del: unat_u8_lt)
    then have "unat (tr_next_sequence r') = Suc (unat (tr_expected_packets r))"
      by (simp add: r' unat_saturating_add word_less_nat_alt)
    then have "tr_expected_packets r < tr_next_sequence r'" by (simp add: word_less_nat_alt)
    with False show ?thesis by (auto simp: accept_dt_def r')
  qed
qed

definition demo_transfer :: "nat \<Rightarrow> u8 \<Rightarrow> u8 \<Rightarrow> tp_reassembler" where
  "demo_transfer n k i = \<lparr>tr_source = 0, tr_destination = None, tr_pgn = PGN_DM1, tr_expected_size = n,
     tr_expected_packets = k, tr_next_sequence = i, tr_payload = []\<rparr>"

definition demo_packets :: "nat \<Rightarrow> tp_data_transfer list" where
  "demo_packets n = map (\<lambda>i. \<lparr>td_sequence = of_nat (Suc i), td_data = replicate 7 0\<rparr>) [0..<n]"

lemma demo_packets_data: "length (concat (map td_data (demo_packets n))) = 7 * n" "length (demo_packets n) = n"
  "\<forall>q \<in> set (demo_packets n). length (td_data q) = 7"
  by (simp_all add: demo_packets_def length_concat o_def sum_list_triv)

text \<open>Two packets, after which packet 2 is refused; and 255 packets, after which packet 255 is accepted
  again and packet 1 refused.\<close>

lemma tp_after_completion_witness:
  "(\<exists>e. accept_dt \<lparr>td_sequence = 2, td_data = replicate 7 9\<rparr> (demo_transfer 9 2 3) = (Inl e, demo_transfer 9 2 3))
   \<and> accept_dt \<lparr>td_sequence = 255, td_data = replicate 7 9\<rparr> (demo_transfer 1785 255 255)
     = (Inr None, (demo_transfer 1785 255 255)\<lparr>tr_payload := replicate 7 9\<rparr>)
   \<and> (\<exists>e. accept_dt \<lparr>td_sequence = 1, td_data = replicate 7 9\<rparr> (demo_transfer 1785 255 255) = (Inl e, demo_transfer 1785 255 255))"
proof -
  obtain m2 where short: "accept_dt \<lparr>td_sequence = 2, td_data = replicate 7 0\<rparr>
      (tp_at (demo_transfer 9 2 1) (demo_packets 1)) = (Inr (Some m2), demo_transfer 9 2 3)"
    by (simp add: accept_dt_def tp_at_def demo_transfer_def demo_packets_data tp_packet_data_len_def saturating_add_def)
  note two = tp_after_completion [OF _ _ _ _ short]
  obtain m where long: "accept_dt \<lparr>td_sequence = 255, td_data = replicate 7 0\<rparr>
      (tp_at (demo_transfer 1785 255 1) (demo_packets 254)) = (Inr (Some m), demo_transfer 1785 255 255)"
    by (simp add: accept_dt_def tp_at_def demo_transfer_def demo_packets_data tp_packet_data_len_def saturating_add_def)
  note all = tp_after_completion [OF _ _ _ _ long]
  show ?thesis
    using two [of "\<lparr>td_sequence = 2, td_data = replicate 7 9\<rparr>"] all [of "\<lparr>td_sequence = 255, td_data = replicate 7 9\<rparr>"]
      all [of "\<lparr>td_sequence = 1, td_data = replicate 7 9\<rparr>"] demo_packets_data [of 1] demo_packets_data [of 254]
    by (simp add: tp_started_def demo_transfer_def)
qed

end
