(* ===== verification/J1939Dm.thy ===== *)
theory J1939Dm
  imports J1939Tp Values
begin

text \<open>
  J1939-73 diagnostic messages (\<open>protocol/j1939.rs\<close>, third part): trouble codes, lamps, DM1, DM2,
  DM3, DM5, DM11, DM24 and DM25, the client that requests them through a transport, and the
  decoders of the broadcast parameter groups.
\<close>

section \<open>Trouble codes\<close>

text \<open>The 19-bit parameter number spread over three bytes, the low five bits of the third byte carrying
  another field. DM1/DM2 and DM24 lay it out alike.\<close>

definition spn_from_wire :: "u8 \<Rightarrow> u8 \<Rightarrow> u8 \<Rightarrow> u32" where
  "spn_from_wire a b c =
    (let spn_low = ucast (u16_from_le a b); spn_high = ucast (drop_bit 5 c AND 0x07)
     in spn_low OR push_bit 16 spn_high)"

definition spn_to_wire :: "u32 \<Rightarrow> u8 \<Rightarrow> bytes" where
  "spn_to_wire s low =
    [ucast (s AND 0xFF), ucast (drop_bit 8 s AND 0xFF), push_bit 5 (ucast (drop_bit 16 s)) OR (low AND 0x1F)]"

record j1939_dtc =
  jd_spn :: u32
  jd_fmi :: u8
  jd_occurrence_count :: u8
  jd_conversion_method :: u8

definition jd_from_bytes :: "bytes \<Rightarrow> j1939_dtc option" where
  "jd_from_bytes data =
    (if length data < 4 then None
     else Some \<lparr>jd_spn = spn_from_wire (data ! 0) (data ! 1) (data ! 2),
                jd_fmi = data ! 2 AND 0x1F,
                jd_occurrence_count = data ! 3 AND 0x7F,
                jd_conversion_method = drop_bit 7 (data ! 3) AND 0x01\<rparr>)"

definition jd_to_bytes :: "j1939_dtc \<Rightarrow> bytes res" where
  "jd_to_bytes d =
    (if max_spn < jd_spn d then Inl (ParseError (J1939Msg (SpnTooWide (jd_spn d))))
     else if 31 < jd_fmi d then Inl (ParseError (J1939Msg (FmiTooWide (jd_fmi d))))
     else if 127 < jd_occurrence_count d
       then Inl (ParseError (J1939Msg (CountTooWide (jd_occurrence_count d))))
     else if 1 < jd_conversion_method d
       then Inl (ParseError (J1939Msg (ConversionTooWide (jd_conversion_method d))))
     else Inr (spn_to_wire (jd_spn d) (jd_fmi d)
            @ [push_bit 7 (jd_conversion_method d AND 0x01) OR (jd_occurrence_count d AND 0x7F)]))"

definition jd_fmi_description :: "j1939_dtc \<Rightarrow> string" where
  "jd_fmi_description d = fmi_description (jd_fmi d)"

definition spn_id :: "j1939_dtc \<Rightarrow> spn" where "spn_id d = Spn (jd_spn d)"

definition fmi_id :: "j1939_dtc \<Rightarrow> fmi" where "fmi_id d = Fmi (jd_fmi d)"

section \<open>Lamps\<close>

datatype lamp_status = LampOff | LampOn | LampReserved | LampNotAvailable

definition lamp_from_bits :: "u8 \<Rightarrow> lamp_status" where
  "lamp_from_bits b =
    (let v = b AND 0x03
     in if v = 0 then LampOff else if v = 1 then LampOn else if v = 2 then LampReserved else LampNotAvailable)"

primrec lamp_bits :: "lamp_status \<Rightarrow> u8" where
  "lamp_bits LampOff = 0"
| "lamp_bits LampOn = 1"
| "lamp_bits LampReserved = 2"
| "lamp_bits LampNotAvailable = 3"

datatype lamp_flash = SlowFlash | FastFlash | FlashReserved | FlashNotAvailable

definition flash_from_bits :: "u8 \<Rightarrow> lamp_flash" where
  "flash_from_bits b =
    (let v = b AND 0x03
     in if v = 0 then SlowFlash else if v = 1 then FastFlash else if v = 2 then FlashReserved else FlashNotAvailable)"

primrec flash_bits :: "lamp_flash \<Rightarrow> u8" where
  "flash_bits SlowFlash = 0"
| "flash_bits FastFlash = 1"
| "flash_bits FlashReserved = 2"
| "flash_bits FlashNotAvailable = 3"

record dm_lamp_status =
  raw_status :: u8
  raw_flash :: u8
  protect :: lamp_status
  amber_warning :: lamp_status
  red_stop :: lamp_status
  malfunction_indicator :: lamp_status
  protect_flash :: lamp_flash
  amber_warning_flash :: lamp_flash
  red_stop_flash :: lamp_flash
  malfunction_indicator_flash :: lamp_flash

definition lamps_parse :: "u8 \<Rightarrow> u8 \<Rightarrow> dm_lamp_status" where
  "lamps_parse status flash =
    \<lparr>raw_status = status, raw_flash = flash,
     protect = lamp_from_bits status,
     amber_warning = lamp_from_bits (drop_bit 2 status),
     red_stop = lamp_from_bits (drop_bit 4 status),
     malfunction_indicator = lamp_from_bits (drop_bit 6 status),
     protect_flash = flash_from_bits flash,
     amber_warning_flash = flash_from_bits (drop_bit 2 flash),
     red_stop_flash = flash_from_bits (drop_bit 4 flash),
     malfunction_indicator_flash = flash_from_bits (drop_bit 6 flash)\<rparr>"

definition lamps_to_bytes :: "dm_lamp_status \<Rightarrow> bytes" where
  "lamps_to_bytes l =
    [lamp_bits (protect l) OR push_bit 2 (lamp_bits (amber_warning l))
       OR push_bit 4 (lamp_bits (red_stop l)) OR push_bit 6 (lamp_bits (malfunction_indicator l)),
     flash_bits (protect_flash l) OR push_bit 2 (flash_bits (amber_warning_flash l))
       OR push_bit 4 (flash_bits (red_stop_flash l)) OR push_bit 6 (flash_bits (malfunction_indicator_flash l))]"

section \<open>Diagnostic messages\<close>

definition is_padding_bytes :: "bytes \<Rightarrow> bool" where
  "is_padding_bytes bs \<longleftrightarrow> list_all (\<lambda>b. b = 0xFF) bs \<or> list_all (\<lambda>b. b = 0x00) bs"

record dm_dtc_message =
  dm_lamps :: dm_lamp_status
  dm_dtcs :: "j1939_dtc list"

definition dm_to_payload :: "dm_dtc_message \<Rightarrow> bytes res" where
  "dm_to_payload m =
    bind_res (try_map jd_to_bytes (dm_dtcs m)) (\<lambda>chunks. Inr (lamps_to_bytes (dm_lamps m) @ concat chunks))"

definition parse_dm_dtc_message :: "bytes \<Rightarrow> string \<Rightarrow> dm_dtc_message res" where
  "parse_dm_dtc_message data label =
    (if length data < 2 then Inl (ParseError (J1939Msg (DmLampsShort label (length data))))
     else
       (let chunks = chunks_exact 4 (drop 2 data); remainder = chunks_remainder 4 (drop 2 data)
        in if remainder \<noteq> [] \<and> \<not> is_padding_bytes remainder
           then Inl (ParseError (J1939Msg (DmTrailing label (length remainder))))
           else
             bind_res
               (try_map (\<lambda>chunk. ok_or (ParseError (Text (label @ '' contains an invalid DTC chunk''))) (jd_from_bytes chunk))
                 (filter (\<lambda>chunk. \<not> is_padding_bytes chunk) chunks))
               (\<lambda>dtcs. Inr \<lparr>dm_lamps = lamps_parse (data ! 0) (data ! 1), dm_dtcs = dtcs\<rparr>)))"

definition parse_dm1 :: "bytes \<Rightarrow> dm_dtc_message res" where
  "parse_dm1 data = parse_dm_dtc_message data ''DM1''"

definition parse_dm2 :: "bytes \<Rightarrow> dm_dtc_message res" where
  "parse_dm2 data = parse_dm_dtc_message data ''DM2''"

definition encode_dm1 :: "dm_dtc_message \<Rightarrow> bytes res" where
  "encode_dm1 m = dm_to_payload m"

definition encode_dm2 :: "dm_dtc_message \<Rightarrow> bytes res" where
  "encode_dm2 m = dm_to_payload m"

definition decode_dm1 :: "bytes \<Rightarrow> j1939_dtc list" where
  "decode_dm1 data = (case parse_dm1 data of Inr m \<Rightarrow> dm_dtcs m | Inl _ \<Rightarrow> [])"

definition decode_dm2 :: "bytes \<Rightarrow> j1939_dtc list" where
  "decode_dm2 data = (case parse_dm2 data of Inr m \<Rightarrow> dm_dtcs m | Inl _ \<Rightarrow> [])"

definition parse_dm3_response :: "bytes \<Rightarrow> acknowledgement res" where
  "parse_dm3_response data =
    bind_res (ack_parse data) (\<lambda>a.
      if ack_pgn a = PGN_DM3 then Inr a
      else Inl (ParseError (J1939Msg (AckWrongPgn ''DM3'' (pgn_value (ack_pgn a))))))"

definition parse_dm11_response :: "bytes \<Rightarrow> acknowledgement res" where
  "parse_dm11_response data =
    bind_res (ack_parse data) (\<lambda>a.
      if ack_pgn a = PGN_DM11 then Inr a
      else Inl (ParseError (J1939Msg (AckWrongPgn ''DM11'' (pgn_value (ack_pgn a))))))"

text \<open>DM5, readiness.\<close>

definition na_byte :: u8 where "na_byte = 0xFF"

definition na_word :: u16 where "na_word = 0xFFFF"

definition byte_available :: "u8 \<Rightarrow> u8 option" where
  "byte_available b = (if b = na_byte then None else Some b)"

definition word_available :: "u16 \<Rightarrow> u16 option" where
  "word_available w = (if w = na_word then None else Some w)"

record dm5 =
  active_dtc_count :: "u8 option"
  previously_active_dtc_count :: "u8 option"
  obd_compliance :: u8
  monitor_readiness :: bytes

definition dm5_to_payload :: "dm5 \<Rightarrow> bytes" where
  "dm5_to_payload m =
    [case active_dtc_count m of Some b \<Rightarrow> b | None \<Rightarrow> na_byte,
     case previously_active_dtc_count m of Some b \<Rightarrow> b | None \<Rightarrow> na_byte,
     obd_compliance m] @ monitor_readiness m"

definition parse_dm5 :: "bytes \<Rightarrow> dm5 res" where
  "parse_dm5 data =
    (if length data < 8 then Inl (ParseError (J1939Msg (Dm5Short (length data))))
     else Inr \<lparr>active_dtc_count = byte_available (data ! 0),
               previously_active_dtc_count = byte_available (data ! 1),
               obd_compliance = data ! 2,
               monitor_readiness = take 5 (drop 3 data)\<rparr>)"

definition encode_dm5 :: "dm5 \<Rightarrow> bytes" where
  "encode_dm5 m = dm5_to_payload m"

text \<open>DM24, supported parameters.\<close>

record dm24_entry =
  de_spn :: spn
  de_support_bits :: u8
  de_data_length :: u8

definition dm24_entry_to_payload :: "dm24_entry \<Rightarrow> bytes res" where
  "dm24_entry_to_payload e =
    (if max_spn < spn_value (de_spn e) then Inl (ParseError (J1939Msg (SpnTooWide (spn_value (de_spn e)))))
     else if 31 < de_support_bits e then Inl (ParseError (J1939Msg (SupportBitsTooWide (de_support_bits e))))
     else Inr (spn_to_wire (spn_value (de_spn e)) (de_support_bits e) @ [de_data_length e]))"

record dm24 =
  dm24_entries :: "dm24_entry list"

definition dm24_to_payload :: "dm24 \<Rightarrow> bytes res" where
  "dm24_to_payload m = bind_res (try_map dm24_entry_to_payload (dm24_entries m)) (\<lambda>cs. Inr (concat cs))"

definition dm24_entry_of_chunk :: "bytes \<Rightarrow> dm24_entry" where
  "dm24_entry_of_chunk chunk =
    \<lparr>de_spn = Spn (spn_from_wire (chunk ! 0) (chunk ! 1) (chunk ! 2)),
     de_support_bits = chunk ! 2 AND 0x1F, de_data_length = chunk ! 3\<rparr>"

definition parse_dm24 :: "bytes \<Rightarrow> dm24 res" where
  "parse_dm24 data =
    (if chunks_remainder 4 data \<noteq> [] then Inl (ParseError (J1939Msg (Dm24Length (length data))))
     else Inr \<lparr>dm24_entries = map dm24_entry_of_chunk
            (filter (\<lambda>chunk. chunk \<noteq> [0xFF, 0xFF, 0xFF, 0xFF]) (chunks_exact 4 data))\<rparr>)"

definition encode_dm24 :: "dm24 \<Rightarrow> bytes res" where
  "encode_dm24 m = dm24_to_payload m"

text \<open>
  DM25, expanded freeze frames. The loop is over the rest of the payload, \<open>data[offset..]\<close>;
  \<open>offset + 1 + length\<close> cannot overflow a \<open>usize\<close> for a slice, whose length is below \<open>isize::MAX\<close>.
\<close>

record dm25_freeze_frame =
  ff_length :: u8
  ff_dtc :: j1939_dtc
  ff_data :: bytes

definition ff_to_payload :: "dm25_freeze_frame \<Rightarrow> bytes res" where
  "ff_to_payload f =
    (let actual_len = 4 + length (ff_data f)
     in if 255 < actual_len then Inl (ParseError (J1939Msg (FreezeFrameTooLong (length (ff_data f)))))
        else if unat (ff_length f) \<noteq> actual_len
          then Inl (ParseError (J1939Msg (FreezeFrameLengthMismatch (ff_length f) actual_len)))
        else bind_res (jd_to_bytes (ff_dtc f)) (\<lambda>bs. Inr (ff_length f # bs @ ff_data f)))"

record dm25 =
  dm25_frames :: "dm25_freeze_frame list"

definition dm25_to_payload :: "dm25 \<Rightarrow> bytes res" where
  "dm25_to_payload m = bind_res (try_map ff_to_payload (dm25_frames m)) (\<lambda>cs. Inr (concat cs))"

function parse_dm25_loop :: "bytes \<Rightarrow> dm25_freeze_frame list res" where
  "parse_dm25_loop [] = Inr []"
| "parse_dm25_loop (b # rest) =
    (let len = unat b
     in if list_all (\<lambda>x. x = 0xFF) (b # rest) then Inr []
        else if len = 0 then Inr []
        else if len < 4 then Inl (ParseError (J1939Msg (Dm25TooShort len)))
        else if length (b # rest) < 1 + len then Inl (ParseError (J1939Msg (Dm25Exceeds len)))
        else
          bind_res (ok_or (ParseError (Text ''DM25 freeze frame missing 4-byte DTC'')) (jd_from_bytes (take 4 rest)))
            (\<lambda>d. bind_res (parse_dm25_loop (drop len rest)) (\<lambda>frames.
              Inr (\<lparr>ff_length = b, ff_dtc = d, ff_data = drop 4 (take len rest)\<rparr> # frames))))"
  by pat_completeness auto
termination
  by (relation "measure length") auto

definition parse_dm25 :: "bytes \<Rightarrow> dm25 res" where
  "parse_dm25 data = bind_res (parse_dm25_loop data) (\<lambda>frames. Inr \<lparr>dm25_frames = frames\<rparr>)"

definition encode_dm25 :: "dm25 \<Rightarrow> bytes res" where
  "encode_dm25 m = dm25_to_payload m"

section \<open>Client\<close>

text \<open>
  The transport is a type parameter of the client: its only method, \<open>request_pgn\<close>, is an argument
  \<open>rq\<close> of the operations, an action on the transport's state \<open>'t\<close>.
\<close>

type_synonym 't j1939_transport = "j1939_request \<Rightarrow> ('t, obd2_error, j1939_message) act"

record 't j1939_client =
  jc_transport :: 't
  jc_source :: u8
  jc_destination :: u8

definition jc_new :: "'t \<Rightarrow> u8 \<Rightarrow> 't j1939_client" where
  "jc_new t source = \<lparr>jc_transport = t, jc_source = source, jc_destination = global_address\<rparr>"

definition jc_with_destination :: "'t j1939_client \<Rightarrow> u8 \<Rightarrow> 't j1939_client" where
  "jc_with_destination c destination = c\<lparr>jc_destination := destination\<rparr>"

definition expect_pgn :: "j1939_message \<Rightarrow> pgn \<Rightarrow> bytes res" where
  "expect_pgn m expected =
    (if jm_pgn m = expected then Inr (jm_payload m)
     else Inl (ParseError (J1939Msg (UnexpectedPgn (pgn_value expected) (pgn_value (jm_pgn m))))))"

definition jc_request :: "'t j1939_transport \<Rightarrow> pgn \<Rightarrow> ('t j1939_client, obd2_error, j1939_message) act" where
  "jc_request rq p c =
    (let (r, t) = rq (jr_new (jc_source c) (jc_destination c) p) (jc_transport c)
     in (r, c\<lparr>jc_transport := t\<rparr>))"

definition jc_request_dm1 :: "'t j1939_transport \<Rightarrow> ('t j1939_client, obd2_error, dm_dtc_message) act" where
  "jc_request_dm1 rq = bind_act (jc_request rq PGN_DM1) (\<lambda>m. lift_res (bind_res (expect_pgn m PGN_DM1) parse_dm1))"

definition jc_request_dm2 :: "'t j1939_transport \<Rightarrow> ('t j1939_client, obd2_error, dm_dtc_message) act" where
  "jc_request_dm2 rq = bind_act (jc_request rq PGN_DM2) (\<lambda>m. lift_res (bind_res (expect_pgn m PGN_DM2) parse_dm2))"

definition jc_clear_dm3 :: "'t j1939_transport \<Rightarrow> ('t j1939_client, obd2_error, acknowledgement) act" where
  "jc_clear_dm3 rq =
    bind_act (jc_request rq PGN_DM3) (\<lambda>m. lift_res (bind_res (expect_pgn m PGN_ACKNOWLEDGEMENT) parse_dm3_response))"

definition jc_clear_dm11 :: "'t j1939_transport \<Rightarrow> ('t j1939_client, obd2_error, acknowledgement) act" where
  "jc_clear_dm11 rq =
    bind_act (jc_request rq PGN_DM11) (\<lambda>m. lift_res (bind_res (expect_pgn m PGN_ACKNOWLEDGEMENT) parse_dm11_response))"

definition jc_request_dm5 :: "'t j1939_transport \<Rightarrow> ('t j1939_client, obd2_error, dm5) act" where
  "jc_request_dm5 rq = bind_act (jc_request rq PGN_DM5) (\<lambda>m. lift_res (bind_res (expect_pgn m PGN_DM5) parse_dm5))"

definition jc_request_dm24 :: "'t j1939_transport \<Rightarrow> ('t j1939_client, obd2_error, dm24) act" where
  "jc_request_dm24 rq = bind_act (jc_request rq PGN_DM24) (\<lambda>m. lift_res (bind_res (expect_pgn m PGN_DM24) parse_dm24))"

definition jc_request_dm25 :: "'t j1939_transport \<Rightarrow> ('t j1939_client, obd2_error, dm25) act" where
  "jc_request_dm25 rq = bind_act (jc_request rq PGN_DM25) (\<lambda>m. lift_res (bind_res (expect_pgn m PGN_DM25) parse_dm25))"

definition request_dm1 :: "u8 \<Rightarrow> u8 \<Rightarrow> j1939_request" where "request_dm1 s d = jr_new s d PGN_DM1"

definition request_dm2 :: "u8 \<Rightarrow> u8 \<Rightarrow> j1939_request" where "request_dm2 s d = jr_new s d PGN_DM2"

definition request_dm3 :: "u8 \<Rightarrow> u8 \<Rightarrow> j1939_request" where "request_dm3 s d = jr_new s d PGN_DM3"

definition request_dm5 :: "u8 \<Rightarrow> u8 \<Rightarrow> j1939_request" where "request_dm5 s d = jr_new s d PGN_DM5"

definition request_dm11 :: "u8 \<Rightarrow> u8 \<Rightarrow> j1939_request" where "request_dm11 s d = jr_new s d PGN_DM11"

definition request_dm24 :: "u8 \<Rightarrow> u8 \<Rightarrow> j1939_request" where "request_dm24 s d = jr_new s d PGN_DM24"

definition request_dm25 :: "u8 \<Rightarrow> u8 \<Rightarrow> j1939_request" where "request_dm25 s d = jr_new s d PGN_DM25"

section \<open>Broadcast parameter groups\<close>

record eec1 =
  engine_rpm :: "f64 option"
  driver_demand_torque_pct :: "f64 option"
  actual_torque_pct :: "f64 option"
  torque_mode :: u8

definition decode_eec1 :: "bytes \<Rightarrow> eec1 option" where
  "decode_eec1 data =
    (if length data < 8 then None
     else Some \<lparr>engine_rpm = map_option (\<lambda>w. of_nat (unat w) * (1 / 8)) (word_available (u16_from_le (data ! 3) (data ! 4))),
                driver_demand_torque_pct = map_option (\<lambda>b. of_nat (unat b) - 125) (byte_available (data ! 1)),
                actual_torque_pct = map_option (\<lambda>b. of_nat (unat b) - 125) (byte_available (data ! 2)),
                torque_mode = data ! 0 AND 0x0F\<rparr>)"

record ccvs =
  vehicle_speed :: "f64 option"
  brake_switch :: "bool option"
  cruise_active :: "bool option"

definition decode_ccvs :: "bytes \<Rightarrow> ccvs option" where
  "decode_ccvs data =
    (if length data < 8 then None
     else
       (let brake_bits = drop_bit 2 (data ! 3) AND 0x03; cruise_bits = data ! 0 AND 0x03
        in Some \<lparr>vehicle_speed = map_option (\<lambda>w. of_nat (unat w) / 256) (word_available (u16_from_le (data ! 1) (data ! 2))),
                 brake_switch = (if brake_bits = 0x03 then None else Some (brake_bits = 1)),
                 cruise_active = (if cruise_bits = 0x03 then None else Some (cruise_bits = 1))\<rparr>))"

record et1 =
  coolant_temp :: "f64 option"
  fuel_temp :: "f64 option"
  oil_temp :: "f64 option"

definition decode_et1 :: "bytes \<Rightarrow> et1 option" where
  "decode_et1 data =
    (if length data < 4 then None
     else Some \<lparr>coolant_temp = map_option (\<lambda>b. of_nat (unat b) - 40) (byte_available (data ! 0)),
                fuel_temp = map_option (\<lambda>b. of_nat (unat b) - 40) (byte_available (data ! 1)),
                oil_temp = map_option (\<lambda>w. of_nat (unat w) * (1 / 32) - 273) (word_available (u16_from_le (data ! 2) (data ! 3)))\<rparr>)"

record eflp1 =
  oil_pressure :: "f64 option"
  coolant_pressure :: "f64 option"

definition decode_eflp1 :: "bytes \<Rightarrow> eflp1 option" where
  "decode_eflp1 data =
    (if length data < 4 then None
     else Some \<lparr>oil_pressure = map_option (\<lambda>b. of_nat (unat b) * 4) (byte_available (data ! 3)),
                coolant_pressure = map_option (\<lambda>b. of_nat (unat b) * 2) (byte_available (data ! 1))\<rparr>)"

record lfe =
  fuel_rate :: "f64 option"
  instantaneous_fuel_economy :: "f64 option"

definition decode_lfe :: "bytes \<Rightarrow> lfe option" where
  "decode_lfe data =
    (if length data < 4 then None
     else Some \<lparr>fuel_rate = map_option (\<lambda>w. of_nat (unat w) * (1 / 20)) (word_available (u16_from_le (data ! 0) (data ! 1))),
                instantaneous_fuel_economy =
                  map_option (\<lambda>w. of_nat (unat w) / 512) (word_available (u16_from_le (data ! 2) (data ! 3)))\<rparr>)"

section \<open>Trouble-code round trips\<close>

lemma bit_u16_from_le:
  "bit (u16_from_le a b) n \<longleftrightarrow> (if n < 8 then bit a n else n < 16 \<and> bit b (n - 8))"
  by (auto simp: u16_from_le_def u16_from_be_def bit_simps dest: bit_imp_le_length)

lemma bit_spn_from_wire:
  "bit (spn_from_wire a b c) n \<longleftrightarrow>
    (if n < 8 then bit a n else if n < 16 then bit b (n - 8) else n < 19 \<and> bit c (n - 11))"
proof -
  consider "n < 8" | "8 \<le> n" "n < 16" | "16 \<le> n" by fastforce
  then show ?thesis
    by cases (auto simp: spn_from_wire_def bit_u16_from_le bit_simps mask_simps)
qed

lemma spn_from_wire_bound: "spn_from_wire a b c \<le> max_spn"
proof -
  have "spn_from_wire a b c \<le> mask 19"
    unfolding le_mask_iff_bits by (auto simp: bit_spn_from_wire split: if_splits)
  then show ?thesis by (simp add: max_spn_def mask_eq_exp_minus_1)
qed

lemma spn_wire_print [codec_simps]: "spn_to_wire (spn_from_wire a b c) (c AND 0x1F) = [a, b, c]"
  unfolding spn_to_wire_def
  by (auto intro!: bit_word_eqI simp: bit_spn_from_wire bit_simps mask_simps)

lemma spn_wire_parse:
  assumes "s \<le> max_spn" and "low \<le> 31"
  shows "spn_from_wire (spn_to_wire s low ! 0) (spn_to_wire s low ! 1) (spn_to_wire s low ! 2) = s"
    and "spn_to_wire s low ! 2 AND 0x1F = low"
proof -
  have s: "bit s n \<Longrightarrow> n < 19" for n
    using assms(1) le_mask_bit [of s 19] by (simp add: max_spn_def mask_eq_exp_minus_1)
  have l: "bit low n \<Longrightarrow> n < 5" for n
    using assms(2) le_mask_bit [of low 5] by (simp add: mask_eq_exp_minus_1)
  show "spn_from_wire (spn_to_wire s low ! 0) (spn_to_wire s low ! 1) (spn_to_wire s low ! 2) = s"
  proof (rule bit_word_eqI)
    fix n assume "n < LENGTH(32)"
    then consider "n < 8" | "8 \<le> n" "n < 16" | "16 \<le> n" "n < 19" | "19 \<le> n" by fastforce
    then show "bit (spn_from_wire (spn_to_wire s low ! 0) (spn_to_wire s low ! 1) (spn_to_wire s low ! 2)) n = bit s n"
      by cases (auto simp: bit_spn_from_wire spn_to_wire_def bit_simps mask_simps dest: s)
  qed
  show "spn_to_wire s low ! 2 AND 0x1F = low"
    by (rule bit_word_eqI) (auto simp: spn_to_wire_def bit_simps mask_simps dest: l)
qed

lemma length_spn_to_wire [simp]: "length (spn_to_wire s low) = 3"
  by (simp add: spn_to_wire_def)

lemma byte_bits_eqI:
  assumes "bit a 0 = bit b 0" "bit a 1 = bit b 1" "bit a 2 = bit b 2" "bit a 3 = bit b 3"
    "bit a 4 = bit b 4" "bit a 5 = bit b 5" "bit a 6 = bit b 6" "bit a 7 = bit b 7"
  shows "a = (b :: u8)"
proof (rule bit_word_eqI)
  fix n assume "n < LENGTH(8)"
  then have "n < 8" by simp
  from less_8_cases [OF this] show "bit a n = bit b n" using assms by auto
qed

lemma jd_print: "jd_from_bytes data = Some d \<Longrightarrow> jd_to_bytes d = Inr (take 4 data)"
proof -
  assume d: "jd_from_bytes data = Some d"
  then obtain a b c e rest where data: "data = a # b # c # e # rest"
    by (auto simp: jd_from_bytes_def not_less numeral_eq_Suc Suc_le_length_iff split: if_splits)
  have "c AND 0x1F \<le> 31" "e AND 0x7F \<le> 127" "drop_bit 7 e AND 0x01 \<le> 1"
    by (simp_all add: word_and_le1)
  moreover have "push_bit 7 ((drop_bit 7 e AND 0x01) AND 0x01) OR ((e AND 0x7F) AND 0x7F) = e"
    by (rule byte_bits_eqI) (simp_all add: bit_simps mask_simps)
  ultimately show ?thesis
    using d spn_from_wire_bound [of a b c]
    by (auto simp: data jd_from_bytes_def jd_to_bytes_def spn_wire_print not_less)
qed

lemma jd_parse: "jd_to_bytes d = Inr bs \<Longrightarrow> jd_from_bytes bs = Some d \<and> length bs = 4"
proof -
  assume b: "jd_to_bytes d = Inr bs"
  then have le: "jd_spn d \<le> max_spn" "jd_fmi d \<le> 31" "jd_occurrence_count d \<le> 127" "jd_conversion_method d \<le> 1"
    and bs: "bs = spn_to_wire (jd_spn d) (jd_fmi d)
            @ [push_bit 7 (jd_conversion_method d AND 0x01) OR (jd_occurrence_count d AND 0x7F)]"
    by (auto simp: jd_to_bytes_def not_less split: if_splits)
  have o: "bit (jd_occurrence_count d) n \<Longrightarrow> n < 7" and m: "bit (jd_conversion_method d) n \<Longrightarrow> n = 0" for n
    using le(3,4) le_mask_bit [of "jd_occurrence_count d" 7 n] le_mask_bit [of "jd_conversion_method d" 1 n]
    by (auto simp: mask_eq_exp_minus_1)
  have last: "push_bit 7 (jd_conversion_method d AND 0x01) OR (jd_occurrence_count d AND 0x7F) =
      push_bit 7 (jd_conversion_method d) OR jd_occurrence_count d"
    by (rule byte_bits_eqI) (auto simp: bit_simps mask_simps dest: o m)
  have "(push_bit 7 (jd_conversion_method d) OR jd_occurrence_count d) AND 0x7F = jd_occurrence_count d"
    "drop_bit 7 (push_bit 7 (jd_conversion_method d) OR jd_occurrence_count d) AND 0x01 = jd_conversion_method d"
    by (auto intro!: bit_word_eqI simp: bit_simps mask_simps dest: o m)
  then show ?thesis
    using spn_wire_parse [OF le(1,2)] by (simp add: jd_from_bytes_def bs [unfolded last] nth_append)
qed

lemma lamp_bits_from_bits: "lamp_bits (lamp_from_bits b) = b AND 0x03" "flash_bits (flash_from_bits b) = b AND 0x03"
proof -
  have "b AND 0x03 \<in> {0, 1, 2, 3}"
    using word_and_le1 [of b 3] by (auto simp: word_le_nat_alt word_unat_eq_iff)
  then show "lamp_bits (lamp_from_bits b) = b AND 0x03" "flash_bits (flash_from_bits b) = b AND 0x03"
    by (auto simp: lamp_from_bits_def flash_from_bits_def Let_def)
qed

lemma lamps_print [codec_simps]: "lamps_to_bytes (lamps_parse status flash) = [status, flash]"
  by (auto intro!: byte_bits_eqI simp: lamps_to_bytes_def lamps_parse_def lamp_bits_from_bits bit_simps mask_simps)

section \<open>Message round trips\<close>

text \<open>Fallible element-wise encoders concatenated by \<open>try_map\<close>, against chunked decoders.\<close>

lemma try_map_concat_chunks:
  assumes "try_map enc xs = Inr cs" and "\<And>x c. enc x = Inr c \<Longrightarrow> length c = 4"
  shows "chunks_exact 4 (concat cs) = cs" and "chunks_remainder 4 (concat cs) = []"
proof -
  have len: "length c = 4" if "c \<in> set cs" for c
    using assms that by (auto simp: try_map_eq_Inr_iff list_all2_conv_all_nth in_set_conv_nth)
  then show "chunks_exact 4 (concat cs) = cs" by (simp add: chunks_exact_concat)
  have "length (concat cs) = 4 * length cs" using len by (rule length_concat_const)
  then show "chunks_remainder 4 (concat cs) = []" by (simp add: chunks_remainder_Nil_iff)
qed

lemma try_map_inverse:
  "try_map enc xs = Inr cs \<Longrightarrow> (\<And>x c. enc x = Inr c \<Longrightarrow> dec c = Inr x) \<Longrightarrow> try_map dec cs = Inr xs"
  by (induction xs arbitrary: cs) auto

lemma filter_all: "(\<And>x. x \<in> set xs \<Longrightarrow> P x) \<Longrightarrow> filter P xs = xs"
  by (induction xs) auto

definition dm_wf :: "dm_dtc_message \<Rightarrow> bool" where
  "dm_wf m \<longleftrightarrow> dm_lamps m = lamps_parse (raw_status (dm_lamps m)) (raw_flash (dm_lamps m))
     \<and> (\<forall>d \<in> set (dm_dtcs m). \<forall>bs. jd_to_bytes d = Inr bs \<longrightarrow> \<not> is_padding_bytes bs)"

lemma is_padding_Nil [simp]: "is_padding_bytes []" by (simp add: is_padding_bytes_def)

lemma lamps_parse_simps [simp]:
  "raw_status (lamps_parse s f) = s" "raw_flash (lamps_parse s f) = f"
  by (simp_all add: lamps_parse_def)

lemma parse_encode_dm:
  assumes enc: "dm_to_payload m = Inr payload" and wf: "dm_wf m"
  shows "parse_dm_dtc_message payload label = Inr m"
proof -
  obtain cs where cs: "try_map jd_to_bytes (dm_dtcs m) = Inr cs" and p: "payload = lamps_to_bytes (dm_lamps m) @ concat cs"
    using enc by (auto simp: dm_to_payload_def)
  obtain s f where lamps: "dm_lamps m = lamps_parse s f" using wf unfolding dm_wf_def by blast
  have p: "payload = s # f # concat cs" by (simp add: p lamps lamps_print)
  note chunks = try_map_concat_chunks [OF cs] jd_parse
  have "filter (\<lambda>c. \<not> is_padding_bytes c) cs = cs"
    using cs wf by (intro filter_all)
      (force simp: try_map_eq_Inr_iff list_all2_conv_all_nth in_set_conv_nth dm_wf_def)
  moreover have "try_map (\<lambda>c. ok_or e (jd_from_bytes c)) cs = Inr (dm_dtcs m)" for e :: obd2_error
    by (rule try_map_inverse [OF cs]) (auto dest: jd_parse)
  moreover have "\<lparr>dm_lamps = lamps_parse s f, dm_dtcs = dm_dtcs m\<rparr> = m" by (simp flip: lamps)
  ultimately show ?thesis
    using chunks by (simp add: parse_dm_dtc_message_def p Let_def)
qed

text \<open>The significant part of a DM1 payload: what is left when padding chunks and trailing padding go.\<close>

definition dm_significant :: "bytes \<Rightarrow> bytes" where
  "dm_significant data = take 2 data @ concat (filter (\<lambda>c. \<not> is_padding_bytes c) (chunks_exact 4 (drop 2 data)))"

lemma encode_parse_dm:
  assumes "parse_dm_dtc_message data label = Inr m"
  shows "dm_to_payload m = Inr (dm_significant data) \<and> dm_wf m"
proof -
  define cs where "cs = filter (\<lambda>c. \<not> is_padding_bytes c) (chunks_exact 4 (drop 2 data))"
  obtain dtcs where m: "m = \<lparr>dm_lamps = lamps_parse (data ! 0) (data ! 1), dm_dtcs = dtcs\<rparr>"
    and len: "2 \<le> length data"
    and dec: "list_all2 (\<lambda>c d. jd_from_bytes c = Some d) cs dtcs"
    using assms by (auto simp: parse_dm_dtc_message_def Let_def try_map_eq_Inr_iff cs_def split: if_splits)
  have cs: "length c = 4" "\<not> is_padding_bytes c" if "c \<in> set cs" for c
    using that by (auto simp: cs_def dest: chunks_exact_elem_length)
  have all: "try_map jd_to_bytes dtcs = Inr cs"
    using dec cs(1) by (auto simp: try_map_eq_Inr_iff list_all2_conv_all_nth dest!: jd_print)
  have take2: "take 2 data = [data ! 0, data ! 1]"
    using len by (auto simp: numeral_eq_Suc Suc_le_length_iff)
  have "dm_significant data = take 2 data @ concat cs" by (simp add: dm_significant_def cs_def)
  moreover have "dm_wf m"
    unfolding dm_wf_def
  proof (intro conjI ballI allI impI)
    fix d bs assume "d \<in> set (dm_dtcs m)" "jd_to_bytes d = Inr bs"
    then have "bs \<in> set cs"
      using all by (auto simp: m try_map_eq_Inr_iff list_all2_conv_all_nth in_set_conv_nth)
    then show "\<not> is_padding_bytes bs" by (rule cs(2))
  qed (simp add: m)
  ultimately show ?thesis by (simp add: m dm_to_payload_def all take2 lamps_print)
qed

text \<open>C32: DM1 payloads. Parsing and printing again removes exactly the padding. The payloads without padding correspond one
  to one to the messages whose lamp fields agree with the raw lamp bytes and none of whose trouble codes is a padding
  pattern, parsing and printing being inverse to each other between the two.\<close>

theorem dm1_roundtrip:
  "(parse_dm1 payload = Inr m \<and> dm_significant payload = payload \<longleftrightarrow> encode_dm1 m = Inr payload \<and> dm_wf m)
   \<and> (parse_dm1 data = Inr m \<longrightarrow> encode_dm1 m = Inr (dm_significant data))"
  using parse_encode_dm [of m payload] encode_parse_dm [of payload _ m] encode_parse_dm [of data _ m]
  by (auto simp: parse_dm1_def encode_dm1_def)

lemma dm1_roundtrip_witness:
  "encode_dm1 \<lparr>dm_lamps = lamps_parse 4 0xFF,
      dm_dtcs = [\<lparr>jd_spn = 190, jd_fmi = 4, jd_occurrence_count = 5, jd_conversion_method = 0\<rparr>]\<rparr>
    = Inr (dm_significant [4, 0xFF, 0xBE, 0, 4, 5, 0xFF, 0xFF])"
proof -
  have "parse_dm1 [4, 0xFF, 0xBE, 0, 4, 5, 0xFF, 0xFF] = Inr \<lparr>dm_lamps = lamps_parse 4 0xFF,
      dm_dtcs = [\<lparr>jd_spn = 190, jd_fmi = 4, jd_occurrence_count = 5, jd_conversion_method = 0\<rparr>]\<rparr>"
    by (simp add: parse_dm1_def parse_dm_dtc_message_def Let_def chunks_remainder_def is_padding_bytes_def
        jd_from_bytes_def spn_from_wire_def u16_from_le_def u16_from_be_def chunks_exact.simps [of 4 "[_, _]"])
  then show ?thesis using dm1_roundtrip by blast
qed

text \<open>DM24 entries.\<close>

lemma dm24_entry_print: "length c = 4 \<Longrightarrow> dm24_entry_to_payload (dm24_entry_of_chunk c) = Inr c"
proof -
  assume "length c = 4"
  then obtain x y z w where c: "c = [x, y, z, w]" by (auto simp: numeral_eq_Suc length_Suc_conv)
  have "z AND 0x1F \<le> 31" by (simp add: word_and_le1)
  then show ?thesis
    using spn_from_wire_bound [of x y z]
    by (simp add: c dm24_entry_of_chunk_def dm24_entry_to_payload_def spn_wire_print not_less)
qed

lemma dm24_entry_parse: "dm24_entry_to_payload e = Inr c \<Longrightarrow> dm24_entry_of_chunk c = e \<and> length c = 4"
  using spn_wire_parse [of "spn_value (de_spn e)" "de_support_bits e"]
  by (cases e) (auto simp: dm24_entry_to_payload_def dm24_entry_of_chunk_def not_less nth_append split: if_splits)

definition dm24_wf :: "dm24 \<Rightarrow> bool" where
  "dm24_wf m \<longleftrightarrow> Inr [0xFF, 0xFF, 0xFF, 0xFF] \<notin> dm24_entry_to_payload ` set (dm24_entries m)"

definition dm5_wf :: "dm5 \<Rightarrow> bool" where
  "dm5_wf m \<longleftrightarrow> active_dtc_count m \<noteq> Some 0xFF \<and> previously_active_dtc_count m \<noteq> Some 0xFF
     \<and> length (monitor_readiness m) = 5"

lemma parse_encode_dm24:
  assumes "encode_dm24 m = Inr payload" and "dm24_wf m"
  shows "parse_dm24 payload = Inr m \<and> [0xFF, 0xFF, 0xFF, 0xFF] \<notin> set (chunks_exact 4 payload)"
proof -
  obtain cs where cs: "try_map dm24_entry_to_payload (dm24_entries m) = Inr cs" and p: "payload = concat cs"
    using assms(1) by (auto simp: encode_dm24_def dm24_to_payload_def)
  note chunks = try_map_concat_chunks [OF cs conjunct2 [OF dm24_entry_parse]]
  have no: "[0xFF, 0xFF, 0xFF, 0xFF] \<notin> set cs"
    using cs assms(2) by (force simp: try_map_eq_Inr_iff list_all2_conv_all_nth in_set_conv_nth dm24_wf_def)
  then have "filter (\<lambda>c. c \<noteq> [0xFF, 0xFF, 0xFF, 0xFF]) cs = cs" by (intro filter_all) auto
  moreover have "map dm24_entry_of_chunk cs = dm24_entries m"
    using cs dm24_entry_parse by (fastforce simp: try_map_eq_Inr_iff list_all2_conv_all_nth intro!: nth_equalityI)
  ultimately show ?thesis using chunks no by (simp add: p parse_dm24_def)
qed

lemma encode_parse_dm24:
  assumes "parse_dm24 payload = Inr m" and "[0xFF, 0xFF, 0xFF, 0xFF] \<notin> set (chunks_exact 4 payload)"
  shows "encode_dm24 m = Inr payload \<and> dm24_wf m"
proof -
  let ?cs = "chunks_exact 4 payload"
  have "filter (\<lambda>c. c \<noteq> [0xFF, 0xFF, 0xFF, 0xFF]) ?cs = ?cs" using assms(2) by (intro filter_all) auto
  then have m: "dm24_entries m = map dm24_entry_of_chunk ?cs" and r: "length payload mod 4 = 0"
    using assms(1) by (auto simp: parse_dm24_def chunks_remainder_Nil_iff split: if_splits)
  have pr: "dm24_entry_to_payload (dm24_entry_of_chunk c) = Inr c" if "c \<in> set ?cs" for c
    using that by (intro dm24_entry_print chunks_exact_elem_length)
  have "try_map dm24_entry_to_payload (map dm24_entry_of_chunk ?cs) = Inr ?cs"
    using pr by (simp add: try_map_eq_Inr_iff list_all2_conv_all_nth)
  moreover have "dm24_wf m" using pr assms(2) by (auto simp: dm24_wf_def m)
  ultimately show ?thesis
    using concat_chunks_exact [of 4 payload] r by (simp add: encode_dm24_def dm24_to_payload_def m)
qed

lemma unwrap_available:
  "x \<noteq> Some 0xFF \<Longrightarrow> (case x of Some b \<Rightarrow> b | None \<Rightarrow> na_byte) = v \<longleftrightarrow> x = byte_available v"
  "byte_available v \<noteq> Some 0xFF"
  "x \<noteq> Some 0xFF \<Longrightarrow> byte_available (case x of Some b \<Rightarrow> b | None \<Rightarrow> na_byte) = x"
  by (auto simp: byte_available_def na_byte_def split: option.splits)

lemma parse_dm5_iff: "parse_dm5 data = Inr d \<longleftrightarrow> 8 \<le> length data \<and> dm5_wf d \<and> encode_dm5 d = take 8 data"
proof (cases "8 \<le> length data")
  case True
  then obtain a b c m1 m2 m3 m4 m5 rest where "data = a # b # c # m1 # m2 # m3 # m4 # m5 # rest"
    by (auto simp: numeral_eq_Suc Suc_le_length_iff)
  then show ?thesis
    by (cases d) (auto simp: parse_dm5_def dm5_wf_def encode_dm5_def dm5_to_payload_def unwrap_available)
qed (simp add: parse_dm5_def)

text \<open>DM24 and DM5. A DM24 payload without an all-ones entry parses to a message exactly when the message prints to it;
  a DM5 payload parses to a message exactly when the message prints to its first eight bytes and uses no
  not-available pattern as a count.\<close>

theorem dm24_dm5_roundtrip:
  "(parse_dm24 payload = Inr m \<and> [0xFF, 0xFF, 0xFF, 0xFF] \<notin> set (chunks_exact 4 payload)
     \<longleftrightarrow> encode_dm24 m = Inr payload \<and> dm24_wf m)
   \<and> (parse_dm5 data = Inr d \<longleftrightarrow> 8 \<le> length data \<and> dm5_wf d \<and> encode_dm5 d = take 8 data)"
proof (intro conjI)
  show "parse_dm24 payload = Inr m \<and> [0xFF, 0xFF, 0xFF, 0xFF] \<notin> set (chunks_exact 4 payload)
     \<longleftrightarrow> encode_dm24 m = Inr payload \<and> dm24_wf m"
    using parse_encode_dm24 encode_parse_dm24 by blast
  show "parse_dm5 data = Inr d \<longleftrightarrow> 8 \<le> length data \<and> dm5_wf d \<and> encode_dm5 d = take 8 data"
    by (rule parse_dm5_iff)
qed

section \<open>Freeze frames\<close>

definition dm25_framed :: "dm25_freeze_frame list \<Rightarrow> bytes list \<Rightarrow> bytes \<Rightarrow> bool" where
  "dm25_framed fs cs pad \<longleftrightarrow> try_map ff_to_payload fs = Inr cs
     \<and> (list_all (\<lambda>b. b = 0xFF) pad \<or> (pad \<noteq> [] \<and> hd pad = 0))
     \<and> (cs \<noteq> [] \<longrightarrow> \<not> list_all (\<lambda>b. b = 0xFF) (last cs @ pad))"

lemma ff_to_payload_Inr:
  "ff_to_payload f = Inr c \<longleftrightarrow> (\<exists>bs. jd_to_bytes (ff_dtc f) = Inr bs \<and> c = ff_length f # bs @ ff_data f
     \<and> unat (ff_length f) = 4 + length (ff_data f))"
proof -
  have "unat (ff_length f) \<le> 255" using unat_u8_lt [of "ff_length f"] by linarith
  then show ?thesis by (auto simp: ff_to_payload_def Let_def)
qed

lemma framed_not_all_ff:
  "cs \<noteq> [] \<Longrightarrow> \<not> list_all P (last cs @ pad) \<Longrightarrow> \<not> list_all P (concat cs @ pad)"
  by (induction cs rule: rev_induct) auto

declare parse_dm25_loop.simps(2) [simp del]

lemma parse_dm25_loop_framed: "dm25_framed fs cs pad \<Longrightarrow> parse_dm25_loop (concat cs @ pad) = Inr fs"
proof (induction fs arbitrary: cs)
  case Nil
  then show ?case by (cases pad) (auto simp: dm25_framed_def parse_dm25_loop.simps(2) Let_def)
next
  case (Cons f fs)
  then obtain c cs' where cs: "cs = c # cs'" and c: "ff_to_payload f = Inr c" and fr: "dm25_framed fs cs' pad"
    by (auto simp: dm25_framed_def split: if_splits)
  then obtain bs where bs: "jd_to_bytes (ff_dtc f) = Inr bs" "c = ff_length f # bs @ ff_data f"
    and len: "unat (ff_length f) = 4 + length (ff_data f)" by (auto simp: ff_to_payload_Inr)
  have "\<not> list_all (\<lambda>b. b = 0xFF) (concat cs @ pad)"
    using Cons.prems by (intro framed_not_all_ff) (auto simp: dm25_framed_def cs)
  then show ?case
    using Cons.IH [OF fr] bs len jd_parse [OF bs(1)]
    by (cases f) (simp add: cs parse_dm25_loop.simps(2) Let_def)
qed

lemma parse_dm25_loop_Inr: "parse_dm25_loop data = Inr fs \<Longrightarrow> \<exists>cs pad. dm25_framed fs cs pad \<and> data = concat cs @ pad"
proof (induction data arbitrary: fs rule: parse_dm25_loop.induct)
  case 1
  then show ?case by (intro exI [of _ "[]"]) (auto simp: dm25_framed_def)
next
  case (2 b rest)
  consider (ff) "list_all (\<lambda>x. x = 0xFF) (b # rest)" | (zero) "b = 0" "\<not> list_all (\<lambda>x. x = 0xFF) (b # rest)"
    | (frame) "\<not> list_all (\<lambda>x. x = 0xFF) (b # rest)" "b \<noteq> 0" by blast
  then show ?case
  proof cases
    case ff
    with "2.prems" have "fs = []" by (simp add: parse_dm25_loop.simps(2))
    with ff show ?thesis by (intro exI [of _ "[]"] exI [of _ "b # rest"]) (auto simp: dm25_framed_def)
  next
    case zero
    with "2.prems" have "fs = []" by (auto simp: parse_dm25_loop.simps(2) Let_def split: if_splits)
    with zero show ?thesis by (intro exI [of _ "[]"] exI [of _ "b # rest"]) (auto simp: dm25_framed_def)
  next
    case frame
    let ?n = "unat b"
    from frame "2.prems" obtain d fs' where ok: "4 \<le> ?n" "?n \<le> length rest" "jd_from_bytes (take 4 rest) = Some d"
      and loop: "parse_dm25_loop (drop ?n rest) = Inr fs'"
      and fs: "fs = \<lparr>ff_length = b, ff_dtc = d, ff_data = drop 4 (take ?n rest)\<rparr> # fs'"
      by (auto simp: parse_dm25_loop.simps(2) Let_def unat_eq_zero not_less split: if_splits)
    have "\<exists>cs pad. dm25_framed fs' cs pad \<and> drop ?n rest = concat cs @ pad"
      by (rule "2.IH" [OF refl frame(1)]) (use frame(2) ok loop in \<open>auto simp: unat_eq_zero\<close>)
    then obtain cs pad where ih: "dm25_framed fs' cs pad" "drop ?n rest = concat cs @ pad" by blast
    let ?c = "b # take ?n rest"
    have "take ?n rest = take 4 rest @ drop 4 (take ?n rest)"
      using ok(1) append_take_drop_id [of 4 "take ?n rest"] by (simp add: min_def)
    then have "ff_to_payload (hd fs) = Inr ?c"
      using ok jd_print [OF ok(3)] by (simp add: ff_to_payload_Inr fs)
    moreover have data: "b # rest = concat (?c # cs) @ pad"
      using ih(2) append_take_drop_id [of ?n rest] by simp
    moreover have "\<not> list_all (\<lambda>b. b = 0xFF) (last (?c # cs) @ pad)"
    proof (cases "cs = []")
      case True
      then have "last (?c # cs) @ pad = b # rest" using data by (metis append_Nil2 concat.simps last.simps)
      with frame(1) show ?thesis by (simp only: not_False_eq_True)
    next
      case False
      with ih(1) show ?thesis by (simp add: dm25_framed_def)
    qed
    ultimately have "dm25_framed fs (?c # cs) pad"
      using ih(1) by (simp add: dm25_framed_def fs)
    with data show ?thesis by blast
  qed
qed

text \<open>The DM25 parser accepts exactly the payloads made of encoded freeze frames and padding (all ones, or anything after
  a zero length byte), and returns those frames; a last frame that is itself all ones up to the end counts as padding.\<close>

theorem dm25_parse_characterised:
  "parse_dm25 data = Inr m \<longleftrightarrow> (\<exists>cs pad. dm25_framed (dm25_frames m) cs pad \<and> data = concat cs @ pad)
   \<and> (\<forall>payload. encode_dm25 m = Inr payload \<longleftrightarrow> (\<exists>cs. try_map ff_to_payload (dm25_frames m) = Inr cs \<and> payload = concat cs))"
  using parse_dm25_loop_Inr [of data "dm25_frames m"] parse_dm25_loop_framed [of "dm25_frames m"]
  by (cases m) (auto simp: parse_dm25_def encode_dm25_def dm25_to_payload_def)

section \<open>Client and broadcast values\<close>

text \<open>C31: Reading DM1 over a broadcast transfer, end to end: when the transport answers the DM1 request with the message that
  the reassembler builds from the packets of an encoded DM1, the client returns exactly the encoded message; an
  answer of another group is an error and is not parsed; an error of the transport is passed on.\<close>

theorem j1939_client_dm1_over_tp:
  assumes "encode_dm1 m = Inr payload" and "dm_wf m" and "length payload \<le> 1785"
    and "tp_start node None (BroadcastAnnounce (of_nat (length payload)) (of_nat ((length payload + 6) div 7)) p) = Inr r"
    and "tp_feed (tp_segment payload) r = Some answer"
    and "rq (request_dm1 (jc_source c) (jc_destination c)) (jc_transport c) = (Inr answer, t)"
    and "rq (request_dm1 (jc_source c') (jc_destination c')) (jc_transport c') = (Inl e, t')"
  shows "jc_request_dm1 rq c =
      (if p = PGN_DM1 then Inr m else Inl (ParseError (J1939Msg (UnexpectedPgn 65226 (pgn_value p)))),
       c\<lparr>jc_transport := t\<rparr>)
    \<and> jc_request_dm1 rq c' = (Inl e, c'\<lparr>jc_transport := t'\<rparr>)"
proof -
  have ne: "payload \<noteq> []"
    using assms(1) by (auto simp: encode_dm1_def dm_to_payload_def lamps_to_bytes_def)
  have answer: "answer = \<lparr>jm_source = node, jm_destination = None, jm_pgn = p, jm_payload = payload\<rparr>"
    using tp_transfer [OF ne assms(3), of node None p] assms(4,5) by auto
  have "parse_dm1 payload = Inr m"
    using parse_encode_dm assms(1,2) by (simp add: parse_dm1_def encode_dm1_def)
  then show ?thesis
    using assms(6,7)
    by (simp add: jc_request_dm1_def jc_request_def bind_act_def request_dm1_def expect_pgn_def answer PGN_DM1_def)
qed

text \<open>A transport that serves the client as the theorem asks: bit 0 of its state says whether it fails.\<close>

definition dm1_demo_transport :: "bool j1939_transport" where
  "dm1_demo_transport r failing =
    (if failing then (Inl Timeout, failing)
     else (Inr \<lparr>jm_source = 0, jm_destination = None, jm_pgn = jr_requested_pgn r, jm_payload = [4, 0xFF, 0xBE, 0, 4, 5]\<rparr>, failing))"

lemma j1939_client_dm1_over_tp_witness:
  "jc_request_dm1 dm1_demo_transport (jc_new False 0xF9) =
    (Inr \<lparr>dm_lamps = lamps_parse 4 0xFF, dm_dtcs = [\<lparr>jd_spn = 190, jd_fmi = 4, jd_occurrence_count = 5, jd_conversion_method = 0\<rparr>]\<rparr>,
     jc_new False 0xF9)"
proof -
  let ?d = "\<lparr>jd_spn = 190, jd_fmi = 4, jd_occurrence_count = 5, jd_conversion_method = 0\<rparr>"
  let ?m = "\<lparr>dm_lamps = lamps_parse 4 0xFF, dm_dtcs = [?d]\<rparr>"
  let ?p = "[4, 0xFF, 0xBE, 0, 4, 5] :: bytes"
  have d: "jd_to_bytes ?d = Inr [0xBE, 0, 4, 5]" by (simp add: jd_to_bytes_def max_spn_def spn_to_wire_def)
  have enc: "encode_dm1 ?m = Inr ?p" by (simp add: encode_dm1_def dm_to_payload_def d lamps_print)
  have wf: "dm_wf ?m" by (simp add: dm_wf_def d is_padding_bytes_def)
  obtain r where r: "tp_start 0 None (BroadcastAnnounce (of_nat (length ?p)) (of_nat ((length ?p + 6) div 7)) PGN_DM1) = Inr r"
    "tp_feed (tp_segment ?p) r = Some \<lparr>jm_source = 0, jm_destination = None, jm_pgn = PGN_DM1, jm_payload = ?p\<rparr>"
    using tp_transfer [of ?p 0 None PGN_DM1] by auto
  have "jc_request_dm1 dm1_demo_transport (jc_new False 0xF9) =
      (if PGN_DM1 = PGN_DM1 then Inr ?m else Inl (ParseError (J1939Msg (UnexpectedPgn 65226 (pgn_value PGN_DM1)))),
       (jc_new False 0xF9)\<lparr>jc_transport := False\<rparr>) \<and>
    jc_request_dm1 dm1_demo_transport (jc_new True 0xF9) = (Inl Timeout, (jc_new True 0xF9)\<lparr>jc_transport := True\<rparr>)"
    by (rule j1939_client_dm1_over_tp [OF enc wf _ r])
      (simp_all add: dm1_demo_transport_def jc_new_def request_dm1_def jr_new_def)
  then show ?thesis by (simp add: jc_new_def)
qed

lemma available_bounds:
  "byte_available b = Some v \<Longrightarrow> unat v \<le> 254" "word_available w = Some u \<Longrightarrow> unat u \<le> 65534"
proof -
  assume "byte_available b = Some v"
  then have "v = b" "unat b \<noteq> 255"
    by (auto simp: byte_available_def na_byte_def word_unat_eq_iff split: if_splits)
  moreover have "unat b < 256" by simp
  ultimately show "unat v \<le> 254" by (simp del: unat_u8_lt)
next
  assume "word_available w = Some u"
  then have "u = w" "unat w \<noteq> 65535"
    by (auto simp: word_available_def na_word_def word_unat_eq_iff split: if_splits)
  moreover have "unat w < 65536" by (rule order_less_le_trans [OF unsigned_less]) simp
  ultimately show "unat u \<le> 65534" by simp
qed

lemma u16_ff: "u16_from_le a b = 0xFFFF \<longleftrightarrow> a = 0xFF \<and> b = 0xFF"
proof
  assume "u16_from_le a b = 0xFFFF"
  then have "u16_to_le (u16_from_le a b) = u16_to_le 0xFFFF" by simp
  then show "a = 0xFF \<and> b = 0xFF" by (simp add: u16_be_roundtrip) (simp add: u16_to_le_def)
qed (simp add: u16_from_le_def u16_from_be_def)

definition in_range :: "f64 option \<Rightarrow> f64 \<Rightarrow> f64 \<Rightarrow> bool" where
  "in_range x lo hi \<longleftrightarrow> (case x of None \<Rightarrow> True | Some v \<Rightarrow> lo \<le> v \<and> v \<le> hi)"

lemma in_range_byte:
  "in_range (map_option (\<lambda>b. of_nat (unat b) * k - c) (byte_available b)) (- c) (254 * k - c)" if "0 \<le> k"
proof (cases "byte_available b")
  case (Some v)
  then have "(of_nat (unat v) :: rat) \<le> 254" using available_bounds(1) by (metis of_nat_le_iff of_nat_numeral)
  moreover have "0 \<le> (of_nat (unat v) :: rat) * k" using that by (intro mult_nonneg_nonneg of_nat_0_le_iff)
  ultimately show ?thesis using that Some by (simp add: in_range_def mult_right_mono)
qed (simp add: in_range_def)

lemma in_range_word:
  "in_range (map_option (\<lambda>b. of_nat (unat b) * k - c) (word_available b)) (- c) (65534 * k - c)" if "0 \<le> k"
proof (cases "word_available b")
  case (Some v)
  then have "(of_nat (unat v) :: rat) \<le> 65534" using available_bounds(2) by (metis of_nat_le_iff of_nat_numeral)
  moreover have "0 \<le> (of_nat (unat v) :: rat) * k" using that by (intro mult_nonneg_nonneg of_nat_0_le_iff)
  ultimately show ?thesis using that Some by (simp add: in_range_def mult_right_mono)
qed (simp add: in_range_def)

lemmas in_range_bytes = in_range_byte [of 1 125, simplified] in_range_byte [of 1 40, simplified]
  in_range_byte [of 4 0, simplified] in_range_byte [of 2 0, simplified]

lemmas in_range_words = in_range_word [of "1/8" 0, simplified] in_range_word [of "1/256" 0, simplified]
  in_range_word [of "1/32" 273, simplified] in_range_word [of "1/20" 0, simplified] in_range_word [of "1/512" 0, simplified]

text \<open>Every value that the parameter-group decoders report lies in the physical range of its parameter (engine speed up
  to 8191.75 rpm, torque from -125 to 129 percent, temperatures from -40 or -273, and so on), and the all-ones
  patterns are reported as absent.\<close>

theorem j1939_decoded_values_in_range:
  "(decode_eec1 data = Some e \<longrightarrow>
      in_range (engine_rpm e) 0 (8191 + 3 / 4) \<and> in_range (driver_demand_torque_pct e) (-125) 129
      \<and> in_range (actual_torque_pct e) (-125) 129 \<and> torque_mode e \<le> 15
      \<and> (engine_rpm e = None \<longleftrightarrow> data ! 3 = 0xFF \<and> data ! 4 = 0xFF))
   \<and> (decode_ccvs data = Some v \<longrightarrow> in_range (vehicle_speed v) 0 (65534 / 256))
   \<and> (decode_et1 data = Some t \<longrightarrow>
      in_range (coolant_temp t) (-40) 214 \<and> in_range (fuel_temp t) (-40) 214 \<and> in_range (oil_temp t) (-273) (65534 / 32 - 273))
   \<and> (decode_eflp1 data = Some p \<longrightarrow> in_range (oil_pressure p) 0 1016 \<and> in_range (coolant_pressure p) 0 508)
   \<and> (decode_lfe data = Some l \<longrightarrow>
      in_range (fuel_rate l) 0 (65534 / 20) \<and> in_range (instantaneous_fuel_economy l) 0 (65534 / 512))"
proof (intro conjI impI; (elim conjE)?)
  show "engine_rpm e = None \<longleftrightarrow> data ! 3 = 0xFF \<and> data ! 4 = 0xFF" if "decode_eec1 data = Some e"
    using that by (auto simp: decode_eec1_def word_available_def na_word_def u16_ff split: if_splits)
qed (use in_range_bytes in_range_words in
    \<open>auto simp: decode_eec1_def decode_ccvs_def decode_et1_def decode_eflp1_def decode_lfe_def Let_def
      mask_simps word_and_le1 split: if_splits\<close>)

lemma j1939_decoded_values_in_range_witness:
  "in_range (engine_rpm \<lparr>engine_rpm = Some 2000, driver_demand_torque_pct = Some 0, actual_torque_pct = Some 5, torque_mode = 1\<rparr>)
    0 (8191 + 3 / 4)"
proof -
  have "decode_eec1 [0x01, 0x7D, 0x82, 0x80, 0x3E, 0, 0, 0] =
      Some \<lparr>engine_rpm = Some 2000, driver_demand_torque_pct = Some 0, actual_torque_pct = Some 5, torque_mode = 1\<rparr>"
    by (simp add: decode_eec1_def byte_available_def word_available_def na_byte_def na_word_def u16_from_le_def u16_from_be_def)
  then show ?thesis using j1939_decoded_values_in_range by blast
qed

end
