(* ===== verification/Session.thy ===== *)
theory Session
  imports SpecLookup Modes Discovery J1939Dm
begin

text \<open>
  The session orchestrator (\<open>session/mod.rs\<close>, \<open>session/diag_session.rs\<close>): the operations of
  \<open>Session<A>\<close> as actions on its state, generic over the adapter \<open>A\<close>. Raw capture and logging write
  files and do not touch this state, so they are left out, and a \<open>Reading\<close> has no time stamp. The
  embedded specs are an argument of \<open>session_new\<close>.
\<close>

section \<open>State\<close>

datatype connection_state =
    AdapterPresent | AdapterInitialized | ProtocolNegotiating | Connected | IgnitionOff
  | ConnUnsupportedProtocol | Disconnected | ConnError string

datatype session_state = StateDefault | StateExtended "string list" | StateProgramming

datatype reading_source = Live | FreezeFrame | Replay

record reading =
  rd_value :: obd_value
  rd_unit :: string
  rd_raw_bytes :: bytes
  rd_source :: reading_source

record 'a session =
  ses_adapter :: 'a
  ses_specs :: spec_registry
  ses_profile :: "vehicle_profile option"
  ses_discovery :: "discovery_profile option"
  ses_connection_state :: connection_state
  ses_diagnostic_state :: session_state
  ses_probe_attempts :: "probe_attempt list"
  ses_visible_ecus :: "visible_ecu list"
  ses_supported_pids_cache :: "pid set option"
  ses_initialized :: bool
  ses_request_in_flight :: bool

definition session_new :: "spec_registry \<Rightarrow> 'a \<Rightarrow> 'a session" where
  "session_new specs a =
    \<lparr>ses_adapter = a, ses_specs = specs, ses_profile = None, ses_discovery = None,
     ses_connection_state = AdapterPresent, ses_diagnostic_state = StateDefault,
     ses_probe_attempts = [], ses_visible_ecus = [], ses_supported_pids_cache = None,
     ses_initialized = False, ses_request_in_flight = False\<rparr>"

definition ses_spec :: "'a session \<Rightarrow> vehicle_spec option" where
  "ses_spec s = Option.bind (ses_profile s) vp_spec"

text \<open>Reading the state inside an action, and a call on the adapter.\<close>

definition get_act :: "('s \<Rightarrow> 'b) \<Rightarrow> ('s, 'e, 'b) act" where
  "get_act f s = (Inr (f s), s)"

definition on_adapter :: "('a, obd2_error, 'b) act \<Rightarrow> ('a session, obd2_error, 'b) act" where
  "on_adapter m s = (let (r, a) = m (ses_adapter s) in (r, s\<lparr>ses_adapter := a\<rparr>))"

section \<open>Discovery and adapter events\<close>

definition refresh_discovery_profile :: "'a adapter \<Rightarrow> 'a session \<Rightarrow> 'a session" where
  "refresh_discovery_profile A s =
    s\<lparr>ses_discovery := Some (resolve_discovery_profile (ad_info A (ses_adapter s)) (ses_spec s)
        (ses_probe_attempts s) (ses_visible_ecus s))\<rparr>"

text \<open>\<open>{:?}\<close> of the event kinds that become a connection error.\<close>

definition debug_kind :: "adapter_event_kind \<Rightarrow> string" where
  "debug_kind k =
    (case k of BusBusy \<Rightarrow> ''BusBusy'' | BusError \<Rightarrow> ''BusError'' | CanError \<Rightarrow> ''CanError''
     | DataError \<Rightarrow> ''DataError'' | RxError \<Rightarrow> ''RxError'' | Stopped \<Rightarrow> ''Stopped'' | _ \<Rightarrow> [])"

definition event_transition :: "adapter_event \<Rightarrow> connection_state \<Rightarrow> connection_state" where
  "event_transition event c =
    (case ae_kind event of
       k \<Rightarrow>
         if k \<in> {BusBusy, BusError, CanError, DataError, RxError, Stopped}
           then ConnError (case ae_detail event of Some d \<Rightarrow> d | None \<Rightarrow> debug_kind k)
         else if k \<in> {Err94, LowVoltageReset} then Disconnected
         else if k = RecoveryAction ''LP ALERT'' then IgnitionOff
         else if k = UnsupportedProtocol then ConnUnsupportedProtocol
         else (case k of ProtocolSelected _ \<Rightarrow> Connected | _ \<Rightarrow> c))"

definition apply_adapter_events :: "'a adapter \<Rightarrow> adapter_event list \<Rightarrow> 'a session \<Rightarrow> 'a session" where
  "apply_adapter_events A events s =
    (let s' = s\<lparr>ses_connection_state := fold event_transition events (ses_connection_state s)\<rparr>
     in if ses_initialized s' then refresh_discovery_profile A s' else s')"

definition apply_initialization_report ::
    "'a adapter \<Rightarrow> initialization_report \<Rightarrow> 'a session \<Rightarrow> 'a session" where
  "apply_initialization_report A report s =
    (let s' = apply_adapter_events A (ir_events report) (s\<lparr>ses_probe_attempts := ir_probe_attempts report\<rparr>)
     in s'\<lparr>ses_discovery := Some (resolve_discovery_profile (ir_info report) (ses_spec s')
          (ses_probe_attempts s') (ses_visible_ecus s'))\<rparr>)"

definition mark_connection_active_if_recovered :: "'a session \<Rightarrow> 'a session" where
  "mark_connection_active_if_recovered s =
    (case ses_connection_state s of
       IgnitionOff \<Rightarrow> s\<lparr>ses_connection_state := Connected\<rparr>
     | Disconnected \<Rightarrow> s\<lparr>ses_connection_state := Connected\<rparr>
     | ConnError _ \<Rightarrow> s\<lparr>ses_connection_state := Connected\<rparr>
     | _ \<Rightarrow> s)"

section \<open>Initialization\<close>

definition session_initialize :: "'a adapter \<Rightarrow> ('a session, obd2_error, adapter_info) act" where
  "session_initialize A =
    seq_act (modify_act (\<lambda>s. s\<lparr>ses_connection_state := ProtocolNegotiating\<rparr>))
    (bind_act (on_adapter (ad_initialize A)) (\<lambda>report.
     seq_act (modify_act (\<lambda>s.
       refresh_discovery_profile A
         ((apply_initialization_report A report
             (s\<lparr>ses_initialized := True, ses_connection_state := AdapterInitialized\<rparr>))
           \<lparr>ses_connection_state := Connected\<rparr>)))
     (get_act (\<lambda>s. ad_info A (ses_adapter s)))))"

definition ensure_initialized :: "'a adapter \<Rightarrow> ('a session, obd2_error, unit) act" where
  "ensure_initialized A s =
    (if \<not> ses_initialized s then bind_act (session_initialize A) (\<lambda>_. ret ()) s else (Inr (), s))"

section \<open>Visible ECUs\<close>

definition join_decimals :: "nat list \<Rightarrow> string" where
  "join_decimals ns = concat (map (\<lambda>(i, n). (if i = 0 then [] else '', '') @ decimal n) (enumerate 0 ns))"

text \<open>\<open>{:?}\<close> of an address.\<close>

definition debug_address :: "physical_address \<Rightarrow> string" where
  "debug_address a =
    (case a of
       AddrJ1850 node (h0, h1, h2) \<Rightarrow>
         ''J1850 { node: '' @ decimal (unat node) @ '', header: ['' @ join_decimals [unat h0, unat h1, unat h2] @ ''] }''
     | AddrCan11Bit rq rs \<Rightarrow>
         ''Can11Bit { request_id: '' @ decimal (unat rq) @ '', response_id: '' @ decimal (unat rs) @ '' }''
     | AddrCan29Bit rq rs \<Rightarrow>
         ''Can29Bit { request_id: '' @ decimal (unat rq) @ '', response_id: '' @ decimal (unat rs) @ '' }''
     | AddrJ1939 sa \<Rightarrow> ''J1939 { source_address: '' @ decimal (unat sa) @ '' }'')"

definition lookup_module_for_address ::
    "'a session \<Rightarrow> physical_address \<Rightarrow> bus_id option \<times> module_id option" where
  "lookup_module_for_address s a =
    (case ses_spec s of
       None \<Rightarrow> (None, None)
     | Some spec \<Rightarrow>
         (case find_map (\<lambda>b. map_option (\<lambda>m. (bc_id b, vm_id m)) (find (\<lambda>m. vm_address m = a) (bc_modules b)))
             (cs_buses (vs_communication spec)) of
            Some (b, m) \<Rightarrow> (Some b, Some m)
          | None \<Rightarrow> (None, None)))"

text \<open>The first entry with the identifier is counted once more.\<close>

fun count_visible :: "string \<Rightarrow> visible_ecu list \<Rightarrow> visible_ecu list option" where
  "count_visible i [] = None"
| "count_visible i (e # es) =
    (if ve_id e = i then Some (e\<lparr>ve_observation_count := ve_observation_count e + 1\<rparr> # es)
     else map_option ((#) e) (count_visible i es))"

definition record_visible_target :: "physical_target \<Rightarrow> 'a session \<Rightarrow> 'a session" where
  "record_visible_target target s =
    (case target of
       PBroadcast \<Rightarrow> s
     | Addressed a \<Rightarrow>
         (let i = debug_address a in
          case count_visible i (ses_visible_ecus s) of
            Some es \<Rightarrow> s\<lparr>ses_visible_ecus := es\<rparr>
          | None \<Rightarrow>
              let (b, m) = lookup_module_for_address s a
              in s\<lparr>ses_visible_ecus := ses_visible_ecus s @ [\<lparr>ve_id = i, ve_bus = b, ve_module = m,
                    ve_address = Some a, ve_observation_count = 1\<rparr>]\<rparr>))"

section \<open>Requests\<close>

definition resolve_module_address :: "'a session \<Rightarrow> module_id \<Rightarrow> physical_address res" where
  "resolve_module_address s m =
    bind_res (ok_or (Adapter (Text ''no discovery profile available'')) (ses_discovery s)) (\<lambda>discovery.
    bind_res (ok_or (ModuleNotFound m) (map_of (dp_modules discovery) m)) (\<lambda>resolved.
    case dp_active_bus discovery of
      Some active \<Rightarrow>
        if rm_bus resolved \<noteq> rb_id active then Inl (BusNotAvailable (rm_bus resolved))
        else Inr (rm_address resolved)
    | None \<Rightarrow> Inr (rm_address resolved)))"

definition resolve_request :: "'a session \<Rightarrow> service_request \<Rightarrow> routed_request res" where
  "resolve_request s req =
    bind_res (case sr_target req of
        Broadcast \<Rightarrow> Inr PBroadcast
      | Module m \<Rightarrow> bind_res (resolve_module_address s m) (\<lambda>a. Inr (Addressed a))) (\<lambda>target.
    Inr \<lparr>rr_service_id = sr_service_id req, rr_data = sr_data req, rr_target = target\<rparr>)"

text \<open>What follows an adapter call, after the flag is reset: events, then recovery on success.\<close>

definition conclude_request :: "'a adapter \<Rightarrow> (obd2_error + 'b) \<Rightarrow> 'a session \<Rightarrow> (obd2_error + 'b) \<times> 'a session" where
  "conclude_request A result s =
    (let (events, a) = ad_drain_events A (ses_adapter s);
         s' = apply_adapter_events A events (s\<lparr>ses_adapter := a, ses_request_in_flight := False\<rparr>)
     in (result, case result of Inr _ \<Rightarrow> mark_connection_active_if_recovered s' | Inl _ \<Rightarrow> s'))"

definition routed_exchange :: "'a adapter \<Rightarrow> routed_request \<Rightarrow> ('a session, obd2_error, bytes) act" where
  "routed_exchange A routed s =
    (let (result, s') = on_adapter (ad_routed_request A routed) (record_visible_target (rr_target routed) s)
     in conclude_request A result s')"

definition send_request :: "'a adapter \<Rightarrow> service_request \<Rightarrow> ('a session, obd2_error, bytes) act" where
  "send_request A req s =
    (if ses_request_in_flight s then (Inl AdapterBusy, s)
     else
       let s1 = s\<lparr>ses_request_in_flight := True\<rparr> in
       case resolve_request s1 req of
         Inl err \<Rightarrow> (Inl err, s1\<lparr>ses_request_in_flight := False\<rparr>)
       | Inr routed \<Rightarrow> routed_exchange A routed s1)"

text \<open>
  The future of a request dropped while it waits for the adapter (a timeout around the call): the
  statements after the await never run, and the adapter is left in some state \<open>a\<close>.
\<close>

definition send_request_dropped :: "'a adapter \<Rightarrow> service_request \<Rightarrow> 'a \<Rightarrow> 'a session \<Rightarrow> 'a session" where
  "send_request_dropped A req a s =
    (if ses_request_in_flight s then s
     else
       let s1 = s\<lparr>ses_request_in_flight := True\<rparr> in
       case resolve_request s1 req of
         Inl err \<Rightarrow> s1\<lparr>ses_request_in_flight := False\<rparr>
       | Inr routed \<Rightarrow> (record_visible_target (rr_target routed) s1)\<lparr>ses_adapter := a\<rparr>)"

definition raw_request :: "'a adapter \<Rightarrow> u8 \<Rightarrow> bytes \<Rightarrow> target \<Rightarrow> ('a session, obd2_error, bytes) act" where
  "raw_request A service data target =
    seq_act (ensure_initialized A)
      (send_request A \<lparr>sr_service_id = service, sr_data = data, sr_target = target\<rparr>)"

definition raw_physical_request ::
    "'a adapter \<Rightarrow> u8 \<Rightarrow> bytes \<Rightarrow> physical_address \<Rightarrow> ('a session, obd2_error, bytes) act" where
  "raw_physical_request A service data address =
    seq_act (ensure_initialized A) (\<lambda>s.
      if ses_request_in_flight s then (Inl AdapterBusy, s)
      else routed_exchange A \<lparr>rr_service_id = service, rr_data = data, rr_target = Addressed address\<rparr>
        (s\<lparr>ses_request_in_flight := True\<rparr>))"

definition session_battery_voltage :: "'a adapter \<Rightarrow> ('a session, obd2_error, f64 option) act" where
  "session_battery_voltage A =
    seq_act (ensure_initialized A) (\<lambda>s.
      if ses_request_in_flight s then (Inl AdapterBusy, s)
      else
        let (result, s') = on_adapter (ad_battery_voltage A) (s\<lparr>ses_request_in_flight := True\<rparr>)
        in conclude_request A result s')"

end
