(* ===== verification/SessionOps.thy ===== *)
theory SessionOps
  imports Session
begin

text \<open>
  The operations of a session on top of its requests (\<open>session/mod.rs\<close>) and one cycle of the poller
  (\<open>session/poller.rs\<close>): current data, trouble codes, vehicle information, enhanced PIDs, monitoring
  tests, J1939, diagnostic sessions and security access.
\<close>

section \<open>Current data\<close>

definition reading_of :: "reading_source \<Rightarrow> pid \<Rightarrow> bytes \<Rightarrow> reading res" where
  "reading_of source p data =
    bind_res (pid_parse p data) (\<lambda>v.
    Inr \<lparr>rd_value = v, rd_unit = pid_unit p, rd_raw_bytes = data, rd_source = source\<rparr>)"

definition read_pid :: "'a adapter \<Rightarrow> pid \<Rightarrow> ('a session, obd2_error, reading) act" where
  "read_pid A p =
    seq_act (ensure_initialized A)
      (bind_act (send_request A (read_pid_request p)) (\<lambda>data. lift_res (reading_of Live p data)))"

fun read_pids_loop :: "'a adapter \<Rightarrow> pid list \<Rightarrow> (pid \<times> reading) list
    \<Rightarrow> ('a session, obd2_error, (pid \<times> reading) list) act" where
  "read_pids_loop A [] results = ret results"
| "read_pids_loop A (p # ps) results =
    bind_act (try_act (read_pid A p)) (\<lambda>r.
      case r of
        Inr reading \<Rightarrow> read_pids_loop A ps (results @ [(p, reading)])
      | Inl e \<Rightarrow> if e = NoData then read_pids_loop A ps results else fail e)"

definition read_pids :: "'a adapter \<Rightarrow> pid list \<Rightarrow> ('a session, obd2_error, (pid \<times> reading) list) act" where
  "read_pids A ps = seq_act (ensure_initialized A) (read_pids_loop A ps [])"

definition parse_supported_pid_bitmap :: "bytes \<Rightarrow> u8 \<Rightarrow> u8 list" where
  "parse_supported_pid_bitmap data base_pid =
    concat (map (\<lambda>(byte_idx, byte).
      concat (map (\<lambda>b. if byte AND drop_bit b 0x80 \<noteq> 0
                        then [base_pid + of_nat byte_idx * 8 + of_nat b + 1] else []) [0..<8]))
      (enumerate 0 (take 4 data)))"

fun query_supported_loop :: "'a adapter \<Rightarrow> u8 list \<Rightarrow> pid set \<Rightarrow> ('a session, obd2_error, pid set) act" where
  "query_supported_loop A [] all = ret all"
| "query_supported_loop A (base # bases) all =
    bind_act (try_act (send_request A (read_pid_request (Pid base)))) (\<lambda>r.
      case r of
        Inr data \<Rightarrow>
          if 4 \<le> length data
          then query_supported_loop A bases (all \<union> Pid ` set (parse_supported_pid_bitmap data base))
          else ret all
      | Inl e \<Rightarrow> if e = NoData then ret all else fail e)"

definition query_supported_pids :: "'a adapter \<Rightarrow> ('a session, obd2_error, pid set) act" where
  "query_supported_pids A = query_supported_loop A [0x00, 0x20, 0x40, 0x60] {}"

definition session_supported_pids :: "'a adapter \<Rightarrow> ('a session, obd2_error, pid set) act" where
  "session_supported_pids A =
    seq_act (ensure_initialized A) (\<lambda>s.
      case ses_supported_pids_cache s of
        Some cached \<Rightarrow> (Inr cached, s)
      | None \<Rightarrow>
          bind_act (query_supported_pids A) (\<lambda>pids.
            seq_act (modify_act (\<lambda>s. s\<lparr>ses_supported_pids_cache := Some pids\<rparr>)) (ret pids)) s)"

section \<open>Trouble codes\<close>

definition broadcast_request :: "u8 \<Rightarrow> bytes \<Rightarrow> service_request" where
  "broadcast_request sid data = \<lparr>sr_service_id = sid, sr_data = data, sr_target = Broadcast\<rparr>"

definition module_request :: "u8 \<Rightarrow> bytes \<Rightarrow> module_id \<Rightarrow> service_request" where
  "module_request sid data m = \<lparr>sr_service_id = sid, sr_data = data, sr_target = Module m\<rparr>"

definition read_dtcs_with_target ::
    "'a adapter \<Rightarrow> u8 \<Rightarrow> dtc_status \<Rightarrow> target \<Rightarrow> module_id option \<Rightarrow> ('a session, obd2_error, dtc list) act" where
  "read_dtcs_with_target A service_id status target source_module =
    bind_act (send_request A \<lparr>sr_service_id = service_id, sr_data = [], sr_target = target\<rparr>) (\<lambda>data.
      let dtcs = decode_dtc_bytes data status in
      ret (case source_module of
             Some m \<Rightarrow> map (\<lambda>d. d\<lparr>dtc_source_module := Some m\<rparr>) dtcs
           | None \<Rightarrow> dtcs))"

definition read_dtcs :: "'a adapter \<Rightarrow> ('a session, obd2_error, dtc list) act" where
  "read_dtcs A = seq_act (ensure_initialized A) (read_dtcs_with_target A 0x03 Stored Broadcast None)"

definition read_pending_dtcs :: "'a adapter \<Rightarrow> ('a session, obd2_error, dtc list) act" where
  "read_pending_dtcs A = seq_act (ensure_initialized A) (read_dtcs_with_target A 0x07 Pending Broadcast None)"

definition read_permanent_dtcs :: "'a adapter \<Rightarrow> ('a session, obd2_error, dtc list) act" where
  "read_permanent_dtcs A =
    seq_act (ensure_initialized A) (read_dtcs_with_target A 0x0A Permanent Broadcast None)"

definition read_dtcs_on_module :: "'a adapter \<Rightarrow> module_id \<Rightarrow> ('a session, obd2_error, dtc list) act" where
  "read_dtcs_on_module A m =
    seq_act (ensure_initialized A) (read_dtcs_with_target A 0x03 Stored (Module m) (Some m))"

text \<open>The modules on the active bus, in the order of their identifiers.\<close>

definition dtc_scan_modules :: "'a session \<Rightarrow> module_id list" where
  "dtc_scan_modules s =
    (case ses_discovery s of
       None \<Rightarrow> []
     | Some discovery \<Rightarrow>
         sort (map fst (filter (\<lambda>(i, resolved).
           case dp_active_bus discovery of
             Some active \<Rightarrow> rm_bus resolved = rb_id active
           | None \<Rightarrow> True) (dp_modules discovery))))"

fun append_module_dtcs_loop :: "'a adapter \<Rightarrow> module_id \<Rightarrow> (u8 \<times> dtc_status) list \<Rightarrow> dtc list
    \<Rightarrow> ('a session, obd2_error, dtc list) act" where
  "append_module_dtcs_loop A m [] all = ret all"
| "append_module_dtcs_loop A m ((service_id, status) # rest) all =
    bind_act (try_act (read_dtcs_with_target A service_id status (Module m) (Some m))) (\<lambda>r.
      append_module_dtcs_loop A m rest (case r of Inr dtcs \<Rightarrow> all @ dtcs | Inl _ \<Rightarrow> all))"

definition append_module_dtcs ::
    "'a adapter \<Rightarrow> module_id \<Rightarrow> dtc list \<Rightarrow> ('a session, obd2_error, dtc list) act" where
  "append_module_dtcs A m all =
    append_module_dtcs_loop A m [(0x03, Stored), (0x07, Pending), (0x0A, Permanent)] all"

fun scan_modules_loop :: "'a adapter \<Rightarrow> module_id list \<Rightarrow> dtc list \<Rightarrow> ('a session, obd2_error, dtc list) act" where
  "scan_modules_loop A [] all = ret all"
| "scan_modules_loop A (m # ms) all = bind_act (append_module_dtcs A m all) (scan_modules_loop A ms)"

definition append_if_ok :: "'b list \<Rightarrow> obd2_error + 'b list \<Rightarrow> 'b list" where
  "append_if_ok all r = (case r of Inr xs \<Rightarrow> all @ xs | Inl _ \<Rightarrow> all)"

definition read_all_dtcs :: "'a adapter \<Rightarrow> ('a session, obd2_error, dtc list) act" where
  "read_all_dtcs A =
    seq_act (ensure_initialized A)
    (bind_act (try_act (read_dtcs A)) (\<lambda>stored.
     if (case stored of Inl e \<Rightarrow> e \<noteq> NoData | Inr _ \<Rightarrow> False) then lift_res stored
     else
       bind_act (try_act (read_pending_dtcs A)) (\<lambda>pending.
       bind_act (try_act (read_permanent_dtcs A)) (\<lambda>permanent.
       let broadcast = append_if_ok (append_if_ok (append_if_ok [] stored) pending) permanent in
       bind_act (get_act dtc_scan_modules) (\<lambda>modules.
       bind_act (scan_modules_loop A modules broadcast) (\<lambda>all.
       bind_act (get_act ses_spec) (\<lambda>spec.
       ret (enrich_dtcs spec (dedup_dtcs all)))))))))"

definition clear_dtcs :: "'a adapter \<Rightarrow> ('a session, obd2_error, unit) act" where
  "clear_dtcs A =
    seq_act (ensure_initialized A) (bind_act (send_request A (broadcast_request 0x04 [])) (\<lambda>_. ret ()))"

definition clear_dtcs_on_module :: "'a adapter \<Rightarrow> module_id \<Rightarrow> ('a session, obd2_error, unit) act" where
  "clear_dtcs_on_module A m =
    seq_act (ensure_initialized A) (bind_act (send_request A (module_request 0x04 [] m)) (\<lambda>_. ret ()))"

section \<open>Vehicle information\<close>

text \<open>The printable ASCII bytes of a payload as text.\<close>

definition printable_text :: "bytes \<Rightarrow> string" where
  "printable_text data = map (\<lambda>b. char_of (unat b)) (filter (\<lambda>b. 0x20 \<le> b \<and> b \<le> 0x7E) data)"

definition vin_of_payload :: "bytes \<Rightarrow> string res" where
  "vin_of_payload data =
    (let vin = take 17 (printable_text data) in
     if length vin = 17 then Inr vin
     else Inl (ParseError (Fmt ''VIN too short: {} chars'' [ArgNat (length vin)])))"

definition read_vin :: "'a adapter \<Rightarrow> ('a session, obd2_error, string) act" where
  "read_vin A =
    seq_act (ensure_initialized A)
      (bind_act (send_request A read_vin_request) (\<lambda>data. lift_res (vin_of_payload data)))"

definition profile_of :: "'a session \<Rightarrow> string \<Rightarrow> pid set \<Rightarrow> vehicle_profile" where
  "profile_of s vin supported =
    \<lparr>vp_vin = vin, vp_decoded_vin = Some (vin_decode vin),
     vp_info = Some \<lparr>vi_vin = vin, vi_calibration_ids = [], vi_cvns = [], vi_ecu_name = None\<rparr>,
     vp_spec = match_vin (ses_specs s) vin, vp_supported_pids = supported\<rparr>"

definition identify_vehicle :: "'a adapter \<Rightarrow> ('a session, obd2_error, vehicle_profile) act" where
  "identify_vehicle A =
    seq_act (ensure_initialized A)
    (bind_act (read_vin A) (\<lambda>vin.
     bind_act (try_act (session_supported_pids A)) (\<lambda>r.
     let supported = (case r of Inr p \<Rightarrow> p | Inl _ \<Rightarrow> {}) in
     bind_act (get_act (\<lambda>s. profile_of s vin supported)) (\<lambda>profile.
     seq_act (modify_act (\<lambda>s. refresh_discovery_profile A (s\<lparr>ses_profile := Some profile\<rparr>)))
       (ret profile)))))"

definition read_vehicle_info :: "'a adapter \<Rightarrow> ('a session, obd2_error, vehicle_info) act" where
  "read_vehicle_info A =
    seq_act (ensure_initialized A)
    (bind_act (read_vin A) (\<lambda>vin.
     bind_act (try_act (send_request A (broadcast_request 0x09 [0x04]))) (\<lambda>cal.
     let calibration_ids = (case cal of
           Inr data \<Rightarrow> if printable_text data = [] then [] else [printable_text data]
         | Inl _ \<Rightarrow> []) in
     bind_act (try_act (send_request A (broadcast_request 0x09 [0x06]))) (\<lambda>cvn.
     let cvns = (case cvn of
           Inr data \<Rightarrow> if 4 \<le> length data
             then [u32_from_be (data ! 0) (data ! 1) (data ! 2) (data ! 3)] else []
         | Inl _ \<Rightarrow> []) in
     bind_act (try_act (send_request A (broadcast_request 0x09 [0x0A]))) (\<lambda>nm.
     let ecu_name = (case nm of
           Inr data \<Rightarrow> if printable_text data = [] then None else Some (printable_text data)
         | Inl _ \<Rightarrow> None) in
     ret \<lparr>vi_vin = vin, vi_calibration_ids = calibration_ids, vi_cvns = cvns, vi_ecu_name = ecu_name\<rparr>)))))"

definition read_freeze_frame :: "'a adapter \<Rightarrow> pid \<Rightarrow> u8 \<Rightarrow> ('a session, obd2_error, reading) act" where
  "read_freeze_frame A p frame =
    seq_act (ensure_initialized A)
      (bind_act (send_request A (broadcast_request 0x02 [pid_code p, frame]))
        (\<lambda>data. lift_res (reading_of FreezeFrame p data)))"

definition read_readiness :: "'a adapter \<Rightarrow> ('a session, obd2_error, readiness_status) act" where
  "read_readiness A =
    seq_act (ensure_initialized A)
      (bind_act (send_request A (read_pid_request (Pid 0x01))) (\<lambda>data. lift_res (decode_readiness data)))"

section \<open>Enhanced PIDs\<close>

definition enhanced_request :: "vehicle_spec option \<Rightarrow> u16 \<Rightarrow> module_id \<Rightarrow> service_request" where
  "enhanced_request spec did m =
    (let epid = find_enhanced_pid spec did m;
         service_id = (case epid of Some p \<Rightarrow> ep_service_id p | None \<Rightarrow> find_service_id spec did m);
         suffix = (case Option.bind epid ep_command_suffix of Some sfx \<Rightarrow> sfx | None \<Rightarrow> [])
     in module_request service_id ([ucast (drop_bit 8 did), ucast (did AND 0xFF)] @ suffix) m)"

definition read_enhanced :: "'a adapter \<Rightarrow> u16 \<Rightarrow> module_id \<Rightarrow> ('a session, obd2_error, reading) act" where
  "read_enhanced A did m =
    seq_act (ensure_initialized A)
    (bind_act (get_act (\<lambda>s. enhanced_request (ses_spec s) did m)) (\<lambda>req.
     bind_act (send_request A req) (\<lambda>data.
     bind_act (get_act (\<lambda>s. decode_enhanced_value (ses_spec s) did m data)) (\<lambda>v.
     ret \<lparr>rd_value = v, rd_unit = [], rd_raw_bytes = data, rd_source = Live\<rparr>))))"

definition module_pids :: "'a session \<Rightarrow> module_id \<Rightarrow> enhanced_pid list" where
  "module_pids s m = list_module_pids (ses_spec s) m"

section \<open>Monitoring tests\<close>

definition o2_result_of :: "u8 \<Rightarrow> u8 \<Rightarrow> bytes \<Rightarrow> o2_test_result list" where
  "o2_result_of test_id sensor_byte data =
    (if 2 \<le> length data then
       (case o2_location_from_byte sensor_byte of
          None \<Rightarrow> []
        | Some sensor \<Rightarrow>
            let raw_value = u16_from_be (data ! 0) (data ! 1);
                (test_name, unit, convert) = o2_test_info test_id
            in [\<lparr>o2_test_id = test_id, o2_test_name = test_name, o2_sensor = sensor,
                 o2_value = convert raw_value, o2_unit = unit\<rparr>])
     else [])"

fun o2_sensor_loop :: "'a adapter \<Rightarrow> u8 \<Rightarrow> u8 list \<Rightarrow> o2_test_result list
    \<Rightarrow> ('a session, obd2_error, o2_test_result list) act" where
  "o2_sensor_loop A test_id [] results = ret results"
| "o2_sensor_loop A test_id (b # bs) results =
    bind_act (try_act (send_request A (broadcast_request 0x05 [test_id, b]))) (\<lambda>r.
      case r of
        Inr data \<Rightarrow> o2_sensor_loop A test_id bs (results @ o2_result_of test_id b data)
      | Inl e \<Rightarrow> if e = NoData then o2_sensor_loop A test_id bs results else fail e)"

definition read_o2_monitoring :: "'a adapter \<Rightarrow> u8 \<Rightarrow> ('a session, obd2_error, o2_test_result list) act" where
  "read_o2_monitoring A test_id =
    seq_act (ensure_initialized A) (o2_sensor_loop A test_id [0x01, 0x02, 0x03, 0x04, 0x05, 0x06, 0x07, 0x08] [])"

fun o2_test_loop :: "'a adapter \<Rightarrow> u8 list \<Rightarrow> o2_test_result list
    \<Rightarrow> ('a session, obd2_error, o2_test_result list) act" where
  "o2_test_loop A [] results = ret results"
| "o2_test_loop A (tid # tids) results =
    bind_act (try_act (read_o2_monitoring A tid)) (\<lambda>r.
      case r of
        Inr tid_results \<Rightarrow> o2_test_loop A tids (results @ tid_results)
      | Inl e \<Rightarrow> if e = NoData then o2_test_loop A tids results else fail e)"

definition read_all_o2_monitoring :: "'a adapter \<Rightarrow> ('a session, obd2_error, o2_test_result list) act" where
  "read_all_o2_monitoring A =
    seq_act (ensure_initialized A)
      (o2_test_loop A [0x01, 0x02, 0x03, 0x04, 0x05, 0x06, 0x07, 0x08, 0x09] [])"

definition read_test_results :: "'a adapter \<Rightarrow> u8 \<Rightarrow> ('a session, obd2_error, test_result list) act" where
  "read_test_results A test_id =
    seq_act (ensure_initialized A)
      (bind_act (send_request A (broadcast_request 0x06 [test_id])) (\<lambda>data. ret (decode_test_results data)))"

section \<open>J1939\<close>

definition read_j1939_pgn :: "'a adapter \<Rightarrow> pgn \<Rightarrow> ('a session, obd2_error, bytes) act" where
  "read_j1939_pgn A p =
    seq_act (ensure_initialized A)
      (raw_request A 0xEA
        [ucast (pgn_value p AND 0xFF), ucast (drop_bit 8 (pgn_value p) AND 0xFF),
         ucast (drop_bit 16 (pgn_value p) AND 0xFF)] Broadcast)"

definition read_j1939_dtcs :: "'a adapter \<Rightarrow> ('a session, obd2_error, j1939_dtc list) act" where
  "read_j1939_dtcs A = bind_act (read_j1939_pgn A PGN_DM1) (\<lambda>data. ret (decode_dm1 data))"

section \<open>Diagnostic sessions\<close>

primrec session_sub_function :: "diag_session \<Rightarrow> u8" where
  "session_sub_function DefaultSession = 0x01"
| "session_sub_function ProgrammingSession = 0x02"
| "session_sub_function ExtendedSession = 0x03"

primrec entered_state :: "diag_session \<Rightarrow> session_state" where
  "entered_state DefaultSession = StateDefault"
| "entered_state ExtendedSession = StateExtended []"
| "entered_state ProgrammingSession = StateProgramming"

definition set_diagnostic_state :: "session_state \<Rightarrow> 'a session \<Rightarrow> 'a session" where
  "set_diagnostic_state d s = s\<lparr>ses_diagnostic_state := d\<rparr>"

definition enter_diagnostic_session ::
    "'a adapter \<Rightarrow> diag_session \<Rightarrow> module_id \<Rightarrow> ('a session, obd2_error, unit) act" where
  "enter_diagnostic_session A session m =
    seq_act (ensure_initialized A)
    (bind_act (send_request A (module_request 0x10 [session_sub_function session] m)) (\<lambda>_.
     modify_act (set_diagnostic_state (entered_state session))))"

definition unlock_module :: "module_id \<Rightarrow> session_state \<Rightarrow> session_state" where
  "unlock_module m d =
    (case d of
       StateExtended unlocked \<Rightarrow> if m \<in> set unlocked then d else StateExtended (unlocked @ [m])
     | _ \<Rightarrow> StateExtended [m])"

definition session_security_access ::
    "'a adapter \<Rightarrow> module_id \<Rightarrow> (bytes \<Rightarrow> bytes) \<Rightarrow> ('a session, obd2_error, unit) act" where
  "session_security_access A m key_fn =
    seq_act (ensure_initialized A)
    (bind_act (send_request A (module_request 0x27 [0x01] m)) (\<lambda>seed.
     if seed = [] then fail (Adapter (Text ''empty seed from Mode 27''))
     else if list_all (\<lambda>b. b = 0) seed then ret ()
     else
       bind_act (send_request A (module_request 0x27 (0x02 # key_fn seed) m)) (\<lambda>_.
       modify_act (\<lambda>s. set_diagnostic_state (unlock_module m (ses_diagnostic_state s)) s))))"

definition module_unlocked :: "session_state \<Rightarrow> module_id \<Rightarrow> bool" where
  "module_unlocked d m = (case d of StateExtended unlocked \<Rightarrow> m \<in> set unlocked | _ \<Rightarrow> False)"

definition actuator_data :: "u16 \<Rightarrow> actuator_command \<Rightarrow> bytes" where
  "actuator_data did command =
    [ucast (drop_bit 8 did), ucast (did AND 0xFF)] @
    (case command of ReturnToEcu \<Rightarrow> [0x00] | Activate \<Rightarrow> [0x03] | Adjust bs \<Rightarrow> 0x03 # bs)"

definition actuator_control ::
    "'a adapter \<Rightarrow> u16 \<Rightarrow> module_id \<Rightarrow> actuator_command \<Rightarrow> ('a session, obd2_error, unit) act" where
  "actuator_control A did m command =
    seq_act (ensure_initialized A) (\<lambda>s.
      if \<not> module_unlocked (ses_diagnostic_state s) m then (Inl SecurityRequired, s)
      else bind_act (send_request A (module_request 0x2F (actuator_data did command) m)) (\<lambda>_. ret ()) s)"

definition actuator_release :: "'a adapter \<Rightarrow> u16 \<Rightarrow> module_id \<Rightarrow> ('a session, obd2_error, unit) act" where
  "actuator_release A did m =
    seq_act (ensure_initialized A)
      (bind_act (send_request A (module_request 0x2F [ucast (drop_bit 8 did), ucast (did AND 0xFF), 0x00] m))
        (\<lambda>_. ret ()))"

definition session_tester_present :: "'a adapter \<Rightarrow> module_id \<Rightarrow> ('a session, obd2_error, unit) act" where
  "session_tester_present A m =
    seq_act (ensure_initialized A) (bind_act (send_request A (module_request 0x3E [] m)) (\<lambda>_. ret ()))"

definition end_diagnostic_session :: "'a adapter \<Rightarrow> module_id \<Rightarrow> ('a session, obd2_error, unit) act" where
  "end_diagnostic_session A m =
    seq_act (ensure_initialized A)
    (bind_act (send_request A (module_request 0x10 [0x01] m)) (\<lambda>_.
     modify_act (set_diagnostic_state StateDefault)))"

section \<open>Thresholds and polling\<close>

definition evaluate_threshold :: "'a session \<Rightarrow> pid \<Rightarrow> f64 \<Rightarrow> threshold_result option" where
  "evaluate_threshold s p v = evaluate_pid_threshold (ses_spec s) p v"

definition session_evaluate_enhanced :: "'a session \<Rightarrow> u16 \<Rightarrow> f64 \<Rightarrow> threshold_result option" where
  "session_evaluate_enhanced s did v = evaluate_enhanced_threshold (ses_spec s) did v"

text \<open>An error event carries the error itself where the code carries its text.\<close>

datatype poll_event =
    PollReading pid reading
  | PollEnhancedReading u16 module_id reading
  | PollAlert threshold_result
  | PollRuleFired string string
  | PollError "pid option" obd2_error
  | PollVoltage f64

record poll_config =
  pc_pids :: "pid list"
  pc_interval_ms :: nat
  pc_read_voltage :: bool

definition poll_config_new :: "pid list \<Rightarrow> poll_config" where
  "poll_config_new pids = \<lparr>pc_pids = pids, pc_interval_ms = 250, pc_read_voltage = True\<rparr>"

definition poll_alert :: "vehicle_spec option \<Rightarrow> 'a session \<Rightarrow> pid \<Rightarrow> obd_value \<Rightarrow> poll_event list" where
  "poll_alert spec_override s p v =
    (case v of
       Scalar x \<Rightarrow>
         (case (case Option.bind spec_override (\<lambda>spec. evaluate_pid_threshold (Some spec) p x) of
                  Some r \<Rightarrow> Some r | None \<Rightarrow> evaluate_threshold s p x) of
            Some result \<Rightarrow> [PollAlert result]
          | None \<Rightarrow> [])
     | _ \<Rightarrow> [])"

text \<open>A cycle returns the events it sends; the channel is not modelled.\<close>

fun poll_pids_loop :: "'a adapter \<Rightarrow> vehicle_spec option \<Rightarrow> pid list \<Rightarrow> 'a session \<Rightarrow> poll_event list \<times> 'a session" where
  "poll_pids_loop A spec_override [] s = ([], s)"
| "poll_pids_loop A spec_override (p # ps) s =
    (case read_pid A p s of
       (Inr reading, s') \<Rightarrow>
         (let (events, s'') = poll_pids_loop A spec_override ps s'
          in (PollReading p reading # poll_alert spec_override s' p (rd_value reading) @ events, s''))
     | (Inl e, s') \<Rightarrow>
         (let (events, s'') = poll_pids_loop A spec_override ps s'
          in ((if e = NoData then [] else [PollError (Some p) e]) @ events, s'')))"

definition execute_poll_cycle ::
    "'a adapter \<Rightarrow> poll_config \<Rightarrow> vehicle_spec option \<Rightarrow> 'a session \<Rightarrow> poll_event list \<times> 'a session" where
  "execute_poll_cycle A config spec_override s =
    (let (events, s') = poll_pids_loop A spec_override (pc_pids config) s in
     if pc_read_voltage config then
       (case session_battery_voltage A s' of
          (Inr (Some v), s'') \<Rightarrow> (events @ [PollVoltage v], s'')
        | (_, s'') \<Rightarrow> (events, s''))
     else (events, s'))"

end
