(* ===== verification/SessionFrame.thy ===== *)
theory SessionFrame
  imports SessionOps
begin

text \<open>
  What every operation of a session preserves follows from what its few primitive steps preserve. The
  locale \<open>session_frame\<close> proves it once for the operations that leave the diagnostic state alone,
  \<open>session_invariant\<close> for all of them; the calls of a client are collected in a datatype, so that a
  run of a session is a list of calls.
\<close>

lemma preserves_case_sum:
  "(\<And>e. r = Inl e \<Longrightarrow> preserves I (f e)) \<Longrightarrow> (\<And>x. r = Inr x \<Longrightarrow> preserves I (g x))
   \<Longrightarrow> preserves I (case r of Inl e \<Rightarrow> f e | Inr x \<Rightarrow> g x)"
  by (cases r) auto

lemma preserves_get: "preserves I (get_act f)"
  by (simp add: preserves_def get_act_def)

lemmas preserves_parts = preserves_seq preserves_bind preserves_if preserves_try preserves_case_sum
  preserves_get preserves_basic

locale session_frame =
  fixes A :: "'a adapter"
    and I :: "'a session \<Rightarrow> bool"
  assumes frame_init: "preserves I (ensure_initialized A)"
    and frame_send: "preserves I (send_request A req)"
    and frame_physical: "preserves I (raw_physical_request A sid data address)"
    and frame_battery: "preserves I (session_battery_voltage A)"
    and frame_cache: "I s \<Longrightarrow> I (s\<lparr>ses_supported_pids_cache := c\<rparr>)"
    and frame_profile: "I s \<Longrightarrow> I (refresh_discovery_profile A (s\<lparr>ses_profile := p\<rparr>))"
begin

lemmas frame = preserves_parts frame_init frame_send frame_physical frame_battery

lemma frame_read_pid: "preserves I (read_pid A p)"
  unfolding read_pid_def by (intro frame)

lemma frame_read_pids: "preserves I (read_pids A ps)"
proof -
  have "preserves I (read_pids_loop A ps results)" for results
    by (induction ps arbitrary: results) (simp, simp only: read_pids_loop.simps, intro frame frame_read_pid)
  then show ?thesis unfolding read_pids_def by (intro frame)
qed

lemma frame_supported: "preserves I (session_supported_pids A)"
proof -
  have "preserves I (query_supported_loop A bases all)" for bases all
    by (induction bases arbitrary: all) (simp, simp only: query_supported_loop.simps, intro frame)
  then have "preserves I (bind_act (query_supported_pids A) (\<lambda>pids.
      seq_act (modify_act (\<lambda>s. s\<lparr>ses_supported_pids_cache := Some pids\<rparr>)) (ret pids)))"
    unfolding query_supported_pids_def by (intro frame preserves_modify frame_cache)
  then have "preserves I (\<lambda>s. case ses_supported_pids_cache s of
        Some cached \<Rightarrow> (Inr cached, s)
      | None \<Rightarrow> bind_act (query_supported_pids A) (\<lambda>pids.
            seq_act (modify_act (\<lambda>s. s\<lparr>ses_supported_pids_cache := Some pids\<rparr>)) (ret pids)) s)"
    by (simp add: preserves_def split: option.split)
  then show ?thesis unfolding session_supported_pids_def by (intro frame)
qed

lemma frame_dtcs_with_target: "preserves I (read_dtcs_with_target A sid status t m)"
  unfolding read_dtcs_with_target_def Let_def by (intro frame)

lemma frame_read_dtcs:
  "preserves I (read_dtcs A)" "preserves I (read_pending_dtcs A)" "preserves I (read_permanent_dtcs A)"
  "preserves I (read_dtcs_on_module A m)"
  unfolding read_dtcs_def read_pending_dtcs_def read_permanent_dtcs_def read_dtcs_on_module_def
  by (intro frame frame_dtcs_with_target)+

lemma frame_scan: "preserves I (scan_modules_loop A ms all)"
proof (induction ms arbitrary: all)
  case (Cons m ms)
  have "preserves I (append_module_dtcs_loop A m l all)" for l all
  proof (induction l arbitrary: all)
    case (Cons p l)
    obtain sid status where "p = (sid, status)" by (cases p)
    with Cons show ?case
      by (simp only: append_module_dtcs_loop.simps) (intro frame frame_dtcs_with_target)
  qed simp
  with Cons show ?case unfolding scan_modules_loop.simps append_module_dtcs_def by (intro frame)
qed simp

lemma frame_read_all_dtcs: "preserves I (read_all_dtcs A)"
  unfolding read_all_dtcs_def Let_def by (intro frame frame_read_dtcs frame_scan)

lemma frame_clear: "preserves I (clear_dtcs A)" "preserves I (clear_dtcs_on_module A m)"
  unfolding clear_dtcs_def clear_dtcs_on_module_def by (intro frame)+

lemma frame_read_vin: "preserves I (read_vin A)"
  unfolding read_vin_def by (intro frame)

lemma frame_identify: "preserves I (identify_vehicle A)"
  unfolding identify_vehicle_def Let_def
  by (intro frame frame_read_vin frame_supported preserves_modify frame_profile)

lemma frame_information: "preserves I (read_vehicle_info A)" "preserves I (read_freeze_frame A p n)"
  "preserves I (read_readiness A)"
  unfolding read_vehicle_info_def read_freeze_frame_def read_readiness_def Let_def
  by (intro frame frame_read_vin)+

lemma frame_enhanced: "preserves I (read_enhanced A did m)"
  unfolding read_enhanced_def by (intro frame)

lemma frame_o2: "preserves I (read_o2_monitoring A tid)"
proof -
  have "preserves I (o2_sensor_loop A tid bs results)" for bs results
    by (induction bs arbitrary: results) (simp, simp only: o2_sensor_loop.simps, intro frame)
  then show ?thesis unfolding read_o2_monitoring_def by (intro frame)
qed

lemma frame_all_o2: "preserves I (read_all_o2_monitoring A)"
proof -
  have "preserves I (o2_test_loop A tids results)" for tids results
    by (induction tids arbitrary: results) (simp, simp only: o2_test_loop.simps, intro frame frame_o2)
  then show ?thesis unfolding read_all_o2_monitoring_def by (intro frame)
qed

lemma frame_tests: "preserves I (read_test_results A tid)"
  unfolding read_test_results_def by (intro frame)

lemma frame_raw: "preserves I (raw_request A sid data t)"
  unfolding raw_request_def by (intro frame)

lemma frame_j1939: "preserves I (read_j1939_pgn A p)" "preserves I (read_j1939_dtcs A)"
  unfolding read_j1939_dtcs_def read_j1939_pgn_def by (intro frame frame_raw)+

lemma frame_actuator:
  "preserves I (actuator_control A did m c)" "preserves I (actuator_release A did m)"
  "preserves I (session_tester_present A m)"
proof -
  have "preserves I (bind_act (send_request A (module_request 0x2F (actuator_data did c) m)) (\<lambda>_. ret ()))"
    by (intro frame)
  then have "preserves I (\<lambda>s. if \<not> module_unlocked (ses_diagnostic_state s) m then (Inl SecurityRequired, s)
      else bind_act (send_request A (module_request 0x2F (actuator_data did c) m)) (\<lambda>_. ret ()) s)"
    by (simp add: preserves_def)
  then show "preserves I (actuator_control A did m c)"
    unfolding actuator_control_def by (intro frame)
  show "preserves I (actuator_release A did m)" "preserves I (session_tester_present A m)"
    unfolding actuator_release_def session_tester_present_def by (intro frame)+
qed

lemma frame_poll: "I s \<Longrightarrow> I (snd (execute_poll_cycle A config spec s))"
proof -
  have pids: "I s \<Longrightarrow> I (snd (poll_pids_loop A spec ps s))" for ps s
  proof (induction ps arbitrary: s)
    case (Cons p ps)
    have "I (snd (read_pid A p s))" by (rule preservesD [OF frame_read_pid Cons.prems])
    with Cons.IH [of "snd (read_pid A p s)"] show ?case
      by (cases "read_pid A p s"; cases "fst (read_pid A p s)")
        (auto simp: case_prod_beta Let_def split: sum.splits)
  qed simp
  assume "I s"
  let ?s = "snd (poll_pids_loop A spec (pc_pids config) s)"
  have "I ?s" by (rule pids) fact
  moreover have "I (snd (session_battery_voltage A ?s))"
    by (rule preservesD [OF frame_battery]) fact
  ultimately show ?thesis
    by (auto simp: execute_poll_cycle_def case_prod_beta Let_def split: prod.split sum.split option.split)
qed

end

text \<open>Invariants that no change of the diagnostic state and no first initialization breaks.\<close>

locale session_invariant = session_frame +
  assumes inv_diag: "I s \<Longrightarrow> I (s\<lparr>ses_diagnostic_state := d\<rparr>)"
    and inv_initialize: "preserves I (session_initialize A)"
begin

lemma inv_set_diag: "I s \<Longrightarrow> I (set_diagnostic_state d s)"
  by (simp add: set_diagnostic_state_def inv_diag)

lemma inv_diagnostic:
  "preserves I (enter_diagnostic_session A d m)" "preserves I (session_security_access A m key)"
  "preserves I (end_diagnostic_session A m)"
proof -
  have diag: "preserves I (modify_act (\<lambda>s. set_diagnostic_state (f s) s))" for f
    by (intro preserves_modify inv_set_diag)
  show "preserves I (enter_diagnostic_session A d m)" "preserves I (end_diagnostic_session A m)"
    unfolding enter_diagnostic_session_def end_diagnostic_session_def by (intro frame diag)+
  show "preserves I (session_security_access A m key)"
    unfolding session_security_access_def by (intro frame diag)
qed

end

section \<open>Runs\<close>

datatype session_call =
    CallInitialize | CallReadPid pid | CallReadPids "pid list" | CallSupportedPids | CallReadDtcs
  | CallReadPendingDtcs | CallReadPermanentDtcs | CallReadDtcsOnModule module_id | CallReadAllDtcs
  | CallClearDtcs | CallClearDtcsOnModule module_id | CallReadVin | CallIdentifyVehicle
  | CallReadFreezeFrame pid u8 | CallReadReadiness | CallReadEnhanced u16 module_id
  | CallReadO2 u8 | CallReadAllO2 | CallReadTestResults u8 | CallReadVehicleInfo
  | CallReadJ1939Pgn pgn | CallReadJ1939Dtcs | CallEnterSession diag_session module_id
  | CallSecurityAccess module_id "bytes \<Rightarrow> bytes" | CallActuatorControl u16 module_id actuator_command
  | CallActuatorRelease u16 module_id | CallTesterPresent module_id | CallEndSession module_id
  | CallBatteryVoltage | CallRawRequest u8 bytes target | CallRawPhysical u8 bytes physical_address
  | CallPollCycle poll_config "vehicle_spec option"

text \<open>Whether a call returned \<open>Ok\<close>, and the state after it.\<close>

definition outcome :: "('s, 'e, 'b) act \<Rightarrow> 's \<Rightarrow> bool \<times> 's" where
  "outcome m s = (case m s of (r, s') \<Rightarrow> (case r of Inr _ \<Rightarrow> True | Inl _ \<Rightarrow> False, s'))"

lemma snd_outcome [simp]: "snd (outcome m s) = snd (m s)"
  by (simp add: outcome_def case_prod_beta)

primrec run_call :: "'a adapter \<Rightarrow> session_call \<Rightarrow> 'a session \<Rightarrow> bool \<times> 'a session" where
  "run_call A CallInitialize = outcome (session_initialize A)"
| "run_call A (CallReadPid p) = outcome (read_pid A p)"
| "run_call A (CallReadPids ps) = outcome (read_pids A ps)"
| "run_call A CallSupportedPids = outcome (session_supported_pids A)"
| "run_call A CallReadDtcs = outcome (read_dtcs A)"
| "run_call A CallReadPendingDtcs = outcome (read_pending_dtcs A)"
| "run_call A CallReadPermanentDtcs = outcome (read_permanent_dtcs A)"
| "run_call A (CallReadDtcsOnModule m) = outcome (read_dtcs_on_module A m)"
| "run_call A CallReadAllDtcs = outcome (read_all_dtcs A)"
| "run_call A CallClearDtcs = outcome (clear_dtcs A)"
| "run_call A (CallClearDtcsOnModule m) = outcome (clear_dtcs_on_module A m)"
| "run_call A CallReadVin = outcome (read_vin A)"
| "run_call A CallIdentifyVehicle = outcome (identify_vehicle A)"
| "run_call A (CallReadFreezeFrame p n) = outcome (read_freeze_frame A p n)"
| "run_call A CallReadReadiness = outcome (read_readiness A)"
| "run_call A (CallReadEnhanced did m) = outcome (read_enhanced A did m)"
| "run_call A (CallReadO2 tid) = outcome (read_o2_monitoring A tid)"
| "run_call A CallReadAllO2 = outcome (read_all_o2_monitoring A)"
| "run_call A (CallReadTestResults tid) = outcome (read_test_results A tid)"
| "run_call A CallReadVehicleInfo = outcome (read_vehicle_info A)"
| "run_call A (CallReadJ1939Pgn p) = outcome (read_j1939_pgn A p)"
| "run_call A CallReadJ1939Dtcs = outcome (read_j1939_dtcs A)"
| "run_call A (CallEnterSession d m) = outcome (enter_diagnostic_session A d m)"
| "run_call A (CallSecurityAccess m key) = outcome (session_security_access A m key)"
| "run_call A (CallActuatorControl did m c) = outcome (actuator_control A did m c)"
| "run_call A (CallActuatorRelease did m) = outcome (actuator_release A did m)"
| "run_call A (CallTesterPresent m) = outcome (session_tester_present A m)"
| "run_call A (CallEndSession m) = outcome (end_diagnostic_session A m)"
| "run_call A CallBatteryVoltage = outcome (session_battery_voltage A)"
| "run_call A (CallRawRequest sid data t) = outcome (raw_request A sid data t)"
| "run_call A (CallRawPhysical sid data a) = outcome (raw_physical_request A sid data a)"
| "run_call A (CallPollCycle config spec) = (\<lambda>s. (True, snd (execute_poll_cycle A config spec s)))"

fun run_calls :: "'a adapter \<Rightarrow> session_call list \<Rightarrow> 'a session \<Rightarrow> (session_call \<times> bool) list \<times> 'a session" where
  "run_calls A [] s = ([], s)"
| "run_calls A (c # cs) s =
    (let (ok, s') = run_call A c s; (trace, s'') = run_calls A cs s' in ((c, ok) # trace, s''))"

context session_frame begin

lemma frame_run_call:
  assumes "I s" "case c of CallInitialize \<Rightarrow> False | CallEnterSession d m \<Rightarrow> False
     | CallSecurityAccess m key \<Rightarrow> False | CallEndSession m \<Rightarrow> False | _ \<Rightarrow> True"
  shows "I (snd (run_call A c s))"
  using assms
  by (cases c)
    (simp_all add: preservesD [OF frame_read_pid] preservesD [OF frame_read_pids] preservesD [OF frame_supported]
      preservesD [OF frame_read_dtcs(1)] preservesD [OF frame_read_dtcs(2)] preservesD [OF frame_read_dtcs(3)]
      preservesD [OF frame_read_dtcs(4)] preservesD [OF frame_read_all_dtcs] preservesD [OF frame_clear(1)]
      preservesD [OF frame_clear(2)] preservesD [OF frame_read_vin] preservesD [OF frame_identify]
      preservesD [OF frame_information(1)] preservesD [OF frame_information(2)] preservesD [OF frame_information(3)]
      preservesD [OF frame_enhanced] preservesD [OF frame_o2] preservesD [OF frame_all_o2] preservesD [OF frame_tests]
      preservesD [OF frame_j1939(1)] preservesD [OF frame_j1939(2)] preservesD [OF frame_actuator(1)]
      preservesD [OF frame_actuator(2)] preservesD [OF frame_actuator(3)] preservesD [OF frame_battery]
      preservesD [OF frame_raw] preservesD [OF frame_physical] frame_poll)

end

context session_invariant begin

lemma inv_run_call: "I s \<Longrightarrow> I (snd (run_call A c s))"
  using frame_run_call [of s c] preservesD [OF inv_initialize, of s] preservesD [OF inv_diagnostic(1), of s]
    preservesD [OF inv_diagnostic(2), of s] preservesD [OF inv_diagnostic(3), of s]
  by (cases c) simp_all

lemma inv_run_calls: "I s \<Longrightarrow> I (snd (run_calls A cs s))"
proof (induction cs arbitrary: s)
  case (Cons c cs)
  show ?case using Cons.IH [OF inv_run_call [OF Cons.prems, of c]] by (simp add: case_prod_beta Let_def)
qed simp

end

end
