(* ===== verification/ElmCodec.thy ===== *)
theory ElmCodec
  imports Codec Strings
begin

text \<open>
  Decoding of the text that an ELM327 answers (\<open>adapter/elm_codec.rs\<close>): lines of hex bytes with or
  without headers, mixed with the echo of the command and status words.
\<close>

definition is_likely_response_service :: "u8 \<Rightarrow> bool" where
  "is_likely_response_service service \<longleftrightarrow>
    service \<in> {0x41, 0x42, 0x43, 0x44, 0x45, 0x46, 0x47, 0x49, 0x4A, 0x61, 0x62, 0x7F}"

definition is_status_noise_line :: "string \<Rightarrow> bool" where
  "is_status_noise_line line \<longleftrightarrow> line \<in> {''NO DATA'', ''STOPPED'', ''BUS BUSY''}"

text \<open>The loop over the bytes of the line, against the iterator over those of the command.\<close>

fun echo_loop :: "bool \<Rightarrow> string \<Rightarrow> string \<Rightarrow> bool" where
  "echo_loop saw_byte [] command = (saw_byte \<and> command = [])"
| "echo_loop saw_byte (b # line) [] = False"
| "echo_loop saw_byte (b # line) (e # command) =
    (if to_lower b \<noteq> to_lower e then False else echo_loop True line command)"

definition line_matches_command_echo :: "string \<Rightarrow> string \<Rightarrow> bool" where
  "line_matches_command_echo line command =
    echo_loop False (filter (\<lambda>c. \<not> is_ascii_whitespace c) line)
      (filter (\<lambda>c. \<not> is_ascii_whitespace c) command)"

definition expected_response_prefix :: "string \<Rightarrow> nat \<Rightarrow> bytes option" where
  "expected_response_prefix command skip_bytes =
    (if skip_bytes = 0 then None
     else case parse_compact_hex command of
       Inl _ \<Rightarrow> None
     | Inr request \<Rightarrow>
         if length request < skip_bytes then None
         else Some ((request ! 0 + 0x40) # take (skip_bytes - 1) (drop 1 request)))"

definition expected_prefix_is_used :: "string option \<Rightarrow> nat \<Rightarrow> bool" where
  "expected_prefix_is_used echo_command skip_bytes \<longleftrightarrow> echo_command \<noteq> None \<and> 0 < skip_bytes"

definition should_treat_as_headers_off :: "bytes \<Rightarrow> nat \<Rightarrow> bytes option \<Rightarrow> bool" where
  "should_treat_as_headers_off bs skip_bytes expected_prefix =
    (if (case expected_prefix of Some p \<Rightarrow> starts_with bs p | None \<Rightarrow> False) then True
     else 0 < skip_bytes \<and> (case slice_first bs of Some s \<Rightarrow> is_likely_response_service s | None \<Rightarrow> False))"

definition looks_like_headers_on :: "string list \<Rightarrow> bus_family \<Rightarrow> bool" where
  "looks_like_headers_on tokens family =
    (case family of
       Can \<Rightarrow> (case slice_first tokens of Some t \<Rightarrow> 2 < length t | None \<Rightarrow> False)
     | _ \<Rightarrow> 6 \<le> length tokens)"

definition decode_line_headers_on :: "string \<Rightarrow> bus_family \<Rightarrow> bytes res" where
  "decode_line_headers_on line family =
    (case family of
       Can \<Rightarrow>
         (case decode_can_headers_on line of
            Inr frame \<Rightarrow> Inr (cf_payload frame) | Inl _ \<Rightarrow> parse_hex_line line)
     | J1850 \<Rightarrow>
         (case decode_j1850_headers_on line of
            Inr frame \<Rightarrow> Inr ([j1850_priority frame, j1850_target frame, j1850_source frame] @ j1850_payload frame)
          | Inl _ \<Rightarrow> parse_hex_line line)
     | _ \<Rightarrow>
         (case decode_iso_kline_headers_on line of
            Inr frame \<Rightarrow>
              if kl_checksum_valid frame
              then Inr ([kl_format frame, kl_target frame, kl_source frame] @ kl_payload frame)
              else parse_hex_line line
          | Inl _ \<Rightarrow> parse_hex_line line))"

definition decode_line :: "string \<Rightarrow> bus_family \<Rightarrow> nat \<Rightarrow> bytes option \<Rightarrow> bytes res" where
  "decode_line line family skip_bytes expected_prefix =
    (let rest = (if \<not> looks_like_headers_on (split_whitespace line) family then parse_hex_line line
                 else decode_line_headers_on line family)
     in case parse_hex_line line of
          Inr bs \<Rightarrow> if should_treat_as_headers_off bs skip_bytes expected_prefix then Inr bs else rest
        | Inl _ \<Rightarrow> rest)"

text \<open>
  The loop over the lines: a line that starts with the expected prefix opens a new payload once one
  has been matched, other lines continue the current payload (and are dropped before the first
  match); without an expected prefix every line continues it.
\<close>

definition skip_line :: "string option \<Rightarrow> bytes option \<Rightarrow> bool \<Rightarrow> string \<Rightarrow> bool" where
  "skip_line echo_command expected_prefix matched_expected line \<longleftrightarrow>
     line = [] \<or> line = ''SEARCHING...''
     \<or> (case echo_command of Some cmd \<Rightarrow> line_matches_command_echo line cmd | None \<Rightarrow> False)
     \<or> split_whitespace line = []
     \<or> matched_expected \<and> expected_prefix \<noteq> None \<and> is_status_noise_line line"

fun elm_lines :: "bus_family \<Rightarrow> nat \<Rightarrow> string option \<Rightarrow> bytes option \<Rightarrow> string list
    \<Rightarrow> bool \<Rightarrow> bytes list \<Rightarrow> bytes \<Rightarrow> (bytes list \<times> bytes) res" where
  "elm_lines family skip_bytes echo expected [] matched payloads current = Inr (payloads, current)"
| "elm_lines family skip_bytes echo expected (raw_line # lines) matched payloads current =
    (let line = trim_end (\<lambda>c. c = CHR ''>'') (str_trim raw_line) in
     if skip_line echo expected matched line
     then elm_lines family skip_bytes echo expected lines matched payloads current
     else
       bind_res (decode_line line family skip_bytes expected) (\<lambda>decoded.
       case expected of
         Some prefix \<Rightarrow>
           if starts_with decoded prefix then
             (let (payloads', current') =
                (if matched \<and> current \<noteq> [] then (payloads @ [current], []) else (payloads, current))
              in elm_lines family skip_bytes echo expected lines True payloads'
                   (current' @ drop (length prefix) decoded))
           else if matched then elm_lines family skip_bytes echo expected lines matched payloads (current @ decoded)
           else elm_lines family skip_bytes echo expected lines matched payloads current
       | None \<Rightarrow> elm_lines family skip_bytes echo expected lines matched payloads (current @ decoded)))"

definition decode_elm_response_payloads_for_command ::
    "string \<Rightarrow> bus_family \<Rightarrow> nat \<Rightarrow> string option \<Rightarrow> bytes list res" where
  "decode_elm_response_payloads_for_command response family skip_bytes echo_command =
    (let expected_prefix = Option.bind echo_command (\<lambda>cmd. expected_response_prefix cmd skip_bytes) in
     bind_res (elm_lines family skip_bytes echo_command expected_prefix
         (split_on (\<lambda>c. c = CHR 0x0D \<or> c = CHR 0x0A) response) (expected_prefix = None) [] [])
       (\<lambda>(payloads, current).
         let payloads = (if current \<noteq> [] then payloads @ [current] else payloads) in
         if payloads = []
         then Inl (ParseError (Fmt ''no valid payload in response: {}'' [ArgStr (str_trim response)]))
         else Inr payloads))"

definition decode_elm_response_payload_for_command ::
    "string \<Rightarrow> bus_family \<Rightarrow> nat \<Rightarrow> string option \<Rightarrow> bytes res" where
  "decode_elm_response_payload_for_command response family skip_bytes echo_command =
    bind_res (decode_elm_response_payloads_for_command response family skip_bytes echo_command) (\<lambda>payloads.
      let payload = hd payloads in
      if expected_prefix_is_used echo_command skip_bytes then Inr payload
      else if length payload \<le> skip_bytes then Inr []
      else Inr (drop skip_bytes payload))"

definition decode_elm_response_payload :: "string \<Rightarrow> bus_family \<Rightarrow> nat \<Rightarrow> bytes res" where
  "decode_elm_response_payload response family skip_bytes =
    decode_elm_response_payload_for_command response family skip_bytes None"

section \<open>Printed answers\<close>

text \<open>What an ELM327 prints with headers and spaces off: one line for each answer, then the prompt.\<close>

definition elm_text :: "bytes list \<Rightarrow> string" where
  "elm_text answers = concat (map (\<lambda>bs. hex_compact bs @ [CHR 0x0D]) answers) @ [CHR 0x0D, CHR ''>'']"

lemma starts_with_append [simp]: "starts_with (xs @ ys) xs"
  by (auto simp: starts_with_iff)

text \<open>Printed bytes hold hex digits only, so none of the characters that structure an answer.\<close>

lemma hex_compact_nibble: "c \<in> set (hex_compact bs) \<Longrightarrow> hex_nibble (char_byte c) \<noteq> None"
  by (auto simp: hex_compact_def hex_byte_def)

lemma hex_compact_plain:
  assumes "c \<in> set (hex_compact bs)"
  shows "c \<noteq> CHR 0x0D" "c \<noteq> CHR 0x0A" "c \<noteq> CHR ''>''" "c \<noteq> CHR ''.''" "c \<noteq> CHR '' ''"
    "\<not> is_whitespace c" "\<not> is_ascii_whitespace c"
proof -
  have "hex_nibble (char_byte CHR 0x0D) = None" "hex_nibble (char_byte CHR 0x0A) = None"
    "hex_nibble (char_byte CHR ''>'') = None" "hex_nibble (char_byte CHR ''.'') = None"
    "hex_nibble (char_byte CHR '' '') = None"
    by (simp_all add: hex_nibble_def char_byte_def)
  with hex_compact_nibble [OF assms]
  show "c \<noteq> CHR 0x0D" "c \<noteq> CHR 0x0A" "c \<noteq> CHR ''>''" "c \<noteq> CHR ''.''" "c \<noteq> CHR '' ''" by auto
  show "\<not> is_whitespace c" "\<not> is_ascii_whitespace c"
    using assms by (auto simp: hex_compact_def)
qed

lemma hex_compact_Nil_iff [simp]: "hex_compact bs = [] \<longleftrightarrow> bs = []"
  by (simp add: hex_compact_def hex_byte_def)

lemma length_hex_compact: "length (hex_compact bs) = 2 * length bs"
  by (induction bs) (auto simp: hex_compact_def hex_byte_def)

lemma parse_hex_line_compact:
  assumes "bs \<noteq> []"
  shows "parse_hex_line (hex_compact bs) = Inr bs" "split_whitespace (hex_compact bs) = [hex_compact bs]"
proof -
  show ws: "split_whitespace (hex_compact bs) = [hex_compact bs]"
    using assms split_on_token [of "hex_compact bs" is_whitespace]
    by (auto simp: split_whitespace_def hex_compact_plain)
  have "map char_byte (hex_compact bs) = concat (map (\<lambda>b. map char_byte (hex_byte b)) bs)"
    by (simp add: hex_compact_def map_concat comp_def)
  then have ch: "chunks_exact 2 (map char_byte (hex_compact bs)) = map (\<lambda>b. map char_byte (hex_byte b)) bs"
    by (simp only:, intro chunks_exact_concat) (auto simp: hex_byte_def)
  have "try_map (hex_pair t) (map (\<lambda>b. map char_byte (hex_byte b)) bs) = Inr bs" for t
    by (induction bs) auto
  with assms ws ch show "parse_hex_line (hex_compact bs) = Inr bs"
    by (simp add: parse_hex_line_def length_hex_compact Let_def)
qed

lemma line_of_compact:
  "trim_end (\<lambda>c. c = CHR ''>'') (str_trim (hex_compact bs)) = hex_compact bs"
proof -
  have "hex_compact bs = [] \<or> \<not> is_whitespace (hd (hex_compact bs)) \<and> \<not> is_whitespace (last (hex_compact bs))"
    by (metis hex_compact_plain(6) hd_in_set last_in_set)
  then have "str_trim (hex_compact bs) = hex_compact bs" by (rule str_trim_id)
  moreover have "hex_compact bs = [] \<or> last (hex_compact bs) \<noteq> CHR ''>''"
    by (metis hex_compact_plain(3) last_in_set)
  ultimately show ?thesis by (simp add: trim_end_id)
qed

lemma split_elm_text:
  "split_on (\<lambda>c. c = CHR 0x0D \<or> c = CHR 0x0A) (elm_text answers) = map hex_compact answers @ [[], ''>'']"
proof (induction answers)
  case (Cons a answers)
  have "split_on (\<lambda>c. c = CHR 0x0D \<or> c = CHR 0x0A) (hex_compact a @ CHR 0x0D # elm_text answers)
      = hex_compact a # split_on (\<lambda>c. c = CHR 0x0D \<or> c = CHR 0x0A) (elm_text answers)"
    by (rule split_on_token_sep) (auto dest: hex_compact_plain)
  with Cons show ?case by (simp add: elm_text_def)
qed (simp add: elm_text_def)

text \<open>The echo test compares the non-blank bytes, ignoring case.\<close>

lemma echo_loop_iff:
  "echo_loop saw line command \<longleftrightarrow> (saw \<or> line \<noteq> []) \<and> map to_lower line = map to_lower command"
  by (induction saw line command rule: echo_loop.induct) auto

lemma line_echo_compact:
  "line_matches_command_echo (hex_compact bs) (hex_compact cs)
     \<longleftrightarrow> bs \<noteq> [] \<and> map to_lower (hex_compact bs) = map to_lower (hex_compact cs)"
  by (simp add: line_matches_command_echo_def echo_loop_iff filter_hex_compact)

lemma hex_nibble_to_lower: "n < 16 \<Longrightarrow> hex_nibble (char_byte (to_lower (hex_digit n))) = Some n"
  unfolding to_lower_def char_byte_hex_digit Let_def
  by (simp only: if_distrib [of char_byte] char_byte_char_of char_byte_hex_digit)
    (drule nibble_cases, elim insertE emptyE; hypsubst; simp add: hex_nibble_def)

lemma div_16_shift: "n < 256 \<Longrightarrow> (n + 64) mod 256 div 16 \<noteq> n div (16 :: nat)"
proof (cases "n < 192")
  case False
  assume "n < 256"
  with False have "(n + 64) mod 256 = n - 192" by (simp add: mod_if)
  moreover obtain x where "n = x + 192" using False le_Suc_ex [of 192 n] by (auto simp: not_less add.commute)
  ultimately show ?thesis by simp
qed simp

lemma response_sid_high_nibble: "drop_bit 4 ((sid :: u8) + 0x40) \<noteq> drop_bit 4 sid"
proof
  assume "drop_bit 4 (sid + 0x40) = drop_bit 4 sid"
  then have "unat (drop_bit 4 (sid + 0x40)) = unat (drop_bit 4 sid)" by (rule arg_cong)
  then have "(unat sid + 64) mod 256 div 16 = unat sid div 16"
    unfolding unat_drop_bit unat_word_ariths by simp
  with div_16_shift [OF unat_u8_lt] show False by metis
qed

lemma answer_not_echo:
  "\<not> line_matches_command_echo (hex_compact ((sid + 0x40) # bs)) (hex_compact (sid # cs))"
proof
  assume "line_matches_command_echo (hex_compact ((sid + 0x40) # bs)) (hex_compact (sid # cs))"
  then have "to_lower (hex_digit (drop_bit 4 (sid + 0x40))) = to_lower (hex_digit (drop_bit 4 sid))"
    unfolding line_echo_compact by (simp add: hex_compact_def hex_byte_def)
  then have "drop_bit 4 (sid + 0x40) = drop_bit 4 sid"
    by (metis hex_nibble_to_lower nibbles_lt(1) option.inject)
  with response_sid_high_nibble show False by blast
qed

lemma not_hex_word: "c \<in> set w \<Longrightarrow> hex_nibble (char_byte c) = None \<Longrightarrow> hex_compact bs \<noteq> w"
  using hex_compact_nibble [of c bs] by auto

lemma not_status_word:
  "hex_compact bs \<noteq> ''SEARCHING...''" "hex_compact bs \<noteq> ''NO DATA''"
  "hex_compact bs \<noteq> ''STOPPED''" "hex_compact bs \<noteq> ''BUS BUSY''"
  by (rule not_hex_word [where c = "CHR ''S''"] not_hex_word [where c = "CHR ''N''"];
      simp add: hex_nibble_def char_byte_def)+

lemma answer_line_kept:
  "\<not> skip_line (Some (hex_compact (sid # cs))) expected matched (hex_compact ((sid + 0x40) # bs))"
  unfolding skip_line_def is_status_noise_line_def option.case
  using answer_not_echo [of sid bs cs] not_status_word [of "(sid + 0x40) # bs"]
    parse_hex_line_compact(2) [of "(sid + 0x40) # bs"]
  by simp

lemma decode_line_answer:
  "decode_line (hex_compact (p # prefix @ d)) family skip (Some (p # prefix)) = Inr (p # prefix @ d)"
  using parse_hex_line_compact(1) [of "p # prefix @ d"]
  by (simp add: decode_line_def should_treat_as_headers_off_def)

lemma prompt_lines_skipped:
  "elm_lines family skip_bytes echo expected [[], ''>''] matched payloads current = Inr (payloads, current)"
  by (simp add: skip_line_def str_trim_def is_whitespace_def char_byte_def trim_end_def)

text \<open>Once one answer has been matched, every further answer line closes the current payload; payloads
  without a byte are left out.\<close>

definition all_payloads :: "bytes list \<times> bytes \<Rightarrow> bytes list" where
  "all_payloads r = (if snd r \<noteq> [] then fst r @ [snd r] else fst r)"

lemma elm_lines_answers:
  "\<exists>r. elm_lines family skip (Some (hex_compact (sid # cs))) (Some ((sid + 0x40) # prefix))
      (map (\<lambda>d. hex_compact ((sid + 0x40) # prefix @ d)) ds @ [[], ''>'']) True payloads current = Inr r
    \<and> all_payloads r = payloads @ filter (\<lambda>d. d \<noteq> []) (current # ds)"
proof (induction ds arbitrary: payloads current)
  case Nil
  show ?case by (simp only: list.map append_Nil prompt_lines_skipped) (simp add: all_payloads_def)
next
  case (Cons d ds)
  let ?p = "if current \<noteq> [] then payloads @ [current] else payloads"
  have "elm_lines family skip (Some (hex_compact (sid # cs))) (Some ((sid + 0x40) # prefix))
      (map (\<lambda>d. hex_compact ((sid + 0x40) # prefix @ d)) (d # ds) @ [[], ''>'']) True payloads current
    = elm_lines family skip (Some (hex_compact (sid # cs))) (Some ((sid + 0x40) # prefix))
      (map (\<lambda>d. hex_compact ((sid + 0x40) # prefix @ d)) ds @ [[], ''>'']) True ?p d"
    by (simp only: list.map append_Cons elm_lines.simps line_of_compact Let_def answer_line_kept
        if_False decode_line_answer bind_res_simps option.case) simp
  with Cons.IH [of ?p d] show ?case by auto
qed

lemma expected_prefix_of_command:
  "k \<le> length params \<Longrightarrow> expected_response_prefix (hex_compact (sid # params)) (Suc k)
     = Some ((sid + 0x40) # take k params)"
  by (simp add: expected_response_prefix_def parse_compact_hex_def filter_hex_compact parse_compact_loop_bytes)

text \<open>The payloads of a printed answer; an error when no module sent a byte after the prefix.\<close>

lemma elm_payloads_of_printed:
  assumes "k \<le> length params"
  shows "\<exists>err. decode_elm_response_payloads_for_command
      (elm_text (map (\<lambda>d. (sid + 0x40) # take k params @ d) ds)) family (Suc k)
      (Some (hex_compact (sid # params)))
    = (if filter (\<lambda>d. d \<noteq> []) ds = [] then Inl err else Inr (filter (\<lambda>d. d \<noteq> []) ds))"
proof -
  let ?lines = "elm_lines family (Suc k) (Some (hex_compact (sid # params))) (Some ((sid + 0x40) # take k params))
      (map (\<lambda>d. hex_compact ((sid + 0x40) # take k params @ d)) ds @ [[], ''>'']) False [] []"
  have "\<exists>r. ?lines = Inr r \<and> all_payloads r = filter (\<lambda>d. d \<noteq> []) ds"
  proof (cases ds)
    case Nil
    then show ?thesis by (simp only: list.map append_Nil prompt_lines_skipped) (simp add: all_payloads_def)
  next
    case (Cons d ds')
    have "?lines = elm_lines family (Suc k) (Some (hex_compact (sid # params))) (Some ((sid + 0x40) # take k params))
        (map (\<lambda>d. hex_compact ((sid + 0x40) # take k params @ d)) ds' @ [[], ''>'']) True [] d"
      unfolding Cons
      by (simp only: list.map append_Cons elm_lines.simps line_of_compact Let_def answer_line_kept
          if_False decode_line_answer bind_res_simps option.case) simp
    with elm_lines_answers [of family "Suc k" sid params "take k params" ds' "[]" d] Cons show ?thesis by auto
  qed
  then obtain r where lines: "?lines = Inr r" and all: "filter (\<lambda>d. d \<noteq> []) ds = all_payloads r" by auto
  show ?thesis unfolding all
    by (cases r) (simp add: decode_elm_response_payloads_for_command_def expected_prefix_of_command [OF assms]
        split_elm_text comp_def all_payloads_def lines)
qed

end
