(* ===== verification/Elm327.thy ===== *)
theory Elm327
  imports ElmCodec AdapterTypes Framed
begin

text \<open>
  The ELM327 adapter (\<open>adapter/elm327.rs\<close>) over any byte link, and the framed transport on top of it
  (\<open>adapter/elm_transport.rs\<close>). The \<open>Link\<close> trait is a record of its operations on a link state
  \<open>'l\<close>; its capture and annotation hooks, which only log, are left out. Answers are ASCII text, so
  \<open>from_utf8_lossy\<close> is the identity on them. Arithmetic is that of a release build (it wraps).
\<close>

section \<open>Links\<close>

record 'l link =
  ln_write :: "bytes \<Rightarrow> ('l, obd2_error, unit) act"
  ln_read :: "('l, obd2_error, bytes) act"
  ln_reset :: "('l, obd2_error, unit) act"

definition text_bytes :: "string \<Rightarrow> bytes" where
  "text_bytes s = map char_byte s"

definition bytes_text :: "bytes \<Rightarrow> string" where
  "bytes_text bs = map (\<lambda>b. char_of (unat b)) bs"

text \<open>\<open>{:0wX}\<close> of an unsigned integer.\<close>

fun hex_upper_loop :: "nat \<Rightarrow> string \<Rightarrow> string" where
  "hex_upper_loop n acc =
    (if n < 16 then hex_digit (of_nat n) # acc
     else hex_upper_loop (n div 16) (hex_digit (of_nat (n mod 16)) # acc))"

declare hex_upper_loop.simps [simp del]

definition hex_padded :: "nat \<Rightarrow> nat \<Rightarrow> string" where
  "hex_padded w n = (let ds = hex_upper_loop n [] in replicate (w - length ds) (CHR ''0'') @ ds)"

section \<open>The adapter state\<close>

record 'l elm327 =
  el_transport :: 'l
  el_info :: adapter_info
  el_initialized :: bool
  el_current_header :: "string option"
  el_events :: "adapter_event list"

definition default_adapter_info :: adapter_info where
  "default_adapter_info =
    \<lparr>ai_chipset = UnknownChipset, ai_firmware = [], ai_protocol = ProtoAuto,
     ai_capabilities = capabilities_default\<rparr>"

definition elm_new :: "'l \<Rightarrow> 'l elm327" where
  "elm_new transport =
    \<lparr>el_transport = transport, el_info = default_adapter_info, el_initialized = False,
     el_current_header = None, el_events = []\<rparr>"

definition on_transport :: "('l, obd2_error, 'b) act \<Rightarrow> ('l elm327, obd2_error, 'b) act" where
  "on_transport m s = (let (r, l) = m (el_transport s) in (r, s\<lparr>el_transport := l\<rparr>))"

definition push_event :: "adapter_event_kind \<Rightarrow> string option \<Rightarrow> 'l elm327 \<Rightarrow> 'l elm327" where
  "push_event kind detail s = s\<lparr>el_events := el_events s @ [\<lparr>ae_kind = kind, ae_detail = detail\<rparr>]\<rparr>"

definition sanitize_response_bytes :: "bytes \<Rightarrow> ('l elm327, obd2_error, string) act" where
  "sanitize_response_bytes raw s =
    (let kept = filter (\<lambda>b. b \<noteq> 0) raw;
         null_count = length raw - length kept;
         s' = (if 0 < null_count
               then push_event (NullBytesFiltered null_count)
                 (Some (''filtered '' @ decimal null_count @ '' null bytes from adapter response'')) s
               else s)
     in (Inr (bytes_text kept), s'))"

definition send_command_raw :: "'l link \<Rightarrow> string \<Rightarrow> ('l elm327, obd2_error, string) act" where
  "send_command_raw L cmd =
    seq_act (on_transport (ln_write L (text_bytes (cmd @ [CHR 0x0D]))))
      (bind_act (on_transport (ln_read L)) sanitize_response_bytes)"

section \<open>Events of a response and fault recovery\<close>

definition event_if :: "bool \<Rightarrow> adapter_event_kind \<Rightarrow> string option \<Rightarrow> adapter_event list" where
  "event_if c kind detail = (if c then [\<lparr>ae_kind = kind, ae_detail = detail\<rparr>] else [])"

definition response_events :: "string \<Rightarrow> adapter_event list" where
  "response_events response =
    (let trimmed = str_trim response in
     event_if (str_contains trimmed ''SEARCHING...'') SearchingDisplayed None
     @ event_if (str_contains trimmed ''BUS BUSY'') BusBusy (Some trimmed)
     @ event_if (str_contains trimmed ''LP ALERT'') (RecoveryAction ''LP ALERT'') (Some trimmed)
     @ event_if (str_contains trimmed ''BUS ERROR'') BusError (Some trimmed)
     @ event_if (str_contains trimmed ''CAN ERROR'') CanError (Some trimmed)
     @ event_if (str_contains trimmed ''DATA ERROR'') DataError (Some trimmed)
     @ event_if (str_contains trimmed ''<RX ERROR'') RxError (Some trimmed)
     @ event_if (str_contains trimmed ''STOPPED'') Stopped (Some trimmed)
     @ event_if (str_contains trimmed ''ERR94'') Err94 (Some trimmed)
     @ event_if (str_contains trimmed ''LV RESET'') LowVoltageReset (Some trimmed)
     @ event_if (trimmed = ''?'') UnknownCommand None)"

definition record_response_events :: "string \<Rightarrow> 'l elm327 \<Rightarrow> 'l elm327" where
  "record_response_events response s = s\<lparr>el_events := el_events s @ response_events response\<rparr>"

fun send_all :: "'l link \<Rightarrow> string list \<Rightarrow> ('l elm327, obd2_error, unit) act" where
  "send_all L [] = ret ()"
| "send_all L (cmd # cmds) = bind_act (send_command_raw L cmd) (\<lambda>_. send_all L cmds)"

definition apply_runtime_defaults :: "'l link \<Rightarrow> ('l elm327, obd2_error, unit) act" where
  "apply_runtime_defaults L =
    send_all L [''ATE0'', ''ATL0'', ''ATH0'', ''ATS0'', ''ATAT1'', ''ATCAF1'', ''ATCFC1'']"

definition recover_from_adapter_fault :: "'l link \<Rightarrow> ('l elm327, obd2_error, unit) act" where
  "recover_from_adapter_fault L =
    seq_act (modify_act (push_event (RecoveryAction ''ATFE'') (Some ''recovering from fatal adapter fault'')))
      (bind_act (send_command_raw L ''ATFE'') (\<lambda>_.
       seq_act (modify_act (\<lambda>s. s\<lparr>el_current_header := None\<rparr>)) (apply_runtime_defaults L)))"

definition handle_fault_recovery :: "'l link \<Rightarrow> string \<Rightarrow> ('l elm327, obd2_error, unit) act" where
  "handle_fault_recovery L response =
    (let trimmed = str_trim response in
     if str_contains trimmed ''ERR94'' \<or> str_contains trimmed ''LV RESET''
     then recover_from_adapter_fault L else ret ())"

definition send_command :: "'l link \<Rightarrow> string \<Rightarrow> ('l elm327, obd2_error, string) act" where
  "send_command L cmd =
    bind_act (send_command_raw L cmd) (\<lambda>response.
    seq_act (modify_act (record_response_events response))
    (seq_act (handle_fault_recovery L response) (ret response)))"

definition protocol_runtime_commands :: "protocol \<Rightarrow> string list" where
  "protocol_runtime_commands p =
    (case p of
       ProtoIso9141 _ \<Rightarrow> [''ATSI'', ''ATSW96'', ''ATWM686AF10100'']
     | ProtoKwp2000 SlowInit \<Rightarrow> [''ATSI'', ''ATSW96'', ''ATWMC133F13E'']
     | ProtoKwp2000 FastInit \<Rightarrow> [''ATFI'', ''ATSW96'', ''ATWMC133F13E'']
     | Can11Bit500 \<Rightarrow> [''ATCAF1'', ''ATCFC1'']
     | Can11Bit250 \<Rightarrow> [''ATCAF1'', ''ATCFC1'']
     | Can29Bit500 \<Rightarrow> [''ATCAF1'', ''ATCFC1'']
     | Can29Bit250 \<Rightarrow> [''ATCAF1'', ''ATCFC1'']
     | _ \<Rightarrow> [])"

definition apply_protocol_runtime_policy :: "'l link \<Rightarrow> protocol \<Rightarrow> ('l elm327, obd2_error, unit) act" where
  "apply_protocol_runtime_policy L p = send_all L (protocol_runtime_commands p)"

definition protocol_family :: "'l elm327 \<Rightarrow> bus_family" where
  "protocol_family s =
    (case ai_protocol (el_info s) of
       Can11Bit500 \<Rightarrow> Can | Can11Bit250 \<Rightarrow> Can | Can29Bit500 \<Rightarrow> Can | Can29Bit250 \<Rightarrow> Can
     | J1850Pwm \<Rightarrow> J1850 | J1850Vpw \<Rightarrow> J1850
     | ProtoIso9141 _ \<Rightarrow> Iso9141 | ProtoKwp2000 _ \<Rightarrow> Kwp2000 | ProtoAuto \<Rightarrow> Can)"

section \<open>Targeting\<close>

definition set_header :: "'l link \<Rightarrow> string \<Rightarrow> ('l elm327, obd2_error, unit) act" where
  "set_header L header s =
    (if el_current_header s = Some header then (Inr (), s)
     else
       bind_act (send_command L (''AT SH '' @ header)) (\<lambda>response.
       if \<not> str_contains response ''OK''
       then fail (Adapter (Fmt ''AT SH failed: {}'' [ArgStr (str_trim response)]))
       else modify_act (\<lambda>s. push_event (HeaderChanged header) None (s\<lparr>el_current_header := Some header\<rparr>))) s)"

definition default_broadcast_header :: "'l elm327 \<Rightarrow> string option" where
  "default_broadcast_header s =
    (case ai_protocol (el_info s) of
       J1850Pwm \<Rightarrow> Some ''686AF1'' | J1850Vpw \<Rightarrow> Some ''686AF1''
     | ProtoIso9141 _ \<Rightarrow> Some ''686AF1'' | ProtoKwp2000 _ \<Rightarrow> Some ''686AF1''
     | Can11Bit500 \<Rightarrow> Some ''7DF'' | Can11Bit250 \<Rightarrow> Some ''7DF''
     | Can29Bit500 \<Rightarrow> Some ''18DB33F1'' | Can29Bit250 \<Rightarrow> Some ''18DB33F1''
     | ProtoAuto \<Rightarrow> None)"

definition clear_targeting :: "'l link \<Rightarrow> ('l elm327, obd2_error, unit) act" where
  "clear_targeting L s =
    (if el_current_header s = None then (Inr (), s)
     else case default_broadcast_header s of
       None \<Rightarrow> (Inr (), s\<lparr>el_current_header := None\<rparr>)
     | Some header \<Rightarrow>
         seq_act (set_header L header)
           (modify_act (push_event (HeaderReset header) (Some ''restored broadcast header''))) s)"

definition apply_target :: "'l link \<Rightarrow> physical_target \<Rightarrow> ('l elm327, obd2_error, unit) act" where
  "apply_target L target =
    (case target of
       PBroadcast \<Rightarrow> clear_targeting L
     | Addressed (AddrJ1850 node (h0, h1, h2)) \<Rightarrow> set_header L (hex_byte h0 @ hex_byte h1 @ hex_byte h2)
     | Addressed (AddrCan11Bit request_id response_id) \<Rightarrow> set_header L (hex_padded 3 (unat request_id))
     | Addressed (AddrCan29Bit request_id response_id) \<Rightarrow> set_header L (hex_padded 8 (unat request_id))
     | Addressed (AddrJ1939 _) \<Rightarrow> fail (Adapter (Text ''J1939 addressed routing is not implemented yet'')))"

section \<open>Responses\<close>

definition truncate_known_payload :: "u8 \<Rightarrow> bytes \<Rightarrow> bytes \<Rightarrow> bytes" where
  "truncate_known_payload service_id request_data payload =
    (if service_id = 0x01 \<or> service_id = 0x02 then
       (case request_data of [] \<Rightarrow> payload | p # _ \<Rightarrow> take (unat (response_bytes (Pid p))) payload)
     else payload)"

text \<open>The bytes of all hex digits of a text, whatever stands between them.\<close>

fun compact_loop :: "u8 option \<Rightarrow> string \<Rightarrow> bytes" where
  "compact_loop high [] = []"
| "compact_loop high (c # cs) =
    (case hex_nibble (char_byte c) of
       None \<Rightarrow> compact_loop high cs
     | Some nibble \<Rightarrow>
         (case high of
            Some high_nibble \<Rightarrow> (push_bit 4 high_nibble OR nibble) # compact_loop None cs
          | None \<Rightarrow> compact_loop (Some nibble) cs))"

definition compact_response_bytes :: "string \<Rightarrow> bytes" where
  "compact_response_bytes response = compact_loop None response"

definition check_response_error :: "string \<Rightarrow> unit res" where
  "check_response_error response =
    (let trimmed = str_trim response in
     if str_contains trimmed ''NO DATA'' then Inl NoData
     else if str_contains trimmed ''UNABLE TO CONNECT''
       then Inl (Adapter (Text ''unable to connect to vehicle''))
     else if str_contains trimmed ''BUS INIT'' \<and> str_contains trimmed ''ERROR''
       then Inl (Adapter (Text ''bus initialization error''))
     else if str_contains trimmed ''CAN ERROR'' then Inl (Adapter (Text ''CAN bus error''))
     else if trimmed = ''?'' then Inl (Adapter (Text ''unknown command''))
     else
       let bs = compact_response_bytes trimmed in
       if slice_first bs = Some 0x7F \<and> 3 \<le> length bs then
         (case find (\<lambda>b. nrc_from_byte b \<noteq> None) (rev (drop 2 bs)) of
            Some nrc_byte \<Rightarrow>
              (case nrc_from_byte nrc_byte of
                 Some nrc \<Rightarrow> Inl (NegativeResponse (bs ! 1) nrc)
               | None \<Rightarrow> Inr ())
          | None \<Rightarrow> Inr ())
       else Inr ())"

definition response_skip :: "u8 \<Rightarrow> nat" where
  "response_skip service_id =
    (if service_id \<in> {0x01, 0x02} then 2
     else if service_id \<in> {0x03, 0x04, 0x07, 0x0A} then 1
     else if service_id = 0x09 then 2
     else if service_id \<in> {0x22, 0x21} then 3
     else 1)"

definition decode_routed_response :: "bus_family \<Rightarrow> u8 \<Rightarrow> bytes \<Rightarrow> string \<Rightarrow> string \<Rightarrow> bytes res" where
  "decode_routed_response fam service_id data cmd response =
    (case decode_elm_response_payload_for_command response fam (response_skip service_id) (Some cmd) of
       Inr payload \<Rightarrow> Inr (truncate_known_payload service_id data payload)
     | Inl decode_err \<Rightarrow> bind_res (check_response_error response) (\<lambda>_. Inl decode_err))"

definition send_routed_command ::
    "'l link \<Rightarrow> u8 \<Rightarrow> bytes \<Rightarrow> physical_target \<Rightarrow> ('l elm327, obd2_error, bytes) act" where
  "send_routed_command L service_id data target =
    seq_act (apply_target L target)
      (let cmd = hex_byte service_id @ hex_compact data in
       bind_act (send_command L cmd) (\<lambda>response s.
         (decode_routed_response (protocol_family s) service_id data cmd response, s)))"

definition parse_supported_pids :: "bytes \<Rightarrow> u8 \<Rightarrow> u8 list" where
  "parse_supported_pids data base_pid =
    concat (map (\<lambda>(byte_idx, byte).
      concat (map (\<lambda>b. if byte AND drop_bit b 0x80 \<noteq> 0
                        then [base_pid + of_nat byte_idx * 8 + of_nat b + 1] else []) [0..<8]))
      (enumerate 0 data))"

section \<open>Probing and initialization\<close>

definition classify_probe_result :: "string \<Rightarrow> probe_result" where
  "classify_probe_result response =
    (let trimmed = str_trim response in
     if str_contains trimmed ''UNABLE TO CONNECT'' then UnableToConnect
     else if str_contains trimmed ''BUS INIT'' \<and> str_contains trimmed ''ERROR'' then BusInitFailure
     else if str_contains trimmed ''BUS ERROR'' \<or> str_contains trimmed ''BUS BUSY'' then ProbeBusError
     else if str_contains trimmed ''CAN ERROR'' then ProbeCanError
     else if str_contains trimmed ''NO DATA'' then NoResponse
     else if trimmed = ''?'' then ProbeUnsupportedProtocol
     else AdapterFault)"

definition parse_protocol_response :: "string \<Rightarrow> protocol" where
  "parse_protocol_response protocol_response =
    (let text = str_trim (str_remove {CHR ''>''} (str_trim protocol_response));
         proto_char = (if text = [] then CHR ''0'' else last text)
     in case protocol_from_elm_code proto_char of Some p \<Rightarrow> p | None \<Rightarrow> ProtoAuto)"

definition probe_answered :: "string \<Rightarrow> bool" where
  "probe_answered response \<longleftrightarrow> str_contains response ''41 00'' \<or> str_contains response ''4100''"

definition probe_protocol ::
    "'l link \<Rightarrow> protocol \<Rightarrow> protocol_selection_source \<Rightarrow> string \<Rightarrow> ('l elm327, obd2_error, probe_attempt) act" where
  "probe_protocol L p source command =
    bind_act (send_command L command) (\<lambda>_.
    bind_act (send_command L ''0100'') (\<lambda>response.
    let result = (if probe_answered response then ProbeSuccess else classify_probe_result response) in
    ret \<lparr>pa_protocol = p, pa_source = source, pa_result = result, pa_detail = Some (str_trim response)\<rparr>))"

definition fallback_probe_order :: "(protocol \<times> string) list" where
  "fallback_probe_order = [
    (Can11Bit500, ''ATTP6''), (Can29Bit500, ''ATTP7''), (Can11Bit250, ''ATTP8''), (Can29Bit250, ''ATTP9''),
    (J1850Vpw, ''ATTP2''), (J1850Pwm, ''ATTP1''), (ProtoIso9141 SlowInit, ''ATTP3''),
    (ProtoKwp2000 FastInit, ''ATTP5''), (ProtoKwp2000 SlowInit, ''ATTP4'')]"

text \<open>The loop over the fallback protocols; it returns the attempts made and the protocol that answered.\<close>

fun probe_fallback :: "'l link \<Rightarrow> (protocol \<times> string) list \<Rightarrow> probe_attempt list
    \<Rightarrow> ('l elm327, obd2_error, probe_attempt list \<times> protocol option) act" where
  "probe_fallback L [] attempts = ret (attempts, None)"
| "probe_fallback L ((p, command) # rest) attempts =
    bind_act (probe_protocol L p ExplicitProbe command) (\<lambda>attempt.
    if pa_result attempt = ProbeSuccess then ret (attempts @ [attempt], Some p)
    else probe_fallback L rest (attempts @ [attempt]))"

text \<open>Step 7: the automatic search, else the explicit probes.\<close>

definition detect_protocol ::
    "'l link \<Rightarrow> ('l elm327, obd2_error, probe_attempt list \<times> protocol option) act" where
  "detect_protocol L =
    bind_act (send_command L ''0100'') (\<lambda>response.
    if probe_answered response then
      (let attempt = \<lparr>pa_protocol = ProtoAuto, pa_source = AutoDetect, pa_result = ProbeSuccess,
             pa_detail = Some (str_trim response)\<rparr> in
       bind_act (try_act (send_command L ''ATDPN'')) (\<lambda>r.
       case r of
         Inr protocol_response \<Rightarrow> ret ([attempt], Some (parse_protocol_response protocol_response))
       | Inl _ \<Rightarrow> ret ([attempt], None)))
    else
      probe_fallback L fallback_probe_order
        [\<lparr>pa_protocol = ProtoAuto, pa_source = AutoDetect, pa_result = classify_probe_result response,
          pa_detail = Some (str_trim response)\<rparr>])"

fun send_all_checked :: "'l link \<Rightarrow> string list \<Rightarrow> ('l elm327, obd2_error, unit) act" where
  "send_all_checked L [] = ret ()"
| "send_all_checked L (cmd # cmds) = bind_act (send_command L cmd) (\<lambda>_. send_all_checked L cmds)"

definition elm_drain_events :: "'l elm327 \<Rightarrow> adapter_event list \<times> 'l elm327" where
  "elm_drain_events s = (el_events s, s\<lparr>el_events := []\<rparr>)"

definition elm_report :: "adapter_info \<Rightarrow> probe_attempt list \<Rightarrow> ('l elm327, obd2_error, initialization_report) act" where
  "elm_report info attempts s =
    (let (events, s') = elm_drain_events s
     in (Inr \<lparr>ir_info = info, ir_probe_attempts = attempts, ir_events = events\<rparr>, s'))"

text \<open>Steps 1 and 2: the reset and the probe for an STN chip, whose failure is ignored.\<close>

definition elm_identify :: "'l link \<Rightarrow> ('l elm327, obd2_error, adapter_info) act" where
  "elm_identify L =
    bind_act (send_command L ''ATZ'') (\<lambda>atz_response.
    bind_act (try_act (send_command L ''STI'')) (\<lambda>sti.
    let sti_response = (case sti of
          Inr r \<Rightarrow> if \<not> str_contains r ''?'' then Some r else None
        | Inl _ \<Rightarrow> None)
    in ret (adapter_info_detect atz_response sti_response)))"

text \<open>The selected protocol is recorded and its policy applied; without one initialization fails.\<close>

definition elm_finish :: "'l link \<Rightarrow> adapter_info \<Rightarrow> probe_attempt list
    \<Rightarrow> ('l elm327, obd2_error, initialization_report) act" where
  "elm_finish L info attempts =
    (if ai_protocol info = ProtoAuto then
       seq_act (modify_act (push_event UnsupportedProtocol (Some ''no supported protocol could be selected'')))
         (fail (Adapter (Text ''unable to determine active protocol'')))
     else
       seq_act (modify_act (\<lambda>s. (push_event (ProtocolSelected (ai_protocol info)) None s)\<lparr>el_info := info\<rparr>))
       (seq_act (apply_protocol_runtime_policy L (ai_protocol info))
       (seq_act (modify_act (\<lambda>s. s\<lparr>el_initialized := True\<rparr>))
        (elm_report info attempts))))"

definition elm_bring_up :: "'l link \<Rightarrow> ('l elm327, obd2_error, initialization_report) act" where
  "elm_bring_up L =
    seq_act (modify_act (push_event EvReset (Some ''initializing adapter'')))
    (bind_act (elm_identify L) (\<lambda>info.
     seq_act (send_all_checked L [''ATE0'', ''ATL0'', ''ATH0'', ''ATS0'', ''ATAT1'', ''ATSP0''])
     (seq_act (modify_act (push_event ProtocolSearching (Some ''ATSP0'')))
     (bind_act (detect_protocol L) (\<lambda>(attempts, detected).
      elm_finish L (info\<lparr>ai_protocol := (case detected of Some p \<Rightarrow> p | None \<Rightarrow> ai_protocol info)\<rparr>) attempts)))))"

definition elm_initialize :: "'l link \<Rightarrow> ('l elm327, obd2_error, initialization_report) act" where
  "elm_initialize L s =
    (if el_initialized s then elm_report (el_info s) [] s else elm_bring_up L s)"

section \<open>The adapter operations\<close>

definition elm_request :: "'l link \<Rightarrow> service_request \<Rightarrow> ('l elm327, obd2_error, bytes) act" where
  "elm_request L req =
    (case sr_target req of
       Module module_id \<Rightarrow>
         fail (Adapter (Fmt ''logical module target '{}' requires session-side routing resolution''
           [ArgStr module_id]))
     | Broadcast \<Rightarrow> send_routed_command L (sr_service_id req) (sr_data req) PBroadcast)"

definition elm_routed_request :: "'l link \<Rightarrow> routed_request \<Rightarrow> ('l elm327, obd2_error, bytes) act" where
  "elm_routed_request L req = send_routed_command L (rr_service_id req) (rr_data req) (rr_target req)"

definition pids_of_payloads :: "bytes list \<Rightarrow> u8 \<Rightarrow> pid set" where
  "pids_of_payloads payloads base =
    (\<Union>data \<in> set payloads. if 4 \<le> length data then Pid ` set (parse_supported_pids (take 4 data) base) else {})"

fun elm_supported_loop :: "'l link \<Rightarrow> u8 list \<Rightarrow> pid set \<Rightarrow> ('l elm327, obd2_error, pid set) act" where
  "elm_supported_loop L [] all = ret all"
| "elm_supported_loop L (base # bases) all =
    (let cmd = ''01'' @ hex_byte base in
     bind_act (try_act (send_command L cmd)) (\<lambda>r s.
       case r of
         Inl _ \<Rightarrow> (Inr all, s)
       | Inr response \<Rightarrow>
           (case decode_elm_response_payloads_for_command response (protocol_family s) 2 (Some cmd) of
              Inr payloads \<Rightarrow> elm_supported_loop L bases (all \<union> pids_of_payloads payloads base) s
            | Inl _ \<Rightarrow>
                (case check_response_error response of
                   Inl _ \<Rightarrow> (Inr all, s)
                 | Inr _ \<Rightarrow> elm_supported_loop L bases all s))))"

definition elm_supported_pids :: "'l link \<Rightarrow> ('l elm327, obd2_error, pid set) act" where
  "elm_supported_pids L = elm_supported_loop L [0x00, 0x20, 0x40, 0x60] {}"

definition elm_battery_voltage :: "'l link \<Rightarrow> ('l elm327, obd2_error, f64 option) act" where
  "elm_battery_voltage L =
    bind_act (send_command L ''ATRV'') (\<lambda>response.
    ret (parse_f64 (str_trim (str_remove {CHR ''V'', CHR ''v'', CHR ''>'', CHR 0x0D, CHR 0x0A} response))))"

definition elm_adapter :: "'l link \<Rightarrow> 'l elm327 adapter" where
  "elm_adapter L =
    \<lparr>ad_initialize = elm_initialize L, ad_request = elm_request L, ad_routed_request = elm_routed_request L,
     ad_supported_pids = elm_supported_pids L, ad_battery_voltage = elm_battery_voltage L,
     ad_info = el_info, ad_drain_events = elm_drain_events\<rparr>"

section \<open>The framed transport over the adapter\<close>

definition elm_transport_exchange :: "'l link \<Rightarrow> transport_request \<Rightarrow> ('l elm327, obd2_error, bytes) act" where
  "elm_transport_exchange L req =
    (if tq_target req \<noteq> TBroadcast then
       fail (Adapter (Text ''ELM framed transport supports broadcast requests only''))
     else case tq_pdu req of
       [] \<Rightarrow> fail (ParseError (Text ''ELM framed request missing service byte''))
     | service_id # data \<Rightarrow>
         elm_request L \<lparr>sr_service_id = service_id, sr_data = data, sr_target = Broadcast\<rparr>)"

text \<open>The bus family of a transport value is fixed when it is built from an initialized adapter.\<close>

definition elm_transport :: "'l link \<Rightarrow> bus_family \<Rightarrow> 'l elm327 transport" where
  "elm_transport L fam = \<lparr>exchange = elm_transport_exchange L, family = fam\<rparr>"

end
