(* ===== verification/MockLink.thy ===== *)
theory MockLink
  imports Elm327
begin

text \<open>
  The scripted link of the crate (\<open>transport/mock.rs\<close>): expected commands with their answers. A
  written command consumes the first expectation that it equals or contains; without one the
  answer is \<open>NO DATA\<close>.
\<close>

record mock_transport =
  mt_expectations :: "(string \<times> string) list"
  mt_pending_response :: "string list"

definition mock_new :: mock_transport where
  "mock_new = \<lparr>mt_expectations = [], mt_pending_response = []\<rparr>"

definition mock_expect :: "string \<Rightarrow> string \<Rightarrow> mock_transport \<Rightarrow> mock_transport" where
  "mock_expect command response t = t\<lparr>mt_expectations := mt_expectations t @ [(command, response)]\<rparr>"

text \<open>The loop of \<open>write\<close>: the answer of the first match and the expectations without it.\<close>

fun take_expectation :: "string \<Rightarrow> (string \<times> string) list \<Rightarrow> (string \<times> (string \<times> string) list) option" where
  "take_expectation cmd [] = None"
| "take_expectation cmd ((expected_cmd, response) # es) =
    (if cmd = expected_cmd \<or> str_contains cmd expected_cmd then Some (response, es)
     else map_option (\<lambda>(r, es'). (r, (expected_cmd, response) # es')) (take_expectation cmd es))"

definition mock_write :: "bytes \<Rightarrow> (mock_transport, obd2_error, unit) act" where
  "mock_write data t =
    (let cmd = str_trim (bytes_text data) in
     case take_expectation cmd (mt_expectations t) of
       Some (response, es) \<Rightarrow>
         (Inr (), t\<lparr>mt_pending_response := mt_pending_response t @ [response], mt_expectations := es\<rparr>)
     | None \<Rightarrow>
         (Inr (), t\<lparr>mt_pending_response := mt_pending_response t @ [''NO DATA'' @ [CHR 0x0D, CHR ''>'']]\<rparr>))"

definition mock_read :: "(mock_transport, obd2_error, bytes) act" where
  "mock_read t =
    (case mt_pending_response t of
       response # rest \<Rightarrow> (Inr (text_bytes response), t\<lparr>mt_pending_response := rest\<rparr>)
     | [] \<Rightarrow> (Inl Timeout, t))"

definition mock_reset :: "(mock_transport, obd2_error, unit) act" where
  "mock_reset t = (Inr (), t\<lparr>mt_pending_response := []\<rparr>)"

definition mock_link :: "mock_transport link" where
  "mock_link = \<lparr>ln_write = mock_write, ln_read = mock_read, ln_reset = mock_reset\<rparr>"

section \<open>Links that hold a dialogue\<close>

lemma bytes_text_text_bytes [simp]: "bytes_text (text_bytes s) = s"
proof -
  have "char_of (unat (char_byte c)) = c" for c
  proof -
    have "char_byte c = of_nat (of_char c)" by (simp only: char_byte_def of_nat_of_char)
    then have "unat (char_byte c) = of_char c mod 256"
      by (simp only: unsigned_of_nat take_bit_eq_mod) simp
    then show ?thesis by (simp only: char_of_mod_256 char_of_char)
  qed
  then show ?thesis by (induction s) (auto simp: bytes_text_def text_bytes_def)
qed

text \<open>
  What the adapter relies on: a link in the state \<open>dialogue ((cmd, resp) # rest)\<close> answers \<open>resp\<close> to
  the command \<open>cmd\<close> and is then ready for the rest of the dialogue, for the answers that the link
  can deliver (a line without any byte of an answer can only time out).
\<close>

definition plain_command :: "string \<Rightarrow> bool" where
  "plain_command cmd \<longleftrightarrow> str_trim (cmd @ [CHR 0x0D]) = cmd"

locale dialogue_link =
  fixes L :: "'l link"
    and dialogue :: "(string \<times> string) list \<Rightarrow> 'l"
    and deliverable :: "string \<Rightarrow> bool"
  assumes answered: "plain_command cmd \<Longrightarrow> deliverable resp \<Longrightarrow>
    \<exists>l. ln_write L (text_bytes (cmd @ [CHR 0x0D])) (dialogue ((cmd, resp) # rest)) = (Inr (), l)
      \<and> ln_read L l = (Inr (text_bytes resp), dialogue rest)"

text \<open>An answer that raises no event: no NUL byte, none of the status words.\<close>

definition quiet_answer :: "string \<Rightarrow> bool" where
  "quiet_answer resp \<longleftrightarrow> 0 \<notin> set (text_bytes resp) \<and> response_events resp = []"

lemma quiet_no_fault: "quiet_answer resp \<Longrightarrow>
    \<not> str_contains (str_trim resp) ''ERR94'' \<and> \<not> str_contains (str_trim resp) ''LV RESET''"
  by (auto simp: quiet_answer_def response_events_def event_if_def Let_def)

lemma sanitize_quiet: "0 \<notin> set (text_bytes resp) \<Longrightarrow> sanitize_response_bytes (text_bytes resp) s = (Inr resp, s)"
proof -
  assume "0 \<notin> set (text_bytes resp)"
  then have "filter (\<lambda>b. b \<noteq> 0) (text_bytes resp) = text_bytes resp" by (auto simp: filter_id_conv)
  then show ?thesis by (simp add: sanitize_response_bytes_def)
qed

context dialogue_link begin

lemma send_command_raw_answered:
  assumes "plain_command cmd" "deliverable resp" "0 \<notin> set (text_bytes resp)"
    and "el_transport s = dialogue ((cmd, resp) # rest)"
  shows "send_command_raw L cmd s = (Inr resp, s\<lparr>el_transport := dialogue rest\<rparr>)"
proof -
  from answered [OF assms(1,2), of rest] obtain l
    where w: "ln_write L (text_bytes (cmd @ [CHR 0x0D])) (dialogue ((cmd, resp) # rest)) = (Inr (), l)"
      and r: "ln_read L l = (Inr (text_bytes resp), dialogue rest)" by blast
  show ?thesis
    unfolding send_command_raw_def seq_act_def bind_act_def on_transport_def assms(4) w
    by (simp add: r sanitize_quiet [OF assms(3)])
qed

lemma send_command_answered:
  assumes "plain_command cmd" "deliverable resp" "quiet_answer resp"
    and "el_transport s = dialogue ((cmd, resp) # rest)"
  shows "send_command L cmd s = (Inr resp, s\<lparr>el_transport := dialogue rest\<rparr>)"
  using send_command_raw_answered [OF assms(1,2) _ assms(4)] assms(3) quiet_no_fault [OF assms(3)]
  by (simp add: send_command_def bind_act_def seq_act_def modify_act_def record_response_events_def
      handle_fault_recovery_def quiet_answer_def)

lemma send_all_answered:
  assumes "list_all (\<lambda>(c, r). plain_command c \<and> deliverable r \<and> 0 \<notin> set (text_bytes r)) d"
    and "el_transport s = dialogue (d @ rest)"
  shows "send_all L (map fst d) s = (Inr (), s\<lparr>el_transport := dialogue rest\<rparr>)"
  using assms
proof (induction d arbitrary: s)
  case (Cons cr d)
  obtain c r where "cr = (c, r)" by (cases cr)
  with Cons send_command_raw_answered [of c r s "d @ rest"] show ?case by (simp add: bind_act_def)
qed simp

lemma send_all_checked_answered:
  assumes "list_all (\<lambda>(c, r). plain_command c \<and> deliverable r \<and> quiet_answer r) d"
    and "el_transport s = dialogue (d @ rest)"
  shows "send_all_checked L (map fst d) s = (Inr (), s\<lparr>el_transport := dialogue rest\<rparr>)"
  using assms
proof (induction d arbitrary: s)
  case (Cons cr d)
  obtain c r where "cr = (c, r)" by (cases cr)
  with Cons send_command_answered [of c r s "d @ rest"] show ?case by (simp add: bind_act_def)
qed simp

text \<open>A broadcast request to an adapter without a header: the answers of the modules, the first one
  truncated to the length of the PID. Answers without a byte after the prefix do not count.\<close>

lemma broadcast_printed:
  assumes "el_current_header s = None" "response_skip sid \<le> Suc (length data)"
    and "resp = elm_text (map (\<lambda>d. (sid + 0x40) # take (response_skip sid - 1) data @ d) ds)"
    and "plain_command (hex_compact (sid # data))" "deliverable resp" "quiet_answer resp"
    and "el_transport s = dialogue ((hex_compact (sid # data), resp) # rest)"
  shows "\<exists>r. send_routed_command L sid data PBroadcast s = (r, s\<lparr>el_transport := dialogue rest\<rparr>)
    \<and> (case filter (\<lambda>d. d \<noteq> []) ds of [] \<Rightarrow> isl r | d # _ \<Rightarrow> r = Inr (truncate_known_payload sid data d))"
proof -
  have skip: "response_skip sid = Suc (response_skip sid - 1)" by (simp add: response_skip_def)
  have cmd: "hex_byte sid @ hex_compact data = hex_compact (sid # data)" by (simp add: hex_compact_def)
  let ?fam = "protocol_family (s\<lparr>el_transport := dialogue rest\<rparr>)"
  let ?r = "decode_routed_response ?fam sid data (hex_compact (sid # data)) resp"
  have le: "response_skip sid - 1 \<le> length data" using assms(2) by simp
  obtain err where "decode_elm_response_payloads_for_command resp ?fam (response_skip sid) (Some (hex_compact (sid # data)))
      = (if filter (\<lambda>d. d \<noteq> []) ds = [] then Inl err else Inr (filter (\<lambda>d. d \<noteq> []) ds))"
    using elm_payloads_of_printed [OF le, of sid ds ?fam] skip unfolding assms(3) by auto
  then have dec: "case filter (\<lambda>d. d \<noteq> []) ds of [] \<Rightarrow> isl ?r | d # _ \<Rightarrow> ?r = Inr (truncate_known_payload sid data d)"
    using skip by (cases "check_response_error resp")
      (auto simp: decode_routed_response_def decode_elm_response_payload_for_command_def
        expected_prefix_is_used_def Let_def split: list.split)
  have "send_routed_command L sid data PBroadcast s = (?r, s\<lparr>el_transport := dialogue rest\<rparr>)"
    using send_command_answered [OF assms(4-7)] assms(1)
    by (simp add: send_routed_command_def seq_act_def bind_act_def apply_target_def clear_targeting_def
        Let_def cmd)
  with dec show ?thesis by blast
qed

lemma broadcast_answered:
  assumes "el_current_header s = None" "response_skip sid \<le> Suc (length data)"
    and "ds \<noteq> []" "list_all (\<lambda>d. d \<noteq> []) ds"
    and "resp = elm_text (map (\<lambda>d. (sid + 0x40) # take (response_skip sid - 1) data @ d) ds)"
    and "plain_command (hex_compact (sid # data))" "deliverable resp" "quiet_answer resp"
    and "el_transport s = dialogue ((hex_compact (sid # data), resp) # rest)"
  shows "send_routed_command L sid data PBroadcast s
    = (Inr (truncate_known_payload sid data (hd ds)), s\<lparr>el_transport := dialogue rest\<rparr>)"
proof -
  have "filter (\<lambda>d. d \<noteq> []) ds = ds" using assms(4) by (auto simp: filter_id_conv list_all_iff)
  with broadcast_printed [OF assms(1,2,5-9)] assms(3) show ?thesis by (cases ds) auto
qed

end

section \<open>The mock link holds a dialogue\<close>

definition mock_dialogue :: "(string \<times> string) list \<Rightarrow> mock_transport" where
  "mock_dialogue ds = \<lparr>mt_expectations = ds, mt_pending_response = []\<rparr>"

interpretation mock: dialogue_link mock_link mock_dialogue "\<lambda>_. True"
  by unfold_locales (simp add: mock_link_def mock_write_def mock_read_def mock_dialogue_def plain_command_def)

end
