(* ===== verification/ElmLaws.thy ===== *)
theory ElmLaws
  imports MockLink
begin

text \<open>
  Properties of the ELM327 adapter: its invariant over any link, the contract that sessions rely on,
  initialization and requests over a link that holds a dialogue, and what a lost answer to a header
  change leaves behind.
\<close>

section \<open>What requests keep\<close>

text \<open>A property that no change of the link, of the pending events or of the header can break.\<close>

definition insensitive :: "('l elm327 \<Rightarrow> bool) \<Rightarrow> bool" where
  "insensitive I \<longleftrightarrow> (\<forall>s l ev h. I s \<longrightarrow> I (s\<lparr>el_transport := l, el_events := ev, el_current_header := h\<rparr>))"

lemma insensitiveD:
  assumes "insensitive I" "I s"
  shows "I (s\<lparr>el_transport := l\<rparr>)" "I (s\<lparr>el_events := ev\<rparr>)" "I (s\<lparr>el_current_header := h\<rparr>)"
proof -
  have upd: "I (s\<lparr>el_transport := l, el_events := ev, el_current_header := h\<rparr>)" for l ev h
    using assms by (simp add: insensitive_def)
  show "I (s\<lparr>el_transport := l\<rparr>)" using upd [where l = l and ev = "el_events s" and h = "el_current_header s"] by simp
  show "I (s\<lparr>el_events := ev\<rparr>)" using upd [where l = "el_transport s" and ev = ev and h = "el_current_header s"] by simp
  show "I (s\<lparr>el_current_header := h\<rparr>)" using upd [where l = "el_transport s" and ev = "el_events s" and h = h] by simp
qed

named_theorems elm_keeps \<open>what the adapter's operations preserve\<close>

declare preserves_try [elm_keeps]

lemma keeps_on_transport [elm_keeps]: "insensitive I \<Longrightarrow> preserves I (on_transport m)"
  by (simp add: preserves_def on_transport_def insensitiveD split: prod.split)

lemma keeps_push: "insensitive I \<Longrightarrow> I s \<Longrightarrow> I (push_event kind detail s)"
  by (simp add: push_event_def insensitiveD)

lemma keeps_sanitize [elm_keeps]: "insensitive I \<Longrightarrow> preserves I (sanitize_response_bytes bs)"
  by (simp add: preserves_def sanitize_response_bytes_def Let_def keeps_push)

lemma keeps_send_raw [elm_keeps]: "insensitive I \<Longrightarrow> preserves I (send_command_raw L cmd)"
  unfolding send_command_raw_def by (intro preserves_seq preserves_bind elm_keeps)

lemma keeps_send_all [elm_keeps]: "insensitive I \<Longrightarrow> preserves I (send_all L cmds)"
  by (induction cmds) (auto intro: preserves_bind elm_keeps)

lemma keeps_recovery [elm_keeps]:
  assumes "insensitive I"
  shows "preserves I (handle_fault_recovery L response)"
  unfolding handle_fault_recovery_def recover_from_adapter_fault_def apply_runtime_defaults_def Let_def
  by (intro preserves_if preserves_seq preserves_bind elm_keeps preserves_modify preserves_basic
      keeps_push [OF assms] insensitiveD(3) [OF assms] assms)

lemma keeps_send [elm_keeps]:
  assumes "insensitive I"
  shows "preserves I (send_command L cmd)"
  unfolding send_command_def record_response_events_def
  by (intro preserves_bind preserves_seq elm_keeps preserves_modify preserves_basic insensitiveD(2) [OF assms] assms)

lemma keeps_set_header [elm_keeps]:
  assumes "insensitive I"
  shows "preserves I (set_header L header)"
proof -
  have "preserves I (bind_act (send_command L (''AT SH '' @ header)) (\<lambda>response.
       if \<not> str_contains response ''OK''
       then fail (Adapter (Fmt ''AT SH failed: {}'' [ArgStr (str_trim response)]))
       else modify_act (\<lambda>s. push_event (HeaderChanged header) None (s\<lparr>el_current_header := Some header\<rparr>))))"
    by (intro preserves_bind elm_keeps preserves_if preserves_modify preserves_basic keeps_push [OF assms]
        insensitiveD(3) [OF assms] assms)
  then show ?thesis by (simp add: preserves_def set_header_def)
qed

lemma keeps_clear_targeting [elm_keeps]:
  assumes "insensitive I"
  shows "preserves I (clear_targeting L)"
proof -
  have "preserves I (seq_act (set_header L header)
      (modify_act (push_event (HeaderReset header) (Some ''restored broadcast header''))))" for header
    by (intro preserves_seq elm_keeps preserves_modify keeps_push [OF assms] assms)
  with assms show ?thesis by (simp add: preserves_def clear_targeting_def insensitiveD split: option.split)
qed

lemma keeps_routed [elm_keeps]:
  assumes "insensitive I"
  shows "preserves I (send_routed_command L sid data target)"
proof -
  have "preserves I (apply_target L target)"
    using assms by (auto simp: apply_target_def intro: elm_keeps split: physical_target.split physical_address.split)
  moreover have "preserves I (\<lambda>s. (f s, s))" for f :: "'a elm327 \<Rightarrow> bytes res"
    by (simp add: preserves_def)
  ultimately show ?thesis
    unfolding send_routed_command_def Let_def using assms
    by (intro preserves_seq preserves_bind elm_keeps)
qed

lemma keeps_battery [elm_keeps]: "insensitive I \<Longrightarrow> preserves I (elm_battery_voltage L)"
  unfolding elm_battery_voltage_def by (intro preserves_bind elm_keeps preserves_basic)

lemma keeps_supported [elm_keeps]: "insensitive I \<Longrightarrow> preserves I (elm_supported_loop L bases all)"
proof (induction bases arbitrary: all)
  case (Cons base bases)
  have "preserves I (\<lambda>s. case r of Inl _ \<Rightarrow> (Inr all, s)
       | Inr response \<Rightarrow>
           (case decode_elm_response_payloads_for_command response (protocol_family s) 2 (Some cmd) of
              Inr payloads \<Rightarrow> elm_supported_loop L bases (all \<union> pids_of_payloads payloads base) s
            | Inl _ \<Rightarrow> (case check_response_error response of
                   Inl _ \<Rightarrow> (Inr all, s) | Inr _ \<Rightarrow> elm_supported_loop L bases all s)))" for r cmd
    using Cons by (auto simp: preserves_def split: sum.split)
  then show ?case
    unfolding elm_supported_loop.simps Let_def using Cons.prems by (intro preserves_bind elm_keeps)
qed simp

lemma keeps_drain: "insensitive I \<Longrightarrow> I s \<Longrightarrow> I (snd (elm_drain_events s))"
  by (simp add: elm_drain_events_def insensitiveD)

lemma info_insensitive: "insensitive (\<lambda>s. el_info s = i)"
  by (simp add: insensitive_def)

section \<open>The invariant of the adapter\<close>

text \<open>An initialized adapter has a concrete protocol.\<close>

definition elm_inv :: "'l elm327 \<Rightarrow> bool" where
  "elm_inv s \<longleftrightarrow> (el_initialized s \<longrightarrow> ai_protocol (el_info s) \<noteq> ProtoAuto)"

lemma elm_inv_insensitive: "insensitive elm_inv"
  by (simp add: insensitive_def elm_inv_def)

lemma keeps_send_all_checked [elm_keeps]: "insensitive I \<Longrightarrow> preserves I (send_all_checked L cmds)"
  by (induction cmds) (auto intro: preserves_bind elm_keeps)

lemma keeps_probe [elm_keeps]: "insensitive I \<Longrightarrow> preserves I (probe_protocol L p source command)"
  unfolding probe_protocol_def Let_def by (intro preserves_bind elm_keeps preserves_basic)

lemma keeps_fallback [elm_keeps]: "insensitive I \<Longrightarrow> preserves I (probe_fallback L order attempts)"
  by (induction L order attempts rule: probe_fallback.induct) (auto intro!: preserves_bind elm_keeps)

lemma keeps_detect [elm_keeps]: "insensitive I \<Longrightarrow> preserves I (detect_protocol L)"
  unfolding detect_protocol_def Let_def
  by (auto intro!: preserves_bind elm_keeps split: sum.split)

lemma keeps_identify [elm_keeps]: "insensitive I \<Longrightarrow> preserves I (elm_identify L)"
  unfolding elm_identify_def Let_def by (intro preserves_bind elm_keeps preserves_basic)

lemma known_insensitive: "insensitive (\<lambda>s. ai_protocol (el_info s) \<noteq> ProtoAuto)"
  by (simp add: insensitive_def)

lemma finish_inv:
  assumes "ai_protocol (el_info s) \<noteq> ProtoAuto"
  shows "elm_inv (snd (seq_act (apply_protocol_runtime_policy L p)
    (seq_act (modify_act (\<lambda>s. s\<lparr>el_initialized := True\<rparr>)) (elm_report info attempts)) s))"
proof (cases "apply_protocol_runtime_policy L p s")
  case (Pair r s')
  have "ai_protocol (el_info s') \<noteq> ProtoAuto"
    using preservesD [OF keeps_send_all [OF known_insensitive], of s L "protocol_runtime_commands p"] assms Pair
    by (simp add: apply_protocol_runtime_policy_def)
  with Pair show ?thesis
    by (cases r) (simp_all add: seq_act_def bind_act_def modify_act_def elm_report_def elm_drain_events_def elm_inv_def)
qed

lemma elm_finish_inv: "preserves elm_inv (elm_finish L info attempts)"
proof (cases "ai_protocol info = ProtoAuto")
  case True
  then show ?thesis
    by (simp add: elm_finish_def)
      (intro preserves_seq preserves_modify keeps_push [OF elm_inv_insensitive] preserves_basic)
next
  case False
  then show ?thesis by (simp add: elm_finish_def preserves_def finish_inv del: seq_act_eq_Inr)
qed

lemma elm_report_inv: "preserves elm_inv (elm_report info attempts)"
  by (simp add: preserves_def elm_report_def elm_drain_events_def elm_inv_def)

lemma elm_bring_up_inv: "preserves elm_inv (elm_bring_up L)"
  unfolding elm_bring_up_def case_prod_beta
  by (intro preserves_seq preserves_bind preserves_modify keeps_push [OF elm_inv_insensitive]
      keeps_identify keeps_send_all_checked keeps_detect elm_inv_insensitive elm_finish_inv)

lemma initialize_inv: "elm_inv s \<Longrightarrow> elm_inv (snd (elm_initialize L s))"
  by (simp add: elm_initialize_def preservesD [OF elm_report_inv] preservesD [OF elm_bring_up_inv])

lemma elm_report_result:
  "elm_report info attempts s = (Inr rep, s') \<Longrightarrow> ir_info rep = info \<and> el_info s' = el_info s
     \<and> el_initialized s' = el_initialized s"
  by (auto simp: elm_report_def elm_drain_events_def)

lemma initialize_result:
  assumes "elm_initialize L s = (Inr rep, s')"
  shows "el_initialized s' \<and> ir_info rep = el_info s'"
    and "elm_inv s \<Longrightarrow> ai_protocol (el_info s') \<noteq> ProtoAuto"
proof -
  have pol: "el_info s2 = el_info s1" if "apply_protocol_runtime_policy L p s1 = (r, s2)"
    for p and s1 s2 :: "'a elm327" and r
    using preservesD [OF keeps_send_all [OF info_insensitive [of "el_info s1"]], of s1 L "protocol_runtime_commands p"] that
    by (simp add: apply_protocol_runtime_policy_def)
  show *: "el_initialized s' \<and> ir_info rep = el_info s'"
  proof (cases "el_initialized s")
    case True
    with assms show ?thesis by (auto simp: elm_initialize_def dest: elm_report_result)
  next
    case False
    with assms show ?thesis
      by (auto simp: elm_initialize_def elm_bring_up_def elm_finish_def seq_act_eq_Inr bind_act_eq_Inr modify_act_def
          split: if_splits dest!: elm_report_result pol)
  qed
  show "ai_protocol (el_info s') \<noteq> ProtoAuto" if "elm_inv s"
    using initialize_inv [OF that, of L] assms * by (simp add: elm_inv_def)
qed

text \<open>The adapter keeps the contract that sessions rely on, over every link.\<close>

lemma ready_insensitive: "insensitive el_initialized"
  by (simp add: insensitive_def)

lemma elm_keeps_ready_info:
  "el_initialized a \<Longrightarrow> el_initialized (snd (elm_routed_request L req a))"
  "el_info (snd (elm_routed_request L req a)) = el_info a"
  "el_initialized a \<Longrightarrow> el_initialized (snd (elm_battery_voltage L a))"
  "el_info (snd (elm_battery_voltage L a)) = el_info a"
  unfolding elm_routed_request_def
  by (simp_all add: preservesD [OF keeps_routed [OF ready_insensitive]]
      preservesD [OF keeps_routed [OF info_insensitive [of "el_info a"]], of a]
      preservesD [OF keeps_battery [OF ready_insensitive]]
      preservesD [OF keeps_battery [OF info_insensitive [of "el_info a"]], of a])

interpretation elm: adapter_contract "elm_adapter L" el_initialized for L :: "'l link"
proof unfold_locales
  fix a :: "'l elm327"
  show "el_initialized a \<Longrightarrow> \<exists>rep a'. ad_initialize (elm_adapter L) a = (Inr rep, a')
      \<and> ad_info (elm_adapter L) a' = ad_info (elm_adapter L) a"
    by (simp add: elm_adapter_def elm_initialize_def elm_report_def elm_drain_events_def)
qed (simp_all add: elm_adapter_def elm_drain_events_def elm_keeps_ready_info initialize_result(1))

text \<open>The states that the calls of the trait and any change of the link reach from a new adapter.\<close>

inductive elm_reach :: "'l link \<Rightarrow> 'l elm327 \<Rightarrow> bool" for L where
  reach_new: "elm_reach L (elm_new l)"
| reach_initialize: "elm_reach L s \<Longrightarrow> elm_reach L (snd (elm_initialize L s))"
| reach_request: "elm_reach L s \<Longrightarrow> elm_reach L (snd (elm_request L sreq s))"
| reach_routed: "elm_reach L s \<Longrightarrow> elm_reach L (snd (elm_routed_request L req s))"
| reach_supported: "elm_reach L s \<Longrightarrow> elm_reach L (snd (elm_supported_pids L s))"
| reach_battery: "elm_reach L s \<Longrightarrow> elm_reach L (snd (elm_battery_voltage L s))"
| reach_drain: "elm_reach L s \<Longrightarrow> elm_reach L (snd (elm_drain_events s))"
| reach_link: "elm_reach L s \<Longrightarrow> elm_reach L (s\<lparr>el_transport := l\<rparr>)"

lemma elm_request_inv: "preserves elm_inv (elm_request L sreq)"
  unfolding elm_request_def by (auto split: target.split intro: keeps_routed elm_inv_insensitive)

lemma elm_reach_inv: "elm_reach L s \<Longrightarrow> elm_inv s"
proof (induction rule: elm_reach.induct)
  case reach_new
  show ?case by (simp add: elm_inv_def elm_new_def)
next
  case (reach_link s l)
  then show ?case by (simp add: elm_inv_def)
qed (simp_all add: elm_routed_request_def elm_supported_pids_def initialize_inv
    preservesD [OF elm_request_inv] preservesD [OF keeps_routed [OF elm_inv_insensitive]]
    preservesD [OF keeps_supported [OF elm_inv_insensitive]]
    preservesD [OF keeps_battery [OF elm_inv_insensitive]] keeps_drain [OF elm_inv_insensitive]
    del: elm_supported_loop.simps)

section \<open>Initialization over a dialogue\<close>

definition init_info :: "string \<Rightarrow> string \<Rightarrow> protocol \<Rightarrow> adapter_info" where
  "init_info rz rs p =
    (adapter_info_detect rz (if \<not> str_contains rs ''?'' then Some rs else None))\<lparr>ai_protocol := p\<rparr>"

context dialogue_link begin

lemma plain_setup_commands:
  "plain_command ''ATZ''" "plain_command ''STI''" "plain_command ''0100''" "plain_command ''ATDPN''"
  by (simp_all add: plain_command_def str_trim_def trim_end_def is_whitespace_def char_byte_def)

lemma identify_answered:
  assumes "quiet_answer rz" "quiet_answer rs" "deliverable rz" "deliverable rs"
    and "el_transport s = dialogue ((''ATZ'', rz) # (''STI'', rs) # rest)"
  shows "elm_identify L s =
    (Inr (adapter_info_detect rz (if \<not> str_contains rs ''?'' then Some rs else None)),
     s\<lparr>el_transport := dialogue rest\<rparr>)"
  using send_command_answered [OF plain_setup_commands(1) assms(3,1,5)]
    send_command_answered [OF plain_setup_commands(2) assms(4,2), of "s\<lparr>el_transport := dialogue ((''STI'', rs) # rest)\<rparr>" rest]
  by (simp add: elm_identify_def bind_act_def try_act_def)

lemma detect_answered:
  assumes "quiet_answer r0" "quiet_answer rp" "probe_answered r0" "deliverable r0" "deliverable rp"
    and "el_transport s = dialogue ((''0100'', r0) # (''ATDPN'', rp) # rest)"
  shows "detect_protocol L s =
    (Inr ([\<lparr>pa_protocol = ProtoAuto, pa_source = AutoDetect, pa_result = ProbeSuccess,
            pa_detail = Some (str_trim r0)\<rparr>], Some (parse_protocol_response rp)),
     s\<lparr>el_transport := dialogue rest\<rparr>)"
  using send_command_answered [OF plain_setup_commands(3) assms(4,1,6)] assms(3)
    send_command_answered [OF plain_setup_commands(4) assms(5,2), of "s\<lparr>el_transport := dialogue ((''ATDPN'', rp) # rest)\<rparr>" rest]
  by (simp add: detect_protocol_def bind_act_def try_act_def Let_def)

lemma finish_answered:
  assumes "list_all (\<lambda>(c, r). plain_command c \<and> deliverable r \<and> 0 \<notin> set (text_bytes r)) pol"
    and "map fst pol = protocol_runtime_commands (ai_protocol info)" "ai_protocol info \<noteq> ProtoAuto"
    and "el_transport s = dialogue (pol @ rest)"
  shows "elm_finish L info attempts s =
    (Inr \<lparr>ir_info = info, ir_probe_attempts = attempts,
       ir_events = el_events s @ [\<lparr>ae_kind = ProtocolSelected (ai_protocol info), ae_detail = None\<rparr>]\<rparr>,
     s\<lparr>el_transport := dialogue rest, el_info := info, el_initialized := True, el_events := []\<rparr>)"
  using send_all_answered [OF assms(1), of "push_event (ProtocolSelected (ai_protocol info)) None s\<lparr>el_info := info\<rparr>" rest]
    assms(2-4)
  by (simp add: elm_finish_def apply_protocol_runtime_policy_def push_event_def seq_act_Inr elm_report_def
      elm_drain_events_def)

text \<open>Every answer of the set-up dialogue is quiet, the bus query succeeds and \<open>ATDPN\<close> names the protocol.\<close>

lemma initialize_answered:
  assumes "list_all (\<lambda>r. deliverable r \<and> quiet_answer r) [rz, rs, r0, rp]"
    and "list_all (\<lambda>(c, r). plain_command c \<and> deliverable r \<and> quiet_answer r) cfg"
    and "map fst cfg = [''ATE0'', ''ATL0'', ''ATH0'', ''ATS0'', ''ATAT1'', ''ATSP0'']"
    and "list_all (\<lambda>(c, r). plain_command c \<and> deliverable r \<and> 0 \<notin> set (text_bytes r)) pol"
    and "map fst pol = protocol_runtime_commands p"
    and "probe_answered r0" "parse_protocol_response rp = p" "p \<noteq> ProtoAuto"
  shows "elm_initialize L (elm_new (dialogue ((''ATZ'', rz) # (''STI'', rs) # cfg @ (''0100'', r0)
      # (''ATDPN'', rp) # pol @ rest)))
    = (Inr \<lparr>ir_info = init_info rz rs p,
        ir_probe_attempts = [\<lparr>pa_protocol = ProtoAuto, pa_source = AutoDetect, pa_result = ProbeSuccess,
          pa_detail = Some (str_trim r0)\<rparr>],
        ir_events = [\<lparr>ae_kind = EvReset, ae_detail = Some ''initializing adapter''\<rparr>,
          \<lparr>ae_kind = ProtocolSearching, ae_detail = Some ''ATSP0''\<rparr>,
          \<lparr>ae_kind = ProtocolSelected p, ae_detail = None\<rparr>]\<rparr>,
       \<lparr>el_transport = dialogue rest, el_info = init_info rz rs p, el_initialized = True,
        el_current_header = None, el_events = []\<rparr>)"
  using assms
  by (simp add: elm_initialize_def elm_bring_up_def elm_new_def push_event_def
      bind_act_Inr [OF identify_answered [of rz rs]] seq_act_Inr [OF send_all_checked_answered [of cfg, unfolded assms(3)]]
      bind_act_Inr [OF detect_answered [of r0 rp]] finish_answered [of pol _ _ rest] init_info_def
      del: send_all_checked.simps)

text \<open>Initialization and a broadcast request, over any link that holds the dialogue.\<close>

lemma request_printed:
  assumes "list_all (\<lambda>r. deliverable r \<and> quiet_answer r) [rz, rs, r0, rp]"
    and "list_all (\<lambda>(c, r). plain_command c \<and> deliverable r \<and> quiet_answer r) cfg"
    and "map fst cfg = [''ATE0'', ''ATL0'', ''ATH0'', ''ATS0'', ''ATAT1'', ''ATSP0'']"
    and "list_all (\<lambda>(c, r). plain_command c \<and> deliverable r \<and> 0 \<notin> set (text_bytes r)) pol"
    and "map fst pol = protocol_runtime_commands p"
    and "probe_answered r0" "parse_protocol_response rp = p" "p \<noteq> ProtoAuto"
    and "response_skip sid \<le> Suc (length data)"
    and "resp = elm_text (map (\<lambda>d. (sid + 0x40) # take (response_skip sid - 1) data @ d) ds)"
    and "plain_command (hex_compact (sid # data))" "deliverable resp" "quiet_answer resp"
  shows "\<exists>r. bind_act (elm_initialize L) (\<lambda>_. elm_request L
        \<lparr>sr_service_id = sid, sr_data = data, sr_target = Broadcast\<rparr>)
      (elm_new (dialogue ((''ATZ'', rz) # (''STI'', rs) # cfg @ (''0100'', r0) # (''ATDPN'', rp)
        # pol @ (hex_compact (sid # data), resp) # rest)))
    = (r, \<lparr>el_transport = dialogue rest, el_info = init_info rz rs p, el_initialized = True,
        el_current_header = None, el_events = []\<rparr>)
    \<and> (case filter (\<lambda>d. d \<noteq> []) ds of [] \<Rightarrow> isl r | d # _ \<Rightarrow> r = Inr (truncate_known_payload sid data d))"
proof -
  let ?s = "\<lparr>el_transport = dialogue ((hex_compact (sid # data), resp) # rest), el_info = init_info rz rs p,
     el_initialized = True, el_current_header = None, el_events = []\<rparr>"
  note init = initialize_answered [OF assms(1-8), of "(hex_compact (sid # data), resp) # rest"]
  obtain r where "send_routed_command L sid data PBroadcast ?s = (r, ?s\<lparr>el_transport := dialogue rest\<rparr>)"
    "case filter (\<lambda>d. d \<noteq> []) ds of [] \<Rightarrow> isl r | d # _ \<Rightarrow> r = Inr (truncate_known_payload sid data d)"
    using broadcast_printed [OF _ assms(9-13), of ?s rest] by auto
  then show ?thesis by (simp add: bind_act_def init elm_request_def)
qed

lemma request_answered:
  assumes "list_all (\<lambda>r. deliverable r \<and> quiet_answer r) [rz, rs, r0, rp]"
    and "list_all (\<lambda>(c, r). plain_command c \<and> deliverable r \<and> quiet_answer r) cfg"
    and "map fst cfg = [''ATE0'', ''ATL0'', ''ATH0'', ''ATS0'', ''ATAT1'', ''ATSP0'']"
    and "list_all (\<lambda>(c, r). plain_command c \<and> deliverable r \<and> 0 \<notin> set (text_bytes r)) pol"
    and "map fst pol = protocol_runtime_commands p"
    and "probe_answered r0" "parse_protocol_response rp = p" "p \<noteq> ProtoAuto"
    and "response_skip sid \<le> Suc (length data)" "ds \<noteq> []" "list_all (\<lambda>d. d \<noteq> []) ds"
    and "resp = elm_text (map (\<lambda>d. (sid + 0x40) # take (response_skip sid - 1) data @ d) ds)"
    and "plain_command (hex_compact (sid # data))" "deliverable resp" "quiet_answer resp"
  shows "bind_act (elm_initialize L) (\<lambda>_. elm_request L
        \<lparr>sr_service_id = sid, sr_data = data, sr_target = Broadcast\<rparr>)
      (elm_new (dialogue ((''ATZ'', rz) # (''STI'', rs) # cfg @ (''0100'', r0) # (''ATDPN'', rp)
        # pol @ (hex_compact (sid # data), resp) # rest)))
    = (Inr (truncate_known_payload sid data (hd ds)),
       \<lparr>el_transport = dialogue rest, el_info = init_info rz rs p, el_initialized = True,
        el_current_header = None, el_events = []\<rparr>)"
proof -
  have "filter (\<lambda>d. d \<noteq> []) ds = ds" using assms(11) by (auto simp: filter_id_conv list_all_iff)
  with request_printed [OF assms(1-9,12-15), of rest] assms(10) show ?thesis by (cases ds) auto
qed

end

section \<open>Properties\<close>

text \<open>C12: On every state that the calls of the adapter and any behaviour of the link can reach, an
  initialized adapter has a concrete protocol, and an \<open>initialize\<close> that succeeds leaves the
  adapter initialized and reports the information that the adapter then holds, with a concrete
  protocol.\<close>

theorem elm_reachable_protocol_known:
  assumes "elm_reach L s" and "elm_initialize L s = (Inr rep, s')"
  shows "ai_protocol (ir_info rep) \<noteq> ProtoAuto \<and> ir_info rep = el_info s' \<and> el_initialized s'
    \<and> elm_reach L s'"
  using initialize_result(1) [OF assms(2)] initialize_result(2) [OF assms(2) elm_reach_inv [OF assms(1)]]
    reach_initialize [OF assms(1)] assms(2)
  by simp

definition demo_setup :: "(string \<times> string) list" where
  "demo_setup = [(''ATE0'', ''OK''), (''ATL0'', ''OK''), (''ATH0'', ''OK''), (''ATS0'', ''OK''),
    (''ATAT1'', ''OK''), (''ATSP0'', ''OK'')]"

lemmas text_simps = plain_command_def str_trim_def trim_end_def is_whitespace_def char_byte_def
  quiet_answer_def response_events_def event_if_def text_bytes_def

lemma demo_initialize:
  "elm_initialize mock_link (elm_new (mock_dialogue ((''ATZ'', ''ELM327 v1.5'') # (''STI'', ''?>'')
      # demo_setup @ (''0100'', ''4100BE3EB811'') # (''ATDPN'', ''A6'')
      # [(''ATCAF1'', ''OK''), (''ATCFC1'', ''OK'')] @ rest)))
    = (Inr \<lparr>ir_info = init_info ''ELM327 v1.5'' ''?>'' Can11Bit500,
        ir_probe_attempts = [\<lparr>pa_protocol = ProtoAuto, pa_source = AutoDetect, pa_result = ProbeSuccess,
          pa_detail = Some (str_trim ''4100BE3EB811'')\<rparr>],
        ir_events = [\<lparr>ae_kind = EvReset, ae_detail = Some ''initializing adapter''\<rparr>,
          \<lparr>ae_kind = ProtocolSearching, ae_detail = Some ''ATSP0''\<rparr>,
          \<lparr>ae_kind = ProtocolSelected Can11Bit500, ae_detail = None\<rparr>]\<rparr>,
       \<lparr>el_transport = mock_dialogue rest, el_info = init_info ''ELM327 v1.5'' ''?>'' Can11Bit500,
        el_initialized = True, el_current_header = None, el_events = []\<rparr>)"
  by (rule mock.initialize_answered [simplified simp_thms True_implies_equals])
    (simp_all add: demo_setup_def text_simps probe_answered_def parse_protocol_response_def str_remove_def
      protocol_from_elm_code_def protocol_runtime_commands_def Let_def)

lemma elm_reachable_protocol_known_witness:
  "\<exists>(rep :: initialization_report) s'. ai_protocol (ir_info rep) \<noteq> ProtoAuto \<and> ir_info rep = el_info s' \<and> el_initialized s'
     \<and> elm_reach mock_link s'"
  by (intro exI) (rule elm_reachable_protocol_known [OF reach_new demo_initialize [of "[]"]])

lemma demo_answer:
  "quiet_answer (elm_text [[0x41, 0x0C, 0x0A, 0xA0], [0x41, 0x0C, 0x0B, 0xB0]])"
  "plain_command (hex_compact (0x01 # [0x0C]))"
  by code_simp+

text \<open>
  The format of positive answers, from the documents of the repository and not from the adapter: how
  many bytes of the request an answer repeats after its service byte. The modes 01 to 0A are those of
  \<open>docs/functional_reference/sae_j1979_services.md\<close> (05, 06 and 08 do not say); the services 10, 11,
  19, 22 and 27 are those that the UDS client of the crate expects (\<open>protocol/uds.rs\<close>).
\<close>

definition documented_echo_length :: "u8 \<Rightarrow> nat option" where
  "documented_echo_length sid =
    (if sid \<in> {0x03, 0x04, 0x07, 0x0A} then Some 0
     else if sid \<in> {0x01, 0x09, 0x10, 0x11, 0x19, 0x27} then Some 1
     else if sid \<in> {0x02, 0x22} then Some 2
     else None)"

text \<open>The part of that echo that the caller of the adapter gets in front of the data.\<close>

definition undetected_echo :: "u8 \<Rightarrow> bytes \<Rightarrow> bytes" where
  "undetected_echo sid data =
    (if sid = 0x02 then [data ! 1] else if sid \<in> {0x10, 0x11, 0x19, 0x27} then [data ! 0] else [])"

lemma echo_split:
  assumes "documented_echo_length sid = Some n" "n \<le> length data"
  shows "take n data = take (response_skip sid - 1) data @ undetected_echo sid data"
    "response_skip sid \<le> Suc (length data)"
proof -
  have one: "take 1 data = [data ! 0]" if "1 \<le> length data" using that by (cases data) simp_all
  have two: "take 2 data = take 1 data @ [data ! 1]" if "2 \<le> length data"
    using that by (cases data; cases "tl data") simp_all
  have cases: "sid \<in> {0x03, 0x04, 0x07, 0x0A} \<and> n = 0 \<or> sid \<in> {0x01, 0x09} \<and> n = 1
      \<or> sid \<in> {0x10, 0x11, 0x19, 0x27} \<and> n = 1 \<or> sid = 0x02 \<and> n = 2 \<or> sid = 0x22 \<and> n = 2"
    using assms(1) by (auto simp: documented_echo_length_def split: if_splits)
  from cases assms(2) one two show "take n data = take (response_skip sid - 1) data @ undetected_echo sid data"
    by (elim disjE conjE insertE emptyE) (simp_all add: response_skip_def undetected_echo_def)
  from cases assms(2) show "response_skip sid \<le> Suc (length data)"
    by (elim disjE conjE insertE emptyE) (simp_all add: response_skip_def)
qed

lemma documented_cut:
  assumes "documented_echo_length sid = Some n" "n \<le> length data"
  shows "truncate_known_payload sid data d
    = (if sid \<in> {0x01, 0x02} then take (unat (response_bytes (Pid (data ! 0)))) d else d)"
proof (cases data)
  case Nil
  with assms have "sid \<notin> {0x01, 0x02}" by (auto simp: documented_echo_length_def)
  then show ?thesis by (simp add: truncate_known_payload_def)
next
  case (Cons p ps)
  then show ?thesis by (simp add: truncate_known_payload_def)
qed


lemma demo_clear:
  "quiet_answer (elm_text [[0x44]])" "plain_command (hex_compact (0x04 # []))"
  by code_simp+


text \<open>C39: When the answer to a header change is lost (the write succeeds, the read fails), the
  adapter still believes that the previous header is set: a following request to the module of
  that header sends no \<open>AT SH\<close> at all, whatever header the chip has taken over in between.\<close>

theorem elm_lost_header_answer_keeps_stale_header:
  assumes "el_current_header s = Some h0" "h \<noteq> h0"
    and "ln_write L (text_bytes (''AT SH '' @ h @ [CHR 0x0D])) (el_transport s) = (Inr (), l1)"
    and "ln_read L l1 = (Inl e, l2)"
  shows "set_header L h s = (Inl e, s\<lparr>el_transport := l2\<rparr>)
    \<and> set_header L h0 (s\<lparr>el_transport := l2\<rparr>) = (Inr (), s\<lparr>el_transport := l2\<rparr>)"
  using assms
  by (simp_all add: set_header_def send_command_def send_command_raw_def on_transport_def bind_act_def seq_act_def)

lemma elm_lost_header_answer_witness:
  "set_header \<lparr>ln_write = \<lambda>bs l. (Inr (), Suc l), ln_read = \<lambda>l. (Inl Timeout, l), ln_reset = ret ()\<rparr> ''7E1''
      ((elm_new 0)\<lparr>el_current_header := Some ''7E0''\<rparr>) = (Inl Timeout, (elm_new 1)\<lparr>el_current_header := Some ''7E0''\<rparr>)"
  using elm_lost_header_answer_keeps_stale_header [where s = "(elm_new (0::nat))\<lparr>el_current_header := Some ''7E0''\<rparr>"
      and L = "\<lparr>ln_write = \<lambda>bs l. (Inr (), Suc l), ln_read = \<lambda>l. (Inl Timeout, l), ln_reset = ret ()\<rparr>"
      and h = "''7E1''" and h0 = "''7E0''"]
  by (simp add: elm_new_def)

end
