(* ===== verification/SessionLaws.thy ===== *)
theory SessionLaws
  imports SessionFrame ElmLaws
begin

text \<open>
  Properties of sessions: the invariants of every run, single flight and what a dropped request does
  to it, routing, the security gate of actuator control, the connection state, and sessions over
  the ELM327 adapter and the scripted link.
\<close>

section \<open>Fields\<close>

named_theorems session_fields \<open>which fields the steps of a session change\<close>

lemma refresh_fields [session_fields, simp]:
  "ses_request_in_flight (refresh_discovery_profile A s) = ses_request_in_flight s"
  "ses_visible_ecus (refresh_discovery_profile A s) = ses_visible_ecus s"
  "ses_diagnostic_state (refresh_discovery_profile A s) = ses_diagnostic_state s"
  "ses_initialized (refresh_discovery_profile A s) = ses_initialized s"
  "ses_adapter (refresh_discovery_profile A s) = ses_adapter s"
  "ses_profile (refresh_discovery_profile A s) = ses_profile s"
  "ses_probe_attempts (refresh_discovery_profile A s) = ses_probe_attempts s"
  "ses_connection_state (refresh_discovery_profile A s) = ses_connection_state s"
  "ses_specs (refresh_discovery_profile A s) = ses_specs s"
  by (simp_all add: refresh_discovery_profile_def)

lemma apply_events_fields [session_fields, simp]:
  "ses_request_in_flight (apply_adapter_events A ev s) = ses_request_in_flight s"
  "ses_visible_ecus (apply_adapter_events A ev s) = ses_visible_ecus s"
  "ses_diagnostic_state (apply_adapter_events A ev s) = ses_diagnostic_state s"
  "ses_initialized (apply_adapter_events A ev s) = ses_initialized s"
  "ses_adapter (apply_adapter_events A ev s) = ses_adapter s"
  "ses_profile (apply_adapter_events A ev s) = ses_profile s"
  "ses_probe_attempts (apply_adapter_events A ev s) = ses_probe_attempts s"
  "ses_connection_state (apply_adapter_events A ev s) = fold event_transition ev (ses_connection_state s)"
  by (simp_all add: apply_adapter_events_def Let_def)

lemma apply_report_fields [session_fields, simp]:
  "ses_request_in_flight (apply_initialization_report A r s) = ses_request_in_flight s"
  "ses_visible_ecus (apply_initialization_report A r s) = ses_visible_ecus s"
  "ses_diagnostic_state (apply_initialization_report A r s) = ses_diagnostic_state s"
  "ses_initialized (apply_initialization_report A r s) = ses_initialized s"
  "ses_adapter (apply_initialization_report A r s) = ses_adapter s"
  by (simp_all add: apply_initialization_report_def Let_def)

lemma mark_fields [session_fields, simp]:
  "ses_request_in_flight (mark_connection_active_if_recovered s) = ses_request_in_flight s"
  "ses_visible_ecus (mark_connection_active_if_recovered s) = ses_visible_ecus s"
  "ses_diagnostic_state (mark_connection_active_if_recovered s) = ses_diagnostic_state s"
  "ses_initialized (mark_connection_active_if_recovered s) = ses_initialized s"
  "ses_adapter (mark_connection_active_if_recovered s) = ses_adapter s"
  "ses_profile (mark_connection_active_if_recovered s) = ses_profile s"
  "ses_probe_attempts (mark_connection_active_if_recovered s) = ses_probe_attempts s"
  "ses_discovery (mark_connection_active_if_recovered s) = ses_discovery s"
  by (simp_all add: mark_connection_active_if_recovered_def split: connection_state.split)

lemma record_visible_fields [session_fields, simp]:
  "ses_request_in_flight (record_visible_target t s) = ses_request_in_flight s"
  "ses_diagnostic_state (record_visible_target t s) = ses_diagnostic_state s"
  "ses_initialized (record_visible_target t s) = ses_initialized s"
  "ses_adapter (record_visible_target t s) = ses_adapter s"
  "ses_profile (record_visible_target t s) = ses_profile s"
  "ses_discovery (record_visible_target t s) = ses_discovery s"
  "ses_probe_attempts (record_visible_target t s) = ses_probe_attempts s"
  "ses_connection_state (record_visible_target t s) = ses_connection_state s"
  by (simp_all add: record_visible_target_def Let_def case_prod_beta split: physical_target.split option.split)

text \<open>A step that starts with initialization or with the busy check.\<close>

lemma preserves_ensure:
  assumes "preserves I (session_initialize A)"
  shows "preserves I (ensure_initialized A)"
proof -
  have "preserves I (bind_act (session_initialize A) (\<lambda>_. ret ()))"
    by (intro preserves_bind assms preserves_basic)
  then show ?thesis by (simp add: preserves_def ensure_initialized_def)
qed

lemma preserves_initialize:
  assumes "\<And>s. I s \<Longrightarrow> I (s\<lparr>ses_connection_state := ProtocolNegotiating\<rparr>)"
    and "preserves I (on_adapter (ad_initialize A))"
    and "\<And>s s' report. on_adapter (ad_initialize A) s = (Inr report, s') \<Longrightarrow> I s \<Longrightarrow>
      I (refresh_discovery_profile A
         ((apply_initialization_report A report
             (s'\<lparr>ses_initialized := True, ses_connection_state := AdapterInitialized\<rparr>))
           \<lparr>ses_connection_state := Connected\<rparr>))"
  shows "preserves I (session_initialize A)"
proof -
  have "I (snd (session_initialize A s))" if "I s" for s
  proof -
    let ?s = "s\<lparr>ses_connection_state := ProtocolNegotiating\<rparr>"
    have "I ?s" using assms(1) that .
    then show ?thesis
      using preservesD [OF assms(2), of ?s] assms(3) [of ?s]
      by (cases "on_adapter (ad_initialize A) ?s"; cases "fst (on_adapter (ad_initialize A) ?s)")
        (simp_all add: session_initialize_def bind_act_def get_act_def)
  qed
  then show ?thesis by (simp add: preserves_def)
qed

lemma preserves_busy:
  assumes "\<And>s. I s \<Longrightarrow> \<not> ses_request_in_flight s \<Longrightarrow> I (snd (m s))"
  shows "preserves I (\<lambda>s. if ses_request_in_flight s then (Inl AdapterBusy, s) else m s)"
  using assms by (simp add: preserves_def)

section \<open>Single flight\<close>

lemma conclude_fields [session_fields, simp]:
  "ses_request_in_flight (snd (conclude_request A r s)) = False"
  "ses_diagnostic_state (snd (conclude_request A r s)) = ses_diagnostic_state s"
  "ses_visible_ecus (snd (conclude_request A r s)) = ses_visible_ecus s"
  by (simp_all add: conclude_request_def case_prod_beta Let_def split: sum.split)

lemma exchange_fields [session_fields, simp]:
  "ses_request_in_flight (snd (routed_exchange A routed s)) = False"
  "ses_diagnostic_state (snd (routed_exchange A routed s)) = ses_diagnostic_state s"
  by (simp_all add: routed_exchange_def on_adapter_def case_prod_beta Let_def)

lemma send_request_flag: "ses_request_in_flight (snd (send_request A req s)) = ses_request_in_flight s"
  by (simp add: send_request_def Let_def split: sum.split)

interpretation flag: session_invariant A "\<lambda>s. ses_request_in_flight s = b" for A :: "'a adapter" and b
proof unfold_locales
  have init: "preserves (\<lambda>s. ses_request_in_flight s = b) (session_initialize A)"
    by (rule preserves_initialize) (auto simp: preserves_def on_adapter_def case_prod_beta)
  note ens = preserves_ensure [OF init]
  show "preserves (\<lambda>s. ses_request_in_flight s = b) (session_initialize A)" by (rule init)
  show "preserves (\<lambda>s. ses_request_in_flight s = b) (ensure_initialized A)" by (rule ens)
  show "preserves (\<lambda>s. ses_request_in_flight s = b) (send_request A req)" for req
    by (simp add: preserves_def send_request_flag)
  show "preserves (\<lambda>s. ses_request_in_flight s = b) (raw_physical_request A sid data address)" for sid data address
    unfolding raw_physical_request_def by (intro preserves_seq ens preserves_busy) simp
  show "preserves (\<lambda>s. ses_request_in_flight s = b) (session_battery_voltage A)"
    unfolding session_battery_voltage_def
    by (intro preserves_seq ens preserves_busy) (simp add: case_prod_beta Let_def)
qed simp_all

section \<open>The discovery profile is current\<close>

definition discovery_fresh :: "'a adapter \<Rightarrow> ('a \<Rightarrow> bool) \<Rightarrow> 'a session \<Rightarrow> bool" where
  "discovery_fresh A ready s \<longleftrightarrow>
    (ses_initialized s \<longrightarrow> ready (ses_adapter s) \<and>
      ses_discovery s = Some (resolve_discovery_profile (ad_info A (ses_adapter s)) (ses_spec s)
        (ses_probe_attempts s) (ses_visible_ecus s)))"

lemma spec_of_profile: "ses_profile s = ses_profile s' \<Longrightarrow> ses_spec s = ses_spec s'"
  by (simp add: ses_spec_def)

lemma refresh_fresh: "(ses_initialized s \<Longrightarrow> ready (ses_adapter s)) \<Longrightarrow> discovery_fresh A ready (refresh_discovery_profile A s)"
  unfolding discovery_fresh_def refresh_discovery_profile_def by (simp add: ses_spec_def)

lemma conclude_fresh:
  assumes "ses_initialized s \<Longrightarrow> ready (snd (ad_drain_events A (ses_adapter s)))"
  shows "discovery_fresh A ready (snd (conclude_request A r s))"
proof -
  let ?t = "s\<lparr>ses_adapter := snd (ad_drain_events A (ses_adapter s)), ses_request_in_flight := False,
    ses_connection_state := fold event_transition (fst (ad_drain_events A (ses_adapter s))) (ses_connection_state s)\<rparr>"
  let ?u = "apply_adapter_events A (fst (ad_drain_events A (ses_adapter s)))
      (s\<lparr>ses_adapter := snd (ad_drain_events A (ses_adapter s)), ses_request_in_flight := False\<rparr>)"
  have u: "?u = (if ses_initialized s then refresh_discovery_profile A ?t else ?t)"
    by (simp add: apply_adapter_events_def)
  have f: "discovery_fresh A ready ?u"
    unfolding u using assms refresh_fresh [of ?t ready A] by (simp add: discovery_fresh_def)
  then have "discovery_fresh A ready (mark_connection_active_if_recovered ?u)"
    by (simp add: discovery_fresh_def ses_spec_def)
  with f show ?thesis by (simp add: conclude_request_def case_prod_beta Let_def split: sum.split)
qed

sublocale adapter_contract \<subseteq> fresh: session_invariant A "discovery_fresh A ready"
proof unfold_locales
  let ?I = "discovery_fresh A ready"
  have exch: "?I (snd (routed_exchange A routed s))" if "ses_initialized s \<Longrightarrow> ready (ses_adapter s)" for routed s
    unfolding routed_exchange_def
    by (simp add: case_prod_beta Let_def on_adapter_def, intro conclude_fresh) (use that drain_ready routed_ready in simp)
  have init: "preserves ?I (session_initialize A)"
  proof -
    have "?I (snd (session_initialize A s))" if "?I s" for s
    proof (cases "ad_initialize A (ses_adapter s)")
      case (Pair r a)
      show ?thesis
      proof (cases r)
        case (Inl e)
        have "\<not> ses_initialized s"
          using that ready_init [of "ses_adapter s"] Pair Inl by (auto simp: discovery_fresh_def)
        with Pair Inl show ?thesis
          by (simp add: session_initialize_def bind_act_def on_adapter_def discovery_fresh_def)
      next
        case (Inr rep)
        with Pair init_ready [of "ses_adapter s" rep a] show ?thesis
          by (simp add: session_initialize_def bind_act_def on_adapter_def get_act_def refresh_fresh)
      qed
    qed
    then show ?thesis by (simp add: preserves_def)
  qed
  note ens = preserves_ensure [OF init]
  show "preserves ?I (session_initialize A)" by (rule init)
  show "preserves ?I (ensure_initialized A)" by (rule ens)
  show "preserves ?I (send_request A req)" for req
  proof -
    have "?I (snd (send_request A req s))" if "?I s" for s
      using that exch [of "s\<lparr>ses_request_in_flight := True\<rparr>"]
      by (simp add: send_request_def Let_def discovery_fresh_def ses_spec_def split: sum.split)
    then show ?thesis by (simp add: preserves_def)
  qed
  show "preserves ?I (raw_physical_request A sid data address)" for sid data address
    unfolding raw_physical_request_def
    by (intro preserves_seq ens preserves_busy exch) (simp add: discovery_fresh_def)
  show "preserves ?I (session_battery_voltage A)"
    unfolding session_battery_voltage_def
    by (intro preserves_seq ens preserves_busy)
      (simp add: case_prod_beta Let_def on_adapter_def, intro conclude_fresh,
        simp add: discovery_fresh_def drain_ready battery_ready)
  show "?I (s\<lparr>ses_supported_pids_cache := c\<rparr>)" if "?I s" for s c
    using that by (simp add: discovery_fresh_def ses_spec_def)
  show "?I (refresh_discovery_profile A (s\<lparr>ses_profile := p\<rparr>))" if "?I s" for s p
    by (intro refresh_fresh) (use that in \<open>simp add: discovery_fresh_def\<close>)
  show "?I (s\<lparr>ses_diagnostic_state := d\<rparr>)" if "?I s" for s d
    using that by (simp add: discovery_fresh_def ses_spec_def)
qed

section \<open>Visible ECUs\<close>

definition visible_ok :: "visible_ecu list \<Rightarrow> bool" where
  "visible_ok es \<longleftrightarrow> distinct (map ve_id es)
     \<and> list_all (\<lambda>e. case ve_address e of Some a \<Rightarrow> ve_id e = debug_address a | None \<Rightarrow> False) es"

lemma count_visible_None: "count_visible i es = None \<longleftrightarrow> i \<notin> ve_id ` set es"
  by (induction es) auto

lemma count_visible_Some:
  "count_visible i es = Some es' \<Longrightarrow> map ve_id es' = map ve_id es \<and> map ve_address es' = map ve_address es"
  by (induction es arbitrary: es') (auto split: if_splits)

lemma visible_ok_map:
  "map ve_id es' = map ve_id es \<Longrightarrow> map ve_address es' = map ve_address es \<Longrightarrow> visible_ok es' = visible_ok es"
proof -
  assume eq: "map ve_id es' = map ve_id es" "map ve_address es' = map ve_address es"
  have z: "list_all (\<lambda>e. case ve_address e of Some a \<Rightarrow> ve_id e = debug_address a | None \<Rightarrow> False) xs
      = list_all (\<lambda>(i, a). case a of Some a \<Rightarrow> i = debug_address a | None \<Rightarrow> False) (zip (map ve_id xs) (map ve_address xs))" for xs
    by (induction xs) auto
  show ?thesis by (simp add: visible_ok_def z eq)
qed

lemma record_visible_ok:
  assumes "visible_ok (ses_visible_ecus s)"
  shows "visible_ok (ses_visible_ecus (record_visible_target t s))"
proof (cases t)
  case (Addressed a)
  show ?thesis
  proof (cases "count_visible (debug_address a) (ses_visible_ecus s)")
    case None
    then have "debug_address a \<notin> ve_id ` set (ses_visible_ecus s)" by (simp add: count_visible_None)
    with assms Addressed None show ?thesis
      by (simp add: record_visible_target_def Let_def case_prod_beta visible_ok_def)
  next
    case (Some es)
    with count_visible_Some [OF Some] assms Addressed show ?thesis
      by (simp add: record_visible_target_def visible_ok_map [of es "ses_visible_ecus s"])
  qed
qed (simp add: assms record_visible_target_def)

lemma exchange_visible:
  "visible_ok (ses_visible_ecus s) \<Longrightarrow> visible_ok (ses_visible_ecus (snd (routed_exchange A routed s)))"
  by (simp add: routed_exchange_def case_prod_beta Let_def on_adapter_def record_visible_ok)

interpretation visible: session_invariant A "\<lambda>s. visible_ok (ses_visible_ecus s)" for A :: "'a adapter"
proof unfold_locales
  let ?I = "\<lambda>s :: 'a session. visible_ok (ses_visible_ecus s)"
  have init: "preserves ?I (session_initialize A)"
    by (rule preserves_initialize) (auto simp: preserves_def on_adapter_def case_prod_beta)
  note ens = preserves_ensure [OF init]
  show "preserves ?I (session_initialize A)" by (rule init)
  show "preserves ?I (ensure_initialized A)" by (rule ens)
  show "preserves ?I (send_request A req)" for req
    by (simp add: preserves_def send_request_def Let_def exchange_visible split: sum.split)
  show "preserves ?I (raw_physical_request A sid data address)" for sid data address
    unfolding raw_physical_request_def by (intro preserves_seq ens preserves_busy) (simp add: exchange_visible)
  show "preserves ?I (session_battery_voltage A)"
    unfolding session_battery_voltage_def
    by (intro preserves_seq ens preserves_busy) (simp add: case_prod_beta Let_def on_adapter_def)
qed simp_all

text \<open>C2: After any run of calls on a session over an ELM327 adapter, whatever the link does and
  whichever calls fail: no request is left in flight; an initialized session has an initialized
  adapter and its discovery profile is the one that the adapter information, the matched spec, the
  probe attempts and the visible ECUs of that moment resolve to; the visible ECUs have distinct
  identifiers, each the text of its address.\<close>

theorem session_run_invariant:
  "let s = snd (run_calls (elm_adapter L) calls (session_new specs (elm_new l)))
   in \<not> ses_request_in_flight s \<and> discovery_fresh (elm_adapter L) el_initialized s
     \<and> visible_ok (ses_visible_ecus s)"
proof -
  define s where "s = snd (run_calls (elm_adapter L) calls (session_new specs (elm_new l)))"
  have "\<not> ses_request_in_flight s"
    by (simp add: s_def flag.inv_run_calls [where b = False, simplified] session_new_def)
  moreover have "discovery_fresh (elm_adapter L) el_initialized s"
    unfolding s_def by (rule elm.fresh.inv_run_calls) (simp add: discovery_fresh_def session_new_def)
  moreover have "visible_ok (ses_visible_ecus s)"
    unfolding s_def by (rule visible.inv_run_calls) (simp add: visible_ok_def session_new_def)
  ultimately show ?thesis by (simp add: s_def)
qed

text \<open>C36: When the future of a request is dropped while the adapter is working on it, the session is
  lost: the in-flight flag is never reset, and after any further calls every request is refused as
  \<open>AdapterBusy\<close>.\<close>

theorem dropped_request_blocks_session:
  assumes "\<not> ses_request_in_flight s"
    and "resolve_request (s\<lparr>ses_request_in_flight := True\<rparr>) req = Inr routed"
  shows "\<exists>s'. run_calls A calls (send_request_dropped A req a s) = (fst (run_calls A calls (send_request_dropped A req a s)), s')
    \<and> ses_request_in_flight s' \<and> send_request A req' s' = (Inl AdapterBusy, s')"
proof -
  have "ses_request_in_flight (send_request_dropped A req a s) = True"
    using assms by (simp add: send_request_dropped_def Let_def)
  then have "ses_request_in_flight (snd (run_calls A calls (send_request_dropped A req a s))) = True"
    by (rule flag.inv_run_calls)
  then show ?thesis
    by (intro exI [of _ "snd (run_calls A calls (send_request_dropped A req a s))"])
      (simp add: send_request_def prod_eq_iff)
qed

definition quiet_adapter :: "unit adapter" where
  "quiet_adapter = \<lparr>ad_initialize = fail NoData, ad_request = (\<lambda>_. ret []), ad_routed_request = (\<lambda>_. ret []),
    ad_supported_pids = ret {}, ad_battery_voltage = ret None, ad_info = (\<lambda>_. default_adapter_info),
    ad_drain_events = (\<lambda>a. ([], a))\<rparr>"

lemma dropped_request_blocks_session_witness:
  "\<exists>s'. run_calls quiet_adapter [CallReadDtcs] (send_request_dropped quiet_adapter (broadcast_request 3 []) () (session_new [] ()))
      = (fst (run_calls quiet_adapter [CallReadDtcs] (send_request_dropped quiet_adapter (broadcast_request 3 []) () (session_new [] ()))), s')
    \<and> ses_request_in_flight s' \<and> send_request quiet_adapter (broadcast_request 3 []) s' = (Inl AdapterBusy, s')"
  by (rule dropped_request_blocks_session [where routed = "\<lparr>rr_service_id = 3, rr_data = [], rr_target = PBroadcast\<rparr>"])
    (simp_all add: session_new_def resolve_request_def broadcast_request_def)

section \<open>The security gate\<close>

text \<open>
  The abstract gate: the modules that a trace of calls may have unlocked. A successful change of the
  diagnostic session closes it for every module, a successful security access opens it for one.
\<close>

fun gate_step :: "session_call \<times> bool \<Rightarrow> module_id set \<Rightarrow> module_id set" where
  "gate_step (CallEnterSession d m, True) U = {}"
| "gate_step (CallEndSession m, True) U = {}"
| "gate_step (CallSecurityAccess m key, True) U = insert m U"
| "gate_step _ U = U"

definition unlocked_modules :: "'a session \<Rightarrow> module_id set" where
  "unlocked_modules s = {m. module_unlocked (ses_diagnostic_state s) m}"

lemma send_request_diag: "ses_diagnostic_state (snd (send_request A req s)) = ses_diagnostic_state s"
  by (simp add: send_request_def Let_def split: sum.split)

lemma initialize_diag: "preserves (\<lambda>s. ses_diagnostic_state s = d) (session_initialize A)"
  by (rule preserves_initialize) (auto simp: preserves_def on_adapter_def case_prod_beta)

interpretation diag: session_frame A "\<lambda>s. ses_diagnostic_state s = d" for A :: "'a adapter" and d
proof unfold_locales
  note ens = preserves_ensure [OF initialize_diag]
  show "preserves (\<lambda>s. ses_diagnostic_state s = d) (ensure_initialized A)" by (rule ens)
  show "preserves (\<lambda>s. ses_diagnostic_state s = d) (send_request A req)" for req
    by (simp add: preserves_def send_request_diag)
  show "preserves (\<lambda>s. ses_diagnostic_state s = d) (raw_physical_request A sid data address)" for sid data address
    unfolding raw_physical_request_def by (intro preserves_seq ens preserves_busy) simp
  show "preserves (\<lambda>s. ses_diagnostic_state s = d) (session_battery_voltage A)"
    unfolding session_battery_voltage_def
    by (intro preserves_seq ens preserves_busy) (simp add: case_prod_beta Let_def on_adapter_def)
qed simp_all

lemma ensure_diag: "ses_diagnostic_state (snd (ensure_initialized A s)) = ses_diagnostic_state s"
  by (rule preservesD [OF diag.frame_init]) simp

lemma other_calls_diag:
  assumes "case c of CallEnterSession d m \<Rightarrow> False | CallSecurityAccess m key \<Rightarrow> False
     | CallEndSession m \<Rightarrow> False | _ \<Rightarrow> True"
  shows "ses_diagnostic_state (snd (run_call A c s)) = ses_diagnostic_state s"
proof (cases "c = CallInitialize")
  case True
  then show ?thesis using preservesD [OF initialize_diag [of "ses_diagnostic_state s" A]] by simp
next
  case False
  with assms show ?thesis by (intro diag.frame_run_call [OF refl]) (cases c; simp)
qed

text \<open>A change of the diagnostic state after an initialized request.\<close>

lemma request_then_diag:
  "ses_diagnostic_state (snd (seq_act (ensure_initialized A) (bind_act (send_request A req) (\<lambda>_. modify_act (set_diagnostic_state d))) s))
     = (if fst (outcome (seq_act (ensure_initialized A) (bind_act (send_request A req) (\<lambda>_. modify_act (set_diagnostic_state d)))) s)
        then d else ses_diagnostic_state s)"
  using ensure_diag [of A s] send_request_diag [of A req]
  by (auto simp: seq_act_def bind_act_def outcome_def modify_act_def set_diagnostic_state_def
      split: prod.split sum.split) (metis snd_conv)+

lemma unlock_module_subset: "module_unlocked (unlock_module m d) n \<Longrightarrow> n = m \<or> module_unlocked d n"
  by (auto simp: unlock_module_def module_unlocked_def split: session_state.splits if_splits)

lemma security_access_unlocks:
  assumes "module_unlocked (ses_diagnostic_state (snd (session_security_access A m key s))) n"
  shows "module_unlocked (ses_diagnostic_state s) n \<or> n = m \<and> fst (outcome (session_security_access A m key) s)"
proof -
  obtain r1 s1 where e: "ensure_initialized A s = (r1, s1)" by fastforce
  obtain r2 s2 where q: "send_request A (module_request 0x27 [0x01] m) s1 = (r2, s2)" by fastforce
  obtain r3 s3 where k: "send_request A (module_request 0x27 (0x02 # key (projr r2)) m) s2 = (r3, s3)" by fastforce
  have d: "ses_diagnostic_state s1 = ses_diagnostic_state s" "ses_diagnostic_state s2 = ses_diagnostic_state s1"
    "ses_diagnostic_state s3 = ses_diagnostic_state s2"
    using ensure_diag [of A s] send_request_diag [of A _ s1] send_request_diag [of A _ s2] e q k by (metis snd_conv)+
  have "session_security_access A m key s =
    (case r1 of Inl x \<Rightarrow> (Inl x, s1) | Inr _ \<Rightarrow>
     case r2 of Inl x \<Rightarrow> (Inl x, s2) | Inr seed \<Rightarrow>
       if seed = [] then (Inl (Adapter (Text ''empty seed from Mode 27'')), s2)
       else if list_all (\<lambda>b. b = 0) seed then (Inr (), s2)
       else (case r3 of Inl x \<Rightarrow> (Inl x, s3)
         | Inr _ \<Rightarrow> (Inr (), set_diagnostic_state (unlock_module m (ses_diagnostic_state s3)) s3)))"
    using k by (cases r1; cases r2)
      (simp_all add: session_security_access_def seq_act_def bind_act_def e q modify_act_def split: sum.split)
  with assms d unlock_module_subset [of m "ses_diagnostic_state s" n] show ?thesis
    by (auto simp: outcome_def set_diagnostic_state_def split: sum.splits if_splits)
qed

lemma gate_step_call:
  assumes "unlocked_modules s \<subseteq> U"
  shows "unlocked_modules (snd (run_call A c s)) \<subseteq> gate_step (c, fst (run_call A c s)) U"
proof -
  have closed: "unlocked_modules t = {}" if "ses_diagnostic_state t \<in> {StateDefault, StateExtended [], StateProgramming}"
    for t :: "'a session"
    using that by (auto simp: unlocked_modules_def module_unlocked_def)
  have entered: "entered_state d \<in> {StateDefault, StateExtended [], StateProgramming}" for d
    by (cases d) auto
  show ?thesis
  proof (cases c)
    case (CallEnterSession d m)
    note r = request_then_diag [of A "module_request 0x10 [session_sub_function d] m" "entered_state d" s]
    show ?thesis
    proof (cases "fst (run_call A c s)")
      case True
      with CallEnterSession r have "ses_diagnostic_state (snd (run_call A c s)) = entered_state d"
        by (simp add: enter_diagnostic_session_def)
      with closed entered show ?thesis by simp
    next
      case False
      with CallEnterSession r have "ses_diagnostic_state (snd (run_call A c s)) = ses_diagnostic_state s"
        by (simp add: enter_diagnostic_session_def)
      with assms False CallEnterSession show ?thesis by (simp add: unlocked_modules_def)
    qed
  next
    case (CallEndSession m)
    note r = request_then_diag [of A "module_request 0x10 [0x01] m" StateDefault s]
    show ?thesis
    proof (cases "fst (run_call A c s)")
      case True
      with CallEndSession r have "ses_diagnostic_state (snd (run_call A c s)) = StateDefault"
        by (simp add: end_diagnostic_session_def)
      with closed show ?thesis by simp
    next
      case False
      with CallEndSession r have "ses_diagnostic_state (snd (run_call A c s)) = ses_diagnostic_state s"
        by (simp add: end_diagnostic_session_def)
      with assms False CallEndSession show ?thesis by (simp add: unlocked_modules_def)
    qed
  next
    case (CallSecurityAccess m key)
    have "n \<in> gate_step (c, fst (run_call A c s)) U" if "n \<in> unlocked_modules (snd (run_call A c s))" for n
      using security_access_unlocks [of A m key s n] that assms CallSecurityAccess
      by (cases "fst (run_call A c s)") (auto simp: unlocked_modules_def)
    then show ?thesis by blast
  qed (use assms other_calls_diag [of c A s] in \<open>simp_all add: unlocked_modules_def\<close>)
qed

lemma gate_run_calls:
  "unlocked_modules s \<subseteq> U
   \<Longrightarrow> unlocked_modules (snd (run_calls A cs s)) \<subseteq> fold gate_step (fst (run_calls A cs s)) U"
proof (induction cs arbitrary: s U)
  case (Cons c cs)
  from Cons.IH [OF gate_step_call [OF Cons.prems, of A c]] show ?case
    by (simp add: case_prod_beta Let_def)
qed simp

text \<open>C3: Actuator control is gated: after any run of calls, a module counts as unlocked only when the
  trace of calls holds a successful security access to it after the last successful change or end
  of a diagnostic session. In every other state of an initialized session \<open>actuator_control\<close>
  is refused with \<open>SecurityRequired\<close> before anything is sent, the state unchanged.\<close>

theorem actuator_control_needs_security_access:
  fixes A :: "'a adapter"
  assumes "run_calls A calls (session_new specs a) = (trace, s)" and "ses_initialized s"
    and "m \<notin> fold gate_step trace {}"
  shows "actuator_control A did m command s = (Inl SecurityRequired, s)"
proof -
  have "unlocked_modules (session_new specs a) \<subseteq> {}"
    by (simp add: unlocked_modules_def session_new_def module_unlocked_def)
  from gate_run_calls [OF this, of A calls] assms(1,3) have "m \<notin> unlocked_modules s" by auto
  then show ?thesis
    using assms(2) by (simp add: actuator_control_def seq_act_def bind_act_def ensure_initialized_def unlocked_modules_def)
qed

definition demo_adapter :: "unit adapter" where
  "demo_adapter = quiet_adapter\<lparr>ad_initialize := ret \<lparr>ir_info = default_adapter_info, ir_probe_attempts = [], ir_events = []\<rparr>\<rparr>"

lemma actuator_control_needs_security_access_witness:
  "actuator_control demo_adapter 1 ''ecm'' Activate (snd (run_calls demo_adapter [CallInitialize] (session_new [] ())))
     = (Inl SecurityRequired, snd (run_calls demo_adapter [CallInitialize] (session_new [] ())))"
  by (rule actuator_control_needs_security_access [where calls = "[CallInitialize]" and specs = "[]" and a = "()"
        and trace = "[(CallInitialize, True)]"])
    (simp_all add: demo_adapter_def quiet_adapter_def session_initialize_def bind_act_def on_adapter_def
      get_act_def outcome_def prod_eq_iff Let_def)

section \<open>Routing\<close>

lemma failed_resolution_untouched:
  "\<not> ses_request_in_flight s \<Longrightarrow> resolve_request s req = Inl e \<Longrightarrow> send_request A req s = (Inl e, s)"
proof -
  assume "\<not> ses_request_in_flight s" "resolve_request s req = Inl e"
  moreover have "resolve_request (s\<lparr>ses_request_in_flight := True\<rparr>) req = resolve_request s req"
    by (simp add: resolve_request_def resolve_module_address_def cong: target.case_cong)
  moreover have "s\<lparr>ses_request_in_flight := False\<rparr> = s" if "\<not> ses_request_in_flight s"
    using that by simp
  ultimately show ?thesis by (simp add: send_request_def Let_def)
qed

text \<open>
  The modules that a request may address, straight from the matched spec: those of the first bus with
  the identifier of the active bus, or those of all buses when no bus is active. Of several entries
  with one identifier the last one counts.
\<close>

definition candidate_modules :: "vehicle_spec option \<Rightarrow> resolved_bus option \<Rightarrow> vmodule list" where
  "candidate_modules spec active =
    (case spec of
       None \<Rightarrow> []
     | Some spec \<Rightarrow>
         concat (map bc_modules (case active of
             None \<Rightarrow> cs_buses (vs_communication spec)
           | Some bus \<Rightarrow> take 1 (filter (\<lambda>b. bc_id b = rb_id bus) (cs_buses (vs_communication spec))))))"

lemma collect_modules_append: "collect_modules target (ms @ ns) = collect_modules (collect_modules target ms) ns"
  by (induction target ms rule: collect_modules.induct) simp_all

lemma collect_buses_modules: "collect_buses target bs = collect_modules target (concat (map bc_modules bs))"
  by (induction target bs rule: collect_buses.induct) (simp_all add: collect_modules_append)

lemma take_1_filter: "take (Suc 0) (filter P xs) = (case find P xs of None \<Rightarrow> [] | Some x \<Rightarrow> [x])"
  by (induction xs) simp_all

lemma resolve_modules_candidates:
  "map_of (resolve_modules spec active) m =
     map_option resolved_of_module (find (\<lambda>vm. vm_id vm = m) (rev (candidate_modules spec active)))"
proof -
  have "resolve_modules spec active = collect_modules [] (candidate_modules spec active)"
    by (auto simp: resolve_modules_def candidate_modules_def collect_buses_modules take_1_filter
        split: option.split)
  then show ?thesis by (simp add: map_of_collect_modules split: option.split)
qed

text \<open>What the adapter is asked: one routed request, then its events are drained.\<close>

lemma routed_exchange_adapter:
  "fst (routed_exchange A routed s) = fst (ad_routed_request A routed (ses_adapter s))"
  "ses_adapter (snd (routed_exchange A routed s))
     = snd (ad_drain_events A (snd (ad_routed_request A routed (ses_adapter s))))"
  by (simp_all add: routed_exchange_def on_adapter_def conclude_request_def case_prod_beta Let_def split: sum.split)

lemma module_request_sent:
  assumes "\<not> ses_request_in_flight s"
  shows "send_request A (module_request sid data m) s =
    (case resolve_module_address s m of
       Inl e \<Rightarrow> (Inl e, s)
     | Inr address \<Rightarrow> routed_exchange A \<lparr>rr_service_id = sid, rr_data = data, rr_target = Addressed address\<rparr>
         (s\<lparr>ses_request_in_flight := True\<rparr>))"
proof (cases "resolve_module_address s m")
  case (Inl e)
  then have "resolve_request s (module_request sid data m) = Inl e"
    by (simp add: resolve_request_def module_request_def)
  with failed_resolution_untouched [OF assms] Inl show ?thesis by simp
next
  case (Inr address)
  moreover have "resolve_module_address (s\<lparr>ses_request_in_flight := True\<rparr>) m = resolve_module_address s m"
    by (simp add: resolve_module_address_def)
  ultimately show ?thesis using assms
    by (simp add: send_request_def resolve_request_def module_request_def)
qed

text \<open>C4: A module request on an initialized session makes one call of the adapter: its own service
  and data, addressed (never broadcast) to the address that the matched spec gives the module on the
  active bus (on any bus of the spec when none is active), and its result is the answer of that call.
  A module that is not among the candidates is \<open>ModuleNotFound\<close>, one that is declared for another
  bus \<open>BusNotAvailable\<close>; neither reaches the adapter or changes the session. The active bus is
  one of the spec with the adapter's protocol, or its only bus.\<close>

theorem module_requests_stay_on_active_bus:
  assumes "discovery_fresh A ready s" and "ses_initialized s" and "\<not> ses_request_in_flight s"
    and "active = resolve_active_bus (ai_protocol (ad_info A (ses_adapter s))) (ses_spec s)"
    and "(result, s') = send_request A (module_request sid data m) s"
  shows "(case find (\<lambda>vm. vm_id vm = m) (rev (candidate_modules (ses_spec s) active)) of
      None \<Rightarrow> result = Inl (ModuleNotFound m) \<and> s' = s
    | Some vm \<Rightarrow>
        if (case active of None \<Rightarrow> False | Some bus \<Rightarrow> vm_bus vm \<noteq> rb_id bus)
        then result = Inl (BusNotAvailable (vm_bus vm)) \<and> s' = s
        else (let sent = ad_routed_request A \<lparr>rr_service_id = sid, rr_data = data, rr_target = Addressed (vm_address vm)\<rparr>
                (ses_adapter s)
              in result = fst sent \<and> ses_adapter s' = snd (ad_drain_events A (snd sent))))
    \<and> pred_option (\<lambda>bus. \<exists>spec b. ses_spec s = Some spec \<and> b \<in> set (cs_buses (vs_communication spec))
      \<and> bus = to_resolved_bus b
      \<and> (bc_protocol b = ai_protocol (ad_info A (ses_adapter s)) \<or> cs_buses (vs_communication spec) = [b])) active"
proof -
  let ?profile = "resolve_discovery_profile (ad_info A (ses_adapter s)) (ses_spec s) (ses_probe_attempts s) (ses_visible_ecus s)"
  from assms(1,2) have disc: "ses_discovery s = Some ?profile" by (simp add: discovery_fresh_def)
  have prof: "dp_modules ?profile = resolve_modules (ses_spec s) active" "dp_active_bus ?profile = active"
    by (simp_all add: resolve_discovery_profile_def Let_def assms(4))
  note sent = module_request_sent [OF assms(3), of A sid data m]
  have bus: "pred_option (\<lambda>bus. \<exists>spec b. ses_spec s = Some spec \<and> b \<in> set (cs_buses (vs_communication spec))
      \<and> bus = to_resolved_bus b
      \<and> (bc_protocol b = ai_protocol (ad_info A (ses_adapter s)) \<or> cs_buses (vs_communication spec) = [b])) active"
    using resolve_active_bus_member [of "ai_protocol (ad_info A (ses_adapter s))"]
    by (cases "ses_spec s"; cases active) (auto simp: assms(4) resolve_active_bus_def)
  show ?thesis
  proof (cases "find (\<lambda>vm. vm_id vm = m) (rev (candidate_modules (ses_spec s) active))")
    case None
    then have "resolve_module_address s m = Inl (ModuleNotFound m)"
      by (simp add: resolve_module_address_def disc prof resolve_modules_candidates)
    with sent assms(5) None bus show ?thesis by simp
  next
    case (Some vm)
    then have "resolve_module_address s m =
      (if (case active of None \<Rightarrow> False | Some bus \<Rightarrow> vm_bus vm \<noteq> rb_id bus)
       then Inl (BusNotAvailable (vm_bus vm)) else Inr (vm_address vm))"
      by (simp add: resolve_module_address_def disc prof resolve_modules_candidates resolved_of_module_def
          split: option.split)
    with sent assms(5) Some bus routed_exchange_adapter [where A = A and s = "s\<lparr>ses_request_in_flight := True\<rparr>"]
    show ?thesis by (auto simp: Let_def split: if_splits dest: arg_cong [where f = fst] arg_cong [where f = snd])
  qed
qed

definition demo_engine :: engine_spec where
  "demo_engine = \<lparr>en_code = ''LB7'', en_displacement_l = 6.6, en_cylinders = 8, en_layout = ''V8'',
    en_aspiration = ''turbo'', en_fuel_type = ''diesel'', en_fuel_system = None, en_compression_ratio = None,
    en_max_power_kw = None, en_max_torque_nm = None, en_redline_rpm = 3450, en_idle_rpm_warm = 680,
    en_idle_rpm_cold = 780, en_firing_order = None, en_ecm_hardware = None\<rparr>"

definition demo_spec :: vehicle_spec where
  "demo_spec = \<lparr>vs_spec_version = None,
    vs_identity = \<lparr>si_name = ''demo'', si_model_years = (2004, 2005), si_makes = [''Chevrolet''],
      si_models = [''Silverado''], si_engine = demo_engine, si_transmission = None, si_vin_match = None\<rparr>,
    vs_communication = \<lparr>cs_buses = [\<lparr>bc_id = ''class2'', bc_protocol = J1850Vpw, bc_speed_bps = 10400,
      bc_modules = [\<lparr>vm_id = ''ecm'', vm_name = ''Engine'', vm_address = AddrJ1850 0x10 (0x6C, 0x10, 0xF1),
        vm_bus = ''class2''\<rparr>], bc_description = None\<rparr>], cs_elm327_protocol_code = None\<rparr>,
    vs_thresholds = None, vs_polling_groups = [], vs_diagnostic_rules = [], vs_known_issues = [],
    vs_dtc_library = None, vs_enhanced_pids = []\<rparr>"

text \<open>An adapter that records what it is asked.\<close>

definition recording_adapter :: "routed_request list adapter" where
  "recording_adapter = \<lparr>ad_initialize = fail NoData, ad_request = (\<lambda>_. ret []),
    ad_routed_request = (\<lambda>r a. (Inr [0x62], a @ [r])), ad_supported_pids = ret {}, ad_battery_voltage = ret None,
    ad_info = (\<lambda>_. default_adapter_info), ad_drain_events = (\<lambda>a. ([], a))\<rparr>"

definition demo_session :: "routed_request list session" where
  "demo_session = refresh_discovery_profile recording_adapter ((session_new [] [])\<lparr>ses_initialized := True,
    ses_profile := Some \<lparr>vp_vin = [], vp_decoded_vin = None, vp_info = None, vp_spec = Some demo_spec,
      vp_supported_pids = {}\<rparr>\<rparr>)"

lemma module_requests_stay_on_active_bus_witness:
  "ses_adapter (snd (send_request recording_adapter (module_request 0x22 [0x16, 0x2F] ''ecm'') demo_session))
     = [\<lparr>rr_service_id = 0x22, rr_data = [0x16, 0x2F], rr_target = Addressed (AddrJ1850 0x10 (0x6C, 0x10, 0xF1))\<rparr>]
   \<and> fst (send_request recording_adapter (module_request 0x22 [0x16, 0x2F] ''ecm'') demo_session) = Inr [0x62]
   \<and> send_request recording_adapter (module_request 0x22 [0x16, 0x2F] ''tcm'') demo_session
     = (Inl (ModuleNotFound ''tcm''), demo_session)"
proof -
  have fresh: "discovery_fresh recording_adapter (\<lambda>_. True) demo_session"
    unfolding demo_session_def by (rule refresh_fresh) simp
  have "ses_initialized demo_session" "\<not> ses_request_in_flight demo_session"
    by (simp_all add: demo_session_def session_new_def)
  note sent = module_requests_stay_on_active_bus [OF fresh this refl prod.collapse, where sid = "0x22" and data = "[0x16, 0x2F]"]
  have state: "ses_spec demo_session = Some demo_spec" "ses_adapter demo_session = []"
    by (simp_all add: demo_session_def session_new_def ses_spec_def)
  have bus: "resolve_active_bus (ai_protocol (ad_info recording_adapter [])) (Some demo_spec)
      = Some (to_resolved_bus (hd (cs_buses (vs_communication demo_spec))))"
    by (simp add: resolve_active_bus_def recording_adapter_def default_adapter_info_def demo_spec_def)
  show ?thesis
    using sent [where m = "''ecm''"] sent [where m = "''tcm''"] unfolding state bus
    by (simp add: candidate_modules_def demo_spec_def to_resolved_bus_def recording_adapter_def Let_def prod_eq_iff)
qed

section \<open>The connection state\<close>

lemma conclude_connection:
  "ses_connection_state (snd (conclude_request A r s)) =
    (let c = fold event_transition (fst (ad_drain_events A (ses_adapter s))) (ses_connection_state s)
     in case r of Inl _ \<Rightarrow> c
        | Inr _ \<Rightarrow> (case c of IgnitionOff \<Rightarrow> Connected | Disconnected \<Rightarrow> Connected | ConnError _ \<Rightarrow> Connected | _ \<Rightarrow> c))"
  by (auto simp: conclude_request_def case_prod_beta Let_def mark_connection_active_if_recovered_def
      split: sum.split connection_state.split)

lemma conclude_result [simp]: "fst (conclude_request A r s) = r"
  by (simp add: conclude_request_def case_prod_beta Let_def)

lemma send_request_concluded:
  assumes "\<not> ses_request_in_flight s"
    and "resolve_request (s\<lparr>ses_request_in_flight := True\<rparr>) req = Inr routed"
    and "ad_routed_request A routed (ses_adapter s) = (r, a)"
  shows "send_request A req s = conclude_request A r
    ((record_visible_target (rr_target routed) (s\<lparr>ses_request_in_flight := True\<rparr>))\<lparr>ses_adapter := a\<rparr>)"
  using assms by (simp add: send_request_def routed_exchange_def on_adapter_def)

text \<open>Over the ELM327 adapter the events come from the text of the answer. Fault recovery and filtered NUL
  bytes add events that do not touch the connection state.\<close>

definition settled :: "connection_state \<Rightarrow> connection_state \<Rightarrow> 'l elm327 \<Rightarrow> bool" where
  "settled c c' a \<longleftrightarrow> fold event_transition (el_events a) c = c'"

lemma settled_push:
  "kind = RecoveryAction ''ATFE'' \<or> (\<exists>n. kind = NullBytesFiltered n) \<Longrightarrow> settled c c' a
   \<Longrightarrow> settled c c' (push_event kind detail a)"
  by (auto simp: settled_def push_event_def event_transition_def)

lemma settled_transport: "preserves (settled c c') (on_transport m)"
  by (simp add: preserves_def on_transport_def settled_def split: prod.split)

lemma settled_sanitize: "preserves (settled c c') (sanitize_response_bytes bs)"
  by (simp add: preserves_def sanitize_response_bytes_def Let_def settled_push)

lemma settled_send_raw: "preserves (settled c c') (send_command_raw L cmd)"
  unfolding send_command_raw_def by (intro preserves_seq preserves_bind settled_transport settled_sanitize)

lemma settled_send_all: "preserves (settled c c') (send_all L cmds)"
  by (induction cmds) (auto intro: preserves_bind settled_send_raw)

lemma settled_recovery: "preserves (settled c c') (handle_fault_recovery L response)"
proof -
  have "settled c c' a \<Longrightarrow> settled c c' (a\<lparr>el_current_header := h\<rparr>)" for a :: "'a elm327" and h
    by (simp add: settled_def)
  then show ?thesis
    unfolding handle_fault_recovery_def recover_from_adapter_fault_def apply_runtime_defaults_def Let_def
    by (intro preserves_if preserves_seq preserves_bind preserves_modify preserves_basic settled_send_raw
        settled_send_all settled_push) simp_all
qed

text \<open>The state that an answer leads to, read off its trimmed text.\<close>

definition answer_state :: "string \<Rightarrow> connection_state \<Rightarrow> connection_state" where
  "answer_state t c =
    (if str_contains t ''ERR94'' \<or> str_contains t ''LV RESET'' then Disconnected
     else if list_ex (str_contains t) [''BUS ERROR'', ''CAN ERROR'', ''DATA ERROR'', ''<RX ERROR'', ''STOPPED'']
       then ConnError t
     else if str_contains t ''LP ALERT'' then IgnitionOff
     else if str_contains t ''BUS BUSY'' then ConnError t
     else c)"

definition connection_lost :: "connection_state \<Rightarrow> bool" where
  "connection_lost c \<longleftrightarrow> (case c of IgnitionOff \<Rightarrow> True | Disconnected \<Rightarrow> True | ConnError _ \<Rightarrow> True | _ \<Rightarrow> False)"

lemma fold_event_if:
  "fold event_transition (event_if b SearchingDisplayed d) c = c"
  "fold event_transition (event_if b UnknownCommand d) c = c"
  "fold event_transition (event_if b BusBusy (Some t)) c = (if b then ConnError t else c)"
  "fold event_transition (event_if b BusError (Some t)) c = (if b then ConnError t else c)"
  "fold event_transition (event_if b CanError (Some t)) c = (if b then ConnError t else c)"
  "fold event_transition (event_if b DataError (Some t)) c = (if b then ConnError t else c)"
  "fold event_transition (event_if b RxError (Some t)) c = (if b then ConnError t else c)"
  "fold event_transition (event_if b Stopped (Some t)) c = (if b then ConnError t else c)"
  "fold event_transition (event_if b (RecoveryAction ''LP ALERT'') d) c = (if b then IgnitionOff else c)"
  "fold event_transition (event_if b Err94 d) c = (if b then Disconnected else c)"
  "fold event_transition (event_if b LowVoltageReset d) c = (if b then Disconnected else c)"
  by (simp_all add: event_if_def event_transition_def)

lemma response_events_state: "fold event_transition (response_events response) c = answer_state (str_trim response) c"
  unfolding response_events_def Let_def fold_append comp_def fold_event_if answer_state_def by simp

lemma routed_answer_state:
  assumes "el_events a = []" "el_current_header a = None"
    and "ln_write L (text_bytes (hex_compact (sid # data) @ [CHR 0x0D])) (el_transport a) = (Inr (), l1)"
    and "ln_read L l1 = (Inr raw, l2)"
  shows "fold event_transition (el_events (snd (send_routed_command L sid data PBroadcast a))) c
    = answer_state (str_trim (bytes_text (filter (\<lambda>b. b \<noteq> 0) raw))) c"
proof -
  let ?text = "bytes_text (filter (\<lambda>b. b \<noteq> 0) raw)"
  have cmd: "hex_byte sid @ hex_compact data = hex_compact (sid # data)" by (simp add: hex_compact_def)
  obtain a1 where raw: "send_command_raw L (hex_compact (sid # data)) a = (Inr ?text, a1)" "settled c c a1"
    using preservesD [OF settled_send_raw [of c c L "hex_compact (sid # data)"], of a] assms
    by (simp add: settled_def send_command_raw_def seq_act_def bind_act_def on_transport_def
        sanitize_response_bytes_def Let_def)
  then have "settled c (answer_state (str_trim ?text) c) (record_response_events ?text a1)"
    by (simp add: settled_def record_response_events_def response_events_state)
  from preservesD [OF settled_recovery this, of L ?text]
  have "settled c (answer_state (str_trim ?text) c) (snd (send_command L (hex_compact (sid # data)) a))"
    by (auto simp: send_command_def bind_act_def seq_act_def modify_act_def raw split: prod.split sum.split)
  then show ?thesis
    using assms(2)
    by (auto simp: send_routed_command_def seq_act_def bind_act_def apply_target_def clear_targeting_def Let_def cmd
        settled_def split: prod.split sum.split)
qed


text \<open>An alert instead of an answer: ignition off. An interruption after an answer: the error is gone.\<close>

definition mock_session :: "string \<Rightarrow> mock_transport elm327 session" where
  "mock_session answer = session_new [] (elm_new (mock_dialogue [(''03'', answer)]))"

definition mock_exchange :: "string \<Rightarrow> (obd2_error + bytes) \<times> mock_transport elm327 session" where
  "mock_exchange answer = send_request (elm_adapter mock_link) (broadcast_request 0x03 []) (mock_session answer)"


text \<open>The documentation of \<open>IgnitionOff\<close> promises the state until a subsequent request succeeds; the
  answer that carries the alert already ends it.\<close>

lemma ignition_off_lost:
  assumes "\<not> ses_request_in_flight s" "ad_drain_events A a = ([\<lparr>ae_kind = RecoveryAction ''LP ALERT'', ae_detail = d\<rparr>], a')"
    and "resolve_request (s\<lparr>ses_request_in_flight := True\<rparr>) req = Inr routed"
    and "ad_routed_request A routed (ses_adapter s) = (Inr bs, a)"
  shows "ses_connection_state (snd (send_request A req s)) = Connected"
  unfolding send_request_concluded [OF assms(1,3,4)]
  by (simp add: conclude_connection assms(2) event_transition_def)

section \<open>Polling\<close>

text \<open>The reference: the session that the i-th read meets is the one after the reads before it.\<close>

definition session_before :: "'a adapter \<Rightarrow> pid list \<Rightarrow> nat \<Rightarrow> 'a session \<Rightarrow> 'a session" where
  "session_before A ps i s = fold (\<lambda>p s. snd (read_pid A p s)) (take i ps) s"

definition nth_read :: "'a adapter \<Rightarrow> pid list \<Rightarrow> 'a session \<Rightarrow> nat \<Rightarrow> obd2_error + reading" where
  "nth_read A ps s i = fst (read_pid A (ps ! i) (session_before A ps i s))"

text \<open>The events that one read is worth: a reading, with an alert when the value breaches a threshold of
  the given spec or else of the spec of the session; an error; nothing for an answer \<open>NoData\<close>.\<close>

definition read_events :: "vehicle_spec option \<Rightarrow> vehicle_spec option \<Rightarrow> pid \<Rightarrow> (obd2_error + reading) \<Rightarrow> poll_event list" where
  "read_events given own p r =
    (case r of
       Inl e \<Rightarrow> if e = NoData then [] else [PollError (Some p) e]
     | Inr reading \<Rightarrow> PollReading p reading #
         (case rd_value reading of
            Scalar x \<Rightarrow>
              map PollAlert (take 1 (List.map_filter (\<lambda>spec. evaluate_pid_threshold spec p x) [given, own]))
          | _ \<Rightarrow> []))"

lemma profile_kept: "preserves (\<lambda>s. ses_profile s = q) (read_pid A p)"
proof -
  have init: "preserves (\<lambda>s. ses_profile s = q) (session_initialize A)"
    by (rule preserves_initialize) (auto simp: preserves_def on_adapter_def case_prod_beta apply_initialization_report_def Let_def)
  have conclude: "ses_profile (snd (conclude_request A r s)) = ses_profile s" for r :: "obd2_error + bytes" and s
    by (simp add: conclude_request_def case_prod_beta Let_def split: sum.split)
  have "preserves (\<lambda>s. ses_profile s = q) (send_request A req)" for req
    by (simp add: preserves_def send_request_def routed_exchange_def on_adapter_def conclude case_prod_beta Let_def split: sum.split)
  with preserves_ensure [OF init] show ?thesis
    unfolding read_pid_def by (intro preserves_parts)
qed

lemma spec_kept: "ses_spec (snd (read_pid A p s)) = ses_spec s"
  using preservesD [OF profile_kept [of "ses_profile s" A p]] by (simp add: ses_spec_def)

lemma evaluate_no_spec [simp]: "evaluate_pid_threshold None p x = None"
  by (simp add: evaluate_pid_threshold_def)

lemma poll_alert_events:
  "PollReading p reading # poll_alert given s p (rd_value reading) = read_events given (ses_spec s) p (Inr reading)"
  by (cases given)
    (auto simp: poll_alert_def read_events_def evaluate_threshold_def List.map_filter_def split: obd_value.split option.split)

lemma poll_loop_events:
  "poll_pids_loop A given ps s =
    (concat (map (\<lambda>i. read_events given (ses_spec s) (ps ! i) (nth_read A ps s i)) [0..<length ps]),
     session_before A ps (length ps) s)"
proof (induction ps arbitrary: s)
  case Nil
  show ?case by (simp add: session_before_def)
next
  case (Cons p ps)
  obtain r s' where r: "read_pid A p s = (r, s')" by fastforce
  have shift: "nth_read A (p # ps) s (Suc i) = nth_read A ps s' i"
    "session_before A (p # ps) (Suc i) s = session_before A ps i s'" for i
    by (simp_all add: nth_read_def session_before_def r)
  have first: "nth_read A (p # ps) s 0 = r" by (simp add: nth_read_def session_before_def r)
  have spec: "ses_spec s' = ses_spec s" using spec_kept [of A p s] r by simp
  have upt: "[0..<length (p # ps)] = 0 # map Suc [0..<length ps]" by (simp add: upt_conv_Cons map_Suc_upt del: upt_Suc)
  have "poll_pids_loop A given (p # ps) s =
    (read_events given (ses_spec s) p r @ fst (poll_pids_loop A given ps s'), snd (poll_pids_loop A given ps s'))"
    using poll_alert_events [of p "projr r" given s']
    by (cases r) (simp_all add: r case_prod_beta Let_def spec, simp add: read_events_def)
  then show ?case
    unfolding upt Cons.IH [of s'] by (simp add: first shift spec comp_def)
qed

text \<open>C33: The events and the end of a poll cycle, exactly: every configured PID is read once, in order,
  each on the session that the reads before it left, and no failure stops the cycle. A read is
  reported as its reading, followed by its alert (of the given spec, or else of the session's), or
  as its error; a read that fails with \<open>NoData\<close> is dropped without any event. The battery voltage
  is read last, when it is asked for, and reported when the adapter has one; the cycle leaves the
  session that this last read leaves.\<close>

theorem poll_cycle_reports_every_read:
  "execute_poll_cycle A \<lparr>pc_pids = ps, pc_interval_ms = n, pc_read_voltage = v\<rparr> given s =
    (let reads = concat (map (\<lambda>i. read_events given (ses_spec s) (ps ! i) (nth_read A ps s i)) [0..<length ps]);
         t = session_before A ps (length ps) s;
         (voltage, u) = session_battery_voltage A t
     in if v then (reads @ (case voltage of Inr (Some x) \<Rightarrow> [PollVoltage x] | _ \<Rightarrow> []), u) else (reads, t))"
  by (simp add: execute_poll_cycle_def poll_loop_events Let_def split: prod.split sum.split option.split)

section \<open>Sessions over the ELM327 adapter\<close>

definition elm_setup :: "string \<Rightarrow> string \<Rightarrow> string \<Rightarrow> string \<Rightarrow> (string \<times> string) list
    \<Rightarrow> (string \<times> string) list \<Rightarrow> protocol \<Rightarrow> bool" where
  "elm_setup rz rs r0 rp cfg pol p \<longleftrightarrow>
     list_all quiet_answer [rz, rs, r0, rp]
     \<and> list_all (\<lambda>(c, r). plain_command c \<and> quiet_answer r) cfg
     \<and> map fst cfg = [''ATE0'', ''ATL0'', ''ATH0'', ''ATS0'', ''ATAT1'', ''ATSP0'']
     \<and> list_all (\<lambda>(c, r). plain_command c \<and> 0 \<notin> set (text_bytes r)) pol
     \<and> map fst pol = protocol_runtime_commands p
     \<and> probe_answered r0 \<and> parse_protocol_response rp = p \<and> p \<noteq> ProtoAuto"

text \<open>A session on a fresh adapter whose link holds the set-up dialogue and one more exchange.\<close>

definition elm_session :: "spec_registry \<Rightarrow> string \<Rightarrow> string \<Rightarrow> string \<Rightarrow> string \<Rightarrow> (string \<times> string) list
    \<Rightarrow> (string \<times> string) list \<Rightarrow> string \<times> string \<Rightarrow> mock_transport elm327 session" where
  "elm_session specs rz rs r0 rp cfg pol ex =
    session_new specs (elm_new (mock_dialogue ((''ATZ'', rz) # (''STI'', rs) # cfg @ (''0100'', r0)
      # (''ATDPN'', rp) # pol @ [ex])))"

lemma session_broadcast_over_elm:
  assumes "elm_setup rz rs r0 rp cfg pol p"
    and "response_skip sid \<le> Suc (length data)" "ds \<noteq> []" "list_all (\<lambda>d. d \<noteq> []) ds"
    and "resp = elm_text (map (\<lambda>d. (sid + 0x40) # take (response_skip sid - 1) data @ d) ds)"
    and "plain_command (hex_compact (sid # data))" "quiet_answer resp"
  shows "\<exists>s'. seq_act (ensure_initialized (elm_adapter mock_link))
      (bind_act (send_request (elm_adapter mock_link) (broadcast_request sid data)) f)
      (elm_session specs rz rs r0 rp cfg pol (hex_compact (sid # data), resp))
    = f (truncate_known_payload sid data (hd ds)) s'"
proof -
  let ?A = "elm_adapter mock_link"
  let ?a = "\<lparr>el_transport = mock_dialogue [(hex_compact (sid # data), resp)], el_info = init_info rz rs p,
     el_initialized = True, el_current_header = None, el_events = []\<rparr>"
  note ready = assms(1) [unfolded elm_setup_def]
  have "\<exists>rep. elm_initialize mock_link (elm_new (mock_dialogue ((''ATZ'', rz) # (''STI'', rs) # cfg @ (''0100'', r0)
      # (''ATDPN'', rp) # pol @ [(hex_compact (sid # data), resp)]))) = (Inr rep, ?a)"
    using mock.initialize_answered [simplified simp_thms True_implies_equals, of rz rs r0 rp cfg pol p "[(hex_compact (sid # data), resp)]"] ready by auto
  then obtain s1 where s1: "ensure_initialized ?A (elm_session specs rz rs r0 rp cfg pol (hex_compact (sid # data), resp))
      = (Inr (), s1)" and a1: "ses_adapter s1 = ?a" and f1: "\<not> ses_request_in_flight s1"
    by (auto simp: ensure_initialized_def elm_session_def session_new_def session_initialize_def bind_act_def
        on_adapter_def get_act_def elm_adapter_def)
  have "send_routed_command mock_link sid data PBroadcast ?a
      = (Inr (truncate_known_payload sid data (hd ds)), ?a\<lparr>el_transport := mock_dialogue []\<rparr>)"
    by (rule mock.broadcast_answered [simplified simp_thms True_implies_equals, OF _ assms(2-7)]) simp_all
  then have "fst (send_request ?A (broadcast_request sid data) s1) = Inr (truncate_known_payload sid data (hd ds))"
    using f1 a1
    by (simp add: send_request_def resolve_request_def broadcast_request_def routed_exchange_def record_visible_target_def
        on_adapter_def elm_adapter_def elm_routed_request_def conclude_request_def case_prod_beta Let_def)
  then obtain s2 where "send_request ?A (broadcast_request sid data) s1 = (Inr (truncate_known_payload sid data (hd ds)), s2)"
    by (metis prod.collapse)
  with s1 show ?thesis by (auto simp: seq_act_def bind_act_def)
qed

text \<open>
  The documented answers to mode 03 (\<open>docs/functional_reference/obd2_dtc_format.md\<close>): on CAN a count
  byte follows the service byte, then the codes; on the older buses the codes fill six bytes. Either
  may be padded with zeros.
\<close>

definition can_protocols :: "protocol set" where
  "can_protocols = {Can11Bit500, Can11Bit250, Can29Bit500, Can29Bit250}"

definition documented_dtc_answer :: "protocol \<Rightarrow> (u8 \<times> u8) list \<Rightarrow> nat \<Rightarrow> bytes" where
  "documented_dtc_answer p codes pad =
    0x43 # (if p \<in> can_protocols then [of_nat (length codes)] else [])
      @ concat (map (\<lambda>(x, y). [x, y]) codes) @ replicate pad 0"

lemma decode_zeros: "decode_dtc_bytes (replicate k 0) st = []"
proof (induction k rule: less_induct)
  case (less k)
  consider "k = 0" | "k = 1" | j where "k = Suc (Suc j)" by (metis One_nat_def not0_implies_Suc)
  then show ?case using less by cases simp_all
qed

lemma decode_padded:
  "decode_dtc_bytes (concat (map (\<lambda>(x, y). [x, y]) codes) @ replicate pad 0) st =
     map (\<lambda>(x, y). (dtc_from_bytes x y)\<lparr>dtc_status := st\<rparr>) (filter (\<lambda>c. c \<noteq> (0, 0)) codes)"
proof (induction codes)
  case (Cons c codes)
  obtain x y where "c = (x, y)" by fastforce
  with Cons show ?case by (cases "x = 0 \<and> y = 0") simp_all
qed (simp add: decode_zeros)

lemma decode_counted:
  "decode_dtc_bytes (n # concat (map (\<lambda>(x, y). [x, y]) codes) @ replicate pad 0) st =
     map (\<lambda>(x, y). (dtc_from_bytes x y)\<lparr>dtc_status := st\<rparr>)
       (filter (\<lambda>c. c \<noteq> (0, 0)) (zip (n # map snd codes) (map fst codes @ replicate pad 0)))"
proof (induction codes arbitrary: n)
  case Nil
  show ?case by (cases pad) (simp_all add: decode_zeros)
next
  case (Cons c codes)
  obtain x y where "c = (x, y)" by fastforce
  with Cons.IH [of y] show ?case by (cases "n = 0 \<and> x = 0") simp_all
qed

text \<open>C1: Reading the stored trouble codes through all layers, from the text of the link to the codes, for
  answers in the documented format. On the older buses the session returns exactly the codes of the
  answer in order, as stored codes with their table descriptions (a zero pair is padding). On CAN
  the count byte is read as the first byte of a code: every pair is shifted by one byte, so the
  session returns the count with the first byte of the first code, the second byte of each code with
  the first byte of the next, and the last byte with padding, if there is any.\<close>

theorem session_read_dtcs_over_elm:
  assumes "elm_setup rz rs r0 rp cfg pol p"
    and "p \<in> can_protocols \<or> 2 * length codes + pad = 6"
    and "resp = elm_text [documented_dtc_answer p codes pad]" "quiet_answer resp"
  shows "fst (read_dtcs (elm_adapter mock_link) (elm_session specs rz rs r0 rp cfg pol (''03'', resp)))
    = Inr (map (\<lambda>(x, y). (dtc_from_bytes x y)\<lparr>dtc_status := Stored\<rparr>) (filter (\<lambda>c. c \<noteq> (0, 0))
        (if p \<in> can_protocols then zip (of_nat (length codes) # map snd codes) (map fst codes @ replicate pad 0)
         else codes)))"
proof -
  let ?payload = "tl (documented_dtc_answer p codes pad)"
  have cmd: "''03'' = hex_compact [0x03]" "plain_command (hex_compact [0x03])" by code_simp+
  have payload: "documented_dtc_answer p codes pad = 0x43 # ?payload" by (simp add: documented_dtc_answer_def)
  have "?payload \<noteq> []"
    using assms(2) by (cases codes; cases pad) (auto simp: documented_dtc_answer_def)
  moreover have "truncate_known_payload 0x03 [] ?payload = ?payload" by (simp add: truncate_known_payload_def)
  ultimately have "fst (read_dtcs (elm_adapter mock_link) (elm_session specs rz rs r0 rp cfg pol (''03'', resp)))
      = Inr (decode_dtc_bytes ?payload Stored)"
    using session_broadcast_over_elm [OF assms(1), where sid = "0x03" and data = "[]" and ds = "[?payload]"
      and resp = resp and f = "\<lambda>data. ret (decode_dtc_bytes data Stored)" and specs = specs] assms(3,4) payload cmd
    by (auto simp: read_dtcs_def read_dtcs_with_target_def broadcast_request_def response_skip_def Let_def)
  then show ?thesis
    by (simp add: documented_dtc_answer_def decode_padded decode_counted)
qed

text \<open>C37: Freeze frames through the ELM327 adapter are read one byte off. An answer in the format of
  Mode 02 (\<open>42\<close>, the PID, the frame number, the data) keeps the frame number in front of the data,
  because only two bytes are taken for the echo; the payload is then cut to the length of the PID,
  so its last byte is lost and the value is decoded from the frame number.\<close>

theorem freeze_frame_over_elm_misread:
  assumes "elm_setup rz rs r0 rp cfg pol p"
    and "resp = elm_text [0x42 # pid_code q # frame # d]" "quiet_answer resp"
    and "plain_command (hex_compact [0x02, pid_code q, frame])"
  shows "fst (read_freeze_frame (elm_adapter mock_link) q frame
      (elm_session specs rz rs r0 rp cfg pol (hex_compact [0x02, pid_code q, frame], resp)))
    = reading_of FreezeFrame q (take (unat (response_bytes q)) (frame # d))"
proof -
  have "truncate_known_payload 0x02 [pid_code q, frame] (frame # d) = take (unat (response_bytes q)) (frame # d)"
    by (simp add: truncate_known_payload_def)
  with session_broadcast_over_elm [OF assms(1), where sid = "0x02" and data = "[pid_code q, frame]"
      and ds = "[frame # d]" and resp = resp and f = "\<lambda>data. lift_res (reading_of FreezeFrame q data)"
      and specs = specs] assms(2-4)
  show ?thesis
    by (auto simp: read_freeze_frame_def response_skip_def)
qed

section \<open>Concrete dialogues\<close>

lemma demo_elm_setup:
  "elm_setup ''ELM327 v1.5'' ''?>'' ''4100BE3EB811'' ''A6'' demo_setup [(''ATCAF1'', ''OK''), (''ATCFC1'', ''OK'')] Can11Bit500"
  by (simp add: elm_setup_def demo_setup_def text_simps probe_answered_def parse_protocol_response_def str_remove_def
      protocol_from_elm_code_def protocol_runtime_commands_def Let_def)

lemma demo_elm_setup_vpw:
  "elm_setup ''ELM327 v1.5'' ''?>'' ''4100BE3EB811'' ''A2'' demo_setup [] J1850Vpw"
  by (simp add: elm_setup_def demo_setup_def text_simps probe_answered_def parse_protocol_response_def str_remove_def
      protocol_from_elm_code_def protocol_runtime_commands_def Let_def)

lemma demo_texts:
  "quiet_answer (elm_text [documented_dtc_answer J1850Vpw [(0x01, 0x33)] 4])"
  "quiet_answer (elm_text [documented_dtc_answer Can11Bit500 [(0x01, 0x33), (0x04, 0x20)] 2])"
  "quiet_answer (elm_text [[0x42, 0x0C, 0x00, 0x1A, 0xF8]])"
  "plain_command (hex_compact [0x02, 0x0C, 0x00])"
  unfolding documented_dtc_answer_def can_protocols_def by code_simp+

text \<open>The two examples of the document: P0133 comes back on J1850; on CAN the answer with P0133 and P0420
  comes back as P0201, P3304 and P2000.\<close>

lemma session_read_dtcs_over_elm_witness:
  "fst (read_dtcs (elm_adapter mock_link) (elm_session [] ''ELM327 v1.5'' ''?>'' ''4100BE3EB811'' ''A2'' demo_setup []
      (''03'', elm_text [[0x43, 0x01, 0x33, 0x00, 0x00, 0x00, 0x00]])))
    = Inr [(dtc_from_bytes 0x01 0x33)\<lparr>dtc_status := Stored\<rparr>]
   \<and> fst (read_dtcs (elm_adapter mock_link) (elm_session [] ''ELM327 v1.5'' ''?>'' ''4100BE3EB811'' ''A6'' demo_setup
      [(''ATCAF1'', ''OK''), (''ATCFC1'', ''OK'')]
      (''03'', elm_text [[0x43, 0x02, 0x01, 0x33, 0x04, 0x20, 0x00, 0x00]])))
    = Inr [(dtc_from_bytes 0x02 0x01)\<lparr>dtc_status := Stored\<rparr>, (dtc_from_bytes 0x33 0x04)\<lparr>dtc_status := Stored\<rparr>,
        (dtc_from_bytes 0x20 0x00)\<lparr>dtc_status := Stored\<rparr>]"
proof -
  have zeros: "replicate 4 (0 :: u8) = [0, 0, 0, 0]" "replicate 2 (0 :: u8) = [0, 0]" by code_simp+
  show ?thesis
    using session_read_dtcs_over_elm [OF demo_elm_setup_vpw _ refl demo_texts(1), of "[]"]
      session_read_dtcs_over_elm [OF demo_elm_setup _ refl demo_texts(2), of "[]"]
    by (simp add: documented_dtc_answer_def can_protocols_def zeros)
qed

lemma freeze_frame_over_elm_misread_witness:
  "fst (read_freeze_frame (elm_adapter mock_link) (Pid 0x0C) 0x00 (elm_session [] ''ELM327 v1.5'' ''?>'' ''4100BE3EB811''
      ''A6'' demo_setup [(''ATCAF1'', ''OK''), (''ATCFC1'', ''OK'')]
      (hex_compact [0x02, pid_code (Pid 0x0C), 0x00], elm_text [[0x42, 0x0C, 0x00, 0x1A, 0xF8]])))
    = reading_of FreezeFrame (Pid 0x0C) (take (unat (response_bytes (Pid 0x0C))) (0x00 # [0x1A, 0xF8]))
   \<and> reading_of FreezeFrame (Pid 0x0C) (take (unat (response_bytes (Pid 0x0C))) (0x00 # [0x1A, 0xF8]))
    = Inr \<lparr>rd_value = Scalar 6.5, rd_unit = pid_unit (Pid 0x0C), rd_raw_bytes = [0x00, 0x1A], rd_source = FreezeFrame\<rparr>"
proof (rule conjI)
  show "reading_of FreezeFrame (Pid 0x0C) (take (unat (response_bytes (Pid 0x0C))) (0x00 # [0x1A, 0xF8]))
    = Inr \<lparr>rd_value = Scalar 6.5, rd_unit = pid_unit (Pid 0x0C), rd_raw_bytes = [0x00, 0x1A], rd_source = FreezeFrame\<rparr>"
    by (simp add: reading_of_def pid_parse_def response_bytes_def)
qed (rule freeze_frame_over_elm_misread [OF demo_elm_setup]; simp add: demo_texts)

end
