(* ===== verification/Backend.thy ===== *)
theory Backend
  imports AdapterTypes
begin

text \<open>
  Backend capabilities and CAN routes (\<open>adapter/backend.rs\<close>): what a backend can realise, the
  negotiation of a requirement against it, CAN identifiers with their width, acceptance filters
  and route configurations. Nothing here performs I/O.
\<close>

section \<open>Capabilities\<close>

datatype backend_kind = BkElm327 | BkStn | BkNativeCan | BkUnknown

datatype link_kind = LkSerial | LkBle | LkUsb | LkTcp | LkNativeCan | LkMock

datatype transport_kind =
    TkIsoTp | TkJ1850Vpw | TkJ1850Pwm | TkKLine | TkJ1939 | TkDoIp | TkRawCan | TkRawCanFd

datatype secondary_bus = MsCan125 | SwCanGmlan33 | MsGmlan95

primrec bitrate_bps :: "secondary_bus \<Rightarrow> u32" where
  "bitrate_bps MsCan125 = 125000"
| "bitrate_bps SwCanGmlan33 = 33300"
| "bitrate_bps MsGmlan95 = 95000"

record quirk_flags =
  qf_elm_prompt_framing :: bool
  qf_elm_clone_version_lie :: bool
  qf_small_rx_buffer :: bool
  qf_stn_command_set :: bool
  qf_native_can_interface :: bool

record backend_caps =
  bk_backend :: backend_kind
  bk_links :: "link_kind list"
  bk_transports :: "transport_kind list"
  bk_can_fd :: bool
  bk_channels :: u8
  bk_secondary_can :: "secondary_bus list"
  bk_max_pdu :: nat
  bk_quirks :: quirk_flags

definition supports_link :: "backend_caps \<Rightarrow> link_kind \<Rightarrow> bool" where
  "supports_link c l \<longleftrightarrow> l \<in> set (bk_links c)"

definition supports_transport :: "backend_caps \<Rightarrow> transport_kind \<Rightarrow> bool" where
  "supports_transport c t \<longleftrightarrow> t \<in> set (bk_transports c)"

definition supports_secondary_bus :: "backend_caps \<Rightarrow> secondary_bus \<Rightarrow> bool" where
  "supports_secondary_bus c b \<longleftrightarrow> b \<in> set (bk_secondary_can c)"

record capability_request =
  cq_link :: "link_kind option"
  cq_transport :: transport_kind
  cq_secondary_bus :: "secondary_bus option"
  cq_can_fd :: bool
  cq_min_channels :: u8
  cq_min_pdu :: nat

definition cq_new :: "transport_kind \<Rightarrow> capability_request" where
  "cq_new t =
    \<lparr>cq_link = None, cq_transport = t, cq_secondary_bus = None, cq_can_fd = False,
     cq_min_channels = 1, cq_min_pdu = 0\<rparr>"

definition cq_with_link :: "link_kind \<Rightarrow> capability_request \<Rightarrow> capability_request" where
  "cq_with_link l q = q\<lparr>cq_link := Some l\<rparr>"

definition cq_with_secondary_bus :: "secondary_bus \<Rightarrow> capability_request \<Rightarrow> capability_request" where
  "cq_with_secondary_bus b q = q\<lparr>cq_secondary_bus := Some b\<rparr>"

definition cq_require_can_fd :: "capability_request \<Rightarrow> capability_request" where
  "cq_require_can_fd q = q\<lparr>cq_can_fd := True\<rparr>"

definition cq_with_min_channels :: "u8 \<Rightarrow> capability_request \<Rightarrow> capability_request" where
  "cq_with_min_channels n q = q\<lparr>cq_min_channels := n\<rparr>"

definition cq_with_min_pdu :: "nat \<Rightarrow> capability_request \<Rightarrow> capability_request" where
  "cq_with_min_pdu n q = q\<lparr>cq_min_pdu := n\<rparr>"

record negotiated_backend =
  nb_backend :: backend_kind
  nb_link :: "link_kind option"
  nb_transport :: transport_kind
  nb_secondary_bus :: "secondary_bus option"
  nb_can_fd :: bool
  nb_channels :: u8
  nb_max_pdu :: nat
  nb_quirks :: quirk_flags

datatype capability_mismatch_kind =
    UnsupportedLink link_kind | UnsupportedTransport transport_kind
  | SecondaryCanUnavailable secondary_bus | CanFdUnavailable
  | InsufficientChannels u8 u8 | InsufficientPdu nat nat

record capability_mismatch =
  cm_backend :: backend_kind
  cm_kind :: capability_mismatch_kind

definition mismatch_new :: "backend_kind \<Rightarrow> capability_mismatch_kind \<Rightarrow> capability_mismatch" where
  "mismatch_new b k = \<lparr>cm_backend = b, cm_kind = k\<rparr>"

text \<open>The checks in their order; the first that fails is reported.\<close>

definition negotiate :: "backend_caps \<Rightarrow> capability_request \<Rightarrow> capability_mismatch + negotiated_backend" where
  "negotiate c q =
    (let mismatch = mismatch_new (bk_backend c) in
     case (case cq_link q of
             Some l \<Rightarrow> if \<not> supports_link c l then Some (UnsupportedLink l) else None
           | None \<Rightarrow> None) of
       Some k \<Rightarrow> Inl (mismatch k)
     | None \<Rightarrow>
       if \<not> supports_transport c (cq_transport q) then Inl (mismatch (UnsupportedTransport (cq_transport q)))
       else if cq_can_fd q \<and> \<not> bk_can_fd c then Inl (mismatch CanFdUnavailable)
       else case (case cq_secondary_bus q of
             Some b \<Rightarrow> if \<not> supports_secondary_bus c b then Some (SecondaryCanUnavailable b) else None
           | None \<Rightarrow> None) of
         Some k \<Rightarrow> Inl (mismatch k)
       | None \<Rightarrow>
         if bk_channels c < cq_min_channels q
           then Inl (mismatch (InsufficientChannels (cq_min_channels q) (bk_channels c)))
         else if bk_max_pdu c < cq_min_pdu q
           then Inl (mismatch (InsufficientPdu (cq_min_pdu q) (bk_max_pdu c)))
         else Inr
           \<lparr>nb_backend = bk_backend c,
            nb_link = (case cq_link q of Some l \<Rightarrow> Some l
                       | None \<Rightarrow> (case bk_links c of l # _ \<Rightarrow> Some l | [] \<Rightarrow> None)),
            nb_transport = cq_transport q, nb_secondary_bus = cq_secondary_bus q,
            nb_can_fd = cq_can_fd q, nb_channels = bk_channels c, nb_max_pdu = bk_max_pdu c,
            nb_quirks = bk_quirks c\<rparr>)"

section \<open>The backends of the crate\<close>

definition elm_at_links :: "link_kind list" where
  "elm_at_links = [LkSerial, LkBle]"

definition elm_at_transports :: "transport_kind list" where
  "elm_at_transports = [TkIsoTp, TkJ1850Vpw, TkJ1850Pwm, TkKLine, TkJ1939]"

definition stn_secondary_can :: "secondary_bus list" where
  "stn_secondary_can = [MsCan125, SwCanGmlan33, MsGmlan95]"

definition native_can_links :: "link_kind list" where
  "native_can_links = [LkNativeCan, LkUsb]"

definition native_can_transports :: "transport_kind list" where
  "native_can_transports = [TkIsoTp, TkJ1939, TkRawCan, TkRawCanFd]"

definition native_can_secondary :: "secondary_bus list" where
  "native_can_secondary = [MsCan125, SwCanGmlan33, MsGmlan95]"

definition elm327_clone_caps :: backend_caps where
  "elm327_clone_caps =
    \<lparr>bk_backend = BkElm327, bk_links = elm_at_links, bk_transports = elm_at_transports,
     bk_can_fd = False, bk_channels = 1, bk_secondary_can = [], bk_max_pdu = 512,
     bk_quirks = \<lparr>qf_elm_prompt_framing = True, qf_elm_clone_version_lie = True,
       qf_small_rx_buffer = True, qf_stn_command_set = False, qf_native_can_interface = False\<rparr>\<rparr>"

definition elm327_genuine_caps :: backend_caps where
  "elm327_genuine_caps =
    \<lparr>bk_backend = BkElm327, bk_links = elm_at_links, bk_transports = elm_at_transports,
     bk_can_fd = False, bk_channels = 1, bk_secondary_can = [], bk_max_pdu = 512,
     bk_quirks = \<lparr>qf_elm_prompt_framing = True, qf_elm_clone_version_lie = False,
       qf_small_rx_buffer = True, qf_stn_command_set = False, qf_native_can_interface = False\<rparr>\<rparr>"

definition stn_caps :: backend_caps where
  "stn_caps =
    \<lparr>bk_backend = BkStn, bk_links = elm_at_links, bk_transports = elm_at_transports,
     bk_can_fd = False, bk_channels = 1, bk_secondary_can = stn_secondary_can, bk_max_pdu = 4096,
     bk_quirks = \<lparr>qf_elm_prompt_framing = True, qf_elm_clone_version_lie = False,
       qf_small_rx_buffer = False, qf_stn_command_set = True, qf_native_can_interface = False\<rparr>\<rparr>"

definition native_can_classical_caps :: backend_caps where
  "native_can_classical_caps =
    \<lparr>bk_backend = BkNativeCan, bk_links = native_can_links, bk_transports = native_can_transports,
     bk_can_fd = False, bk_channels = 1, bk_secondary_can = native_can_secondary, bk_max_pdu = 4096,
     bk_quirks = \<lparr>qf_elm_prompt_framing = False, qf_elm_clone_version_lie = False,
       qf_small_rx_buffer = False, qf_stn_command_set = False, qf_native_can_interface = True\<rparr>\<rparr>"

definition native_can_fd_caps :: backend_caps where
  "native_can_fd_caps = native_can_classical_caps\<lparr>bk_can_fd := True\<rparr>"

definition unknown_caps :: backend_caps where
  "unknown_caps =
    \<lparr>bk_backend = BkUnknown, bk_links = [], bk_transports = [],
     bk_can_fd = False, bk_channels = 0, bk_secondary_can = [], bk_max_pdu = 0,
     bk_quirks = \<lparr>qf_elm_prompt_framing = False, qf_elm_clone_version_lie = False,
       qf_small_rx_buffer = False, qf_stn_command_set = False, qf_native_can_interface = False\<rparr>\<rparr>"

definition adapter_backend_caps :: "adapter_info \<Rightarrow> backend_caps" where
  "adapter_backend_caps info =
    (case ai_chipset info of
       Elm327Clone \<Rightarrow> elm327_clone_caps
     | Elm327Genuine \<Rightarrow> elm327_genuine_caps
     | Stn \<Rightarrow> stn_caps
     | UnknownChipset \<Rightarrow> unknown_caps)"

definition negotiate_backend :: "adapter_info \<Rightarrow> capability_request \<Rightarrow> capability_mismatch + negotiated_backend" where
  "negotiate_backend info q = negotiate (adapter_backend_caps info) q"

lemmas caps_defs = elm327_clone_caps_def elm327_genuine_caps_def stn_caps_def
  native_can_classical_caps_def native_can_fd_caps_def unknown_caps_def

section \<open>Identifiers and filters\<close>

datatype can_identifier = StandardId u16 | ExtendedId u32

datatype can_route_error = IdentifierOutOfRange u32 u8 | MixedIdentifierWidth

definition can_standard :: "u16 \<Rightarrow> can_route_error + can_identifier" where
  "can_standard i = (if i \<le> 0x7FF then Inr (StandardId i) else Inl (IdentifierOutOfRange (ucast i) 11))"

definition can_extended :: "u32 \<Rightarrow> can_route_error + can_identifier" where
  "can_extended i = (if i \<le> 0x1FFFFFFF then Inr (ExtendedId i) else Inl (IdentifierOutOfRange i 29))"

primrec can_raw :: "can_identifier \<Rightarrow> u32" where
  "can_raw (StandardId i) = ucast i"
| "can_raw (ExtendedId i) = i"

primrec can_max_mask :: "can_identifier \<Rightarrow> can_identifier" where
  "can_max_mask (StandardId i) = StandardId 0x7FF"
| "can_max_mask (ExtendedId i) = ExtendedId 0x1FFFFFFF"

fun same_width :: "can_identifier \<Rightarrow> can_identifier \<Rightarrow> bool" where
  "same_width (StandardId _) (StandardId _) = True"
| "same_width (ExtendedId _) (ExtendedId _) = True"
| "same_width _ _ = False"

record can_route_filter =
  rf_id :: can_identifier
  rf_mask :: can_identifier

definition filter_new :: "can_identifier \<Rightarrow> can_identifier \<Rightarrow> can_route_error + can_route_filter" where
  "filter_new i m = (if \<not> same_width i m then Inl MixedIdentifierWidth else Inr \<lparr>rf_id = i, rf_mask = m\<rparr>)"

definition filter_exact :: "can_identifier \<Rightarrow> can_route_filter" where
  "filter_exact i = \<lparr>rf_id = i, rf_mask = can_max_mask i\<rparr>"

definition filter_matches :: "can_route_filter \<Rightarrow> can_identifier \<Rightarrow> bool" where
  "filter_matches f frame_id =
    (if \<not> same_width (rf_id f) frame_id then False
     else can_raw frame_id AND can_raw (rf_mask f) = can_raw (rf_id f) AND can_raw (rf_mask f))"

text \<open>A filter set is its list of filters: \<open>new\<close>, \<open>from_filters\<close>, \<open>push\<close>, \<open>filters\<close> and
  \<open>is_empty\<close> are the list operations.\<close>

type_synonym can_filter_set = "can_route_filter list"

definition filters_accept :: "can_filter_set \<Rightarrow> can_identifier \<Rightarrow> bool" where
  "filters_accept fs frame_id \<longleftrightarrow> fs = [] \<or> list_ex (\<lambda>f. filter_matches f frame_id) fs"

section \<open>Routes\<close>

record can_fd_config =
  fd_data_bitrate_bps :: u32
  fd_bitrate_switch :: bool
  fd_iso_mode :: bool

definition fd_iso :: "u32 \<Rightarrow> can_fd_config" where
  "fd_iso bps = \<lparr>fd_data_bitrate_bps = bps, fd_bitrate_switch = True, fd_iso_mode = True\<rparr>"

datatype can_frame_mode = Classical | Fd can_fd_config

fun is_fd :: "can_frame_mode \<Rightarrow> bool" where
  "is_fd Classical = False"
| "is_fd (Fd _) = True"

datatype can_route_bus = PrimaryBus | SecondaryBus secondary_bus

record can_route_config =
  rc_bus :: can_route_bus
  rc_arbitration_bitrate_bps :: u32
  rc_frame_mode :: can_frame_mode
  rc_filters :: can_filter_set

definition route_primary_classical :: "u32 \<Rightarrow> can_route_config" where
  "route_primary_classical bps =
    \<lparr>rc_bus = PrimaryBus, rc_arbitration_bitrate_bps = bps, rc_frame_mode = Classical, rc_filters = []\<rparr>"

definition route_secondary_classical :: "secondary_bus \<Rightarrow> can_route_config" where
  "route_secondary_classical b =
    \<lparr>rc_bus = SecondaryBus b, rc_arbitration_bitrate_bps = bitrate_bps b, rc_frame_mode = Classical,
     rc_filters = []\<rparr>"

definition route_ms_can_125k :: can_route_config where
  "route_ms_can_125k = route_secondary_classical MsCan125"

definition route_sw_can_gmlan_33k :: can_route_config where
  "route_sw_can_gmlan_33k = route_secondary_classical SwCanGmlan33"

definition route_ms_gmlan_95k :: can_route_config where
  "route_ms_gmlan_95k = route_secondary_classical MsGmlan95"

definition route_can_fd :: "u32 \<Rightarrow> u32 \<Rightarrow> can_route_config" where
  "route_can_fd bps data_bps =
    \<lparr>rc_bus = PrimaryBus, rc_arbitration_bitrate_bps = bps, rc_frame_mode = Fd (fd_iso data_bps),
     rc_filters = []\<rparr>"

definition route_with_filter :: "can_route_filter \<Rightarrow> can_route_config \<Rightarrow> can_route_config" where
  "route_with_filter f r = r\<lparr>rc_filters := rc_filters r @ [f]\<rparr>"

definition route_accepts :: "can_route_config \<Rightarrow> can_identifier \<Rightarrow> bool" where
  "route_accepts r i = filters_accept (rc_filters r) i"

definition route_secondary_bus :: "can_route_config \<Rightarrow> secondary_bus option" where
  "route_secondary_bus r = (case rc_bus r of PrimaryBus \<Rightarrow> None | SecondaryBus b \<Rightarrow> Some b)"

definition raw_can_requirement :: "can_route_config \<Rightarrow> capability_request" where
  "raw_can_requirement r =
    (let request = (if is_fd (rc_frame_mode r) then cq_require_can_fd (cq_new TkRawCanFd) else cq_new TkRawCan);
         request = (case route_secondary_bus r of Some b \<Rightarrow> cq_with_secondary_bus b request | None \<Rightarrow> request)
     in cq_with_min_pdu (if is_fd (rc_frame_mode r) then 64 else 8) request)"

definition isotp_requirement :: "can_route_config \<Rightarrow> capability_request" where
  "isotp_requirement r =
    (let request = cq_new TkIsoTp;
         request = (if is_fd (rc_frame_mode r) then cq_require_can_fd request else request)
     in case route_secondary_bus r of Some b \<Rightarrow> cq_with_secondary_bus b request | None \<Rightarrow> request)"

lemmas request_defs = cq_new_def cq_with_link_def cq_with_secondary_bus_def cq_require_can_fd_def
  cq_with_min_channels_def cq_with_min_pdu_def

section \<open>Debug text\<close>

text \<open>\<open>{:?}\<close> of the derived \<open>Debug\<close> implementations.\<close>

primrec debug_backend_kind :: "backend_kind \<Rightarrow> string" where
  "debug_backend_kind BkElm327 = ''Elm327''"
| "debug_backend_kind BkStn = ''Stn''"
| "debug_backend_kind BkNativeCan = ''NativeCan''"
| "debug_backend_kind BkUnknown = ''Unknown''"

primrec debug_link_kind :: "link_kind \<Rightarrow> string" where
  "debug_link_kind LkSerial = ''Serial''"
| "debug_link_kind LkBle = ''Ble''"
| "debug_link_kind LkUsb = ''Usb''"
| "debug_link_kind LkTcp = ''Tcp''"
| "debug_link_kind LkNativeCan = ''NativeCan''"
| "debug_link_kind LkMock = ''Mock''"

primrec debug_transport_kind :: "transport_kind \<Rightarrow> string" where
  "debug_transport_kind TkIsoTp = ''IsoTp''"
| "debug_transport_kind TkJ1850Vpw = ''J1850Vpw''"
| "debug_transport_kind TkJ1850Pwm = ''J1850Pwm''"
| "debug_transport_kind TkKLine = ''KLine''"
| "debug_transport_kind TkJ1939 = ''J1939''"
| "debug_transport_kind TkDoIp = ''DoIp''"
| "debug_transport_kind TkRawCan = ''RawCan''"
| "debug_transport_kind TkRawCanFd = ''RawCanFd''"

primrec debug_secondary_bus :: "secondary_bus \<Rightarrow> string" where
  "debug_secondary_bus MsCan125 = ''MsCan125''"
| "debug_secondary_bus SwCanGmlan33 = ''SwCanGmlan33''"
| "debug_secondary_bus MsGmlan95 = ''MsGmlan95''"

definition debug_required :: "string \<Rightarrow> nat \<Rightarrow> nat \<Rightarrow> string" where
  "debug_required name required available =
    name @ '' { required: '' @ decimal required @ '', available: '' @ decimal available @ '' }''"

primrec debug_mismatch_kind :: "capability_mismatch_kind \<Rightarrow> string" where
  "debug_mismatch_kind (UnsupportedLink l) = ''UnsupportedLink('' @ debug_link_kind l @ '')''"
| "debug_mismatch_kind (UnsupportedTransport t) = ''UnsupportedTransport('' @ debug_transport_kind t @ '')''"
| "debug_mismatch_kind (SecondaryCanUnavailable b) = ''SecondaryCanUnavailable('' @ debug_secondary_bus b @ '')''"
| "debug_mismatch_kind CanFdUnavailable = ''CanFdUnavailable''"
| "debug_mismatch_kind (InsufficientChannels r a) = debug_required ''InsufficientChannels'' (unat r) (unat a)"
| "debug_mismatch_kind (InsufficientPdu r a) = debug_required ''InsufficientPdu'' r a"

definition debug_mismatch :: "capability_mismatch \<Rightarrow> string" where
  "debug_mismatch m =
    ''CapabilityMismatch { backend: '' @ debug_backend_kind (cm_backend m) @ '', kind: ''
      @ debug_mismatch_kind (cm_kind m) @ '' }''"

primrec debug_route_error :: "can_route_error \<Rightarrow> string" where
  "debug_route_error (IdentifierOutOfRange i n) =
    ''IdentifierOutOfRange { id: '' @ decimal (unat i) @ '', bits: '' @ decimal (unat n) @ '' }''"
| "debug_route_error MixedIdentifierWidth = ''MixedIdentifierWidth''"

end
