(* ===== verification/NativeCan.thy ===== *)
theory NativeCan
  imports Backend IsoTp
begin

text \<open>
  Native CAN backends (\<open>adapter/native_can.rs\<close>): the description of a SocketCAN or gs_usb device, the
  planning of a route on it, and the channel that wraps any frame source (\<open>CanFrameIo\<close>, the record
  \<open>can_io\<close>) and hands on only the frames that the filters of its route accept.
\<close>

section \<open>Backends and route plans\<close>

datatype native_can_driver = SocketCan | GsUsb

record native_can_backend =
  nc_driver :: native_can_driver
  nc_interface :: string
  nc_channels :: u8
  nc_can_fd :: bool

definition nc_socketcan :: "string \<Rightarrow> native_can_backend" where
  "nc_socketcan interface =
    \<lparr>nc_driver = SocketCan, nc_interface = interface, nc_channels = 1, nc_can_fd = False\<rparr>"

definition nc_socketcan_fd :: "string \<Rightarrow> native_can_backend" where
  "nc_socketcan_fd interface = (nc_socketcan interface)\<lparr>nc_can_fd := True\<rparr>"

definition nc_gs_usb :: "string \<Rightarrow> native_can_backend" where
  "nc_gs_usb interface =
    \<lparr>nc_driver = GsUsb, nc_interface = interface, nc_channels = 1, nc_can_fd = False\<rparr>"

definition nc_with_channels :: "u8 \<Rightarrow> native_can_backend \<Rightarrow> native_can_backend" where
  "nc_with_channels n b = b\<lparr>nc_channels := n\<rparr>"

definition nc_with_can_fd :: "bool \<Rightarrow> native_can_backend \<Rightarrow> native_can_backend" where
  "nc_with_can_fd fd b = b\<lparr>nc_can_fd := fd\<rparr>"

definition nc_capabilities :: "native_can_backend \<Rightarrow> backend_caps" where
  "nc_capabilities b =
    (if nc_can_fd b then native_can_fd_caps else native_can_classical_caps)\<lparr>bk_channels := nc_channels b\<rparr>"

record native_can_route_plan =
  np_driver :: native_can_driver
  np_interface :: string
  np_negotiated :: negotiated_backend
  np_route :: can_route_config

definition nc_plan_route :: "native_can_backend \<Rightarrow> can_route_config \<Rightarrow> capability_mismatch + native_can_route_plan" where
  "nc_plan_route b route =
    bind_res (negotiate (nc_capabilities b) (raw_can_requirement route)) (\<lambda>negotiated.
    Inr \<lparr>np_driver = nc_driver b, np_interface = nc_interface b, np_negotiated = negotiated, np_route = route\<rparr>)"

section \<open>Channels\<close>

record 'io native_can_channel =
  ch_plan :: native_can_route_plan
  ch_io :: 'io
  ch_max_unrelated_frames :: nat

definition channel_new :: "native_can_route_plan \<Rightarrow> 'io \<Rightarrow> 'io native_can_channel" where
  "channel_new plan io = \<lparr>ch_plan = plan, ch_io = io, ch_max_unrelated_frames = 32\<rparr>"

definition channel_with_max_unrelated_frames :: "nat \<Rightarrow> 'io native_can_channel \<Rightarrow> 'io native_can_channel" where
  "channel_with_max_unrelated_frames n c = c\<lparr>ch_max_unrelated_frames := n\<rparr>"

definition bind_classical_io :: "native_can_backend \<Rightarrow> can_route_config \<Rightarrow> 'io \<Rightarrow> 'io native_can_channel res" where
  "bind_classical_io b route io =
    (if is_fd (rc_frame_mode route)
     then Inl (Adapter (Text ''native CAN classic channel cannot bind a CAN-FD route''))
     else case nc_plan_route b route of
         Inl err \<Rightarrow> Inl (Adapter (Fmt ''native CAN route rejected: {:?}'' [ArgStr (debug_mismatch err)]))
       | Inr plan \<Rightarrow> Inr (channel_new plan io))"

definition frame_identifier :: "can_data_frame \<Rightarrow> can_identifier res" where
  "frame_identifier f =
    (if fr_extended f then
       (case can_extended (fr_id f) of
          Inl err \<Rightarrow> Inl (Adapter (Fmt ''invalid extended CAN id: {:?}'' [ArgStr (debug_route_error err)]))
        | Inr i \<Rightarrow> Inr i)
     else if fr_id f \<le> 0x7FF then
       (case can_standard (ucast (fr_id f)) of
          Inl err \<Rightarrow> Inl (Adapter (Fmt ''invalid standard CAN id: {:?}'' [ArgStr (debug_route_error err)]))
        | Inr i \<Rightarrow> Inr i)
     else Inl (Adapter (Fmt ''standard CAN frame id 0x{:X} exceeds 11 bits'' [ArgNat (unat (fr_id f))])))"

definition validate_frame_identifier :: "can_data_frame \<Rightarrow> unit res" where
  "validate_frame_identifier f = bind_res (frame_identifier f) (\<lambda>_. Inr ())"

definition channel_send :: "native_can_route_plan \<Rightarrow> 'io can_io \<Rightarrow> can_data_frame \<Rightarrow> ('io, obd2_error, unit) act" where
  "channel_send plan ops frame =
    (if is_fd (rc_frame_mode (np_route plan))
     then fail (Adapter (Text ''native CAN classic channel cannot send CAN-FD frames''))
     else bind_act (lift_res (validate_frame_identifier frame)) (\<lambda>_. send_frame ops frame))"

text \<open>The loop of \<open>recv_frame\<close> reads at most one frame more than the number of unrelated frames.\<close>

fun channel_recv_loop :: "native_can_route_plan \<Rightarrow> 'io can_io \<Rightarrow> nat \<Rightarrow> ('io, obd2_error, can_data_frame) act" where
  "channel_recv_loop plan ops 0 = fail Timeout"
| "channel_recv_loop plan ops (Suc n) =
    bind_act (recv_frame ops) (\<lambda>frame.
    bind_act (lift_res (frame_identifier frame)) (\<lambda>identifier.
      if route_accepts (np_route plan) identifier then ret frame else channel_recv_loop plan ops n))"

definition channel_recv :: "native_can_route_plan \<Rightarrow> nat \<Rightarrow> 'io can_io \<Rightarrow> ('io, obd2_error, can_data_frame) act" where
  "channel_recv plan max_unrelated ops = channel_recv_loop plan ops (Suc max_unrelated)"

text \<open>
  The channel is itself a frame source. No method writes its plan or its bound, so they are
  arguments here and the state is the frame source below; a delay is a delay of that source.
\<close>

definition channel_io :: "native_can_route_plan \<Rightarrow> nat \<Rightarrow> 'io can_io \<Rightarrow> 'io can_io" where
  "channel_io plan max_unrelated ops =
    \<lparr>send_frame = channel_send plan ops, recv_frame = channel_recv plan max_unrelated ops,
     sleep = sleep ops\<rparr>"

end
