(* ===== verification/NativeCanLaws.thy ===== *)
theory NativeCanLaws
  imports NativeCan IsoTpLaws
begin

text \<open>
  What backends negotiate and what a native CAN channel does to the traffic. The channel over any
  bus that meets the contract \<open>can_bus\<close> meets that contract again, with the frames that its route
  lets through as its inbox; so everything proved of ISO-TP over a bus holds through a channel.
\<close>

section \<open>Negotiation\<close>

text \<open>What a mismatch claims about the backend and the request.\<close>

primrec unmet :: "backend_caps \<Rightarrow> capability_request \<Rightarrow> capability_mismatch_kind \<Rightarrow> bool" where
  "unmet c q (UnsupportedLink l) = (cq_link q = Some l \<and> \<not> supports_link c l)"
| "unmet c q (UnsupportedTransport t) = (cq_transport q = t \<and> \<not> supports_transport c t)"
| "unmet c q (SecondaryCanUnavailable b) = (cq_secondary_bus q = Some b \<and> \<not> supports_secondary_bus c b)"
| "unmet c q CanFdUnavailable = (cq_can_fd q \<and> \<not> bk_can_fd c)"
| "unmet c q (InsufficientChannels r a) = (cq_min_channels q = r \<and> bk_channels c = a \<and> a < r)"
| "unmet c q (InsufficientPdu r a) = (cq_min_pdu q = r \<and> bk_max_pdu c = a \<and> a < r)"

definition meets :: "backend_caps \<Rightarrow> capability_request \<Rightarrow> bool" where
  "meets c q \<longleftrightarrow>
    pred_option (supports_link c) (cq_link q) \<and> supports_transport c (cq_transport q)
    \<and> cq_can_fd q \<le> bk_can_fd c \<and> pred_option (supports_secondary_bus c) (cq_secondary_bus q)
    \<and> cq_min_channels q \<le> bk_channels c \<and> cq_min_pdu q \<le> bk_max_pdu c"

lemma meets_iff_no_unmet: "meets c q \<longleftrightarrow> (\<forall>k. \<not> unmet c q k)"
proof
  assume "meets c q"
  then show "\<forall>k. \<not> unmet c q k"
  proof (intro allI notI)
    fix k assume "unmet c q k"
    with \<open>meets c q\<close> show False by (cases k) (auto simp: meets_def)
  qed
next
  assume u: "\<forall>k. \<not> unmet c q k"
  from u [THEN spec, of "UnsupportedLink l" for l] u [THEN spec, of "UnsupportedTransport (cq_transport q)"]
    u [THEN spec, of CanFdUnavailable] u [THEN spec, of "SecondaryCanUnavailable b" for b]
    u [THEN spec, of "InsufficientChannels (cq_min_channels q) (bk_channels c)"]
    u [THEN spec, of "InsufficientPdu (cq_min_pdu q) (bk_max_pdu c)"]
  show "meets c q"
    by (cases "cq_link q"; cases "cq_secondary_bus q") (auto simp: meets_def)
qed

lemma negotiate_cases:
  "case negotiate c q of Inr n \<Rightarrow> meets c q | Inl m \<Rightarrow> cm_backend m = bk_backend c \<and> unmet c q (cm_kind m)"
  by (cases "cq_link q"; cases "cq_secondary_bus q")
    (auto simp: negotiate_def meets_def mismatch_new_def Let_def)

lemma negotiate_Inr: "negotiate c q = Inr n \<Longrightarrow> nb_transport n = cq_transport q
    \<and> nb_secondary_bus n = cq_secondary_bus q \<and> nb_can_fd n = cq_can_fd q
    \<and> nb_channels n = bk_channels c \<and> nb_max_pdu n = bk_max_pdu c"
  by (auto simp: negotiate_def Let_def split: option.splits if_splits)

lemma negotiate_succeeds_iff: "(\<exists>n. negotiate c q = Inr n) \<longleftrightarrow> meets c q"
  using negotiate_cases [of c q] meets_iff_no_unmet [of c q] by (cases "negotiate c q") auto

section \<open>Filters\<close>

text \<open>A filter compares the bits of its mask; an exact filter lets through its own identifier.\<close>

lemma filter_matches_bits:
  "filter_matches f i \<longleftrightarrow> same_width (rf_id f) i
    \<and> (\<forall>n. bit (can_raw (rf_mask f)) n \<longrightarrow> bit (can_raw i) n = bit (can_raw (rf_id f)) n)"
proof -
  have "a AND m = b AND m \<longleftrightarrow> (\<forall>n. bit m n \<longrightarrow> bit a n = bit b n)" for a b m :: u32
  proof
    assume "a AND m = b AND m"
    then show "\<forall>n. bit m n \<longrightarrow> bit a n = bit b n" by (metis bit_and_iff)
  qed (auto intro!: bit_word_eqI simp: bit_and_iff)
  then show ?thesis by (simp add: filter_matches_def)
qed

definition in_range :: "can_identifier \<Rightarrow> bool" where
  "in_range i \<longleftrightarrow> (case i of StandardId w \<Rightarrow> w \<le> 0x7FF | ExtendedId w \<Rightarrow> w \<le> 0x1FFFFFFF)"

lemma and_mask_id: "(w :: 'a::len word) \<le> mask n \<Longrightarrow> w AND mask n = w"
  using le_mask_take_bit [of w n] by (simp add: take_bit_eq_mask)

lemma unat_ucast_u16: "unat (ucast (w :: u16) :: u32) = unat w"
  by (simp add: unsigned_ucast_eq take_bit_nat_eq_self_iff) (rule less_le_trans [OF unsigned_less], simp)

lemma ucast_and_7FF: "w \<le> 0x7FF \<Longrightarrow> (ucast (w :: u16) :: u32) AND 0x7FF = ucast w"
proof -
  assume "w \<le> 0x7FF"
  then have "(ucast w :: u32) \<le> mask 11" by (simp add: le_mask_iff_bits mask_simps bit_simps)
  from and_mask_id [OF this] show ?thesis by (simp add: mask_eq_exp_minus_1)
qed

lemma filter_exact_matches:
  assumes "in_range i" "in_range j"
  shows "filter_matches (filter_exact i) j \<longleftrightarrow> j = i"
proof (cases i; cases j)
  fix v w assume ij: "i = StandardId v" "j = StandardId w"
  have "(ucast w :: u32) = ucast v \<longleftrightarrow> w = v"
    by (metis unat_ucast_u16 word_unat_eq_iff)
  then show ?thesis
    using assms ij by (simp add: in_range_def filter_matches_def filter_exact_def ucast_and_7FF)
qed (use assms in \<open>auto simp: in_range_def filter_matches_def filter_exact_def mask_simps and_mask_id\<close>)

section \<open>Channels\<close>

lemma frame_identifier_addressable:
  "addressable f \<Longrightarrow> frame_identifier f =
    Inr (if fr_extended f then ExtendedId (fr_id f) else StandardId (ucast (fr_id f)))"
proof -
  have "(ucast w :: u16) \<le> 0x7FF" if "w \<le> (0x7FF :: u32)" for w
    using that by (simp add: le_mask_iff_bits mask_simps bit_simps)
  moreover assume "addressable f"
  ultimately show ?thesis
    by (auto simp: addressable_def frame_identifier_def can_extended_def can_standard_def split: if_splits)
qed

text \<open>
  The frames of an inbox that a channel hands on: those its route accepts, as long as no frame has
  an impossible identifier and no more than the tolerated number of unrelated frames come in a row.
\<close>

fun let_through :: "can_route_config \<Rightarrow> nat \<Rightarrow> nat \<Rightarrow> can_data_frame list \<Rightarrow> can_data_frame list" where
  "let_through r m 0 fs = []"
| "let_through r m (Suc k) [] = []"
| "let_through r m (Suc k) (f # fs) =
    (case frame_identifier f of
       Inl _ \<Rightarrow> []
     | Inr i \<Rightarrow> if route_accepts r i then f # let_through r m (Suc m) fs else let_through r m k fs)"

locale native_bus = can_bus ops inbox sent
  for ops :: "'io can_io" and inbox sent +
  fixes plan :: native_can_route_plan and max_unrelated :: nat
  assumes classical: "\<not> is_fd (rc_frame_mode (np_route plan))"
begin

abbreviation passed :: "'io \<Rightarrow> can_data_frame list" where
  "passed s \<equiv> let_through (np_route plan) max_unrelated (Suc max_unrelated) (inbox s)"

lemma channel_recv_passed:
  assumes "let_through (np_route plan) max_unrelated k (inbox s) = f # fs"
  shows "\<exists>s'. channel_recv_loop plan ops k s = (Inr f, s') \<and> passed s' = fs \<and> sent s' = sent s"
  using assms
proof (induction k arbitrary: s)
  case (Suc k)
  then obtain g gs where g: "inbox s = g # gs" by (cases "inbox s") auto
  from bus_recv [OF g] obtain s1 where s1: "recv_frame ops s = (Inr g, s1)" "inbox s1 = gs" "sent s1 = sent s"
    by blast
  from Suc.prems g obtain i where i: "frame_identifier g = Inr i" by (auto split: sum.splits)
  show ?case
  proof (cases "route_accepts (np_route plan) i")
    case True
    with Suc.prems g i s1 show ?thesis by (simp add: bind_act_def)
  next
    case False
    with Suc.prems g i s1 have "let_through (np_route plan) max_unrelated k (inbox s1) = f # fs" by simp
    from Suc.IH [OF this] False i s1 show ?thesis by (simp add: bind_act_def)
  qed
qed simp

text \<open>The channel meets the contract of the bus below it.\<close>

lemma channel_can_bus: "can_bus (channel_io plan max_unrelated ops) passed sent"
proof
  fix f :: can_data_frame and s
  assume f: "addressable f"
  from bus_send [OF f] obtain s' where "send_frame ops f s = (Inr (), s')" "inbox s' = inbox s" "sent s' = sent s @ [f]"
    by blast
  with classical show "\<exists>s'. send_frame (channel_io plan max_unrelated ops) f s = (Inr (), s')
      \<and> passed s' = passed s \<and> sent s' = sent s @ [f]"
    by (simp add: channel_io_def channel_send_def validate_frame_identifier_def frame_identifier_addressable [OF f])
next
  fix s f fs assume "passed s = f # fs"
  from channel_recv_passed [OF this]
  show "\<exists>s'. recv_frame (channel_io plan max_unrelated ops) s = (Inr f, s') \<and> passed s' = fs \<and> sent s' = sent s"
    by (simp add: channel_io_def channel_recv_def)
qed (simp_all add: channel_io_def bus_sleep)

end

sublocale native_bus \<subseteq> channel: can_bus "channel_io plan max_unrelated ops" passed sent
  by (rule channel_can_bus)

interpretation mock_native: native_bus mock_can rx tx "\<lparr>np_driver = d, np_interface = i, np_negotiated = n,
    np_route = r\<lparr>rc_frame_mode := Classical\<rparr>\<rparr>" m for d i n r m
  by unfold_locales simp

section \<open>ISO-TP through a channel\<close>

text \<open>A burst of traffic that a route does not let through, and frames that come after such bursts.\<close>

definition unrelated_burst :: "can_route_config \<Rightarrow> nat \<Rightarrow> can_data_frame list \<Rightarrow> bool" where
  "unrelated_burst r m us \<longleftrightarrow> length us \<le> m
    \<and> list_all (\<lambda>u. pred_sum (\<lambda>_. False) (\<lambda>i. \<not> route_accepts r i) (frame_identifier u)) us"

fun after_bursts :: "can_data_frame list list \<Rightarrow> can_data_frame list \<Rightarrow> can_data_frame list" where
  "after_bursts (us # uss) (f # fs) = us @ f # after_bursts uss fs"
| "after_bursts _ _ = []"

lemma let_through_burst:
  assumes "list_all (\<lambda>u. pred_sum (\<lambda>_. False) (\<lambda>i. \<not> route_accepts r i) (frame_identifier u)) us" "length us \<le> k"
  shows "let_through r m (Suc k) (us @ fs) = let_through r m (Suc k - length us) fs"
  using assms
proof (induction us arbitrary: k)
  case (Cons u us)
  then obtain k' i where "k = Suc k'" "frame_identifier u = Inr i" "\<not> route_accepts r i"
    by (cases k; cases "frame_identifier u") auto
  with Cons show ?case by simp
qed simp

lemma let_through_after_bursts:
  assumes "list_all (unrelated_burst r m) uss" "length uss = length fs"
    and "list_all (\<lambda>f. pred_sum (\<lambda>_. False) (route_accepts r) (frame_identifier f)) fs"
  shows "let_through r m (Suc m) (after_bursts uss fs) = fs"
  using assms
proof (induction uss fs rule: after_bursts.induct)
  case (1 us uss f fs)
  then obtain i where i: "frame_identifier f = Inr i" "route_accepts r i"
    by (cases "frame_identifier f") auto
  from 1 have "Suc m - length us = Suc (m - length us)" by (simp add: unrelated_burst_def Suc_diff_le)
  with 1 i show ?case by (simp add: let_through_burst unrelated_burst_def)
qed auto

definition can_id_of :: "u32 \<Rightarrow> can_identifier" where
  "can_id_of i = (if 0x7FF < i then ExtendedId i else StandardId (ucast i))"

lemma frame_identifier_tx_frame:
  "request_id cfg \<le> 0x1FFFFFFF \<Longrightarrow> frame_identifier (tx_frame cfg data) = Inr (can_id_of (request_id cfg))"
  using frame_identifier_addressable [OF addressable_tx_frame [of cfg data]]
  by (simp add: tx_frame_def can_id_of_def)

lemma pdu_frames_accepted:
  "request_id cfg \<le> 0x1FFFFFFF \<Longrightarrow> route_accepts r (can_id_of (request_id cfg)) \<Longrightarrow>
    list_all (\<lambda>f. pred_sum (\<lambda>_. False) (route_accepts r) (frame_identifier f)) (pdu_frames cfg pdu)"
  by (auto simp: pdu_frames_def frame_identifier_tx_frame list_all_iff)

lemma mock_passed:
  assumes "behaves (\<lambda>s. P (rx s)) tx m ins r outs" "P frames = ins @ unread"
  shows "\<exists>rest. m \<lparr>rx = frames, tx = t\<rparr> = (r, \<lparr>rx = rest, tx = t @ outs\<rparr>)"
proof -
  obtain s' where "m \<lparr>rx = frames, tx = t\<rparr> = (r, s')" "tx s' = t @ outs"
    by (rule behavesD [OF assms(1), of "\<lparr>rx = frames, tx = t\<rparr>" unread]) (use assms(2) in auto)
  then show ?thesis by (cases s') auto
qed

lemma bind_classical_plan:
  assumes "bind_classical_io backend route io = Inr ch"
  obtains n where "route\<lparr>rc_frame_mode := Classical\<rparr> = route" "ch_max_unrelated_frames ch = 32"
    "ch_plan ch = \<lparr>np_driver = nc_driver backend, np_interface = nc_interface backend,
      np_negotiated = n, np_route = route\<lparr>rc_frame_mode := Classical\<rparr>\<rparr>"
proof -
  have mode: "rc_frame_mode route = Classical"
    using assms by (cases "rc_frame_mode route") (auto simp: bind_classical_io_def)
  then have "route\<lparr>rc_frame_mode := Classical\<rparr> = route" by (cases route) simp
  with assms mode show thesis
    by (auto simp: bind_classical_io_def nc_plan_route_def channel_new_def intro: that split: if_splits sum.splits)
qed

text \<open>C18: A transfer survives a busy bus. For every native backend that binds a channel to a route, every
  PDU of 1 to 4095 bytes and two matching ends of an ISO-TP connection whose request identifier the
  route accepts, the receiver behind the channel returns exactly the PDU and sends exactly the flow
  controls that the sender on the bare bus needs, with up to 32 frames of other traffic in front
  of every frame of the transfer.\<close>

theorem isotp_through_native_channel:
  assumes "bind_classical_io backend route io = Inr ch"
    and "request_id a = response_id b" "request_id b = response_id a"
    and "request_id a \<le> 0x1FFFFFFF" "request_id b \<le> 0x1FFFFFFF"
    and "route_accepts route (can_id_of (request_id a))"
    and "1 \<le> length pdu" "length pdu \<le> 4095" "length pdu \<le> max_payload_len b"
  shows "\<exists>F G.
    (\<forall>more t. send_pdu mock_can a pdu \<lparr>rx = G @ more, tx = t\<rparr> = (Inr (), \<lparr>rx = more, tx = t @ F\<rparr>)) \<and>
    (\<forall>uss t. length uss = length F \<and> list_all (unrelated_burst route 32) uss \<longrightarrow>
      (\<exists>rest. recv_pdu (channel_io (ch_plan ch) (ch_max_unrelated_frames ch) mock_can) b
         \<lparr>rx = after_bursts uss F, tx = t\<rparr> = (Inr pdu, \<lparr>rx = rest, tx = t @ G\<rparr>)))"
proof -
  let ?G = "pdu_flow_controls b pdu" and ?F = "pdu_frames a pdu"
  have "send_pdu mock_can a pdu \<lparr>rx = ?G @ more, tx = t\<rparr> = (Inr (), \<lparr>rx = more, tx = t @ ?F\<rparr>)" for more t
    using mock_send_pdu [OF assms(3,4,8)] .
  moreover have "\<exists>rest. recv_pdu (channel_io (ch_plan ch) (ch_max_unrelated_frames ch) mock_can) b
      \<lparr>rx = after_bursts uss ?F, tx = t\<rparr> = (Inr pdu, \<lparr>rx = rest, tx = t @ ?G\<rparr>)"
    if uss: "length uss = length ?F \<and> list_all (unrelated_burst route 32) uss" for uss t
  proof -
    let ?P = "let_through (route\<lparr>rc_frame_mode := Classical\<rparr>) 32 (Suc 32)"
    from bind_classical_plan [OF assms(1)] obtain n
      where plan: "route\<lparr>rc_frame_mode := Classical\<rparr> = route" "ch_max_unrelated_frames ch = 32"
        "ch_plan ch = \<lparr>np_driver = nc_driver backend, np_interface = nc_interface backend,
          np_negotiated = n, np_route = route\<lparr>rc_frame_mode := Classical\<rparr>\<rparr>" by blast
    have "?P (after_bursts uss ?F) = ?F @ []"
      using let_through_after_bursts [of route 32 uss ?F] pdu_frames_accepted [OF assms(4,6)] uss
      by (simp add: plan(1))
    moreover have "behaves (\<lambda>s. ?P (rx s)) tx
        (recv_pdu (channel_io (ch_plan ch) (ch_max_unrelated_frames ch) mock_can) b) ?F (Inr pdu) ?G"
      using mock_native.channel.acts_recv_pdu [OF assms(2,5,7-9), where m = 32 and r = route]
      unfolding plan(2,3) by simp
    ultimately show ?thesis by (rule mock_passed [where P = ?P, rotated])
  qed
  ultimately show ?thesis by blast
qed

lemma isotp_through_native_channel_witness:
  "let route = route_with_filter (filter_exact (StandardId 0x7E8)) (route_primary_classical 500000);
       ch = channel_new \<lparr>np_driver = SocketCan, np_interface = ''can0'',
         np_negotiated = projr (negotiate (nc_capabilities (nc_socketcan ''can0'')) (raw_can_requirement route)),
         np_route = route\<rparr> ()
   in \<exists>F G.
    (\<forall>more t. send_pdu mock_can (isotp_config_new 0x7E8 0x7E0) (replicate 20 0x55) \<lparr>rx = G @ more, tx = t\<rparr>
       = (Inr (), \<lparr>rx = more, tx = t @ F\<rparr>)) \<and>
    (\<forall>uss t. length uss = length F \<and> list_all (unrelated_burst route 32) uss \<longrightarrow>
      (\<exists>rest. recv_pdu (channel_io (ch_plan ch) (ch_max_unrelated_frames ch) mock_can) (isotp_config_new 0x7E0 0x7E8)
         \<lparr>rx = after_bursts uss F, tx = t\<rparr> = (Inr (replicate 20 0x55), \<lparr>rx = rest, tx = t @ G\<rparr>)))"
  unfolding Let_def
  by (rule isotp_through_native_channel [where backend = "nc_socketcan ''can0''" and io = "()"])
    (simp_all add: bind_classical_io_def nc_plan_route_def negotiate_def Let_def nc_capabilities_def
      nc_socketcan_def native_can_classical_caps_def raw_can_requirement_def request_defs
      route_with_filter_def route_primary_classical_def route_secondary_bus_def supports_transport_def
      native_can_transports_def isotp_config_new_def max_classic_isotp_payload_def route_accepts_def
      filters_accept_def filter_exact_matches in_range_def can_id_of_def)

end
