(* ===== verification/Stn.thy ===== *)
theory Stn
  imports Backend MockLink
begin

text \<open>
  STN (OBDLink) backends (\<open>adapter/stn.rs\<close>): the plan of \<open>ST\<close> commands that sets up a CAN route, the
  text of the commands, and their exchange over a byte link, with the reading of the answers.
\<close>

section \<open>Presets and commands\<close>

datatype stn_protocol_preset = PresetPrimaryCan | PresetMsCan125 | PresetSwCanGmlan33 | PresetMsGmlan95

definition preset_from_route :: "can_route_config \<Rightarrow> stn_protocol_preset" where
  "preset_from_route route =
    (case rc_bus route of
       PrimaryBus \<Rightarrow> PresetPrimaryCan
     | SecondaryBus MsCan125 \<Rightarrow> PresetMsCan125
     | SecondaryBus SwCanGmlan33 \<Rightarrow> PresetSwCanGmlan33
     | SecondaryBus MsGmlan95 \<Rightarrow> PresetMsGmlan95)"

primrec protocol_number :: "stn_protocol_preset \<Rightarrow> u8" where
  "protocol_number PresetPrimaryCan = 33"
| "protocol_number PresetMsCan125 = 53"
| "protocol_number PresetSwCanGmlan33 = 63"
| "protocol_number PresetMsGmlan95 = 53"

primrec protocol_default_bitrate_bps :: "stn_protocol_preset \<Rightarrow> u32" where
  "protocol_default_bitrate_bps PresetPrimaryCan = 500000"
| "protocol_default_bitrate_bps PresetMsCan125 = 125000"
| "protocol_default_bitrate_bps PresetSwCanGmlan33 = 33300"
| "protocol_default_bitrate_bps PresetMsGmlan95 = 125000"

datatype stn_command =
    CloseProtocol | SelectProtocol stn_protocol_preset | SetProtocolBaudRate u32
  | SetProtocolTimeoutMs u16 | UseAutomaticFiltering | ClearPassFilters
  | AddPassFilter can_route_filter | OpenProtocol

primrec encode_can_identifier :: "can_identifier \<Rightarrow> string" where
  "encode_can_identifier (StandardId raw) = hex_padded 4 (unat raw)"
| "encode_can_identifier (ExtendedId raw) = hex_padded 8 (unat raw)"

text \<open>\<open>{:02}\<close> of an unsigned integer.\<close>

definition decimal_padded :: "nat \<Rightarrow> nat \<Rightarrow> string" where
  "decimal_padded w n = replicate (w - length (decimal n)) (CHR ''0'') @ decimal n"

primrec stn_encode :: "stn_command \<Rightarrow> string" where
  "stn_encode CloseProtocol = ''STPC''"
| "stn_encode (SelectProtocol preset) = ''STP '' @ decimal_padded 2 (unat (protocol_number preset))"
| "stn_encode (SetProtocolBaudRate bps) = ''STPBR '' @ decimal (unat bps)"
| "stn_encode (SetProtocolTimeoutMs ms) = ''STPTO '' @ decimal (unat ms)"
| "stn_encode UseAutomaticFiltering = ''STFA''"
| "stn_encode ClearPassFilters = ''STFPC''"
| "stn_encode (AddPassFilter f) =
    ''STFPA '' @ encode_can_identifier (rf_id f) @ '','' @ encode_can_identifier (rf_mask f)"
| "stn_encode OpenProtocol = ''STPO''"

section \<open>Route plans\<close>

record stn_route_plan =
  sp_route :: can_route_config
  sp_preset :: stn_protocol_preset
  sp_commands :: "stn_command list"

definition encoded_commands :: "stn_route_plan \<Rightarrow> string list" where
  "encoded_commands plan = map stn_encode (sp_commands plan)"

datatype stn_route_error = RouteCapability capability_mismatch | InvalidBitrate u32 | InvalidTimeoutMs u16

primrec stn_route_error_text :: "stn_route_error \<Rightarrow> string" where
  "stn_route_error_text (RouteCapability m) =
    ''backend '' @ debug_backend_kind (cm_backend m) @ '' cannot satisfy route: '' @ debug_mismatch_kind (cm_kind m)"
| "stn_route_error_text (InvalidBitrate bps) = ''invalid STN CAN bitrate '' @ decimal (unat bps) @ '' bps''"
| "stn_route_error_text (InvalidTimeoutMs ms) = ''invalid STN protocol timeout '' @ decimal (unat ms) @ '' ms''"

text \<open>The commands in the order in which they are pushed.\<close>

definition stn_commands :: "can_route_config \<Rightarrow> u16 option \<Rightarrow> stn_command list" where
  "stn_commands route timeout_ms =
    (let preset = preset_from_route route in
     [CloseProtocol, SelectProtocol preset]
     @ (if rc_arbitration_bitrate_bps route \<noteq> protocol_default_bitrate_bps preset
        then [SetProtocolBaudRate (rc_arbitration_bitrate_bps route)] else [])
     @ (case timeout_ms of Some ms \<Rightarrow> [SetProtocolTimeoutMs ms] | None \<Rightarrow> [])
     @ (if rc_filters route = [] then [UseAutomaticFiltering]
        else ClearPassFilters # map AddPassFilter (rc_filters route))
     @ [OpenProtocol])"

definition stn_plan_route :: "can_route_config \<Rightarrow> u16 option \<Rightarrow> stn_route_error + stn_route_plan" where
  "stn_plan_route route timeout_ms =
    (case negotiate stn_caps (isotp_requirement route) of
       Inl m \<Rightarrow> Inl (RouteCapability m)
     | Inr _ \<Rightarrow>
         if rc_arbitration_bitrate_bps route = 0 then Inl (InvalidBitrate (rc_arbitration_bitrate_bps route))
         else if timeout_ms = Some 0 then Inl (InvalidTimeoutMs 0)
         else Inr \<lparr>sp_route = route, sp_preset = preset_from_route route,
                sp_commands = stn_commands route timeout_ms\<rparr>)"

section \<open>Answers\<close>

datatype stn_response_error = EmptyResponse | UnknownStnCommand | OutOfMemory | StnFault string | Unexpected

primrec stn_response_error_text :: "stn_response_error \<Rightarrow> string" where
  "stn_response_error_text EmptyResponse = ''empty response''"
| "stn_response_error_text UnknownStnCommand = ''unknown command''"
| "stn_response_error_text OutOfMemory = ''adapter filter memory exhausted''"
| "stn_response_error_text (StnFault kind) = kind"
| "stn_response_error_text Unexpected = ''unexpected response''"

definition stn_faults :: "(string \<times> string) list" where
  "stn_faults = [
    (''UNABLE TO CONNECT'', ''unable to connect''), (''BUS INIT'', ''bus initialization error''),
    (''BUS ERROR'', ''bus error''), (''CAN ERROR'', ''CAN error''), (''DATA ERROR'', ''data error''),
    (''RX ERROR'', ''RX error''), (''STOPPED'', ''command stopped''), (''LV RESET'', ''low-voltage reset''),
    (''LP ALERT'', ''low-power alert'')]"

definition trim_matches :: "(char \<Rightarrow> bool) \<Rightarrow> string \<Rightarrow> string" where
  "trim_matches p s = trim_end p (dropWhile p s)"

definition stn_line :: "string \<Rightarrow> string" where
  "stn_line raw_line = str_trim (trim_matches (\<lambda>c. c = CHR ''>'' \<or> c = CHR 0x00 \<or> is_whitespace c) raw_line)"

fun response_loop :: "bool \<Rightarrow> string list \<Rightarrow> stn_response_error + unit" where
  "response_loop saw_nonempty [] = (if saw_nonempty then Inl Unexpected else Inl EmptyResponse)"
| "response_loop saw_nonempty (raw_line # lines) =
    (let line = stn_line raw_line in
     if line = [] then response_loop saw_nonempty lines
     else
       let uppercase = map to_upper line in
       if uppercase = ''OK'' then Inr ()
       else if uppercase = ''?'' then Inl UnknownStnCommand
       else if uppercase = ''OUT OF MEMORY'' then Inl OutOfMemory
       else case find (\<lambda>(needle, fault). str_contains uppercase needle) stn_faults of
           Some (needle, fault) \<Rightarrow> Inl (StnFault fault)
         | None \<Rightarrow> response_loop True lines)"

definition parse_command_response :: "string \<Rightarrow> stn_response_error + unit" where
  "parse_command_response response =
    response_loop False (split_on (\<lambda>c. c = CHR 0x0D \<or> c = CHR 0x0A) response)"

section \<open>Applying a plan\<close>

record stn_command_exchange =
  se_command :: stn_command
  se_encoded :: string
  se_response :: string

record stn_apply_report =
  sa_route :: can_route_config
  sa_preset :: stn_protocol_preset
  sa_exchanges :: "stn_command_exchange list"

definition stn_failed :: "string \<Rightarrow> stn_response_error \<Rightarrow> string \<Rightarrow> obd2_error" where
  "stn_failed encoded kind response =
    Adapter (Fmt ''STN command `{}` failed: {}; response={:?}''
      [ArgStr encoded, ArgStr (stn_response_error_text kind), ArgStr (str_trim response)])"

definition send_stn_command :: "'l link \<Rightarrow> stn_command \<Rightarrow> ('l, obd2_error, stn_command_exchange) act" where
  "send_stn_command L command =
    (let encoded = stn_encode command in
     seq_act (ln_write L (text_bytes (encoded @ [CHR 0x0D])))
     (bind_act (ln_read L) (\<lambda>response_bytes.
      let response = bytes_text response_bytes in
      case parse_command_response response of
        Inl kind \<Rightarrow> fail (stn_failed encoded kind response)
      | Inr _ \<Rightarrow> ret \<lparr>se_command = command, se_encoded = encoded, se_response = response\<rparr>)))"

fun send_stn_commands :: "'l link \<Rightarrow> stn_command list \<Rightarrow> stn_command_exchange list
    \<Rightarrow> ('l, obd2_error, stn_command_exchange list) act" where
  "send_stn_commands L [] exchanges = ret exchanges"
| "send_stn_commands L (command # commands) exchanges =
    bind_act (send_stn_command L command) (\<lambda>e. send_stn_commands L commands (exchanges @ [e]))"

definition apply_route_plan :: "'l link \<Rightarrow> stn_route_plan \<Rightarrow> ('l, obd2_error, stn_apply_report) act" where
  "apply_route_plan L plan =
    bind_act (send_stn_commands L (sp_commands plan) []) (\<lambda>exchanges.
    ret \<lparr>sa_route = sp_route plan, sa_preset = sp_preset plan, sa_exchanges = exchanges\<rparr>)"

definition apply_route :: "'l link \<Rightarrow> can_route_config \<Rightarrow> u16 option \<Rightarrow> ('l, obd2_error, stn_apply_report) act" where
  "apply_route L route timeout_ms =
    (case stn_plan_route route timeout_ms of
       Inl err \<Rightarrow> fail (Adapter (Text (stn_route_error_text err)))
     | Inr plan \<Rightarrow> apply_route_plan L plan)"

section \<open>Plans\<close>

text \<open>
  A route is planned exactly when it is classical and neither the bit rate nor the timeout is 0; the
  plan closes the protocol first, opens it last, and programs the filters of the route in order.
\<close>

lemma stn_negotiates: "(\<exists>n. negotiate stn_caps (isotp_requirement route) = Inr n) \<longleftrightarrow> \<not> is_fd (rc_frame_mode route)"
proof (cases "rc_bus route")
  case (SecondaryBus b)
  then show ?thesis
    by (cases b) (auto simp: negotiate_def isotp_requirement_def request_defs stn_caps_def Let_def
        supports_transport_def elm_at_transports_def supports_secondary_bus_def stn_secondary_can_def
        route_secondary_bus_def)
qed (auto simp: negotiate_def isotp_requirement_def request_defs stn_caps_def Let_def
      supports_transport_def elm_at_transports_def route_secondary_bus_def)

lemma stn_plan_route_iff:
  "(\<exists>plan. stn_plan_route route timeout_ms = Inr plan) \<longleftrightarrow>
    \<not> is_fd (rc_frame_mode route) \<and> rc_arbitration_bitrate_bps route \<noteq> 0 \<and> timeout_ms \<noteq> Some 0"
  using stn_negotiates [of route] by (auto simp: stn_plan_route_def split: sum.splits)

lemma stn_plan_commands: "stn_plan_route route timeout_ms = Inr plan \<Longrightarrow>
    sp_commands plan = stn_commands route timeout_ms \<and> sp_route plan = route
    \<and> sp_preset plan = preset_from_route route"
  by (auto simp: stn_plan_route_def split: sum.splits if_splits)

fun pass_filter :: "stn_command \<Rightarrow> can_route_filter option" where
  "pass_filter (AddPassFilter f) = Some f"
| "pass_filter _ = None"

lemma stn_commands_shape:
  "hd (stn_commands route t) = CloseProtocol" "last (stn_commands route t) = OpenProtocol"
  "List.map_filter pass_filter (stn_commands route t) = rc_filters route"
proof -
  have "List.map_filter pass_filter (map AddPassFilter fs) = fs" for fs
    by (induction fs) (simp_all add: List.map_filter_simps)
  moreover have "List.map_filter pass_filter (xs @ ys) = List.map_filter pass_filter xs @ List.map_filter pass_filter ys" for xs ys
    by (simp add: List.map_filter_def)
  ultimately show "List.map_filter pass_filter (stn_commands route t) = rc_filters route"
    by (simp add: stn_commands_def Let_def List.map_filter_simps split: option.split)
qed (simp_all add: stn_commands_def Let_def)

section \<open>Commands on a link\<close>

lemma hex_upper_loop_digits: "c \<in> set (hex_upper_loop n acc) \<Longrightarrow> c \<in> set acc \<or> \<not> is_whitespace c"
proof (induction n acc rule: hex_upper_loop.induct)
  case (1 n acc)
  have "\<not> is_whitespace (hex_digit (of_nat m))" if "m < 16" for m
    using that by (simp add: of_nat_nibble)
  with 1 show ?case by (subst (asm) hex_upper_loop.simps) (auto split: if_splits)
qed

lemma hex_upper_loop_not_Nil [simp]: "hex_upper_loop n acc \<noteq> []"
  by (induction n acc rule: hex_upper_loop.induct) (subst hex_upper_loop.simps, simp)

lemma hex_padded_last: "hex_padded w n \<noteq> []" "\<not> is_whitespace (last (hex_padded w n))"
  using hex_upper_loop_digits [of "last (hex_padded w n)" n "[]"] by (auto simp: hex_padded_def Let_def)

lemma plain_commandI: "cmd \<noteq> [] \<Longrightarrow> \<not> is_whitespace (hd cmd) \<Longrightarrow> \<not> is_whitespace (last cmd) \<Longrightarrow> plain_command cmd"
proof -
  assume cmd: "cmd \<noteq> []" "\<not> is_whitespace (hd cmd)" "\<not> is_whitespace (last cmd)"
  then have "dropWhile is_whitespace (cmd @ [CHR 0x0D]) = cmd @ [CHR 0x0D]"
    by (intro dropWhile_id) simp
  moreover have "is_whitespace (CHR 0x0D)" by (simp add: is_whitespace_def char_byte_def)
  ultimately show ?thesis using cmd by (simp add: plain_command_def str_trim_def trim_end_id)
qed

lemma stn_letters: "\<not> is_whitespace (CHR ''S'')" "\<not> is_whitespace (CHR ''C'')" "\<not> is_whitespace (CHR ''A'')"
    "\<not> is_whitespace (CHR ''O'')"
  by (simp_all add: is_whitespace_def char_byte_def)

lemma stn_encode_plain: "plain_command (stn_encode c)"
proof (rule plain_commandI)
  show "\<not> is_whitespace (last (stn_encode c))"
  proof (cases c)
    case (AddPassFilter f)
    then show ?thesis
      by (cases "rf_mask f") (simp_all add: hex_padded_last)
  qed (simp_all add: decimal_last decimal_padded_def stn_letters)
qed (cases c; simp add: stn_letters)+

context dialogue_link begin

lemma send_stn_command_answered:
  assumes "deliverable resp"
  shows "send_stn_command L command (dialogue ((stn_encode command, resp) # rest)) =
    (case parse_command_response resp of
       Inl kind \<Rightarrow> (Inl (stn_failed (stn_encode command) kind resp), dialogue rest)
     | Inr _ \<Rightarrow> (Inr \<lparr>se_command = command, se_encoded = stn_encode command, se_response = resp\<rparr>, dialogue rest))"
proof -
  from answered [OF stn_encode_plain assms, of command rest] obtain l
    where "ln_write L (text_bytes (stn_encode command @ [CHR 0x0D])) (dialogue ((stn_encode command, resp) # rest)) = (Inr (), l)"
      and "ln_read L l = (Inr (text_bytes resp), dialogue rest)" by blast
  then show ?thesis
    unfolding send_stn_command_def seq_act_def bind_act_def Let_def by (simp split: sum.split)
qed

lemma send_stn_commands_answered:
  assumes "length answers = length commands" "list_all deliverable answers"
  shows "send_stn_commands L commands exchanges (dialogue (zip (map stn_encode commands) answers @ rest)) =
    (let n = length (takeWhile (\<lambda>r. parse_command_response r = Inr ()) answers) in
     if n = length answers
     then (Inr (exchanges @ map2 (\<lambda>c r. \<lparr>se_command = c, se_encoded = stn_encode c, se_response = r\<rparr>) commands answers),
           dialogue rest)
     else (Inl (stn_failed (stn_encode (commands ! n)) (projl (parse_command_response (answers ! n))) (answers ! n)),
           dialogue (drop (Suc n) (zip (map stn_encode commands) answers) @ rest)))"
  using assms
proof (induction commands answers arbitrary: exchanges rule: list_induct2')
  case (4 c cs r rs)
  then show ?case
    by (cases "parse_command_response r")
      (auto simp: bind_act_def send_stn_command_answered Let_def)
qed simp_all

end

text \<open>C13: Setting up a route on an STN chip sends exactly the commands of its plan, in order, and stops at
  the first one that is refused: the error names that command, the reading of its answer and the
  answer, and no later command is sent. When every answer is accepted the report lists each
  command with the text sent and its answer, and nothing more is sent or read.\<close>

theorem stn_apply_route_over_link:
  assumes "stn_plan_route route timeout_ms = Inr plan"
    and "length answers = length (sp_commands plan)"
    and "n = length (takeWhile (\<lambda>r. parse_command_response r = Inr ()) answers)"
  shows "apply_route mock_link route timeout_ms (mock_dialogue (zip (encoded_commands plan) answers @ rest)) =
    (if n = length answers
     then (Inr \<lparr>sa_route = route, sa_preset = preset_from_route route,
             sa_exchanges = map2 (\<lambda>c r. \<lparr>se_command = c, se_encoded = stn_encode c, se_response = r\<rparr>)
               (stn_commands route timeout_ms) answers\<rparr>, mock_dialogue rest)
     else (Inl (stn_failed (stn_encode (stn_commands route timeout_ms ! n))
                  (projl (parse_command_response (answers ! n))) (answers ! n)),
           mock_dialogue (drop (Suc n) (zip (encoded_commands plan) answers) @ rest)))"
  using mock.send_stn_commands_answered [simplified list.pred_True simp_thms True_implies_equals, of answers "sp_commands plan" "[]" rest]
    stn_plan_commands [OF assms(1)] assms
  by (simp add: apply_route_def apply_route_plan_def bind_act_def encoded_commands_def Let_def)

lemma stn_apply_route_over_link_witness:
  "apply_route mock_link (route_with_filter (filter_exact (StandardId 0x7E8)) route_ms_can_125k) (Some 200)
     (mock_dialogue (zip (map stn_encode [CloseProtocol, SelectProtocol PresetMsCan125, SetProtocolTimeoutMs 200,
         ClearPassFilters, AddPassFilter (filter_exact (StandardId 0x7E8)), OpenProtocol])
       [''OK'', ''OK'', ''OK'', ''OK'', ''OUT OF MEMORY'', ''OK''] @ []))
   = (Inl (Adapter (Fmt ''STN command `{}` failed: {}; response={:?}''
        [ArgStr (stn_encode (AddPassFilter (filter_exact (StandardId 0x7E8)))),
         ArgStr ''adapter filter memory exhausted'', ArgStr ''OUT OF MEMORY''])),
      mock_dialogue [(stn_encode OpenProtocol, ''OK'')])"
proof -
  let ?route = "route_with_filter (filter_exact (StandardId 0x7E8)) route_ms_can_125k"
  let ?answers = "[''OK'', ''OK'', ''OK'', ''OK'', ''OUT OF MEMORY'', ''OK'']"
  have cmds: "stn_commands ?route (Some 200) = [CloseProtocol, SelectProtocol PresetMsCan125, SetProtocolTimeoutMs 200,
      ClearPassFilters, AddPassFilter (filter_exact (StandardId 0x7E8)), OpenProtocol]"
    by (simp add: stn_commands_def route_with_filter_def route_ms_can_125k_def route_secondary_classical_def
        preset_from_route_def Let_def)
  obtain plan where plan: "stn_plan_route ?route (Some 200) = Inr plan"
    using stn_plan_route_iff [of ?route "Some 200"]
    by (auto simp: route_with_filter_def route_ms_can_125k_def route_secondary_classical_def)
  have ok: "parse_command_response ''OK'' = Inr ()"
    and oom: "parse_command_response ''OUT OF MEMORY'' = Inl OutOfMemory"
    by (simp_all add: parse_command_response_def stn_line_def trim_matches_def trim_end_def str_trim_def
        is_whitespace_def char_byte_def to_upper_def)
  from stn_apply_route_over_link [OF plan, of ?answers 4 "[]"] stn_plan_commands [OF plan]
  show ?thesis
    by (simp add: encoded_commands_def cmds ok oom stn_failed_def str_trim_def trim_end_def is_whitespace_def
        char_byte_def)
qed

end
