(* ===== verification/MockAdapter.thy ===== *)
theory MockAdapter
  imports SessionLaws
begin

text \<open>
  The simulated vehicle of the crate (\<open>adapter/mock.rs\<close>), a second implementation of the adapter
  interface: fixed answers for the standard PIDs, a configurable list of trouble codes, and parameter
  groups when J1939 is enabled.
\<close>

section \<open>State\<close>

record mock_vehicle =
  ma_info :: adapter_info
  ma_vin :: string
  ma_dtcs :: "dtc list"
  ma_initialized :: bool
  ma_supported :: "pid set"
  ma_j1939_enabled :: bool

definition mock_supported_codes :: "u8 list" where
  "mock_supported_codes = [
    0x00, 0x01, 0x03, 0x04, 0x05, 0x06, 0x07, 0x08, 0x09, 0x0A, 0x0B, 0x0C, 0x0D, 0x0E, 0x0F, 0x10,
    0x11, 0x1C, 0x1F, 0x20, 0x21, 0x23, 0x2C, 0x2D, 0x2E, 0x2F, 0x30, 0x31, 0x33, 0x3C, 0x3D, 0x3E,
    0x3F, 0x40, 0x42, 0x43, 0x44, 0x45, 0x46, 0x47, 0x49, 0x4A, 0x4C, 0x59, 0x5C, 0x5E, 0x60, 0x61,
    0x62, 0x63]"

definition mock_with_vin :: "string \<Rightarrow> mock_vehicle" where
  "mock_with_vin vin =
    \<lparr>ma_info = \<lparr>ai_chipset = Elm327Genuine, ai_firmware = ''MockAdapter v1.0'', ai_protocol = Can11Bit500,
       ai_capabilities = \<lparr>cap_can_clear_dtcs = True, cap_dual_can = False, cap_enhanced_diag = True,
         cap_battery_voltage = True, cap_adaptive_timing = True, cap_kline_init = True,
         cap_kline_wakeup = True, cap_can_filtering = True, cap_can_flow_control = True,
         cap_can_extended_addressing = True, cap_can_silent_mode = True\<rparr>\<rparr>,
     ma_vin = vin, ma_dtcs = [], ma_initialized = False, ma_supported = Pid ` set mock_supported_codes,
     ma_j1939_enabled = False\<rparr>"

definition mock_vehicle_new :: mock_vehicle where
  "mock_vehicle_new = mock_with_vin ''1GCHK23224F000001''"

definition mock_with_j1939_enabled :: "mock_vehicle \<Rightarrow> mock_vehicle" where
  "mock_with_j1939_enabled a = a\<lparr>ma_j1939_enabled := True, ma_info := (ma_info a)\<lparr>ai_protocol := Can29Bit250\<rparr>\<rparr>"

definition mock_set_dtcs :: "dtc list \<Rightarrow> mock_vehicle \<Rightarrow> mock_vehicle" where
  "mock_set_dtcs ds a = a\<lparr>ma_dtcs := ds\<rparr>"

section \<open>Answers\<close>

definition mock_pid_table :: "(u8 \<times> bytes) list" where
  "mock_pid_table = [
    (0x04, [0x40]), (0x05, [0x5A]), (0x06, [0x80]), (0x07, [0x80]), (0x08, [0x80]), (0x09, [0x80]),
    (0x0A, [0x64]), (0x0B, [0x65]), (0x0D, [0x00]), (0x0E, [0x8C]), (0x0F, [0x41]), (0x11, [0x26]),
    (0x1C, [0x06]), (0x2C, [0x1A]), (0x2D, [0x80]), (0x2E, [0x40]), (0x2F, [0xB3]), (0x30, [0x32]),
    (0x33, [0x65]), (0x45, [0x26]), (0x46, [0x41]), (0x47, [0x40]), (0x49, [0x1A]), (0x4A, [0x1A]),
    (0x4C, [0x26]), (0x5C, [0x78]), (0x61, [0x8D]), (0x62, [0x8D]), (0x0C, [0x0A, 0xA0]),
    (0x10, [0x00, 0xFA]), (0x1F, [0x00, 0x3C]), (0x21, [0x00, 0x00]), (0x23, [0x13, 0x88]),
    (0x31, [0x27, 0x10]), (0x3C, [0x0F, 0xA0]), (0x3D, [0x0F, 0xA0]), (0x3E, [0x0B, 0xB8]),
    (0x3F, [0x0B, 0xB8]), (0x42, [0x38, 0x5C]), (0x43, [0x00, 0x64]), (0x44, [0x80, 0x00]),
    (0x59, [0x00, 0xC8]), (0x5E, [0x00, 0x64]), (0x63, [0x03, 0x7F]),
    (0x00, [0xBE, 0x3E, 0xB8, 0x11]), (0x01, [0x00, 0x07, 0x65, 0x00]),
    (0x20, [0x80, 0x12, 0xA0, 0x13]), (0x40, [0xFA, 0xDC, 0x80, 0x00]),
    (0x60, [0xE0, 0x00, 0x00, 0x00])]"

definition mock_pid_response :: "u8 \<Rightarrow> bytes" where
  "mock_pid_response p = (case map_of mock_pid_table p of Some bs \<Rightarrow> bs | None \<Rightarrow> [0x00])"

text \<open>The quotients of the code are exact: \<open>680 / 0.125 = 5440\<close>, \<open>5 / 0.05 = 100\<close>.\<close>

definition mock_j1939_response :: "u32 \<Rightarrow> bytes" where
  "mock_j1939_response p =
    (if p = 61444 then
       (let rpm_raw = 5440 :: u16 in
        [0x00, 155, 155, ucast (rpm_raw AND 0xFF), ucast (drop_bit 8 rpm_raw), 0xFF, 0xFF, 0xFF])
     else if p = 65265 then [0x00, 0x00, 0x00, 0x00, 0x00, 0x00, 0x00, 0x00]
     else if p = 65262 then [90, 60, 0x00, 0x00, 0xFF, 0xFF, 0xFF, 0xFF]
     else if p = 65263 then [0xFF, 50, 0xFF, 100, 0xFF, 0xFF, 0xFF, 0xFF]
     else if p = 65266 then
       (let rate_raw = 100 :: u16 in
        [ucast (rate_raw AND 0xFF), ucast (drop_bit 8 rate_raw), 0x00, 0x02, 0xFF, 0xFF, 0xFF, 0xFF])
     else if p = 65226 then [0x00, 0x00]
     else replicate 8 0xFF)"

text \<open>\<open>u16::from_str_radix(s, 16)\<close>; the two bytes that a code of five characters is sent as.\<close>

definition u16_from_hex :: "string \<Rightarrow> u16 option" where
  "u16_from_hex s = Option.bind (u32_from_hex s) (\<lambda>v. if unat v < 2 ^ 16 then Some (ucast v) else None)"

definition mock_dtc_bytes :: "dtc \<Rightarrow> bytes" where
  "mock_dtc_bytes d =
    (if length (dtc_code d) = 5 then
       (let pre = (case dtc_code d of
              c # _ \<Rightarrow> if c = CHR ''P'' then 0x00 else if c = CHR ''C'' then 0x40
                       else if c = CHR ''B'' then 0x80 else if c = CHR ''U'' then 0xC0 else 0x00
            | [] \<Rightarrow> (0x00 :: u8))
        in case u16_from_hex (drop 1 (dtc_code d)) of
             Some v \<Rightarrow> [pre OR (ucast (drop_bit 8 v) AND 0x3F), ucast (v AND 0xFF)]
           | None \<Rightarrow> [])
     else [])"

section \<open>The adapter operations\<close>

definition mock_initialize :: "(mock_vehicle, obd2_error, initialization_report) act" where
  "mock_initialize a =
    (Inr \<lparr>ir_info = ma_info a, ir_probe_attempts = [], ir_events = []\<rparr>, a\<lparr>ma_initialized := True\<rparr>)"

definition mock_current_data :: "mock_vehicle \<Rightarrow> bytes \<Rightarrow> bytes res" where
  "mock_current_data a data =
    (case data of
       p # _ \<Rightarrow> if Pid p \<in> ma_supported a then Inr (mock_pid_response p) else Inl NoData
     | [] \<Rightarrow> Inl (ParseError (Text ''no PID in request'')))"

definition mock_o2_monitoring :: "bytes \<Rightarrow> bytes res" where
  "mock_o2_monitoring data =
    (case data of
       tid # sensor # _ \<Rightarrow> if sensor \<le> 0x02 then Inr [0x00, 0x5A] else Inl NoData
     | _ \<Rightarrow> Inl NoData)"

definition mock_request_pgn :: "mock_vehicle \<Rightarrow> bytes \<Rightarrow> bytes res" where
  "mock_request_pgn a data =
    (if \<not> ma_j1939_enabled a then Inl NoData
     else case data of
         lo # mid # hi # _ \<Rightarrow>
           Inr (mock_j1939_response (ucast lo OR push_bit 8 (ucast mid) OR push_bit 16 (ucast hi)))
       | _ \<Rightarrow> Inl NoData)"

definition mock_request :: "service_request \<Rightarrow> (mock_vehicle, obd2_error, bytes) act" where
  "mock_request req a =
    (let sid = sr_service_id req; data = sr_data req in
     if sid = 0x01 then (mock_current_data a data, a)
     else if sid = 0x03 then (Inr (concat (map mock_dtc_bytes (ma_dtcs a))), a)
     else if sid = 0x04 then (Inr [], a\<lparr>ma_dtcs := []\<rparr>)
     else if sid = 0x09 then
       (Inr (if slice_first data = Some 0x02 then text_bytes (ma_vin a) else []), a)
     else if sid = 0x05 then (mock_o2_monitoring data, a)
     else if sid = 0x21 \<or> sid = 0x22 then (Inr [0x80, 0x00], a)
     else if sid = 0x10 then (Inr [], a)
     else if sid = 0x27 then
       (Inr (if slice_first data = Some 0x01 then [0xAA, 0xBB, 0xCC, 0xDD] else []), a)
     else if sid = 0x2F \<or> sid = 0x3E then (Inr [], a)
     else if sid = 0xEA then (mock_request_pgn a data, a)
     else (Inl NoData, a))"

definition mock_routed_request :: "routed_request \<Rightarrow> (mock_vehicle, obd2_error, bytes) act" where
  "mock_routed_request req =
    (if rr_target req \<noteq> PBroadcast \<and> rr_service_id req \<in> {0x03, 0x07, 0x0A} then fail NoData
     else mock_request \<lparr>sr_service_id = rr_service_id req, sr_data = rr_data req, sr_target = Broadcast\<rparr>)"

definition mock_adapter :: "mock_vehicle adapter" where
  "mock_adapter =
    \<lparr>ad_initialize = mock_initialize, ad_request = mock_request, ad_routed_request = mock_routed_request,
     ad_supported_pids = (\<lambda>a. (Inr (ma_supported a), a)),
     ad_battery_voltage = (\<lambda>a. (Inr (Some (72 / 5)), a)),
     ad_info = ma_info, ad_drain_events = default_drain_events\<rparr>"

section \<open>The contract\<close>

lemma mock_request_state:
  "ma_initialized (snd (mock_request req a)) = ma_initialized a"
  "ma_info (snd (mock_request req a)) = ma_info a"
  by (simp_all add: mock_request_def Let_def)

interpretation mock_vehicle: adapter_contract mock_adapter ma_initialized
  by unfold_locales
    (auto simp: mock_adapter_def mock_initialize_def mock_routed_request_def default_drain_events_def
      mock_request_state)

section \<open>Codes and the bytes they are sent as\<close>

lemma u16_from_hex_value:
  assumes "hex_value 0 (map char_byte (c # cs)) = Some n" "n < 2 ^ 16" "char_byte c \<noteq> 0x2B"
  shows "u16_from_hex (c # cs) = Some (of_nat n)"
proof -
  have "unat (of_nat n :: u32) = n" "ucast (of_nat n :: u32) = (of_nat n :: u16)"
    using assms(2) by (simp_all add: unat_of_nat unsigned_of_nat take_bit_nat_eq_self)
  with assms show ?thesis by (simp add: u16_from_hex_def u32_from_hex_def Let_def)
qed

lemma u16_from_hex_digits:
  assumes "n1 < 16" "n2 < 16" "n3 < 16" "n4 < 16"
  shows "u16_from_hex [hex_digit n1, hex_digit n2, hex_digit n3, hex_digit n4]
    = Some (of_nat (16 * (16 * (16 * unat n1 + unat n2) + unat n3) + unat n4))"
proof (rule u16_from_hex_value)
  have "unat n1 < 16" "unat n2 < 16" "unat n3 < 16" "unat n4 < 16"
    using assms by (simp_all add: word_less_nat_alt)
  then show "16 * (16 * (16 * unat n1 + unat n2) + unat n3) + unat n4 < 2 ^ 16" by simp
  show "char_byte (hex_digit n1) \<noteq> 0x2B"
    using hex_digit_nibble [OF assms(1)] by (auto simp: hex_nibble_def)
qed (use assms in \<open>simp add: algebra_simps\<close>)

lemma prefix_bits:
  "(case dtc_code_of_bytes a b of
      c # _ \<Rightarrow> if c = CHR ''P'' then 0x00 else if c = CHR ''C'' then 0x40
               else if c = CHR ''B'' then 0x80 else if c = CHR ''U'' then 0xC0 else 0x00
    | [] \<Rightarrow> (0x00 :: u8)) = push_bit 6 (drop_bit 6 a AND 0x03)"
proof -
  define n where "n = drop_bit 6 a AND 0x03"
  have "n = 0 \<or> n = 1 \<or> n = 2 \<or> n = 3"
    unfolding n_def by (rule two_bit_cases [OF small_fields(2)])
  then show ?thesis
    unfolding dtc_code_of_bytes_def category_of_byte_def Let_def n_def [symmetric] by (elim disjE) simp_all
qed

lemma mock_dtc_bytes_inverse: "mock_dtc_bytes (dtc_from_bytes a b) = [a, b]"
proof -
  let ?v = "16 * (16 * (16 * unat (drop_bit 4 a AND 0x03) + unat (a AND 0x0F)) + unat (drop_bit 4 b AND 0x0F))
    + unat (b AND 0x0F)"
  have u: "unat (drop_bit 4 a AND 0x03) = unat a div 16 mod 4" "unat (a AND 0x0F) = unat a mod 16"
    "unat (drop_bit 4 b AND 0x0F) = unat b div 16 mod 16" "unat (b AND 0x0F) = unat b mod 16"
    by (simp_all add: mask_simps unat_and_mask unat_drop_bit_eq drop_bit_eq_div unat_div_distrib)
  have b: "unat b < 256" using unsigned_less [of b] by simp
  have v: "?v = 256 * (unat a mod 64) + unat b"
  proof -
    have "unat b div 16 mod 16 = unat b div 16" using b by (simp add: less_mult_imp_div_less)
    then show ?thesis using mod_mult2_eq [of "unat a" 16 4] unfolding u by simp
  qed
  define w where "w = 256 * (unat a mod 64) + unat b"
  have w: "w div 256 = unat a mod 64" "w mod 256 = unat b"
    using b by (simp_all add: w_def)
  have m: "unat a mod 64 < 64" by simp
  then have "w < 65536" using b unfolding w_def by linarith
  then have uw: "unat (of_nat w :: u16) = w" by (simp add: unat_of_nat)
  have hi: "ucast (drop_bit 8 (of_nat w :: u16)) AND 0x3F = a AND 0x3F"
    unfolding word_unat_eq_iff
    by (simp add: mask_simps unat_and_mask unat_drop_bit_eq drop_bit_eq_div unsigned_ucast_eq take_bit_eq_mod
        unat_div_distrib uw w)
  have lo: "ucast ((of_nat w :: u16) AND 0xFF) = b"
    unfolding word_unat_eq_iff
    by (simp add: mask_simps unat_and_mask unsigned_ucast_eq take_bit_eq_mod uw w)
  have j: "push_bit 6 (drop_bit 6 a AND 0x03) OR (a AND 0x3F) = a"
    by (rule bit_word_eqI) (auto simp: bit_simps mask_simps dest: bit_imp_le_length)
  have "u16_from_hex (drop 1 (dtc_code_of_bytes a b)) = Some (of_nat w)"
    unfolding w_def v [symmetric] by (simp add: dtc_code_of_bytes_def u16_from_hex_digits del: of_nat_add of_nat_mult)
  moreover have "length (dtc_code_of_bytes a b) = 5"
    by (simp add: dtc_code_of_bytes_def)
  ultimately show ?thesis
    using j by (simp add: mock_dtc_bytes_def dtc_from_bytes_def Let_def prefix_bits hi lo)
qed

section \<open>A session over the simulated vehicle\<close>

lemma mock_ensure_initialized:
  assumes "\<not> ses_initialized s" "ses_request_in_flight s = False"
  shows "\<exists>s'. ensure_initialized mock_adapter s = (Inr (), s') \<and> ses_initialized s'
    \<and> ses_request_in_flight s' = False \<and> ma_dtcs (ses_adapter s') = ma_dtcs (ses_adapter s)"
  using assms
  by (auto simp: ensure_initialized_def session_initialize_def bind_act_def on_adapter_def get_act_def
      mock_adapter_def mock_initialize_def default_drain_events_def)

lemma ensure_initialized_again: "ses_initialized s \<Longrightarrow> ensure_initialized A s = (Inr (), s)"
  by (simp add: ensure_initialized_def bind_act_def get_act_def)

lemma mock_broadcast:
  assumes "mock_request (broadcast_request sid data) (ses_adapter s) = (Inr r, a)"
    and "ses_initialized s" "ses_request_in_flight s = False"
  shows "\<exists>s'. send_request mock_adapter (broadcast_request sid data) s = (Inr r, s') \<and> ses_adapter s' = a
    \<and> ses_initialized s' \<and> ses_request_in_flight s' = False"
  using assms
  by (auto simp: send_request_def resolve_request_def broadcast_request_def routed_exchange_def Let_def
      record_visible_target_def on_adapter_def mock_adapter_def mock_routed_request_def conclude_request_def
      default_drain_events_def)

lemma mock_read_dtcs:
  assumes "ma_dtcs (ses_adapter s) = map (\<lambda>(x, y). dtc_from_bytes x y) codes"
    and "ses_initialized s" "ses_request_in_flight s = False"
  shows "\<exists>s'. read_dtcs mock_adapter s
      = (Inr (map (\<lambda>(x, y). (dtc_from_bytes x y)\<lparr>dtc_status := Stored\<rparr>) (filter (\<lambda>c. c \<noteq> (0, 0)) codes)), s')
    \<and> ses_adapter s' = ses_adapter s \<and> ses_initialized s' \<and> ses_request_in_flight s' = False"
proof -
  let ?data = "concat (map (\<lambda>(x, y). [x, y]) codes)"
  have "concat (map mock_dtc_bytes (ma_dtcs (ses_adapter s))) = ?data"
    unfolding assms(1) by (induction codes) (auto simp: mock_dtc_bytes_inverse)
  then have "mock_request (broadcast_request 0x03 []) (ses_adapter s) = (Inr ?data, ses_adapter s)"
    by (simp add: mock_request_def broadcast_request_def Let_def)
  from mock_broadcast [OF this assms(2,3)] decode_dtc_bytes_pairs [of "[]" codes Stored] show ?thesis
    by (auto simp: read_dtcs_def seq_act_def bind_act_def ensure_initialized_again [OF assms(2)]
        read_dtcs_with_target_def broadcast_request_def Let_def)
qed

lemma mock_clear_dtcs:
  assumes "ses_initialized s" "ses_request_in_flight s = False"
  shows "\<exists>s'. clear_dtcs mock_adapter s = (Inr (), s') \<and> ma_dtcs (ses_adapter s') = []
    \<and> ses_initialized s' \<and> ses_request_in_flight s' = False"
proof -
  have "mock_request (broadcast_request 0x04 []) (ses_adapter s) = (Inr [], (ses_adapter s)\<lparr>ma_dtcs := []\<rparr>)"
    by (simp add: mock_request_def broadcast_request_def Let_def)
  from mock_broadcast [OF this assms] show ?thesis
    by (auto simp: clear_dtcs_def seq_act_def bind_act_def ensure_initialized_again [OF assms(1)])
qed

text \<open>C35: The life of trouble codes through a session over the simulated vehicle: whatever codes the
  vehicle is given, a first call reads exactly them (in order, as stored codes with their table
  descriptions, the all-zero code being padding), and after clearing none is left.\<close>

theorem mock_vehicle_dtc_cycle:
  "fst (bind_act (read_dtcs mock_adapter) (\<lambda>before.
      seq_act (clear_dtcs mock_adapter)
        (bind_act (read_dtcs mock_adapter) (\<lambda>after. ret (before, after))))
      (session_new specs (mock_set_dtcs (map (\<lambda>(x, y). dtc_from_bytes x y) codes) (mock_with_vin vin))))
    = Inr (map (\<lambda>(x, y). (dtc_from_bytes x y)\<lparr>dtc_status := Stored\<rparr>) (filter (\<lambda>c. c \<noteq> (0, 0)) codes), [])"
proof -
  let ?s0 = "session_new specs (mock_set_dtcs (map (\<lambda>(x, y). dtc_from_bytes x y) codes) (mock_with_vin vin))"
  obtain s1 where s1: "ensure_initialized mock_adapter ?s0 = (Inr (), s1)" "ses_initialized s1"
    "ses_request_in_flight s1 = False" "ma_dtcs (ses_adapter s1) = map (\<lambda>(x, y). dtc_from_bytes x y) codes"
    using mock_ensure_initialized [of ?s0] by (auto simp: session_new_def mock_set_dtcs_def)
  obtain s2 where s2: "read_dtcs mock_adapter s1
      = (Inr (map (\<lambda>(x, y). (dtc_from_bytes x y)\<lparr>dtc_status := Stored\<rparr>) (filter (\<lambda>c. c \<noteq> (0, 0)) codes)), s2)"
    "ses_initialized s2" "ses_request_in_flight s2 = False"
    using mock_read_dtcs [OF s1(4,2,3)] by auto
  obtain s3 where s3: "clear_dtcs mock_adapter s2 = (Inr (), s3)" "ma_dtcs (ses_adapter s3) = []"
    "ses_initialized s3" "ses_request_in_flight s3 = False"
    using mock_clear_dtcs [OF s2(2,3)] by auto
  obtain s4 where s4: "read_dtcs mock_adapter s3 = (Inr [], s4)"
    using mock_read_dtcs [of s3 "[]"] s3 by auto
  have "read_dtcs mock_adapter ?s0 = read_dtcs mock_adapter s1"
    by (simp add: read_dtcs_def seq_act_def bind_act_def s1(1) ensure_initialized_again [OF s1(2)])
  then show ?thesis
    by (simp add: bind_act_def seq_act_def s2(1) s3(1) s4 ret_def)
qed

text \<open>The parameters that the bitmaps of the simulated vehicle announce and those that it answers are
  not the same sets: it refuses some that it announces, and answers some that it does not announce.\<close>

definition announced_pids :: "u8 list" where
  "announced_pids = concat (map (\<lambda>b. parse_supported_pids (mock_pid_response b) b) [0x00, 0x20, 0x40, 0x60])"

lemma mock_bitmaps_disagree:
  "filter (\<lambda>c. c \<notin> set mock_supported_codes) announced_pids = [0x13, 0x14, 0x15, 0x41, 0x4D, 0x4E, 0x51]
   \<and> 0x5C \<in> set mock_supported_codes - set announced_pids"
  unfolding announced_pids_def mock_supported_codes_def by code_simp

end
