(* ===== verification/Logging.thy ===== *)
theory Logging
  imports MockLink
begin

text \<open>
  The recording link of the crate (\<open>transport/logging.rs\<close>): a decorator that writes every exchange of
  a link to a text file while a capture is active, and the reader of such files. The file system is
  part of the state (a map from paths to contents); what the environment decides is the record
  \<open>capture_env\<close>: the readings of the clock and whether the calls to the operating system succeed.
  Text is a byte string (UTF-8), as elsewhere.
\<close>

section \<open>The bytes of a line\<close>

definition escape_byte :: "u8 \<Rightarrow> string" where
  "escape_byte b =
    (if b = 0x0D then [CHR 0x5C, CHR ''r'']
     else if b = 0x0A then [CHR 0x5C, CHR ''n'']
     else if b = 0x09 then [CHR 0x5C, CHR ''t'']
     else if b = 0x5C then [CHR 0x5C, CHR 0x5C]
     else if 0x20 \<le> b \<and> b \<le> 0x7E then [char_of (unat b)]
     else [CHR 0x5C, CHR ''x''] @ hex_byte b)"

definition escape_bytes :: "bytes \<Rightarrow> string" where
  "escape_bytes data = concat (map escape_byte data)"

text \<open>\<open>u8::from_str_radix(s, 16).unwrap_or(0)\<close>.\<close>

definition u8_of_hex :: "string \<Rightarrow> u8" where
  "u8_of_hex s = (case u32_from_hex s of Some v \<Rightarrow> if unat v < 2 ^ 8 then ucast v else 0 | None \<Rightarrow> 0)"

fun unescape_str :: "string \<Rightarrow> bytes" where
  "unescape_str [] = []"
| "unescape_str [c] = [char_byte c]"
| "unescape_str (c # d # cs) =
    (if c \<noteq> CHR 0x5C then char_byte c # unescape_str (d # cs)
     else if d = CHR ''r'' then 0x0D # unescape_str cs
     else if d = CHR ''n'' then 0x0A # unescape_str cs
     else if d = CHR ''t'' then 0x09 # unescape_str cs
     else if d = CHR 0x5C then 0x5C # unescape_str cs
     else if d = CHR ''x'' then
       (case cs of
          hi # lo # cs' \<Rightarrow> u8_of_hex [hi, lo] # unescape_str cs'
        | [hi] \<Rightarrow> [u8_of_hex [hi, CHR ''0'']]
        | [] \<Rightarrow> [u8_of_hex ''00''])
     else 0x5C # char_byte d # unescape_str cs)"

text \<open>
  \<open>String::from_utf8_lossy\<close> of the standard library: the first sequence of a byte string with whether
  it is well formed, and the replacement character for each sequence that is not.
\<close>

definition continuation :: "bytes \<Rightarrow> nat \<Rightarrow> bool" where
  "continuation bs n \<longleftrightarrow> n < length bs \<and> 0x80 \<le> bs ! n \<and> bs ! n \<le> 0xBF"

definition second_in :: "bytes \<Rightarrow> u8 \<Rightarrow> u8 \<Rightarrow> bool" where
  "second_in bs lo hi \<longleftrightarrow> 1 < length bs \<and> lo \<le> bs ! 1 \<and> bs ! 1 \<le> hi"

definition utf8_sequence :: "bytes \<Rightarrow> bool \<times> nat" where
  "utf8_sequence bs =
    (let b = hd bs in
     if b < 0x80 then (True, 1)
     else if 0xC2 \<le> b \<and> b \<le> 0xDF then if continuation bs 1 then (True, 2) else (False, 1)
     else if 0xE0 \<le> b \<and> b \<le> 0xEF then
       (if \<not> second_in bs (if b = 0xE0 then 0xA0 else 0x80) (if b = 0xED then 0x9F else 0xBF) then (False, 1)
        else if \<not> continuation bs 2 then (False, 2) else (True, 3))
     else if 0xF0 \<le> b \<and> b \<le> 0xF4 then
       (if \<not> second_in bs (if b = 0xF0 then 0x90 else 0x80) (if b = 0xF4 then 0x8F else 0xBF) then (False, 1)
        else if \<not> continuation bs 2 then (False, 2)
        else if \<not> continuation bs 3 then (False, 3) else (True, 4))
     else (False, 1))"

fun lossy_bytes :: "bytes \<Rightarrow> bytes" where
  "lossy_bytes [] = []"
| "lossy_bytes (b # bs) =
    (let (valid, n) = utf8_sequence (b # bs)
     in (if valid then take n (b # bs) else [0xEF, 0xBF, 0xBD]) @ lossy_bytes (drop (n - 1) bs))"

definition from_utf8_lossy :: "bytes \<Rightarrow> string" where
  "from_utf8_lossy bs = bytes_text (lossy_bytes bs)"

section \<open>Header\<close>

record capture_metadata =
  cm_transport_type :: string
  cm_port_or_device :: string
  cm_baud_rate :: "u32 option"

text \<open>The text \<open>started\<close> is the time of day that the code puts into the header.\<close>

definition format_header :: "string \<Rightarrow> capture_metadata \<Rightarrow> string" where
  "format_header started meta =
    ''# obd2-raw v1'' @ [CHR 0x0A] @
    (case cm_baud_rate meta of
       Some baud \<Rightarrow>
         ''# transport='' @ cm_transport_type meta @ '' port='' @ cm_port_or_device meta
           @ '' baud='' @ decimal (unat baud) @ [CHR 0x0A]
     | None \<Rightarrow>
         ''# transport='' @ cm_transport_type meta @ '' device='' @ cm_port_or_device meta @ [CHR 0x0A]) @
    ''# started='' @ started @ [CHR 0x0A]"

section \<open>State and environment\<close>

text \<open>
  A buffered writer: the path of its file, the position at which it writes (\<open>None\<close> for a file opened
  to append), and the text that is not yet in the file. The library may hand over a full buffer
  earlier; the file then holds a prefix of the same text until the next flush.
\<close>

record capture_writer =
  cw_path :: string
  cw_position :: "nat option"
  cw_buffer :: string

text \<open>\<open>lg_observed\<close>: a chunk observer is installed on the inner link. \<open>lg_ticks\<close> counts the readings of
  the clock that end in the file; the start of the capture only shifts these readings.\<close>

record 'l logging_transport =
  lg_inner :: 'l
  lg_observed :: bool
  lg_writer :: "capture_writer option"
  lg_capture_path :: "string option"
  lg_chunk_buf :: "(nat \<times> bytes) list"
  lg_files :: "string \<rightharpoonup> string"
  lg_ticks :: nat

text \<open>The n-th reading of the elapsed time in milliseconds, the text of the time of day, and the
  success of the calls to the operating system on a path.\<close>

record capture_env =
  ce_elapsed :: "nat \<Rightarrow> nat"
  ce_started :: "nat \<Rightarrow> string"
  ce_create :: "string \<Rightarrow> bool"
  ce_flush :: "string \<Rightarrow> bool"
  ce_mkdirs :: "string \<Rightarrow> bool"
  ce_rename :: "string \<Rightarrow> string \<Rightarrow> bool"
  ce_append :: "string \<Rightarrow> bool"

datatype io_error = CreateFailed string | FlushFailed string | MkdirsFailed string | RenameFailed string
  | AppendFailed string | ReadFailed string

text \<open>A link with the chunks that its \<open>read\<close> passes to an observer from a state.\<close>

record 'l observed_link = "'l link" +
  ol_chunks :: "'l \<Rightarrow> bytes list"

definition logging_new :: "(string \<rightharpoonup> string) \<Rightarrow> 'l \<Rightarrow> 'l logging_transport" where
  "logging_new files l =
    \<lparr>lg_inner = l, lg_observed = False, lg_writer = None, lg_capture_path = None, lg_chunk_buf = [],
     lg_files = files, lg_ticks = 0\<rparr>"

definition is_capturing :: "'l logging_transport \<Rightarrow> bool" where
  "is_capturing s \<longleftrightarrow> lg_writer s \<noteq> None"

section \<open>The capture file\<close>

text \<open>Writing at a position of a file; a gap before it is filled with NUL bytes.\<close>

definition file_write :: "nat option \<Rightarrow> string \<Rightarrow> string \<Rightarrow> string" where
  "file_write position data content =
    (case position of
       None \<Rightarrow> content @ data
     | Some n \<Rightarrow> take n (content @ replicate (n - length content) (CHR 0x00)) @ data
         @ drop (n + length data) content)"

definition flush_files :: "capture_writer \<Rightarrow> (string \<rightharpoonup> string) \<Rightarrow> (string \<rightharpoonup> string)" where
  "flush_files w files =
    (case files (cw_path w) of
       Some content \<Rightarrow> files(cw_path w \<mapsto> file_write (cw_position w) (cw_buffer w) content)
     | None \<Rightarrow> files)"

text \<open>Dropping a buffered writer flushes it and ignores an error.\<close>

definition drop_writer :: "capture_env \<Rightarrow> 'l logging_transport \<Rightarrow> 'l logging_transport" where
  "drop_writer E s =
    (case lg_writer s of
       Some w \<Rightarrow> s\<lparr>lg_files := (if ce_flush E (cw_path w) then flush_files w (lg_files s) else lg_files s),
                  lg_writer := None\<rparr>
     | None \<Rightarrow> s)"

definition start_capture :: "capture_env \<Rightarrow> string \<Rightarrow> capture_metadata \<Rightarrow> 'l logging_transport
    \<Rightarrow> (io_error + unit) \<times> 'l logging_transport" where
  "start_capture E path meta s =
    (if \<not> ce_create E path then (Inl (CreateFailed path), s)
     else
       let header = format_header (ce_started E (lg_ticks s)) meta;
           s' = drop_writer E (s\<lparr>lg_files := (lg_files s)(path \<mapsto> [])\<rparr>)
       in (Inr (), s'\<lparr>lg_writer := Some \<lparr>cw_path = path, cw_position = Some 0, cw_buffer = header\<rparr>,
                      lg_capture_path := Some path, lg_observed := True\<rparr>))"

definition stop_capture :: "capture_env \<Rightarrow> 'l logging_transport \<Rightarrow> (io_error + string option) \<times> 'l logging_transport" where
  "stop_capture E s =
    (let s0 = s\<lparr>lg_observed := False, lg_writer := None\<rparr> in
     case lg_writer s of
       None \<Rightarrow> (Inr (lg_capture_path s), s0\<lparr>lg_capture_path := None\<rparr>)
     | Some w \<Rightarrow>
         if ce_flush E (cw_path w)
         then (Inr (lg_capture_path s), s0\<lparr>lg_files := flush_files w (lg_files s), lg_capture_path := None\<rparr>)
         else (Inl (FlushFailed (cw_path w)), s0))"

definition rename_capture :: "capture_env \<Rightarrow> string \<Rightarrow> 'l logging_transport
    \<Rightarrow> (io_error + string option) \<times> 'l logging_transport" where
  "rename_capture E new_path s =
    (case lg_capture_path s of
       None \<Rightarrow> (Inr None, s)
     | Some current_path \<Rightarrow>
         if current_path = new_path then (Inr (Some current_path), s)
         else if \<not> ce_mkdirs E new_path then (Inl (MkdirsFailed new_path), s)
         else if \<not> pred_option (\<lambda>w. ce_flush E (cw_path w)) (lg_writer s)
           then (Inl (FlushFailed current_path), s)
         else
           let s1 = drop_writer E s in
           case lg_files s1 current_path of
             None \<Rightarrow> (Inl (RenameFailed current_path), s1)
           | Some content \<Rightarrow>
               if \<not> ce_rename E current_path new_path then (Inl (RenameFailed current_path), s1)
               else
                 let s2 = s1\<lparr>lg_files := (lg_files s1)(current_path := None, new_path \<mapsto> content)\<rparr> in
                 if \<not> ce_append E new_path then (Inl (AppendFailed new_path), s2)
                 else (Inr (Some new_path),
                       s2\<lparr>lg_writer := Some \<lparr>cw_path = new_path, cw_position = None, cw_buffer = []\<rparr>,
                          lg_capture_path := Some new_path, lg_observed := True\<rparr>))"

section \<open>Lines\<close>

text \<open>\<open>{:.3}\<close> of a time in seconds.\<close>

definition stamp :: "nat \<Rightarrow> string" where
  "stamp ms = decimal (ms div 1000) @ ''.'' @
    (let r = decimal (ms mod 1000) in replicate (3 - length r) (CHR ''0'') @ r)"

definition capture_line :: "nat \<Rightarrow> string \<Rightarrow> string \<Rightarrow> string" where
  "capture_line ms direction payload = stamp ms @ '' '' @ direction @ '' '' @ payload @ [CHR 0x0A]"

definition put_line :: "capture_env \<Rightarrow> string \<Rightarrow> string \<Rightarrow> 'l logging_transport \<Rightarrow> 'l logging_transport" where
  "put_line E direction payload s =
    (case lg_writer s of
       Some w \<Rightarrow> s\<lparr>lg_writer := Some (w\<lparr>cw_buffer := cw_buffer w
                    @ capture_line (ce_elapsed E (lg_ticks s)) direction payload\<rparr>),
                  lg_ticks := Suc (lg_ticks s)\<rparr>
     | None \<Rightarrow> s)"

definition log_line :: "capture_env \<Rightarrow> char \<Rightarrow> bytes \<Rightarrow> 'l logging_transport \<Rightarrow> 'l logging_transport" where
  "log_line E direction data = put_line E [direction] (escape_bytes data)"

definition log_annotation :: "capture_env \<Rightarrow> string \<Rightarrow> 'l logging_transport \<Rightarrow> 'l logging_transport" where
  "log_annotation E note = put_line E ''N'' note"

definition flush_chunks :: "'l logging_transport \<Rightarrow> 'l logging_transport" where
  "flush_chunks s =
    (case lg_writer s of
       Some w \<Rightarrow> s\<lparr>lg_writer := Some (w\<lparr>cw_buffer := cw_buffer w
                    @ concat (map (\<lambda>(ts, data). capture_line ts ''R.chunk'' (escape_bytes data)) (lg_chunk_buf s))\<rparr>),
                  lg_chunk_buf := []\<rparr>
     | None \<Rightarrow> s)"

text \<open>The calls of the installed observer during a read.\<close>

fun observe_chunks :: "capture_env \<Rightarrow> bytes list \<Rightarrow> 'l logging_transport \<Rightarrow> 'l logging_transport" where
  "observe_chunks E [] s = s"
| "observe_chunks E (data # rest) s =
    observe_chunks E rest
      (s\<lparr>lg_chunk_buf := lg_chunk_buf s @ [(ce_elapsed E (lg_ticks s), data)], lg_ticks := Suc (lg_ticks s)\<rparr>)"

section \<open>The link operations\<close>

definition logging_write :: "capture_env \<Rightarrow> 'l observed_link \<Rightarrow> bytes \<Rightarrow> ('l logging_transport, obd2_error, unit) act" where
  "logging_write E L data s =
    (let s' = log_line E (CHR ''W'') data s; (r, l) = ln_write L data (lg_inner s')
     in (r, s'\<lparr>lg_inner := l\<rparr>))"

definition logging_read :: "capture_env \<Rightarrow> 'l observed_link \<Rightarrow> ('l logging_transport, obd2_error, bytes) act" where
  "logging_read E L s =
    (let s' = (if lg_observed s then observe_chunks E (ol_chunks L (lg_inner s)) s else s);
         (r, l) = ln_read L (lg_inner s)
     in case r of
          Inl err \<Rightarrow> (Inl err, s'\<lparr>lg_inner := l\<rparr>)
        | Inr data \<Rightarrow> (Inr data, log_line E (CHR ''R'') data (flush_chunks (s'\<lparr>lg_inner := l\<rparr>))))"

definition logging_reset :: "'l observed_link \<Rightarrow> ('l logging_transport, obd2_error, unit) act" where
  "logging_reset L s = (let (r, l) = ln_reset L (lg_inner s) in (r, s\<lparr>lg_inner := l\<rparr>))"

definition logging_link :: "capture_env \<Rightarrow> 'l observed_link \<Rightarrow> 'l logging_transport link" where
  "logging_link E L =
    \<lparr>ln_write = logging_write E L, ln_read = logging_read E L, ln_reset = logging_reset L\<rparr>"

definition start_raw_capture :: "capture_env \<Rightarrow> string \<Rightarrow> capture_metadata \<Rightarrow> 'l logging_transport
    \<Rightarrow> bool \<times> 'l logging_transport" where
  "start_raw_capture E path meta s =
    (case start_capture E path meta s of (Inr (), s') \<Rightarrow> (True, s') | (Inl _, s') \<Rightarrow> (False, s'))"

definition stop_raw_capture :: "capture_env \<Rightarrow> 'l logging_transport \<Rightarrow> string option \<times> 'l logging_transport" where
  "stop_raw_capture E s =
    (case stop_capture E s of (Inr path, s') \<Rightarrow> (path, s') | (Inl _, s') \<Rightarrow> (None, s'))"

definition rename_raw_capture :: "capture_env \<Rightarrow> string \<Rightarrow> 'l logging_transport \<Rightarrow> string option \<times> 'l logging_transport" where
  "rename_raw_capture E path s =
    (case rename_capture E path s of (Inr path, s') \<Rightarrow> (path, s') | (Inl _, s') \<Rightarrow> (None, s'))"

section \<open>Reading a capture file\<close>

text \<open>\<open>lines\<close> and the split at the first occurrence of a character (\<open>splitn\<close>) of the standard library.\<close>

definition strip_cr :: "string \<Rightarrow> string" where
  "strip_cr l = (if l \<noteq> [] \<and> last l = CHR 0x0D then butlast l else l)"

definition str_lines :: "string \<Rightarrow> string list" where
  "str_lines s =
    (let ls = split_on (\<lambda>c. c = CHR 0x0A) s in map strip_cr (if last ls = [] then butlast ls else ls))"

definition split_first :: "char \<Rightarrow> string \<Rightarrow> string \<times> string option" where
  "split_first c s =
    (takeWhile (\<lambda>x. x \<noteq> c) s, case dropWhile (\<lambda>x. x \<noteq> c) s of [] \<Rightarrow> None | _ # rest \<Rightarrow> Some rest)"

definition command_text :: "bytes \<Rightarrow> string" where
  "command_text raw =
    from_utf8_lossy (if raw \<noteq> [] \<and> last raw = 0x0D then butlast raw else raw)"

text \<open>One line of the loop: the pending command and the pairs so far.\<close>

type_synonym capture_pairs = "string option \<times> (string \<times> string) list"

definition capture_entry :: "string \<Rightarrow> string \<Rightarrow> capture_pairs \<Rightarrow> capture_pairs" where
  "capture_entry direction payload st =
    (let (pending_write, pairs) = st in
     if direction = ''W'' then (Some (command_text (unescape_str payload)), pairs)
     else if direction = ''R'' then
       (case pending_write of
          Some cmd \<Rightarrow> (None, pairs @ [(cmd, from_utf8_lossy (unescape_str payload))])
        | None \<Rightarrow> (None, pairs))
     else st)"

definition parse_capture_line :: "capture_pairs \<Rightarrow> string \<Rightarrow> capture_pairs" where
  "parse_capture_line st line =
    (if slice_first line = Some (CHR ''#'') \<or> line = [] then st
     else case snd (split_first (CHR '' '') line) of
         None \<Rightarrow> st
       | Some rest \<Rightarrow>
           let (direction, payload) = split_first (CHR '' '') rest
           in capture_entry direction (case payload of Some p \<Rightarrow> p | None \<Rightarrow> []) st)"

definition parse_raw_capture :: "(string \<rightharpoonup> string) \<Rightarrow> string \<Rightarrow> io_error + (string \<times> string) list" where
  "parse_raw_capture files path =
    (case files path of
       None \<Rightarrow> Inl (ReadFailed path)
     | Some content \<Rightarrow> Inr (snd (foldl parse_capture_line (None, []) (str_lines content))))"

end
