(* ===== verification/LoggingLaws.thy ===== *)
theory LoggingLaws
  imports Logging
begin

text \<open>
  What a capture file records: the text of a line gives back its bytes, a file read after a capture
  pairs every answered command with its answer, and a dialogue that was recorded can be replayed.
\<close>

section \<open>Escaped bytes\<close>

abbreviation newline :: char where "newline \<equiv> CHR 0x0A"

lemma u8_of_hex_byte [simp]: "u8_of_hex (hex_byte b) = b"
proof -
  let ?h = "drop_bit 4 b" and ?l = "b AND 0x0F"
  have n: "16 * unat ?h + unat ?l = unat b"
    by (simp add: mask_simps unat_and_mask unat_drop_bit_eq drop_bit_eq_div unat_div_distrib)
  have "char_byte (hex_digit ?h) \<noteq> 0x2B"
    using hex_digit_nibble [OF nibbles_lt(1), of b] by (auto simp: hex_nibble_def)
  moreover have "unat b < 2 ^ 8" using unsigned_less [of b] by simp
  ultimately have "u32_from_hex (hex_byte b) = Some (of_nat (unat b))"
    unfolding n [symmetric] by (simp add: hex_byte_def u32_from_hex_def Let_def)
  moreover have u: "unat (ucast b :: u32) = unat b"
    unfolding unsigned_ucast_eq by (rule take_bit_nat_eq_self) (use unat_u8_lt [of b] in \<open>simp del: unat_u8_lt\<close>)
  moreover have "ucast (ucast b :: u32) = b"
    unfolding word_unat_eq_iff by (simp add: unsigned_ucast_eq u take_bit_word_eq_self)
  ultimately show ?thesis by (simp add: u8_of_hex_def)
qed

lemma unescape_plain: "c \<noteq> CHR 0x5C \<Longrightarrow> unescape_str (c # s) = char_byte c # unescape_str s"
  by (cases s) simp_all

lemma char_of_byte_eq: "char_of (unat b) = c \<longleftrightarrow> b = char_byte c"
  by (metis char_byte_char_of bytes_text_text_bytes [of "[c]", unfolded bytes_text_def text_bytes_def, simplified])

lemma char_bytes: "char_byte (CHR 0x5C) = 0x5C" "char_byte newline = 0x0A" "char_byte (CHR 0x0D) = 0x0D"
  by (simp_all add: char_byte_def)

lemma unescape_escape_byte: "unescape_str (escape_byte b @ s) = b # unescape_str s"
proof -
  have h: "hex_byte b = [hex_digit (drop_bit 4 b), hex_digit (b AND 0x0F)]" by (simp add: hex_byte_def)
  have x: "unescape_str (CHR 0x5C # CHR ''x'' # hex_byte b @ s) = b # unescape_str s"
    using u8_of_hex_byte [of b] unfolding h by simp
  consider "b = 0x0D" | "b = 0x0A" | "b = 0x09" | "b = 0x5C"
    | "0x20 \<le> b" "b \<le> 0x7E" "b \<noteq> 0x5C" "b \<noteq> 0x0D" "b \<noteq> 0x0A" "b \<noteq> 0x09"
    | "\<not> (0x20 \<le> b \<and> b \<le> 0x7E)" "b \<noteq> 0x5C" "b \<noteq> 0x0D" "b \<noteq> 0x0A" "b \<noteq> 0x09" by blast
  then show ?thesis
  proof cases
    case 5
    then have "escape_byte b = [char_of (unat b)]" "char_of (unat b) \<noteq> CHR 0x5C"
      by (simp_all add: escape_byte_def char_of_byte_eq char_bytes)
    then show ?thesis by (simp add: unescape_plain)
  next
    case 6
    then have "escape_byte b = [CHR 0x5C, CHR ''x''] @ hex_byte b" by (simp only: escape_byte_def if_False)
    then show ?thesis using x by simp
  qed (simp_all add: escape_byte_def)
qed

lemma unescape_escape: "unescape_str (escape_bytes bs) = bs"
proof -
  have "unescape_str (escape_bytes bs @ s) = bs @ unescape_str s" for s
    by (induction bs arbitrary: s) (simp_all add: escape_bytes_def unescape_escape_byte)
  from this [of "[]"] show ?thesis by simp
qed

definition one_line :: "string \<Rightarrow> bool" where
  "one_line s \<longleftrightarrow> CHR 0x0A \<notin> set s"

lemma line_breaks [simp]: "is_whitespace (CHR 0x0A)" "is_whitespace (CHR 0x0D)" "is_whitespace (CHR '' '')"
  by (simp_all add: is_whitespace_def char_byte_def)

lemma escape_byte_chars: "newline \<notin> set (escape_byte b)" "CHR 0x0D \<notin> set (escape_byte b)"
proof -
  have "newline \<notin> set (hex_byte b)" "CHR 0x0D \<notin> set (hex_byte b)"
    using hex_byte_no_space(1) [of newline b] hex_byte_no_space(1) [of "CHR 0x0D" b] by auto
  moreover have "newline \<noteq> char_of (unat b)" "CHR 0x0D \<noteq> char_of (unat b)" if "b \<noteq> 0x0A" "b \<noteq> 0x0D"
    using that char_of_byte_eq [of b newline] char_of_byte_eq [of b "CHR 0x0D"] by (auto simp: char_bytes)
  ultimately show "newline \<notin> set (escape_byte b)" "CHR 0x0D \<notin> set (escape_byte b)"
    by (auto simp: escape_byte_def)
qed

lemma escape_bytes_one_line: "one_line (escape_bytes bs)" "CHR 0x0D \<notin> set (escape_bytes bs)"
  using escape_byte_chars by (auto simp: one_line_def escape_bytes_def)

section \<open>Lines of a file\<close>

text \<open>The text of a list of lines.\<close>

definition file_text :: "string list \<Rightarrow> string" where
  "file_text ls = concat (map (\<lambda>l. l @ [newline]) ls)"

lemma file_text_simps [simp]: "file_text [] = []" "file_text (l # ls) = l @ newline # file_text ls"
    "file_text (ls @ ms) = file_text ls @ file_text ms"
  by (simp_all add: file_text_def)

lemma str_lines_file_text:
  assumes "list_all one_line ls"
  shows "str_lines (file_text ls) = map strip_cr ls"
proof -
  have "split_on (\<lambda>c. c = newline) (file_text ls) = ls @ [[]]"
    using assms
  proof (induction ls)
    case (Cons l ls)
    then have "split_on (\<lambda>c. c = newline) (l @ newline # file_text ls) = l # split_on (\<lambda>c. c = newline) (file_text ls)"
      by (intro split_on_token_sep) (auto simp: one_line_def)
    with Cons show ?case by simp
  qed simp
  then show ?thesis by (simp add: str_lines_def)
qed

lemma strip_cr_id: "CHR 0x0D \<notin> set l \<Longrightarrow> strip_cr l = l"
  by (auto simp: strip_cr_def dest: last_in_set)

lemma split_first_at: "c \<notin> set t \<Longrightarrow> split_first c (t @ c # r) = (t, Some r)"
proof -
  assume "c \<notin> set t"
  then have "takeWhile (\<lambda>x. x \<noteq> c) (t @ c # r) = t" "dropWhile (\<lambda>x. x \<noteq> c) (t @ c # r) = c # r"
    by (simp_all add: takeWhile_append dropWhile_append)
  then show ?thesis by (simp add: split_first_def)
qed

text \<open>The stamp of a line: digits and a point.\<close>

lemma stamp_chars:
  assumes "c \<in> set (stamp ms)"
  shows "\<not> is_whitespace c \<and> c \<noteq> CHR ''#''"
proof -
  have dec: "\<not> is_whitespace c \<and> c \<noteq> CHR ''#''" if c: "c \<in> set (decimal n)" for n
  proof -
    from decimal_chars [OF c] obtain m :: nat where m: "m < 16" "c = hex_digit (of_nat m)" by blast
    have "hex_nibble (char_byte (CHR ''#'')) = None" by (simp add: hex_nibble_def char_byte_def)
    with hex_digit_nibble [OF of_nat_nibble [OF m(1)]] decimal_no_space [OF c] m(2) show ?thesis by auto
  qed
  have "\<not> is_whitespace (CHR ''.'')" "\<not> is_whitespace (CHR ''0'')"
    by (simp_all add: is_whitespace_def char_byte_def)
  with assms dec show ?thesis by (auto simp: stamp_def Let_def)
qed

lemma stamp_start: "stamp ms \<noteq> []" "slice_first (stamp ms @ t) \<noteq> Some (CHR ''#'')"
proof -
  show n: "stamp ms \<noteq> []" by (simp add: stamp_def)
  then show "slice_first (stamp ms @ t) \<noteq> Some (CHR ''#'')"
    using stamp_chars [of "hd (stamp ms)" ms] by (cases "stamp ms") (auto simp: slice_first_def)
qed

definition line_of :: "nat \<Rightarrow> string \<Rightarrow> string \<Rightarrow> string" where
  "line_of ms direction payload = stamp ms @ CHR '' '' # direction @ CHR '' '' # payload"

lemma capture_line_of: "capture_line ms direction payload = file_text [line_of ms direction payload]"
  by (simp add: capture_line_def line_of_def)

lemma parse_line_of:
  assumes "CHR '' '' \<notin> set direction"
  shows "parse_capture_line st (line_of ms direction payload) = capture_entry direction payload st"
proof -
  have "CHR '' '' \<notin> set (stamp ms)" using stamp_chars [of "CHR '' ''" ms] by auto
  then have "split_first (CHR '' '') (line_of ms direction payload) = (stamp ms, Some (direction @ CHR '' '' # payload))"
    unfolding line_of_def by (rule split_first_at)
  with split_first_at [OF assms, of payload] stamp_start [of ms] show ?thesis
    by (simp add: parse_capture_line_def) (simp add: line_of_def)
qed

lemma line_of_one_line: "one_line direction \<Longrightarrow> one_line payload \<Longrightarrow> one_line (line_of ms direction payload)"
  using stamp_chars [of newline ms] by (auto simp: one_line_def line_of_def)

text \<open>A line of bytes keeps its entry when the line end is stripped; other directions have none.\<close>

lemma parse_byte_line:
  assumes "CHR '' '' \<notin> set direction" "CHR 0x0D \<notin> set direction"
  shows "parse_capture_line st (strip_cr (line_of ms direction (escape_bytes bs)))
    = capture_entry direction (escape_bytes bs) st"
proof -
  have "CHR 0x0D \<notin> set (line_of ms direction (escape_bytes bs))"
    using stamp_chars [of "CHR 0x0D" ms] assms(2) escape_bytes_one_line(2) by (auto simp: line_of_def)
  then show ?thesis by (simp add: strip_cr_id parse_line_of assms(1))
qed

lemma parse_note_line: "parse_capture_line st (strip_cr (line_of ms ''N'' note)) = st"
proof -
  have "\<exists>note'. strip_cr (line_of ms ''N'' note) = line_of ms ''N'' note'"
  proof (cases "note = []")
    case False
    then have "strip_cr (line_of ms ''N'' note) = line_of ms ''N'' (strip_cr note)"
      by (auto simp: strip_cr_def line_of_def butlast_append)
    then show ?thesis ..
  next
    case True
    then have "strip_cr (line_of ms ''N'' note) = line_of ms ''N'' []"
      by (simp add: strip_cr_def line_of_def)
    then show ?thesis ..
  qed
  then show ?thesis by (auto simp: parse_line_of capture_entry_def split: prod.split)
qed

section \<open>Runs of a recording link\<close>

text \<open>The calls on a recording link, and what they do that the pairs of the file depend on: bytes
  handed to the link, and answers that were returned.\<close>

datatype capture_call = CallWrite bytes | CallRead | CallReset | CallNote string | CallRename string

datatype capture_event = Wrote bytes | Answered bytes

fun capture_step :: "capture_env \<Rightarrow> 'l observed_link \<Rightarrow> capture_call \<Rightarrow> 'l logging_transport
    \<Rightarrow> capture_event list \<times> 'l logging_transport" where
  "capture_step E L (CallWrite data) s = ([Wrote data], snd (ln_write (logging_link E L) data s))"
| "capture_step E L CallRead s =
    (case ln_read (logging_link E L) s of (Inr data, s') \<Rightarrow> ([Answered data], s') | (Inl _, s') \<Rightarrow> ([], s'))"
| "capture_step E L CallReset s = ([], snd (ln_reset (logging_link E L) s))"
| "capture_step E L (CallNote note) s = ([], log_annotation E note s)"
| "capture_step E L (CallRename path) s = ([], snd (rename_raw_capture E path s))"

fun capture_run :: "capture_env \<Rightarrow> 'l observed_link \<Rightarrow> capture_call list \<Rightarrow> 'l logging_transport
    \<Rightarrow> capture_event list \<times> 'l logging_transport" where
  "capture_run E L [] s = ([], s)"
| "capture_run E L (c # cs) s =
    (let (es, s') = capture_step E L c s; (es', s'') = capture_run E L cs s' in (es @ es', s''))"

text \<open>The pairs that a file should hold: every answer with the last command before it.\<close>

fun answered_pairs :: "bytes option \<Rightarrow> capture_event list \<Rightarrow> (string \<times> string) list" where
  "answered_pairs w [] = []"
| "answered_pairs w (Wrote data # es) = answered_pairs (Some data) es"
| "answered_pairs (Some data) (Answered resp # es) =
    (command_text data, from_utf8_lossy resp) # answered_pairs None es"
| "answered_pairs None (Answered resp # es) = answered_pairs None es"

text \<open>The operating system does what it is asked to do.\<close>

definition capture_works :: "capture_env \<Rightarrow> bool" where
  "capture_works E \<longleftrightarrow> (\<forall>p q. ce_create E p \<and> ce_flush E p \<and> ce_mkdirs E p \<and> ce_rename E p q \<and> ce_append E p)"

text \<open>The state of a capture that has recorded the lines \<open>ls\<close>, some of them still in the buffer.\<close>

definition recorded :: "string list \<Rightarrow> 'l logging_transport \<Rightarrow> bool" where
  "recorded ls s \<longleftrightarrow> (\<exists>w content. lg_writer s = Some w \<and> lg_capture_path s = Some (cw_path w)
     \<and> lg_files s (cw_path w) = Some content
     \<and> (cw_position w = None \<or> cw_position w = Some (length content))
     \<and> content @ cw_buffer w = file_text ls \<and> list_all one_line ls)"

lemma file_write_end: "position = None \<or> position = Some (length content) \<Longrightarrow>
    file_write position data content = content @ data"
  by (auto simp: file_write_def)

lemma recorded_inner [simp]: "recorded ls (s\<lparr>lg_inner := l\<rparr>) = recorded ls s"
  by (simp add: recorded_def)

lemma recorded_observe [simp]: "recorded ls (observe_chunks E cs s) = recorded ls s"
  by (induction E cs s rule: observe_chunks.induct) (simp_all add: recorded_def)

lemma recorded_put:
  assumes "recorded ls s" "one_line direction" "one_line payload"
  shows "\<exists>ms. recorded (ls @ [line_of ms direction payload]) (put_line E direction payload s)"
proof -
  from assms(1) obtain w content where w: "lg_writer s = Some w" "lg_capture_path s = Some (cw_path w)"
    "lg_files s (cw_path w) = Some content" "cw_position w = None \<or> cw_position w = Some (length content)"
    "content @ cw_buffer w = file_text ls" "list_all one_line ls"
    by (auto simp: recorded_def)
  moreover have "one_line (line_of ms direction payload)" for ms
    by (rule line_of_one_line [OF assms(2,3)])
  ultimately have "recorded (ls @ [line_of (ce_elapsed E (lg_ticks s)) direction payload]) (put_line E direction payload s)"
    by (auto simp: recorded_def put_line_def capture_line_of)
  then show ?thesis ..
qed

text \<open>One call adds lines whose entries are its events.\<close>

definition event_entry :: "capture_pairs \<Rightarrow> capture_event \<Rightarrow> capture_pairs" where
  "event_entry st e =
    (case e of
       Wrote data \<Rightarrow> capture_entry ''W'' (escape_bytes data) st
     | Answered resp \<Rightarrow> capture_entry ''R'' (escape_bytes resp) st)"

definition tells :: "string list \<Rightarrow> capture_event list \<Rightarrow> bool" where
  "tells ls es \<longleftrightarrow> (\<forall>st. foldl parse_capture_line st (map strip_cr ls) = foldl event_entry st es)"

lemma tells_append: "tells ls es \<Longrightarrow> tells ms fs \<Longrightarrow> tells (ls @ ms) (es @ fs)"
  by (simp only: tells_def map_append foldl_append simp_thms)

lemma tells_Nil [simp]: "tells [] []"
  by (simp add: tells_def)

lemma letters: "one_line ''W''" "one_line ''R''" "one_line ''N''" "one_line ''R.chunk''"
  by (simp_all add: one_line_def)

lemma tells_byte_lines: "tells [line_of ms ''W'' (escape_bytes bs)] [Wrote bs]"
    "tells [line_of ms ''R'' (escape_bytes bs)] [Answered bs]" "tells [line_of ms ''R.chunk'' (escape_bytes bs)] []"
    "tells [line_of ms ''N'' note] []"
  by (simp_all add: tells_def event_entry_def parse_byte_line parse_note_line)
    (simp add: capture_entry_def split: prod.split)

lemma tells_chunks: "tells (map (\<lambda>(ts, data). line_of ts ''R.chunk'' (escape_bytes data)) cs) []"
proof (induction cs)
  case (Cons c cs)
  then show ?case
    using tells_append [OF tells_byte_lines(3) [of "fst c" "snd c"] Cons.IH] by (simp add: case_prod_beta)
qed simp

lemma chunks_text: "concat (map (\<lambda>(ts, data). capture_line ts ''R.chunk'' (escape_bytes data)) cs)
    = file_text (map (\<lambda>(ts, data). line_of ts ''R.chunk'' (escape_bytes data)) cs)"
  by (induction cs) (auto simp: capture_line_of)

lemma recorded_chunks:
  assumes "recorded ls s"
  shows "\<exists>ms. recorded (ls @ ms) (flush_chunks s) \<and> tells ms []"
proof -
  let ?ms = "map (\<lambda>(ts, data). line_of ts ''R.chunk'' (escape_bytes data)) (lg_chunk_buf s)"
  from assms obtain w content where w: "lg_writer s = Some w" "lg_capture_path s = Some (cw_path w)"
    "lg_files s (cw_path w) = Some content" "cw_position w = None \<or> cw_position w = Some (length content)"
    "content @ cw_buffer w = file_text ls" "list_all one_line ls"
    by (auto simp: recorded_def)
  moreover have "list_all one_line ?ms"
    by (auto simp: list_all_iff intro!: line_of_one_line letters escape_bytes_one_line)
  ultimately have "recorded (ls @ ?ms) (flush_chunks s)"
    by (auto simp: recorded_def flush_chunks_def chunks_text)
  then show ?thesis using tells_chunks by blast
qed

lemma recorded_write:
  assumes "recorded ls s"
  shows "\<exists>ms. recorded (ls @ ms) (snd (logging_write E L data s)) \<and> tells ms [Wrote data]"
proof -
  from recorded_put [OF assms letters(1) escape_bytes_one_line(1) [of data], where E = E] obtain t
    where "recorded (ls @ [line_of t ''W'' (escape_bytes data)]) (log_line E (CHR ''W'') data s)"
    by (auto simp: log_line_def)
  then show ?thesis
    using tells_byte_lines(1) by (auto simp: logging_write_def Let_def split: prod.split)
qed

lemma recorded_read:
  assumes "recorded ls s"
  shows "\<exists>ms. recorded (ls @ ms) (snd (capture_step E L CallRead s)) \<and> tells ms (fst (capture_step E L CallRead s))"
proof -
  let ?s = "if lg_observed s then observe_chunks E (ol_chunks L (lg_inner s)) s else s"
  obtain r l where rl: "ln_read L (lg_inner s) = (r, l)" by (cases "ln_read L (lg_inner s)")
  have "recorded ls (?s\<lparr>lg_inner := l\<rparr>)" using assms by simp
  then obtain ms where ms: "recorded (ls @ ms) (flush_chunks (?s\<lparr>lg_inner := l\<rparr>))" "tells ms []"
    using recorded_chunks by blast
  show ?thesis
  proof (cases r)
    case (Inl e)
    then show ?thesis
      using assms rl by (auto simp: logging_link_def logging_read_def Let_def intro!: exI [of _ "[]"])
  next
    case (Inr data)
    from recorded_put [OF ms(1) letters(2) escape_bytes_one_line(1) [of data], where E = E] obtain t
      where "recorded (ls @ ms @ [line_of t ''R'' (escape_bytes data)]) (log_line E (CHR ''R'') data (flush_chunks (?s\<lparr>lg_inner := l\<rparr>)))"
      by (auto simp: log_line_def)
    then show ?thesis
      using Inr rl tells_append [OF ms(2) tells_byte_lines(2) [of t data]]
      by (auto simp: logging_link_def logging_read_def Let_def)
  qed
qed

lemma recorded_rename:
  assumes "recorded ls s" "capture_works E"
  shows "recorded ls (snd (rename_raw_capture E path s))"
proof -
  from assms(1) obtain w content where w: "lg_writer s = Some w" "lg_capture_path s = Some (cw_path w)"
    "lg_files s (cw_path w) = Some content" "cw_position w = None \<or> cw_position w = Some (length content)"
    "content @ cw_buffer w = file_text ls" "list_all one_line ls"
    by (auto simp: recorded_def)
  note env = assms(2) [unfolded capture_works_def, rule_format]
  show ?thesis
  proof (cases "cw_path w = path")
    case True
    then show ?thesis using w assms(1) by (simp add: rename_raw_capture_def rename_capture_def)
  next
    case False
    with w env show ?thesis
      by (simp add: rename_raw_capture_def rename_capture_def drop_writer_def flush_files_def file_write_end
          Let_def recorded_def)
  qed
qed

fun call_one_line :: "capture_call \<Rightarrow> bool" where
  "call_one_line (CallNote note) \<longleftrightarrow> one_line note"
| "call_one_line _ \<longleftrightarrow> True"

lemma recorded_call:
  assumes "recorded ls s" "capture_works E" "call_one_line c"
  shows "\<exists>ms. recorded (ls @ ms) (snd (capture_step E L c s)) \<and> tells ms (fst (capture_step E L c s))"
proof (cases c)
  case (CallWrite data)
  then show ?thesis using recorded_write [OF assms(1)] by (simp add: logging_link_def)
next
  case CallRead
  then show ?thesis using recorded_read [OF assms(1), of E L] by metis
next
  case CallReset
  then show ?thesis
    using assms(1) by (auto simp: logging_link_def logging_reset_def split: prod.split intro!: exI [of _ "[]"])
next
  case (CallNote n)
  then show ?thesis
    using recorded_put [OF assms(1) letters(3), of n E] assms(3) tells_byte_lines(4)
    by (auto simp: log_annotation_def)
next
  case (CallRename path)
  then show ?thesis
    using recorded_rename [OF assms(1,2)] by (auto intro!: exI [of _ "[]"])
qed

lemma recorded_run:
  assumes "recorded ls s" "capture_works E" "list_all call_one_line cs"
  shows "\<exists>ms. recorded (ls @ ms) (snd (capture_run E L cs s)) \<and> tells ms (fst (capture_run E L cs s))"
  using assms(1,3)
proof (induction cs arbitrary: ls s)
  case (Cons c cs)
  from recorded_call [OF Cons.prems(1) assms(2), of c L] Cons.prems(2)
  obtain ms where ms: "recorded (ls @ ms) (snd (capture_step E L c s))" "tells ms (fst (capture_step E L c s))"
    by auto
  with Cons.IH [OF ms(1)] Cons.prems(2) tells_append show ?case
    by (fastforce simp: case_prod_beta)
qed (auto intro!: exI [of _ "[]"])

section \<open>The recording link is transparent\<close>

lemma put_line_inner [simp]: "lg_inner (put_line E d p s) = lg_inner s"
  by (simp add: put_line_def split: option.split)

lemma flush_chunks_inner [simp]: "lg_inner (flush_chunks s) = lg_inner s"
  by (simp add: flush_chunks_def split: option.split)

lemma observe_chunks_inner [simp]: "lg_inner (observe_chunks E cs s) = lg_inner s"
  by (induction E cs s rule: observe_chunks.induct) simp_all

lemma drop_writer_inner [simp]: "lg_inner (drop_writer E s) = lg_inner s"
  by (simp add: drop_writer_def split: option.split)

lemma start_capture_inner [simp]: "lg_inner (snd (start_capture E path meta s)) = lg_inner s"
  by (simp add: start_capture_def Let_def)

lemma rename_capture_inner [simp]: "lg_inner (snd (rename_raw_capture E path s)) = lg_inner s"
  by (simp add: rename_raw_capture_def rename_capture_def Let_def split: option.split)

text \<open>The same calls on the inner link alone.\<close>

fun inner_step :: "'l observed_link \<Rightarrow> capture_call \<Rightarrow> 'l \<Rightarrow> capture_event list \<times> 'l" where
  "inner_step L (CallWrite data) l = ([Wrote data], snd (ln_write L data l))"
| "inner_step L CallRead l =
    (case ln_read L l of (Inr data, l') \<Rightarrow> ([Answered data], l') | (Inl _, l') \<Rightarrow> ([], l'))"
| "inner_step L CallReset l = ([], snd (ln_reset L l))"
| "inner_step L _ l = ([], l)"

fun inner_run :: "'l observed_link \<Rightarrow> capture_call list \<Rightarrow> 'l \<Rightarrow> capture_event list \<times> 'l" where
  "inner_run L [] l = ([], l)"
| "inner_run L (c # cs) l =
    (let (es, l') = inner_step L c l; (es', l'') = inner_run L cs l' in (es @ es', l''))"

lemma capture_step_transparent:
  "inner_step L c (lg_inner s) = (fst (capture_step E L c s), lg_inner (snd (capture_step E L c s)))"
  by (cases c) (auto simp: logging_link_def logging_write_def logging_read_def logging_reset_def log_line_def
        log_annotation_def Let_def split: prod.split sum.split)

text \<open>Whatever is recorded, and whether the files can be written or not, the answers and the inner link
  are those of the calls on the inner link.\<close>

lemma capture_run_transparent:
  "inner_run L cs (lg_inner s) = (fst (capture_run E L cs s), lg_inner (snd (capture_run E L cs s)))"
  by (induction cs arbitrary: s) (simp_all add: capture_step_transparent [where E = E] case_prod_beta Let_def)

section \<open>A capture from start to stop\<close>

definition header_lines :: "string \<Rightarrow> capture_metadata \<Rightarrow> string list" where
  "header_lines started meta =
    [''# obd2-raw v1'',
     ''# transport='' @ cm_transport_type meta @
       (case cm_baud_rate meta of
          Some baud \<Rightarrow> '' port='' @ cm_port_or_device meta @ '' baud='' @ decimal (unat baud)
        | None \<Rightarrow> '' device='' @ cm_port_or_device meta),
     ''# started='' @ started]"

lemma header_text: "format_header started meta = file_text (header_lines started meta)"
  by (simp add: format_header_def header_lines_def split: option.split)

definition metadata_one_line :: "capture_env \<Rightarrow> capture_metadata \<Rightarrow> bool" where
  "metadata_one_line E meta \<longleftrightarrow> one_line (cm_transport_type meta) \<and> one_line (cm_port_or_device meta)
     \<and> (\<forall>n. one_line (ce_started E n))"

lemma header_one_line: "metadata_one_line E meta \<Longrightarrow> list_all one_line (header_lines (ce_started E n) meta)"
  using decimal_no_space [of newline] by (auto simp: metadata_one_line_def header_lines_def one_line_def split: option.split)

lemma comment_line: "parse_capture_line st (strip_cr (CHR ''#'' # l)) = st"
  by (cases "l = []") (auto simp: strip_cr_def parse_capture_line_def slice_first_def butlast.simps split: list.split)

lemma header_silent: "foldl parse_capture_line st (map strip_cr (header_lines started meta)) = st"
  by (simp add: header_lines_def comment_line)

lemma recorded_start:
  assumes "capture_works E" "\<not> is_capturing s" "metadata_one_line E meta"
  shows "recorded (header_lines (ce_started E (lg_ticks s)) meta) (snd (start_capture E path meta s))"
  using assms header_one_line [OF assms(3)]
  by (auto simp: start_capture_def capture_works_def is_capturing_def drop_writer_def recorded_def header_text Let_def)

lemma recorded_stop:
  assumes "recorded ls s" "capture_works E"
  shows "\<exists>path. fst (stop_capture E s) = Inr (Some path)
    \<and> parse_raw_capture (lg_files (snd (stop_capture E s))) path
      = Inr (snd (foldl parse_capture_line (None, []) (map strip_cr ls)))"
proof -
  from assms(1) obtain w content where w: "lg_writer s = Some w" "lg_capture_path s = Some (cw_path w)"
    "lg_files s (cw_path w) = Some content" "cw_position w = None \<or> cw_position w = Some (length content)"
    "content @ cw_buffer w = file_text ls" "list_all one_line ls"
    by (auto simp: recorded_def)
  with assms(2) str_lines_file_text [of ls] show ?thesis
    by (auto simp: stop_capture_def capture_works_def flush_files_def file_write_end parse_raw_capture_def Let_def)
qed

lemma entries_are_pairs:
  "snd (foldl event_entry (map_option command_text w, ps) es) = ps @ answered_pairs w es"
  by (induction w es arbitrary: ps rule: answered_pairs.induct)
    (simp_all add: event_entry_def capture_entry_def unescape_escape)

lemma capture_run_parses:
  fixes L :: "'l observed_link" and path :: string
  assumes "capture_works E" "\<not> is_capturing s0" "metadata_one_line E meta" "list_all call_one_line calls"
  defines "run \<equiv> capture_run E L calls (snd (start_capture E path meta s0))"
  shows "\<exists>path'. fst (stop_capture E (snd run)) = Inr (Some path')
    \<and> parse_raw_capture (lg_files (snd (stop_capture E (snd run)))) path' = Inr (answered_pairs None (fst run))"
proof -
  let ?h = "header_lines (ce_started E (lg_ticks s0)) meta"
  have "recorded ?h (snd (start_capture E path meta s0))"
    by (rule recorded_start [OF assms(1-3)])
  from recorded_run [OF this assms(1,4), of L] obtain ms
    where ms: "recorded (?h @ ms) (snd run)" "tells ms (fst run)" by (auto simp: run_def)
  have "snd (foldl parse_capture_line (None, []) (map strip_cr (?h @ ms))) = answered_pairs None (fst run)"
    using ms(2) entries_are_pairs [of None "[]" "fst run"] by (simp add: header_silent tells_def)
  with recorded_stop [OF ms(1) assms(1)] show ?thesis by auto
qed

text \<open>C14: A capture file is a faithful record. Start a capture, make any calls on the recording link
  (writes, reads that may fail, resets, annotations of one line, renames of the file), stop it and
  read the file under the path that stopping returns: the result lists every answer that a read
  returned after a write, in order, with the last command written before it, whatever bytes they
  hold (the carriage return at the end of a command is removed, text that is not UTF-8 becomes
  replacement characters).\<close>

theorem capture_records_exchanges:
  assumes "capture_works E" "\<not> is_capturing s0" "metadata_one_line E meta" "list_all call_one_line calls"
    and "capture_run E L calls (snd (start_capture E path meta s0)) = (events, s)"
  shows "\<exists>path'. fst (stop_capture E s) = Inr (Some path')
    \<and> parse_raw_capture (lg_files (snd (stop_capture E s))) path' = Inr (answered_pairs None events)"
  using capture_run_parses [OF assms(1-4), of L path] assms(5) by simp

section \<open>Dialogues through the recording link\<close>

text \<open>A link without an observer hook, as the default of the trait leaves it.\<close>

definition plain_link :: "'l link \<Rightarrow> 'l observed_link" where
  "plain_link L = link.extend L \<lparr>ol_chunks = (\<lambda>_. [])\<rparr>"

lemma plain_link_simps [simp]: "ln_write (plain_link L) = ln_write L" "ln_read (plain_link L) = ln_read L"
    "ol_chunks (plain_link L) l = []"
  by (simp_all add: plain_link_def link.defs)

definition ascii :: "string \<Rightarrow> bool" where
  "ascii s \<longleftrightarrow> (\<forall>c \<in> set s. char_byte c < 0x80)"

lemma lossy_ascii: "\<forall>b \<in> set bs. b < 0x80 \<Longrightarrow> lossy_bytes bs = bs"
  by (induction bs) (simp_all add: utf8_sequence_def)

lemma from_utf8_lossy_ascii: "ascii s \<Longrightarrow> from_utf8_lossy (text_bytes s) = s"
  by (simp add: from_utf8_lossy_def ascii_def lossy_ascii text_bytes_def bytes_text_text_bytes [unfolded text_bytes_def])

definition dialogue_calls :: "(string \<times> string) list \<Rightarrow> capture_call list" where
  "dialogue_calls ds = concat (map (\<lambda>(cmd, resp). [CallWrite (text_bytes (cmd @ [CHR 0x0D])), CallRead]) ds)"

definition dialogue_events :: "(string \<times> string) list \<Rightarrow> capture_event list" where
  "dialogue_events ds = concat (map (\<lambda>(cmd, resp). [Wrote (text_bytes (cmd @ [CHR 0x0D])), Answered (text_bytes resp)]) ds)"

lemma pairs_of_dialogue:
  "list_all (\<lambda>(cmd, resp). ascii cmd \<and> ascii resp) ds \<Longrightarrow> answered_pairs None (dialogue_events ds) = ds"
proof (induction ds)
  case (Cons d ds)
  obtain cmd resp where d: "d = (cmd, resp)" by (cases d)
  have "command_text (text_bytes (cmd @ [CHR 0x0D])) = from_utf8_lossy (text_bytes cmd)"
    by (simp add: command_text_def text_bytes_def char_bytes)
  with Cons d show ?case by (simp add: dialogue_events_def from_utf8_lossy_ascii)
qed (simp add: dialogue_events_def)

lemma expect_all: "foldl (\<lambda>t (cmd, resp). mock_expect cmd resp t) (mock_dialogue es) ds = mock_dialogue (es @ ds)"
  by (induction ds arbitrary: es) (auto simp: mock_expect_def mock_dialogue_def)

context dialogue_link begin

text \<open>Without a capture the recording link is transparent.\<close>

lemma inactive_dialogue: "dialogue_link (logging_link E (plain_link L))
    (\<lambda>ds. logging_new files (dialogue ds)) deliverable"
proof
  fix cmd resp rest assume "plain_command cmd" "deliverable resp"
  from answered [OF this, of rest] obtain l
    where "ln_write L (text_bytes (cmd @ [CHR 0x0D])) (dialogue ((cmd, resp) # rest)) = (Inr (), l)"
      and "ln_read L l = (Inr (text_bytes resp), dialogue rest)" by blast
  then show "\<exists>l. ln_write (logging_link E (plain_link L)) (text_bytes (cmd @ [CHR 0x0D]))
        (logging_new files (dialogue ((cmd, resp) # rest))) = (Inr (), l)
      \<and> ln_read (logging_link E (plain_link L)) l = (Inr (text_bytes resp), logging_new files (dialogue rest))"
    by (simp add: logging_link_def logging_write_def logging_read_def log_line_def put_line_def flush_chunks_def
        logging_new_def Let_def)
qed

lemma dialogue_run:
  assumes "lg_inner s = dialogue ds" "list_all (\<lambda>(cmd, resp). plain_command cmd \<and> deliverable resp) ds"
  shows "fst (capture_run E (plain_link L) (dialogue_calls ds) s) = dialogue_events ds"
  using assms
proof (induction ds arbitrary: s)
  case (Cons d ds)
  obtain cmd resp where d: "d = (cmd, resp)" by (cases d)
  let ?w = "text_bytes (cmd @ [CHR 0x0D])"
  from Cons.prems d answered [of cmd resp ds] obtain l
    where w: "ln_write L ?w (dialogue ((cmd, resp) # ds)) = (Inr (), l)"
      and r: "ln_read L l = (Inr (text_bytes resp), dialogue ds)" by auto
  let ?s1 = "snd (logging_write E (plain_link L) ?w s)"
  have s1: "lg_inner ?s1 = l" using Cons.prems(1) d w by (simp add: logging_write_def log_line_def Let_def)
  obtain s2 where s2: "logging_read E (plain_link L) ?s1 = (Inr (text_bytes resp), s2)" "lg_inner s2 = dialogue ds"
    using r s1 by (simp add: logging_read_def log_line_def Let_def)
  have "fst (capture_run E (plain_link L) (dialogue_calls ds) s2) = dialogue_events ds"
    using Cons.IH [OF s2(2)] Cons.prems(2) by simp
  then show ?case
    using d s2(1) by (simp add: dialogue_calls_def dialogue_events_def logging_link_def case_prod_beta)
qed (simp add: dialogue_calls_def dialogue_events_def)

text \<open>A dialogue that was recorded is replayed by the scripted link.\<close>

lemma recorded_dialogue_replays:
  assumes "capture_works E" "metadata_one_line E meta"
    and "list_all (\<lambda>(cmd, resp). plain_command cmd \<and> deliverable resp \<and> ascii cmd \<and> ascii resp) ds"
  shows "\<exists>path' pairs. let s = snd (capture_run E (plain_link L) (dialogue_calls ds)
        (snd (start_capture E path meta (logging_new files (dialogue ds)))))
      in fst (stop_capture E s) = Inr (Some path')
       \<and> parse_raw_capture (lg_files (snd (stop_capture E s))) path' = Inr pairs
       \<and> foldl (\<lambda>t (cmd, resp). mock_expect cmd resp t) mock_new pairs = mock_dialogue ds"
proof -
  let ?s0 = "logging_new files (dialogue ds)"
  let ?s1 = "snd (start_capture E path meta ?s0)"
  have i: "\<not> is_capturing ?s0" by (simp add: is_capturing_def logging_new_def)
  have "lg_inner ?s1 = dialogue ds"
    using assms(1) by (simp add: start_capture_def drop_writer_def logging_new_def capture_works_def Let_def)
  then have e: "fst (capture_run E (plain_link L) (dialogue_calls ds) ?s1) = dialogue_events ds"
    using assms(3) by (intro dialogue_run) (auto simp: list_all_iff)
  have "list_all call_one_line (dialogue_calls ds)"
    by (auto simp: dialogue_calls_def list_all_iff)
  from capture_run_parses [OF assms(1) i assms(2) this, of "plain_link L" path] e
  have "\<exists>path'. fst (stop_capture E (snd (capture_run E (plain_link L) (dialogue_calls ds) ?s1))) = Inr (Some path')
    \<and> parse_raw_capture (lg_files (snd (stop_capture E (snd (capture_run E (plain_link L) (dialogue_calls ds) ?s1))))) path'
      = Inr (answered_pairs None (dialogue_events ds))"
    by simp
  moreover have "answered_pairs None (dialogue_events ds) = ds"
    using assms(3) by (intro pairs_of_dialogue) (auto simp: list_all_iff)
  moreover have "foldl (\<lambda>t (cmd, resp). mock_expect cmd resp t) mock_new ds = mock_dialogue ds"
    using expect_all [of "[]" ds] by (simp add: mock_new_def mock_dialogue_def)
  ultimately show ?thesis by (auto simp: Let_def)
qed

end

section \<open>Concrete captures\<close>

definition demo_env :: capture_env where
  "demo_env = \<lparr>ce_elapsed = (\<lambda>n. 125 * n), ce_started = (\<lambda>_. ''2026-03-24T14:30:00.000Z''),
     ce_create = (\<lambda>_. True), ce_flush = (\<lambda>_. True), ce_mkdirs = (\<lambda>_. True), ce_rename = (\<lambda>_ _. True),
     ce_append = (\<lambda>_. True)\<rparr>"

definition demo_metadata :: capture_metadata where
  "demo_metadata = \<lparr>cm_transport_type = ''serial'', cm_port_or_device = ''ttyUSB0'', cm_baud_rate = Some 115200\<rparr>"

definition demo_start :: "mock_transport logging_transport" where
  "demo_start = snd (start_capture demo_env ''a'' demo_metadata
    (logging_new Map.empty (mock_dialogue [(''ATZ'', ''ELM327 v1.5'' @ [CHR 0x0D, CHR ''>''])])))"

definition demo_calls :: "capture_call list" where
  "demo_calls = [CallRead, CallWrite (text_bytes (''ATZ'' @ [CHR 0x0D])), CallNote ''bus=can'', CallRead,
     CallRename ''b'', CallWrite [0xFF, 0x5C, 0x0A]]"

lemma demo_run: "fst (capture_run demo_env (plain_link mock_link) demo_calls demo_start)
    = [Wrote (text_bytes (''ATZ'' @ [CHR 0x0D])), Answered (text_bytes (''ELM327 v1.5'' @ [CHR 0x0D, CHR ''>''])),
       Wrote [0xFF, 0x5C, 0x0A]]"
proof -
  have "lg_inner demo_start = mock_dialogue [(''ATZ'', ''ELM327 v1.5'' @ [CHR 0x0D, CHR ''>''])]"
    by (simp add: demo_start_def) (simp add: logging_new_def)
  moreover have "fst (inner_run (plain_link mock_link) demo_calls
      (mock_dialogue [(''ATZ'', ''ELM327 v1.5'' @ [CHR 0x0D, CHR ''>''])]))
    = [Wrote (text_bytes (''ATZ'' @ [CHR 0x0D])), Answered (text_bytes (''ELM327 v1.5'' @ [CHR 0x0D, CHR ''>''])),
       Wrote [0xFF, 0x5C, 0x0A]]"
    by code_simp
  ultimately show ?thesis
    using capture_run_transparent [of "plain_link mock_link" demo_calls demo_start demo_env] by simp
qed

lemma capture_records_exchanges_witness:
  "\<exists>path'. fst (stop_capture demo_env (snd (capture_run demo_env (plain_link mock_link) demo_calls demo_start)))
      = Inr (Some path')
    \<and> parse_raw_capture (lg_files (snd (stop_capture demo_env
          (snd (capture_run demo_env (plain_link mock_link) demo_calls demo_start))))) path'
      = Inr [(''ATZ'', ''ELM327 v1.5'' @ [CHR 0x0D, CHR ''>''])]"
proof -
  have "capture_works demo_env" by (simp add: capture_works_def demo_env_def)
  moreover have "\<not> is_capturing (logging_new Map.empty (mock_dialogue [(''ATZ'', ''ELM327 v1.5'' @ [CHR 0x0D, CHR ''>''])]))"
    by (simp add: is_capturing_def logging_new_def)
  moreover have "metadata_one_line demo_env demo_metadata"
    by (simp add: metadata_one_line_def demo_env_def demo_metadata_def one_line_def)
  moreover have "list_all call_one_line demo_calls" by (simp add: demo_calls_def one_line_def)
  moreover have "answered_pairs None (fst (capture_run demo_env (plain_link mock_link) demo_calls demo_start))
      = [(''ATZ'', ''ELM327 v1.5'' @ [CHR 0x0D, CHR ''>''])]"
    unfolding demo_run by code_simp
  ultimately show ?thesis
    using capture_records_exchanges [of demo_env _ demo_metadata demo_calls "plain_link mock_link" "''a''",
      OF _ _ _ _ prod.collapse [symmetric]] unfolding demo_start_def by metis
qed

text \<open>A replayed capture of a scripted dialogue, by the locale of links that hold a dialogue.\<close>

lemma mock_capture_replays:
  assumes "capture_works E" "metadata_one_line E meta"
    and "list_all (\<lambda>(cmd, resp). plain_command cmd \<and> ascii cmd \<and> ascii resp) ds"
  shows "\<exists>path' pairs. let s = snd (capture_run E (plain_link mock_link) (dialogue_calls ds)
        (snd (start_capture E path meta (logging_new files (mock_dialogue ds)))))
      in fst (stop_capture E s) = Inr (Some path')
       \<and> parse_raw_capture (lg_files (snd (stop_capture E s))) path' = Inr pairs
       \<and> foldl (\<lambda>t (cmd, resp). mock_expect cmd resp t) mock_new pairs = mock_dialogue ds"
  by (rule mock.recorded_dialogue_replays [simplified simp_thms True_implies_equals, OF assms])

text \<open>Chunks of a read that failed stay in the buffer: stopping the capture and starting another
  one keeps them, so that the next answer writes them to the new file, with the old times.\<close>

lemma stale_chunks_survive_restart:
  "lg_chunk_buf (snd (start_capture E path meta (snd (stop_capture E s)))) = lg_chunk_buf s"
  by (simp add: start_capture_def stop_capture_def drop_writer_def Let_def split: option.split)

end
