(* ===== verification/Uart.thy ===== *)
theory Uart
  imports Logging ElmLaws
begin

text \<open>
  The serial and the BLE link of the crate (\<open>transport/serial.rs\<close>, \<open>transport/ble.rs\<close>). Both collect
  received chunks until the prompt of the adapter, the end of the stream, an error, or a pause longer
  than their timeout (12 s and 5 s). What lies behind them (the operating system, the BLE stack, the
  adapter) is a device: what it sends when bytes are written to it. Log lines are left out.
\<close>

section \<open>Receiving\<close>

text \<open>One attempt to receive: a chunk, the end of the stream, an error, or a pause longer than the timeout.\<close>

datatype receive = RxData bytes | RxClosed | RxFailed string | RxTimeout

text \<open>The attempts that end a read with an error: a read of 0 bytes is the end of a serial port, and
  the channel of the notifications only ends.\<close>

fun serial_stop :: "receive \<Rightarrow> obd2_error option" where
  "serial_stop (RxData data) = (if data = [] then Some (Transport (Text ''serial port closed'')) else None)"
| "serial_stop RxClosed = Some (Transport (Text ''serial port closed''))"
| "serial_stop (RxFailed e) = Some (Transport (Fmt ''serial read error: {}'' [ArgStr e]))"
| "serial_stop RxTimeout = None"

fun ble_stop :: "receive \<Rightarrow> obd2_error option" where
  "ble_stop (RxData data) = None"
| "ble_stop RxClosed = Some (Transport (Text ''BLE notification stream ended''))"
| "ble_stop (RxFailed e) = Some (Transport (Text ''BLE notification stream ended''))"
| "ble_stop RxTimeout = None"

definition prompt :: u8 where "prompt = 0x3E"

text \<open>
  The loop of \<open>read\<close>, with the chunks that an observer sees. It need not end: \<open>None\<close> is a read that
  receives chunks without a prompt for ever.
\<close>

partial_function (option) read_until_prompt ::
    "(receive \<Rightarrow> obd2_error option) \<Rightarrow> ('p \<Rightarrow> receive \<times> 'p) \<Rightarrow> bytes \<Rightarrow> bytes list \<Rightarrow> 'p
      \<Rightarrow> ((obd2_error + bytes) \<times> bytes list \<times> 'p) option" where
  "read_until_prompt stop recv result chunks p =
    (let (e, p') = recv p in
     case stop e of
       Some err \<Rightarrow> Some (Inl err, chunks, p')
     | None \<Rightarrow>
         (case e of
            RxData data \<Rightarrow>
              if prompt \<in> set (result @ data) then Some (Inr (result @ data), chunks @ [data], p')
              else read_until_prompt stop recv (result @ data) (chunks @ [data]) p'
          | _ \<Rightarrow> Some (if result = [] then Inl Timeout else Inr result, chunks, p')))"

section \<open>Devices and ports\<close>

text \<open>What a device does with written bytes (fail, or send something back) and with a flush.\<close>

record 'd uart_device =
  ud_accept :: "bytes \<Rightarrow> 'd \<Rightarrow> (string + receive list) \<times> 'd"
  ud_flush :: "'d \<Rightarrow> (string + unit) \<times> 'd"

text \<open>A port: the device and what it has sent that is not read yet. When nothing is left, a read
  waits until its timeout.\<close>

record 'd uart_port =
  up_device :: 'd
  up_incoming :: "receive list"

definition uart_open :: "'d \<Rightarrow> 'd uart_port" where
  "uart_open d = \<lparr>up_device = d, up_incoming = []\<rparr>"

definition port_recv :: "'d uart_port \<Rightarrow> receive \<times> 'd uart_port" where
  "port_recv p =
    (case up_incoming p of [] \<Rightarrow> (RxTimeout, p) | e # es \<Rightarrow> (e, p\<lparr>up_incoming := es\<rparr>))"

definition port_accept :: "'d uart_device \<Rightarrow> bytes \<Rightarrow> 'd uart_port \<Rightarrow> (string + unit) \<times> 'd uart_port" where
  "port_accept D data p =
    (case ud_accept D data (up_device p) of
       (Inl e, d) \<Rightarrow> (Inl e, p\<lparr>up_device := d\<rparr>)
     | (Inr es, d) \<Rightarrow> (Inr (), p\<lparr>up_device := d, up_incoming := up_incoming p @ es\<rparr>))"

text \<open>A read on a port ends (\<open>port_read_returns\<close> below), so \<open>the\<close> never meets \<open>None\<close>.\<close>

definition port_read :: "(receive \<Rightarrow> obd2_error option) \<Rightarrow> 'd uart_port \<Rightarrow> (obd2_error + bytes) \<times> bytes list \<times> 'd uart_port" where
  "port_read stop p = the (read_until_prompt stop port_recv [] [] p)"

definition is_chunk :: "receive \<Rightarrow> bool" where
  "is_chunk e \<longleftrightarrow> (case e of RxData data \<Rightarrow> True | _ \<Rightarrow> False)"

section \<open>Serial port\<close>

definition serial_write :: "'d uart_device \<Rightarrow> bytes \<Rightarrow> ('d uart_port, obd2_error, unit) act" where
  "serial_write D data p =
    (case port_accept D data p of
       (Inl e, p1) \<Rightarrow> (Inl (Transport (Fmt ''serial write error: {}'' [ArgStr e])), p1)
     | (Inr (), p1) \<Rightarrow>
         (case ud_flush D (up_device p1) of
            (Inl e, d) \<Rightarrow> (Inl (Transport (Fmt ''serial flush error: {}'' [ArgStr e])), p1\<lparr>up_device := d\<rparr>)
          | (Inr (), d) \<Rightarrow> (Inr (), p1\<lparr>up_device := d\<rparr>)))"

definition serial_read :: "('d uart_port, obd2_error, bytes) act" where
  "serial_read p = (let (r, _, p') = port_read serial_stop p in (r, p'))"

text \<open>\<open>reset\<close> reads for 100 ms: the chunks that are there, up to an end or an error.\<close>

definition serial_reset :: "('d uart_port, obd2_error, unit) act" where
  "serial_reset p =
    (let rest = dropWhile (\<lambda>e. is_chunk e \<and> serial_stop e = None) (up_incoming p) in
     (Inr (), p\<lparr>up_incoming := (case rest of e # es \<Rightarrow> if serial_stop e \<noteq> None then es else rest | [] \<Rightarrow> [])\<rparr>))"

definition serial_link :: "'d uart_device \<Rightarrow> 'd uart_port observed_link" where
  "serial_link D = \<lparr>ln_write = serial_write D, ln_read = serial_read, ln_reset = serial_reset,
     ol_chunks = (\<lambda>p. fst (snd (port_read serial_stop p)))\<rparr>"

section \<open>BLE\<close>

text \<open>\<open>data.chunks(20)\<close>, each part written on its own.\<close>

fun ble_parts :: "bytes \<Rightarrow> bytes list" where
  "ble_parts [] = []"
| "ble_parts (b # bs) = take 20 (b # bs) # ble_parts (drop 20 (b # bs))"

fun ble_write_parts :: "'d uart_device \<Rightarrow> bytes list \<Rightarrow> ('d uart_port, obd2_error, unit) act" where
  "ble_write_parts D [] p = (Inr (), p)"
| "ble_write_parts D (part # parts) p =
    (case port_accept D part p of
       (Inl e, p1) \<Rightarrow> (Inl (Transport (Fmt ''BLE write failed: {}'' [ArgStr e])), p1)
     | (Inr (), p1) \<Rightarrow> ble_write_parts D parts p1)"

definition ble_write :: "'d uart_device \<Rightarrow> bytes \<Rightarrow> ('d uart_port, obd2_error, unit) act" where
  "ble_write D data = ble_write_parts D (ble_parts data)"

definition ble_read :: "('d uart_port, obd2_error, bytes) act" where
  "ble_read p = (let (r, _, p') = port_read ble_stop p in (r, p'))"

text \<open>\<open>reset\<close> takes the notifications that are queued.\<close>

definition ble_reset :: "('d uart_port, obd2_error, unit) act" where
  "ble_reset p = (Inr (), p\<lparr>up_incoming := dropWhile is_chunk (up_incoming p)\<rparr>)"

definition ble_link :: "'d uart_device \<Rightarrow> 'd uart_port observed_link" where
  "ble_link D = \<lparr>ln_write = ble_write D, ln_read = ble_read, ln_reset = ble_reset,
     ol_chunks = (\<lambda>p. fst (snd (port_read ble_stop p)))\<rparr>"

section \<open>Choosing a BLE device\<close>

type_synonym uuid = "128 word"

text \<open>A characteristic with the flags of its properties that the code asks for.\<close>

record ble_characteristic =
  bc_uuid :: uuid
  bc_write :: bool
  bc_write_without_response :: bool
  bc_notify :: bool
  bc_indicate :: bool

record uart_chars =
  uc_write_char :: ble_characteristic
  uc_notify_char :: ble_characteristic

definition stn_notify_char :: uuid where "stn_notify_char = 0x0000FFF100001000800000805F9B34FB"
definition stn_write_char :: uuid where "stn_write_char = 0x0000FFF200001000800000805F9B34FB"
definition nus_tx_char :: uuid where "nus_tx_char = 0x6E400003B5A3F393E0A9E50E24DCCA9E"
definition nus_rx_char :: uuid where "nus_rx_char = 0x6E400002B5A3F393E0A9E50E24DCCA9E"

definition uart_pair :: "(ble_characteristic \<Rightarrow> bool) \<Rightarrow> (ble_characteristic \<Rightarrow> bool) \<Rightarrow> ble_characteristic list
    \<Rightarrow> uart_chars option" where
  "uart_pair is_write is_notify chars =
    (case (find is_write chars, find is_notify chars) of
       (Some w, Some n) \<Rightarrow> Some \<lparr>uc_write_char = w, uc_notify_char = n\<rparr>
     | _ \<Rightarrow> None)"

definition find_uart_characteristics :: "ble_characteristic list \<Rightarrow> uart_chars res" where
  "find_uart_characteristics chars =
    (case uart_pair (\<lambda>c. bc_uuid c = stn_write_char) (\<lambda>c. bc_uuid c = stn_notify_char) chars of
       Some uart \<Rightarrow> Inr uart
     | None \<Rightarrow>
         (case uart_pair (\<lambda>c. bc_uuid c = nus_rx_char) (\<lambda>c. bc_uuid c = nus_tx_char) chars of
            Some uart \<Rightarrow> Inr uart
          | None \<Rightarrow>
              (case uart_pair (\<lambda>c. bc_write c \<or> bc_write_without_response c) (\<lambda>c. bc_notify c \<or> bc_indicate c) chars of
                 Some uart \<Rightarrow> Inr uart
               | None \<Rightarrow> Inl (Transport (Text (''no suitable UART characteristics found on BLE device ''
                   @ ''(expected STN FFF0, Nordic UART, or any writable+notifiable pair)''))))))"

definition adapter_name_patterns :: "string list" where
  "adapter_name_patterns =
    [''OBDLink'', ''OBD'', ''ELM327'', ''STN'', ''OBDII'', ''Vgate'', ''vLink'', ''Veepeak'']"

definition is_adapter_match :: "string \<Rightarrow> string option \<Rightarrow> bool" where
  "is_adapter_match name name_filter =
    (let lower = map to_lower name in
     case name_filter of
       Some f \<Rightarrow> str_contains lower (map to_lower f)
     | None \<Rightarrow> list_ex (\<lambda>p. str_contains lower (map to_lower p)) adapter_name_patterns)"

end
