(* ===== verification/UartLaws.thy ===== *)
theory UartLaws
  imports Uart
begin

text \<open>
  When a read of the serial or BLE link returns and what, and the adapter over these links: a device
  that answers every command, in chunks of any size, makes both links hold a dialogue.
\<close>

section \<open>When a read returns\<close>

text \<open>The attempts to receive from a state on.\<close>

fun port_after :: "('p \<Rightarrow> receive \<times> 'p) \<Rightarrow> 'p \<Rightarrow> nat \<Rightarrow> 'p" where
  "port_after recv p 0 = p"
| "port_after recv p (Suc n) = port_after recv (snd (recv p)) n"

definition attempt :: "('p \<Rightarrow> receive \<times> 'p) \<Rightarrow> 'p \<Rightarrow> nat \<Rightarrow> receive" where
  "attempt recv p n = fst (recv (port_after recv p n))"

lemma attempt_simps [simp]: "attempt recv p 0 = fst (recv p)" "attempt recv p (Suc n) = attempt recv (snd (recv p)) n"
  by (simp_all add: attempt_def)

text \<open>A chunk without a prompt; and the bytes of an attempt.\<close>

definition goes_on :: "(receive \<Rightarrow> obd2_error option) \<Rightarrow> receive \<Rightarrow> bool" where
  "goes_on stop e \<longleftrightarrow> (case e of RxData data \<Rightarrow> stop e = None \<and> prompt \<notin> set data | _ \<Rightarrow> False)"

fun chunk_bytes :: "receive \<Rightarrow> bytes" where
  "chunk_bytes (RxData data) = data"
| "chunk_bytes _ = []"

definition collected :: "('p \<Rightarrow> receive \<times> 'p) \<Rightarrow> 'p \<Rightarrow> nat \<Rightarrow> bytes" where
  "collected recv p n = concat (map (\<lambda>i. chunk_bytes (attempt recv p i)) [0..<n])"

lemma collected_simps [simp]: "collected recv p 0 = []"
    "collected recv p (Suc n) = chunk_bytes (fst (recv p)) @ collected recv (snd (recv p)) n"
  by (simp_all add: collected_def upt_conv_Cons map_Suc_upt [symmetric] o_def del: upt_Suc)

text \<open>The result of the attempt that ends a read, after the bytes \<open>bs\<close>.\<close>

definition read_outcome :: "(receive \<Rightarrow> obd2_error option) \<Rightarrow> bytes \<Rightarrow> receive \<Rightarrow> obd2_error + bytes" where
  "read_outcome stop bs e =
    (case stop e of
       Some err \<Rightarrow> Inl err
     | None \<Rightarrow> (case e of RxData data \<Rightarrow> Inr (bs @ data) | _ \<Rightarrow> if bs = [] then Inl Timeout else Inr bs))"

lemma read_step_on:
  assumes "goes_on stop (fst (recv p))" "prompt \<notin> set result"
  shows "read_until_prompt stop recv result chunks p
    = read_until_prompt stop recv (result @ chunk_bytes (fst (recv p))) (chunks @ [chunk_bytes (fst (recv p))]) (snd (recv p))"
  using assms by (subst read_until_prompt.simps) (auto simp: goes_on_def case_prod_beta split: receive.splits)

definition last_chunk :: "(receive \<Rightarrow> obd2_error option) \<Rightarrow> receive \<Rightarrow> bytes list" where
  "last_chunk stop e = (case e of RxData data \<Rightarrow> if stop e = None then [data] else [] | _ \<Rightarrow> [])"

definition seen_chunks :: "('p \<Rightarrow> receive \<times> 'p) \<Rightarrow> 'p \<Rightarrow> nat \<Rightarrow> bytes list" where
  "seen_chunks recv p n = map (\<lambda>i. chunk_bytes (attempt recv p i)) [0..<n]"

lemma seen_chunks_simps [simp]: "seen_chunks recv p 0 = []"
    "seen_chunks recv p (Suc n) = chunk_bytes (fst (recv p)) # seen_chunks recv (snd (recv p)) n"
  by (simp_all add: seen_chunks_def upt_conv_Cons map_Suc_upt [symmetric] o_def del: upt_Suc)

lemma read_step_end:
  assumes "\<not> goes_on stop (fst (recv p))" "prompt \<notin> set result"
  shows "read_until_prompt stop recv result chunks p
    = Some (read_outcome stop result (fst (recv p)), chunks @ last_chunk stop (fst (recv p)), snd (recv p))"
  using assms
  by (subst read_until_prompt.simps)
    (auto simp: goes_on_def read_outcome_def last_chunk_def case_prod_beta split: receive.splits option.splits)

lemma goes_on_no_prompt: "goes_on stop e \<Longrightarrow> prompt \<notin> set (chunk_bytes e)"
  by (auto simp: goes_on_def split: receive.splits)

lemma read_ends:
  assumes "\<forall>i < n. goes_on stop (attempt recv p i)" "\<not> goes_on stop (attempt recv p n)" "prompt \<notin> set result"
  shows "read_until_prompt stop recv result chunks p
    = Some (read_outcome stop (result @ collected recv p n) (attempt recv p n),
        chunks @ seen_chunks recv p n @ last_chunk stop (attempt recv p n), port_after recv p (Suc n))"
  using assms
proof (induction n arbitrary: result chunks p)
  case 0
  then show ?case by (simp add: read_step_end)
next
  case (Suc n)
  have g: "goes_on stop (fst (recv p))" using Suc.prems(1) by fastforce
  have "\<forall>i < n. goes_on stop (attempt recv (snd (recv p)) i)" using Suc.prems(1) by fastforce
  from Suc.IH [OF this, of "result @ chunk_bytes (fst (recv p))" "chunks @ [chunk_bytes (fst (recv p))]"]
    Suc.prems(2,3) goes_on_no_prompt [OF g] read_step_on [of stop recv p result chunks, OF g]
  show ?case by simp
qed

lemma read_returned:
  assumes "read_until_prompt stop recv result chunks p = Some r" "prompt \<notin> set result"
  shows "\<exists>n. \<not> goes_on stop (attempt recv p n)"
proof -
  have "prompt \<notin> set result \<longrightarrow> (\<exists>n. \<not> goes_on stop (attempt recv p n))"
  proof (rule read_until_prompt.raw_induct [where P = "\<lambda>stop recv result chunks p r.
      prompt \<notin> set result \<longrightarrow> (\<exists>n. \<not> goes_on stop (attempt recv p n))", OF _ assms(1)], intro impI)
    fix f :: "(receive \<Rightarrow> obd2_error option) \<Rightarrow> ('a \<Rightarrow> receive \<times> 'a) \<Rightarrow> bytes \<Rightarrow> bytes list \<Rightarrow> 'a
        \<Rightarrow> ((obd2_error + bytes) \<times> bytes list \<times> 'a) option"
      and stop and recv :: "'a \<Rightarrow> receive \<times> 'a" and result chunks p r
    assume IH: "\<And>stop recv result chunks p r. f stop recv result chunks p = Some r \<Longrightarrow>
        prompt \<notin> set result \<longrightarrow> (\<exists>n. \<not> goes_on stop (attempt recv p n))"
      and body: "(let (e, p') = recv p in
         case stop e of
           Some err \<Rightarrow> Some (Inl err, chunks, p')
         | None \<Rightarrow>
             (case e of
                RxData data \<Rightarrow>
                  if prompt \<in> set (result @ data) then Some (Inr (result @ data), chunks @ [data], p')
                  else f stop recv (result @ data) (chunks @ [data]) p'
              | _ \<Rightarrow> Some (if result = [] then Inl Timeout else Inr result, chunks, p'))) = Some r"
      and none: "prompt \<notin> set result"
    show "\<exists>n. \<not> goes_on stop (attempt recv p n)"
    proof (cases "goes_on stop (fst (recv p))")
      case True
      then obtain data where e: "fst (recv p) = RxData data" "stop (RxData data) = None" "prompt \<notin> set data"
        by (auto simp: goes_on_def split: receive.splits)
      with body none have "f stop recv (result @ data) (chunks @ [data]) (snd (recv p)) = Some r"
        by (simp add: case_prod_beta)
      with IH [OF this] none e(3) have "\<exists>n. \<not> goes_on stop (attempt recv (snd (recv p)) n)" by simp
      then show ?thesis by (metis attempt_simps(2))
    next
      case False
      then show ?thesis by (metis attempt_simps(1))
    qed
  qed
  with assms(2) show ?thesis by simp
qed

text \<open>C15: When the reading loop of the serial and the BLE link returns, and what. It returns exactly when
  some attempt to receive is not a chunk without a prompt (a chunk with the prompt, a pause, the
  end of the stream, an error), otherwise it waits for ever. The first such attempt ends the read:
  an error or the end of the stream loses what was collected, a pause after at least one byte
  returns the bytes so far and after none is a timeout, a chunk with the prompt is the last one of the
  answer. The observer has seen every chunk.\<close>

theorem read_until_prompt_returns:
  "((\<exists>r. read_until_prompt stop recv [] [] p = Some r) \<longleftrightarrow> (\<exists>n. \<not> goes_on stop (attempt recv p n)))
   \<and> (\<forall>n. (\<forall>i < n. goes_on stop (attempt recv p i)) \<and> \<not> goes_on stop (attempt recv p n) \<longrightarrow>
       read_until_prompt stop recv [] [] p =
         Some (read_outcome stop (collected recv p n) (attempt recv p n),
           seen_chunks recv p n @ last_chunk stop (attempt recv p n), port_after recv p (Suc n)))"
proof -
  have ends: "read_until_prompt stop recv [] [] p =
         Some (read_outcome stop (collected recv p n) (attempt recv p n),
           seen_chunks recv p n @ last_chunk stop (attempt recv p n), port_after recv p (Suc n))"
    if "\<forall>i < n. goes_on stop (attempt recv p i)" "\<not> goes_on stop (attempt recv p n)" for n
    using read_ends [OF that, of "[]" "[]"] by simp
  have "\<exists>r. read_until_prompt stop recv [] [] p = Some r" if "\<exists>n. \<not> goes_on stop (attempt recv p n)"
  proof -
    from exists_least_iff [THEN iffD1, OF that] obtain n
      where "\<not> goes_on stop (attempt recv p n)" "\<forall>i < n. goes_on stop (attempt recv p i)" by blast
    with ends [of n] show ?thesis by blast
  qed
  with ends read_returned [of stop recv "[]" "[]" p] show ?thesis by auto
qed

lemma read_until_prompt_returns_witness:
  "read_until_prompt serial_stop port_recv [] []
     \<lparr>up_device = (), up_incoming = [RxData [0x34, 0x31], RxData [0x30, 0x0D, 0x3E], RxData [0x4F]]\<rparr>
   = Some (Inr [0x34, 0x31, 0x30, 0x0D, 0x3E], [[0x34, 0x31], [0x30, 0x0D, 0x3E]],
       \<lparr>up_device = (), up_incoming = [RxData [0x4F]]\<rparr>)"
  using read_until_prompt_returns [where stop = serial_stop and recv = port_recv
      and p = "\<lparr>up_device = (), up_incoming = [RxData [0x34, 0x31], RxData [0x30, 0x0D, 0x3E], RxData [0x4F]]\<rparr>",
      THEN conjunct2, THEN spec, of "Suc 0"]
  by (simp add: port_recv_def goes_on_def prompt_def read_outcome_def last_chunk_def)

section \<open>Ports\<close>

lemma port_recv_incoming: "up_incoming p = [] \<Longrightarrow> port_recv p = (RxTimeout, p)"
    "up_incoming p = e # es \<Longrightarrow> port_recv p = (e, p\<lparr>up_incoming := es\<rparr>)"
  by (simp_all add: port_recv_def)

lemma port_after_drop: "port_after port_recv p n = p\<lparr>up_incoming := drop n (up_incoming p)\<rparr>"
proof (induction n arbitrary: p)
  case (Suc n)
  then show ?case by (cases "up_incoming p") (simp_all add: port_recv_def)
qed simp

lemma port_read_returns: "\<exists>r. read_until_prompt stop port_recv [] [] p = Some r"
proof -
  have "attempt port_recv p (length (up_incoming p)) = RxTimeout"
    by (simp add: attempt_def port_after_drop port_recv_def)
  then have e: "\<exists>n. \<not> goes_on stop (attempt port_recv p n)"
    by (intro exI [of _ "length (up_incoming p)"]) (simp add: goes_on_def)
  from exists_least_iff [THEN iffD1, OF e] obtain n
    where "\<not> goes_on stop (attempt port_recv p n)" "\<forall>i < n. goes_on stop (attempt port_recv p i)" by blast
  then show ?thesis using read_ends [of n stop port_recv p "[]" "[]"] by simp
qed

text \<open>A complete answer: chunks with the prompt in the last one only, or without any prompt.\<close>

definition delivers :: "(receive \<Rightarrow> obd2_error option) \<Rightarrow> string \<Rightarrow> receive list \<Rightarrow> bool" where
  "delivers stop resp es \<longleftrightarrow> (\<exists>cs. es = map RxData cs \<and> list_all (\<lambda>c. stop (RxData c) = None) cs
     \<and> concat cs = text_bytes resp \<and> list_all (\<lambda>c. prompt \<notin> set c) (butlast cs))"

lemma read_delivered:
  assumes "list_all (\<lambda>c. stop (RxData c) = None) cs" "stop RxTimeout = None"
    and "list_all (\<lambda>c. prompt \<notin> set c) (butlast cs)" "prompt \<notin> set result" "result @ concat cs \<noteq> []"
    and "up_incoming p = map RxData cs"
  shows "read_until_prompt stop port_recv result chunks p
    = Some (Inr (result @ concat cs), chunks @ cs, p\<lparr>up_incoming := []\<rparr>)"
  using assms
proof (induction cs arbitrary: result chunks p)
  case Nil
  then show ?case by (subst read_until_prompt.simps) (simp add: port_recv_incoming)
next
  case (Cons c cs)
  show ?case
  proof (cases "prompt \<in> set c")
    case True
    with Cons.prems(3) have "cs = []" by (cases cs) auto
    with True Cons.prems show ?thesis by (subst read_until_prompt.simps) (simp add: port_recv_incoming)
  next
    case False
    with Cons.prems Cons.IH [of "result @ c" "p\<lparr>up_incoming := map RxData cs\<rparr>" "chunks @ [c]"]
    show ?thesis
      by (subst read_until_prompt.simps) (cases "cs = []"; simp add: port_recv_incoming)
  qed
qed

lemma port_read_delivered:
  assumes "delivers stop resp (up_incoming p)" "stop RxTimeout = None" "resp \<noteq> []"
  shows "\<exists>chunks. port_read stop p = (Inr (text_bytes resp), chunks, p\<lparr>up_incoming := []\<rparr>)"
proof -
  from assms(1) obtain cs where cs: "up_incoming p = map RxData cs" "list_all (\<lambda>c. stop (RxData c) = None) cs"
    "concat cs = text_bytes resp" "list_all (\<lambda>c. prompt \<notin> set c) (butlast cs)" by (auto simp: delivers_def)
  moreover have "text_bytes resp \<noteq> []" using assms(3) by (simp add: text_bytes_def)
  ultimately have "read_until_prompt stop port_recv [] [] p = Some (Inr (concat cs), [] @ cs, p\<lparr>up_incoming := []\<rparr>)"
    using read_delivered [of stop cs "[]" p "[]"] assms(2) by simp
  then show ?thesis by (simp add: port_read_def cs(3))
qed

text \<open>A late answer stays in the port: written after the read gave up, it is what the next read returns,
  whatever command was written in between and whatever the device answers to it.\<close>

lemma late_answer_taken_for_next:
  assumes "ud_accept D data d = (Inr es, d')" "ud_flush D d' = (Inr (), d'')"
    and "late = RxData c" "c \<noteq> []" "prompt \<in> set c"
  shows "bind_act (serial_write D data) (\<lambda>_. serial_read) \<lparr>up_device = d, up_incoming = [late]\<rparr>
    = (Inr c, \<lparr>up_device = d'', up_incoming = es\<rparr>)"
proof -
  have "read_until_prompt serial_stop port_recv [] [] \<lparr>up_device = d'', up_incoming = late # es\<rparr>
      = Some (Inr c, [c], \<lparr>up_device = d'', up_incoming = es\<rparr>)"
    using assms(3-5) by (subst read_until_prompt.simps) (simp add: port_recv_def)
  then show ?thesis
    using assms(1,2) by (simp add: bind_act_def serial_write_def port_accept_def serial_read_def port_read_def case_unit_Unity)
qed

section \<open>Devices that answer commands\<close>

text \<open>Bytes written to a device in parts, with everything it sends back.\<close>

fun feed :: "'d uart_device \<Rightarrow> bytes list \<Rightarrow> 'd \<Rightarrow> (string + receive list) \<times> 'd" where
  "feed D [] d = (Inr [], d)"
| "feed D (part # parts) d =
    (case ud_accept D part d of
       (Inl e, d') \<Rightarrow> (Inl e, d')
     | (Inr es, d') \<Rightarrow>
         (case feed D parts d' of (Inl e, d'') \<Rightarrow> (Inl e, d'') | (Inr es', d'') \<Rightarrow> (Inr (es @ es'), d'')))"

text \<open>What is assumed of a device: however a command line is cut into parts, the device answers it
  with the chunks of its answer and is then ready for the rest of the dialogue.\<close>

definition answers_commands :: "'d uart_device \<Rightarrow> ((string \<times> string) list \<Rightarrow> 'd) \<Rightarrow> bool" where
  "answers_commands D ready \<longleftrightarrow>
    (\<forall>cmd resp rest parts. plain_command cmd \<and> resp \<noteq> [] \<and> concat parts = text_bytes (cmd @ [CHR 0x0D])
        \<and> [] \<notin> set parts \<longrightarrow>
      (\<exists>es. feed D parts (ready ((cmd, resp) # rest)) = (Inr es, ready rest)
         \<and> delivers serial_stop resp es \<and> delivers ble_stop resp es))
    \<and> (\<forall>ds. ud_flush D (ready ds) = (Inr (), ready ds))"

lemma answers_commandsD:
  assumes "answers_commands D ready" "plain_command cmd" "resp \<noteq> []"
    and "concat parts = text_bytes (cmd @ [CHR 0x0D])" "[] \<notin> set parts"
  shows "\<exists>es. feed D parts (ready ((cmd, resp) # rest)) = (Inr es, ready rest)
    \<and> delivers serial_stop resp es \<and> delivers ble_stop resp es"
  using assms unfolding answers_commands_def by blast

lemma ble_parts_concat: "concat (ble_parts bs) = bs" "[] \<notin> set (ble_parts bs)" "\<forall>part \<in> set (ble_parts bs). length part \<le> 20"
  by (induction bs rule: ble_parts.induct) (auto simp del: take_Suc_Cons drop_Suc_Cons)

lemma ble_write_parts_feed:
  "feed D parts (up_device p) = (Inr es, d) \<Longrightarrow>
    ble_write_parts D parts p = (Inr (), \<lparr>up_device = d, up_incoming = up_incoming p @ es\<rparr>)"
proof (induction parts arbitrary: p es)
  case (Cons part parts)
  obtain r d1 where a: "ud_accept D part (up_device p) = (r, d1)" by (cases "ud_accept D part (up_device p)")
  with Cons.prems obtain es1 where r: "r = Inr es1" by (cases r) auto
  obtain r' d2 where f: "feed D parts d1 = (r', d2)" by (cases "feed D parts d1")
  with Cons.prems a r obtain es2 where es2: "r' = Inr es2" by (cases r') auto
  with Cons.prems a r f have "es = es1 @ es2" "d = d2" by simp_all
  with Cons.IH [of "p\<lparr>up_device := d1, up_incoming := up_incoming p @ es1\<rparr>" es2] a r f es2
  show ?case by (simp add: port_accept_def case_unit_Unity)
qed simp

lemma serial_dialogue:
  assumes "answers_commands D ready"
  shows "dialogue_link (link.truncate (serial_link D)) (\<lambda>ds. uart_open (ready ds)) (\<lambda>resp. resp \<noteq> [])"
proof
  fix cmd resp :: string and rest assume c: "plain_command cmd" "resp \<noteq> []"
  let ?line = "text_bytes (cmd @ [CHR 0x0D])"
  have "concat [?line] = ?line" "[] \<notin> set [?line]" by (simp_all add: text_bytes_def)
  from answers_commandsD [OF assms c this, of rest] obtain es
    where es: "feed D [?line] (ready ((cmd, resp) # rest)) = (Inr es, ready rest)" "delivers serial_stop resp es"
    by blast
  then have "ud_accept D ?line (ready ((cmd, resp) # rest)) = (Inr es, ready rest)"
    by (auto split: prod.splits sum.splits)
  moreover have "ud_flush D (ready rest) = (Inr (), ready rest)"
    using assms by (simp add: answers_commands_def)
  ultimately have "serial_write D ?line (uart_open (ready ((cmd, resp) # rest)))
      = (Inr (), \<lparr>up_device = ready rest, up_incoming = es\<rparr>)"
    by (simp add: serial_write_def port_accept_def uart_open_def case_unit_Unity)
  moreover have "serial_read \<lparr>up_device = ready rest, up_incoming = es\<rparr> = (Inr (text_bytes resp), uart_open (ready rest))"
    using port_read_delivered [of serial_stop resp "\<lparr>up_device = ready rest, up_incoming = es\<rparr>"] es(2) c(2)
    by (auto simp: serial_read_def uart_open_def)
  ultimately show "\<exists>l. ln_write (link.truncate (serial_link D)) ?line (uart_open (ready ((cmd, resp) # rest))) = (Inr (), l)
      \<and> ln_read (link.truncate (serial_link D)) l = (Inr (text_bytes resp), uart_open (ready rest))"
    by (simp add: serial_link_def link.defs)
qed

lemma ble_dialogue:
  assumes "answers_commands D ready"
  shows "dialogue_link (link.truncate (ble_link D)) (\<lambda>ds. uart_open (ready ds)) (\<lambda>resp. resp \<noteq> [])"
proof
  fix cmd resp :: string and rest assume c: "plain_command cmd" "resp \<noteq> []"
  let ?line = "text_bytes (cmd @ [CHR 0x0D])"
  from answers_commandsD [OF assms c ble_parts_concat(1,2), of rest] obtain es
    where es: "feed D (ble_parts ?line) (ready ((cmd, resp) # rest)) = (Inr es, ready rest)" "delivers ble_stop resp es"
    by blast
  then have "ble_write D ?line (uart_open (ready ((cmd, resp) # rest)))
      = (Inr (), \<lparr>up_device = ready rest, up_incoming = es\<rparr>)"
    using ble_write_parts_feed [of D "ble_parts ?line" "uart_open (ready ((cmd, resp) # rest))"]
    by (simp add: ble_write_def uart_open_def)
  moreover have "ble_read \<lparr>up_device = ready rest, up_incoming = es\<rparr> = (Inr (text_bytes resp), uart_open (ready rest))"
    using port_read_delivered [of ble_stop resp "\<lparr>up_device = ready rest, up_incoming = es\<rparr>"] es(2) c(2)
    by (auto simp: ble_read_def uart_open_def)
  ultimately show "\<exists>l. ln_write (link.truncate (ble_link D)) ?line (uart_open (ready ((cmd, resp) # rest))) = (Inr (), l)
      \<and> ln_read (link.truncate (ble_link D)) l = (Inr (text_bytes resp), uart_open (ready rest))"
    by (simp add: ble_link_def link.defs)
qed

section \<open>The adapter over serial and BLE\<close>

lemma elm_text_not_Nil: "elm_text answers \<noteq> []"
  by (simp add: elm_text_def)

text \<open>C11: The ELM327 adapter over a serial or a BLE link: for every device that answers its commands
  (in whatever chunks the answer comes and, on BLE, in whatever parts the command is written), an
  adapter that is initialized through the set-up dialogue answers a broadcast request with the data
  of the first module, and the link is then where the rest of the dialogue begins.\<close>

theorem elm_request_over_uart:
  assumes "answers_commands D ready" "L \<in> {link.truncate (serial_link D), link.truncate (ble_link D)}"
    and "list_all (\<lambda>r. r \<noteq> [] \<and> quiet_answer r) [rz, rs, r0, rp]"
    and "list_all (\<lambda>(c, r). plain_command c \<and> r \<noteq> [] \<and> quiet_answer r) cfg"
    and "map fst cfg = [''ATE0'', ''ATL0'', ''ATH0'', ''ATS0'', ''ATAT1'', ''ATSP0'']"
    and "list_all (\<lambda>(c, r). plain_command c \<and> r \<noteq> [] \<and> 0 \<notin> set (text_bytes r)) pol"
    and "map fst pol = protocol_runtime_commands p"
    and "probe_answered r0" "parse_protocol_response rp = p" "p \<noteq> ProtoAuto"
    and "response_skip sid \<le> Suc (length data)" "ds \<noteq> []" "list_all (\<lambda>d. d \<noteq> []) ds"
    and "resp = elm_text (map (\<lambda>d. (sid + 0x40) # take (response_skip sid - 1) data @ d) ds)"
    and "plain_command (hex_compact (sid # data))" "quiet_answer resp"
  shows "bind_act (elm_initialize L) (\<lambda>_. elm_request L
        \<lparr>sr_service_id = sid, sr_data = data, sr_target = Broadcast\<rparr>)
      (elm_new (uart_open (ready ((''ATZ'', rz) # (''STI'', rs) # cfg @ (''0100'', r0) # (''ATDPN'', rp)
        # pol @ (hex_compact (sid # data), resp) # rest))))
    = (Inr (truncate_known_payload sid data (hd ds)),
       \<lparr>el_transport = uart_open (ready rest), el_info = init_info rz rs p, el_initialized = True,
        el_current_header = None, el_events = []\<rparr>)"
proof -
  have "dialogue_link L (\<lambda>ds. uart_open (ready ds)) (\<lambda>resp. resp \<noteq> [])"
    using assms(2) serial_dialogue [OF assms(1)] ble_dialogue [OF assms(1)] by auto
  moreover have "resp \<noteq> []" by (simp add: assms(14) elm_text_not_Nil)
  ultimately show ?thesis
    by (rule dialogue_link.request_answered [OF _ assms(3-15) _ assms(16)])
qed

text \<open>A scripted device: it collects a line, and sends the answer of a command in pieces of 20 bytes
  when the prompt is at the end, in one piece otherwise.\<close>

definition answer_chunks :: "string \<Rightarrow> receive list" where
  "answer_chunks resp =
    map RxData (if prompt \<in> set (butlast (text_bytes resp)) then [text_bytes resp] else ble_parts (text_bytes resp))"

definition demo_device :: "((string \<times> string) list \<times> bytes) uart_device" where
  "demo_device =
    \<lparr>ud_accept = (\<lambda>data (script, line).
       case script of
         (cmd, resp) # rest \<Rightarrow>
           if line @ data = text_bytes (cmd @ [CHR 0x0D]) then (Inr (answer_chunks resp), (rest, []))
           else (Inr [], (script, line @ data))
       | [] \<Rightarrow> (Inr [], (script, line @ data))),
     ud_flush = ret ()\<rparr>"

lemma butlast_parts: "p \<in> set (butlast (ble_parts bs)) \<Longrightarrow> set p \<subseteq> set (butlast bs)"
proof (induction bs rule: ble_parts.induct)
  case (2 c cs)
  let ?t = "take 20 (c # cs)" and ?d = "drop 20 (c # cs)"
  have parts: "ble_parts (c # cs) = ?t # ble_parts ?d" by (simp only: ble_parts.simps)
  show ?case
  proof (cases "?d = []")
    case False
    then have "ble_parts ?d \<noteq> []" by (cases ?d) simp_all
    moreover have split: "butlast (c # cs) = ?t @ butlast ?d"
      using False by (metis append_take_drop_id butlast_append)
    ultimately show ?thesis using 2 unfolding parts split by auto
  qed (use 2 in \<open>simp add: parts del: ble_parts.simps(2)\<close>)
qed simp

lemma answer_delivers:
  assumes "resp \<noteq> []"
  shows "delivers serial_stop resp (answer_chunks resp) \<and> delivers ble_stop resp (answer_chunks resp)"
proof -
  define cs where "cs = (if prompt \<in> set (butlast (text_bytes resp)) then [text_bytes resp] else ble_parts (text_bytes resp))"
  have "list_all (\<lambda>c. prompt \<notin> set c) (butlast cs)"
    using butlast_parts by (fastforce simp: cs_def list_all_iff)
  moreover have "[] \<notin> set cs"
    using assms ble_parts_concat(2) by (simp add: cs_def text_bytes_def)
  then have "list_all (\<lambda>c. serial_stop (RxData c) = None) cs" by (auto simp: list_all_iff)
  moreover have "list_all (\<lambda>c. ble_stop (RxData c) = None) cs" by (simp add: list_all_iff)
  moreover have "concat cs = text_bytes resp" by (simp add: cs_def ble_parts_concat(1))
  ultimately show ?thesis
    unfolding delivers_def answer_chunks_def cs_def [symmetric] by blast
qed

lemma demo_feed:
  assumes "line @ concat parts = text_bytes (cmd @ [CHR 0x0D])" "[] \<notin> set parts" "parts \<noteq> []"
  shows "feed demo_device parts ((cmd, resp) # rest, line) = (Inr (answer_chunks resp), (rest, []))"
  using assms
proof (induction parts arbitrary: line)
  case (Cons part parts)
  show ?case
  proof (cases "parts = []")
    case True
    then show ?thesis using Cons.prems(1) by (simp add: demo_device_def)
  next
    case False
    with Cons.prems(2) have "concat parts \<noteq> []" by (cases parts) auto
    with Cons.prems(1) have "line @ part \<noteq> text_bytes (cmd @ [CHR 0x0D])"
      by (metis append_assoc append_self_conv concat.simps(2))
    then have "ud_accept demo_device part ((cmd, resp) # rest, line) = (Inr [], ((cmd, resp) # rest, line @ part))"
      by (simp add: demo_device_def)
    with Cons.IH [of "line @ part"] Cons.prems False show ?thesis by simp
  qed
qed simp

lemma demo_device_answers: "answers_commands demo_device (\<lambda>ds. (ds, []))"
proof -
  have "feed demo_device parts ((cmd, resp) # rest, []) = (Inr (answer_chunks resp), (rest, []))"
    if "concat parts = text_bytes (cmd @ [CHR 0x0D])" "[] \<notin> set parts" for cmd resp rest parts
    using that by (intro demo_feed) (auto simp: text_bytes_def)
  with answer_delivers show ?thesis
    unfolding answers_commands_def by (fastforce simp: demo_device_def ret_def)
qed

lemma elm_request_over_uart_witness:
  "bind_act (elm_initialize (link.truncate (ble_link demo_device))) (\<lambda>_. elm_request (link.truncate (ble_link demo_device))
        \<lparr>sr_service_id = 0x01, sr_data = [0x0C], sr_target = Broadcast\<rparr>)
      (elm_new (uart_open ((''ATZ'', ''ELM327 v1.5'') # (''STI'', ''?>'') # demo_setup
        @ (''0100'', ''4100BE3EB811'') # (''ATDPN'', ''A6'') # [(''ATCAF1'', ''OK''), (''ATCFC1'', ''OK'')]
        @ (hex_compact (0x01 # [0x0C]), elm_text [[0x41, 0x0C, 0x0A, 0xA0], [0x41, 0x0C, 0x0B, 0xB0]]) # [], [])))
    = (Inr (truncate_known_payload 0x01 [0x0C] (hd [[0x0A, 0xA0], [0x0B, 0xB0]])),
       \<lparr>el_transport = uart_open ([], []), el_info = init_info ''ELM327 v1.5'' ''?>'' Can11Bit500,
       el_initialized = True, el_current_header = None, el_events = []\<rparr>)"
  by (rule elm_request_over_uart [OF demo_device_answers, where rest = "[]" and cfg = demo_setup
      and pol = "[(''ATCAF1'', ''OK''), (''ATCFC1'', ''OK'')]"]; (rule demo_answer)?;
    simp add: demo_setup_def text_simps probe_answered_def parse_protocol_response_def str_remove_def
      protocol_from_elm_code_def protocol_runtime_commands_def response_skip_def Let_def)

section \<open>Choosing characteristics\<close>

text \<open>The chosen characteristics are of the device, and the known services win over the heuristic.\<close>

lemma find_uart_sound:
  assumes "find_uart_characteristics chars = Inr uart"
  shows "uc_write_char uart \<in> set chars \<and> uc_notify_char uart \<in> set chars
    \<and> (\<forall>w n. w \<in> set chars \<and> n \<in> set chars \<and> bc_uuid w = stn_write_char \<and> bc_uuid n = stn_notify_char \<longrightarrow>
        bc_uuid (uc_write_char uart) = stn_write_char \<and> bc_uuid (uc_notify_char uart) = stn_notify_char)"
  using assms
  by (auto simp: find_uart_characteristics_def uart_pair_def find_Some_iff find_None_iff split: option.splits)

end
