(* ===== verification/Store.thy ===== *)
theory Store
  imports Session "HOL-Library.Countable"
begin

text \<open>
  The storage interface (\<open>store/mod.rs\<close>) as a locale, and its SQLite implementation (the crate
  \<open>obd2-store-sqlite\<close>). The tables are part of the state; the JSON library is a parameter (how values
  become text and back), and so is whether a statement fails. The columns with the time of the last
  change, which no query reads, are left out.
\<close>

section \<open>The interface\<close>

text \<open>
  What a store promises: a save that succeeds is what a lookup of the same VIN finds from then on,
  as far as the store keeps it (\<open>read_back\<close>, \<open>read_back_t\<close>); other VINs, the other kind of record and
  saves that fail leave lookups unchanged.
\<close>

locale vehicle_store =
  fixes save_vehicle :: "vehicle_profile \<Rightarrow> ('s, obd2_error, unit) act"
    and get_vehicle :: "string \<Rightarrow> 's \<Rightarrow> vehicle_profile option res"
    and save_thresholds :: "string \<Rightarrow> threshold_set \<Rightarrow> ('s, obd2_error, unit) act"
    and get_thresholds :: "string \<Rightarrow> 's \<Rightarrow> threshold_set option res"
    and read_back :: "vehicle_profile \<Rightarrow> vehicle_profile option res"
    and read_back_t :: "threshold_set \<Rightarrow> threshold_set option res"
  assumes get_saved: "save_vehicle p s = (Inr (), s') \<Longrightarrow>
      get_vehicle v s' = (if v = vp_vin p then read_back p else get_vehicle v s)"
    and get_not_saved: "save_vehicle p s = (Inl e, s') \<Longrightarrow> get_vehicle v s' = get_vehicle v s"
    and get_other: "get_vehicle v (snd (save_thresholds w ts s)) = get_vehicle v s"
    and get_saved_t: "save_thresholds w ts s = (Inr (), s') \<Longrightarrow>
      get_thresholds v s' = (if v = w then read_back_t ts else get_thresholds v s)"
    and get_not_saved_t: "save_thresholds w ts s = (Inl e, s') \<Longrightarrow> get_thresholds v s' = get_thresholds v s"
    and get_other_t: "get_thresholds v (snd (save_vehicle p s)) = get_thresholds v s"

datatype store_call = SaveVehicle vehicle_profile | SaveThresholds string threshold_set

text \<open>The abstract store: two maps.\<close>

type_synonym abstract_store = "(string \<rightharpoonup> vehicle_profile) \<times> (string \<rightharpoonup> threshold_set)"

fun abstract_call :: "store_call \<Rightarrow> abstract_store \<Rightarrow> abstract_store" where
  "abstract_call (SaveVehicle p) (m, t) = (m(vp_vin p \<mapsto> p), t)"
| "abstract_call (SaveThresholds v ts) (m, t) = (m, t(v \<mapsto> ts))"

text \<open>A client that ignores the results of its saves.\<close>

fun perform_call :: "(vehicle_profile \<Rightarrow> ('s, obd2_error, unit) act) \<Rightarrow> (string \<Rightarrow> threshold_set \<Rightarrow> ('s, obd2_error, unit) act)
    \<Rightarrow> store_call \<Rightarrow> ('s, obd2_error, unit) act" where
  "perform_call sv st (SaveVehicle p) = sv p"
| "perform_call sv st (SaveThresholds v ts) = st v ts"

context vehicle_store begin

text \<open>A store implements the maps, as far as it keeps what it is given.\<close>

definition implements :: "'s \<Rightarrow> abstract_store \<Rightarrow> bool" where
  "implements s a \<longleftrightarrow>
    (\<forall>v. get_vehicle v s = (case fst a v of Some p \<Rightarrow> read_back p | None \<Rightarrow> Inr None))
    \<and> (\<forall>v. get_thresholds v s = (case snd a v of Some ts \<Rightarrow> read_back_t ts | None \<Rightarrow> Inr None))"

lemma implements_call:
  assumes "implements s a" "perform_call save_vehicle save_thresholds c s = (Inr (), s')"
  shows "implements s' (abstract_call c a)"
proof (cases c)
  case (SaveVehicle p)
  with assms(2) have "save_vehicle p s = (Inr (), s')" by simp
  with get_saved [OF this] get_other_t [of _ p s] assms(1) SaveVehicle show ?thesis
    by (cases a) (auto simp: implements_def)
next
  case (SaveThresholds w ts)
  with assms(2) have "save_thresholds w ts s = (Inr (), s')" by simp
  with get_saved_t [OF this] get_other [of _ w ts s] assms(1) SaveThresholds show ?thesis
    by (cases a) (auto simp: implements_def)
qed

lemma implements_failed:
  assumes "implements s a" "perform_call save_vehicle save_thresholds c s = (Inl e, s')"
  shows "implements s' a"
proof (cases c)
  case (SaveVehicle p)
  with assms(2) have "save_vehicle p s = (Inl e, s')" by simp
  with get_not_saved [OF this] get_other_t [of _ p s] assms(1) show ?thesis by (auto simp: implements_def)
next
  case (SaveThresholds w ts)
  with assms(2) have "save_thresholds w ts s = (Inl e, s')" by simp
  with get_not_saved_t [OF this] get_other [of _ w ts s] assms(1) show ?thesis by (auto simp: implements_def)
qed

lemma implements_saves:
  assumes "\<And>c s. fst (perform_call save_vehicle save_thresholds c s) = Inr ()" "implements s a"
  shows "implements (foldl (\<lambda>s c. snd (perform_call save_vehicle save_thresholds c s)) s cs)
    (foldl (\<lambda>a c. abstract_call c a) a cs)"
  using assms(2)
proof (induction cs arbitrary: s a)
  case (Cons c cs)
  have "perform_call save_vehicle save_thresholds c s = (Inr (), snd (perform_call save_vehicle save_thresholds c s))"
    using assms(1) by (metis prod.collapse)
  from Cons.IH [OF implements_call [OF Cons.prems this]] show ?case by simp
qed simp

end

section \<open>The SQLite store\<close>

text \<open>The part of a profile that is stored.\<close>

record serializable_profile =
  sp_vin :: string
  sp_make :: "string option"
  sp_model :: "string option"
  sp_year :: "int option"
  sp_engine_code :: "string option"
  sp_manufacturer :: "string option"
  sp_truck_class :: "string option"

definition profile_to_serializable :: "vehicle_profile \<Rightarrow> serializable_profile" where
  "profile_to_serializable p =
    \<lparr>sp_vin = vp_vin p, sp_make = None, sp_model = None,
     sp_year = Option.bind (vp_decoded_vin p) dv_year,
     sp_engine_code = map_option (\<lambda>s. en_code (si_engine (vs_identity s))) (vp_spec p),
     sp_manufacturer = Option.bind (vp_decoded_vin p) dv_manufacturer,
     sp_truck_class = Option.bind (vp_decoded_vin p) dv_truck_class\<rparr>"

definition profile_of_serializable :: "serializable_profile \<Rightarrow> vehicle_profile" where
  "profile_of_serializable sp =
    (let decoded_vin =
       (if sp_manufacturer sp \<noteq> None \<or> sp_year sp \<noteq> None \<or> sp_truck_class sp \<noteq> None
        then Some \<lparr>dv_year = sp_year sp, dv_year_alt = None, dv_manufacturer = sp_manufacturer sp,
                   dv_truck_class = sp_truck_class sp\<rparr>
        else None)
     in \<lparr>vp_vin = sp_vin sp, vp_decoded_vin = decoded_vin, vp_info = None, vp_spec = None,
         vp_supported_pids = {}\<rparr>)"

text \<open>The JSON library, with its error texts; and the database: an error for the lock (a poisoned
  mutex) or for a statement on a table.\<close>

record json_lib =
  js_profile_to :: "serializable_profile \<Rightarrow> string + string"
  js_profile_from :: "string \<Rightarrow> string + serializable_profile"
  js_thresholds_to :: "threshold_set \<Rightarrow> string + string"
  js_thresholds_from :: "string \<Rightarrow> string + threshold_set"

datatype sql_statement = InsertVehicle | SelectVehicle | InsertThresholds | SelectThresholds
  | InsertReading | InsertDtcEvent | CreateTables

record sqlite_env =
  sq_lock :: "string option"
  sq_statement :: "sql_statement \<Rightarrow> string option"

record reading_row =
  rr_vin :: string
  rr_pid_code :: u8
  rr_value :: "f64 option"
  rr_unit :: string

text \<open>The tables. \<open>INSERT OR REPLACE\<close> on a primary key updates a map; the other tables grow at the end.\<close>

record sqlite_store =
  st_vehicles :: "string \<rightharpoonup> string"
  st_thresholds :: "string \<rightharpoonup> string"
  st_readings :: "reading_row list"
  st_dtc_events :: "(string \<times> string) list"

text \<open>The lock and one statement, whose effect is \<open>f\<close>.\<close>

definition sql_check :: "sqlite_env \<Rightarrow> sql_statement \<Rightarrow> unit res" where
  "sql_check E q =
    (case sq_lock E of
       Some e \<Rightarrow> Inl (Other e)
     | None \<Rightarrow> (case sq_statement E q of Some e \<Rightarrow> Inl (Other e) | None \<Rightarrow> Inr ()))"

definition sql_execute :: "sqlite_env \<Rightarrow> sql_statement \<Rightarrow> (sqlite_store \<Rightarrow> sqlite_store) \<Rightarrow> (sqlite_store, obd2_error, unit) act" where
  "sql_execute E q f s = (case sql_check E q of Inl e \<Rightarrow> (Inl e, s) | Inr _ \<Rightarrow> (Inr (), f s))"

definition json_result :: "string + 'a \<Rightarrow> 'a res" where
  "json_result r = (case r of Inl e \<Rightarrow> Inl (Other e) | Inr x \<Rightarrow> Inr x)"

definition sqlite_save_vehicle :: "json_lib \<Rightarrow> sqlite_env \<Rightarrow> vehicle_profile \<Rightarrow> (sqlite_store, obd2_error, unit) act" where
  "sqlite_save_vehicle J E p =
    bind_act (lift_res (json_result (js_profile_to J (profile_to_serializable p)))) (\<lambda>data.
    sql_execute E InsertVehicle (\<lambda>s. s\<lparr>st_vehicles := (st_vehicles s)(vp_vin p \<mapsto> data)\<rparr>))"

text \<open>\<open>query_row\<close> and what is done with its result.\<close>

definition decode_row :: "('a \<Rightarrow> 'b) \<Rightarrow> (string \<Rightarrow> string + 'a) \<Rightarrow> string option \<Rightarrow> 'b option res" where
  "decode_row f parse row =
    (case row of None \<Rightarrow> Inr None | Some data \<Rightarrow> bind_res (json_result (parse data)) (\<lambda>x. Inr (Some (f x))))"

definition sqlite_get_vehicle :: "json_lib \<Rightarrow> sqlite_env \<Rightarrow> string \<Rightarrow> sqlite_store \<Rightarrow> vehicle_profile option res" where
  "sqlite_get_vehicle J E vin s =
    bind_res (sql_check E SelectVehicle) (\<lambda>_.
    decode_row profile_of_serializable (js_profile_from J) (st_vehicles s vin))"

definition sqlite_save_thresholds :: "json_lib \<Rightarrow> sqlite_env \<Rightarrow> string \<Rightarrow> threshold_set \<Rightarrow> (sqlite_store, obd2_error, unit) act" where
  "sqlite_save_thresholds J E vin thresholds =
    bind_act (lift_res (json_result (js_thresholds_to J thresholds))) (\<lambda>data.
    sql_execute E InsertThresholds (\<lambda>s. s\<lparr>st_thresholds := (st_thresholds s)(vin \<mapsto> data)\<rparr>))"

definition sqlite_get_thresholds :: "json_lib \<Rightarrow> sqlite_env \<Rightarrow> string \<Rightarrow> sqlite_store \<Rightarrow> threshold_set option res" where
  "sqlite_get_thresholds J E vin s =
    bind_res (sql_check E SelectThresholds) (\<lambda>_.
    decode_row id (js_thresholds_from J) (st_thresholds s vin))"

definition sqlite_save_reading :: "sqlite_env \<Rightarrow> string \<Rightarrow> pid \<Rightarrow> reading \<Rightarrow> (sqlite_store, obd2_error, unit) act" where
  "sqlite_save_reading E vin pid reading =
    (let val = (case as_f64 (rd_value reading) of Inr v \<Rightarrow> Some v | Inl _ \<Rightarrow> None) in
     sql_execute E InsertReading (\<lambda>s. s\<lparr>st_readings := st_readings s @
       [\<lparr>rr_vin = vin, rr_pid_code = pid_code pid, rr_value = val, rr_unit = rd_unit reading\<rparr>]\<rparr>))"

text \<open>\<open>join\<close> of the standard library.\<close>

fun str_join :: "string \<Rightarrow> string list \<Rightarrow> string" where
  "str_join sep [] = []"
| "str_join sep [s] = s"
| "str_join sep (s # t # ss) = s @ sep @ str_join sep (t # ss)"

definition sqlite_save_dtc_event :: "sqlite_env \<Rightarrow> string \<Rightarrow> dtc list \<Rightarrow> (sqlite_store, obd2_error, unit) act" where
  "sqlite_save_dtc_event E vin dtcs =
    sql_execute E InsertDtcEvent (\<lambda>s. s\<lparr>st_dtc_events := st_dtc_events s @ [(vin, str_join '','' (map dtc_code dtcs))]\<rparr>)"

text \<open>\<open>in_memory\<close> (and \<open>open\<close> of a new file): empty tables.\<close>

definition sqlite_new :: "sqlite_env \<Rightarrow> sqlite_store res" where
  "sqlite_new E =
    bind_res (sql_check E CreateTables) (\<lambda>_.
    Inr \<lparr>st_vehicles = Map.empty, st_thresholds = Map.empty, st_readings = [], st_dtc_events = []\<rparr>)"

section \<open>The SQLite store is a vehicle store\<close>

definition sqlite_read_back :: "json_lib \<Rightarrow> sqlite_env \<Rightarrow> vehicle_profile \<Rightarrow> vehicle_profile option res" where
  "sqlite_read_back J E p =
    bind_res (sql_check E SelectVehicle) (\<lambda>_.
    bind_res (json_result (js_profile_to J (profile_to_serializable p))) (\<lambda>data.
    decode_row profile_of_serializable (js_profile_from J) (Some data)))"

definition sqlite_read_back_t :: "json_lib \<Rightarrow> sqlite_env \<Rightarrow> threshold_set \<Rightarrow> threshold_set option res" where
  "sqlite_read_back_t J E ts =
    bind_res (sql_check E SelectThresholds) (\<lambda>_.
    bind_res (json_result (js_thresholds_to J ts)) (\<lambda>data. decode_row id (js_thresholds_from J) (Some data)))"

interpretation sqlite: vehicle_store "sqlite_save_vehicle J E" "sqlite_get_vehicle J E"
    "sqlite_save_thresholds J E" "sqlite_get_thresholds J E" "sqlite_read_back J E" "sqlite_read_back_t J E"
  for J E
  by unfold_locales
    (auto simp: sqlite_save_vehicle_def sqlite_get_vehicle_def sqlite_save_thresholds_def sqlite_get_thresholds_def
      sqlite_read_back_def sqlite_read_back_t_def sql_execute_def bind_act_def lift_res_def
      split: sum.splits if_splits)

section \<open>What is kept\<close>

text \<open>
  What the JSON library documents. The stored part of a profile holds strings and integers only, which
  come back as they were printed. A set of thresholds holds floating-point numbers: it can always be
  printed, but nothing is assumed of what the text is read as (without its feature \<open>float_roundtrip\<close>
  the library may round, and a number that is not finite is printed as \<open>null\<close>). The database works.
\<close>

definition json_documented :: "json_lib \<Rightarrow> bool" where
  "json_documented J \<longleftrightarrow> (\<forall>x. \<exists>t. js_profile_to J x = Inr t \<and> js_profile_from J t = Inr x)
     \<and> (\<forall>x. \<exists>t. js_thresholds_to J x = Inr t)"

text \<open>A set of thresholds printed and read once.\<close>

definition reread_thresholds :: "json_lib \<Rightarrow> threshold_set \<Rightarrow> threshold_set option res" where
  "reread_thresholds J ts =
    (case js_thresholds_from J (projr (js_thresholds_to J ts)) of Inl e \<Rightarrow> Inl (Other e) | Inr ts' \<Rightarrow> Inr (Some ts'))"

definition database_works :: "sqlite_env \<Rightarrow> bool" where
  "database_works E \<longleftrightarrow> sq_lock E = None \<and> (\<forall>q. sq_statement E q = None)"

lemma sql_works: "database_works E \<Longrightarrow> sql_check E q = Inr ()"
  by (simp add: database_works_def sql_check_def)

text \<open>The VIN and, of the decoded VIN, the year, the manufacturer and the class.\<close>

definition kept_profile :: "vehicle_profile \<Rightarrow> vehicle_profile" where
  "kept_profile p =
    \<lparr>vp_vin = vp_vin p,
     vp_decoded_vin = (case vp_decoded_vin p of
         Some d \<Rightarrow> if dv_year d = None \<and> dv_manufacturer d = None \<and> dv_truck_class d = None then None
                   else Some (d\<lparr>dv_year_alt := None\<rparr>)
       | None \<Rightarrow> None),
     vp_info = None, vp_spec = None, vp_supported_pids = {}\<rparr>"

lemma restored_profile: "profile_of_serializable (profile_to_serializable p) = kept_profile p"
  by (auto simp: profile_of_serializable_def profile_to_serializable_def kept_profile_def Let_def split: option.split)

lemma sqlite_reads_back:
  assumes "json_documented J" "database_works E"
  shows "sqlite_read_back J E p = Inr (Some (kept_profile p))" "sqlite_read_back_t J E ts = reread_thresholds J ts"
proof -
  from assms(1) obtain t where t: "js_profile_to J (profile_to_serializable p) = Inr t"
      "js_profile_from J t = Inr (profile_to_serializable p)"
    unfolding json_documented_def by blast
  from assms(1) obtain u where u: "js_thresholds_to J ts = Inr u"
    unfolding json_documented_def by blast
  show "sqlite_read_back J E p = Inr (Some (kept_profile p))"
    by (simp add: sqlite_read_back_def sql_works [OF assms(2)] t json_result_def decode_row_def restored_profile)
  show "sqlite_read_back_t J E ts = reread_thresholds J ts"
    by (simp add: sqlite_read_back_t_def sql_works [OF assms(2)] u json_result_def decode_row_def
        reread_thresholds_def split: sum.split)
qed

lemma sqlite_save_works:
  assumes "json_documented J" "database_works E"
  shows "fst (perform_call (sqlite_save_vehicle J E) (sqlite_save_thresholds J E) c s) = Inr ()"
proof (cases c)
  case (SaveVehicle p)
  from assms(1) obtain t where "js_profile_to J (profile_to_serializable p) = Inr t"
    unfolding json_documented_def by blast
  then show ?thesis using SaveVehicle
    by (simp add: sqlite_save_vehicle_def bind_act_def lift_res_def json_result_def sql_execute_def sql_works [OF assms(2)])
next
  case (SaveThresholds v ts)
  from assms(1) obtain t where "js_thresholds_to J ts = Inr t" unfolding json_documented_def by blast
  then show ?thesis using SaveThresholds
    by (simp add: sqlite_save_thresholds_def bind_act_def lift_res_def json_result_def sql_execute_def sql_works [OF assms(2)])
qed

text \<open>C19: The SQLite store refines a map from VINs to profiles and one from VINs to thresholds: after any
  sequence of saves on a new store, a lookup finds what was saved last under the VIN, or nothing.
  Of a profile the VIN and the year, manufacturer and class of the decoded VIN come back, exactly.
  Thresholds come back as the JSON library reads the text that it printed for the set saved last
  (an error when it cannot), so they are unchanged whenever that one round trip is exact.\<close>

theorem sqlite_store_refines_maps:
  assumes "json_documented J" "database_works E" "sqlite_new E = Inr s0"
    and "s = foldl (\<lambda>s c. snd (perform_call (sqlite_save_vehicle J E) (sqlite_save_thresholds J E) c s)) s0 calls"
    and "(profiles, thresholds) = foldl (\<lambda>a c. abstract_call c a) (Map.empty, Map.empty) calls"
  shows "sqlite_get_vehicle J E v s = Inr (map_option kept_profile (profiles v))
    \<and> sqlite_get_thresholds J E v s =
        (case thresholds v of None \<Rightarrow> Inr None | Some ts \<Rightarrow> reread_thresholds J ts)"
proof -
  have "sqlite.implements J E s0 (Map.empty, Map.empty)"
    using assms(3) by (auto simp: sqlite.implements_def sqlite_new_def sqlite_get_vehicle_def sqlite_get_thresholds_def
        sql_works [OF assms(2)] decode_row_def)
  from sqlite.implements_saves [OF sqlite_save_works [OF assms(1,2)] this, of calls]
  have "sqlite.implements J E s (profiles, thresholds)" by (simp only: assms(4,5))
  then show ?thesis
    by (auto simp: sqlite.implements_def sqlite_reads_back [OF assms(1,2)] split: option.split)
qed

section \<open>A concrete codec\<close>

text \<open>The stored values are countable, so numbering them gives texts that can be read back.\<close>

instantiation serializable_profile_ext :: (countable) countable
begin
instance
  by (rule countable_classI [of "\<lambda>r. to_nat (sp_vin r, sp_make r, sp_model r, sp_year r, sp_engine_code r,
      sp_manufacturer r, sp_truck_class r, serializable_profile.more r)"]) (auto intro: serializable_profile.equality)
end

instantiation threshold_ext :: (countable) countable
begin
instance
  by (rule countable_classI [of "\<lambda>r. to_nat (th_min r, th_max r, th_warning_low r, th_warning_high r, th_critical_low r,
      th_critical_high r, th_unit r, threshold.more r)"]) (auto intro: threshold.equality)
end

instantiation named_threshold_ext :: (countable) countable
begin
instance
  by (rule countable_classI [of "\<lambda>r. to_nat (nt_name r, nt_threshold r, named_threshold.more r)"])
    (auto intro: named_threshold.equality)
end

instantiation threshold_set_ext :: (countable) countable
begin
instance
  by (rule countable_classI [of "\<lambda>r. to_nat (ts_engine r, ts_transmission r, threshold_set.more r)"])
    (auto intro: threshold_set.equality)
end

definition numbered :: "'a :: countable \<Rightarrow> string + string" where
  "numbered x = Inr (replicate (to_nat x) (CHR ''1''))"

definition by_number :: "string \<Rightarrow> string + 'a :: countable" where
  "by_number t = Inr (from_nat (length t))"

text \<open>A library that loses digits: the upper limits are read as integers.\<close>

definition cut_limit :: "named_threshold \<Rightarrow> named_threshold" where
  "cut_limit n = n\<lparr>nt_threshold := (nt_threshold n)\<lparr>th_max := map_option (\<lambda>x. of_int \<lfloor>x\<rfloor>) (th_max (nt_threshold n))\<rparr>\<rparr>"

definition demo_json :: json_lib where
  "demo_json = \<lparr>js_profile_to = numbered, js_profile_from = by_number, js_thresholds_to = numbered,
     js_thresholds_from = (\<lambda>t. Inr (let ts = from_nat (length t) in ts\<lparr>ts_engine := map cut_limit (ts_engine ts)\<rparr>))\<rparr>"

definition demo_thresholds :: "f64 \<Rightarrow> threshold_set" where
  "demo_thresholds limit =
    \<lparr>ts_engine = [\<lparr>nt_name = ''coolant'', nt_threshold = \<lparr>th_min = None, th_max = Some limit, th_warning_low = None,
       th_warning_high = None, th_critical_low = None, th_critical_high = None, th_unit = ''C''\<rparr>\<rparr>],
     ts_transmission = []\<rparr>"

definition demo_database :: sqlite_env where
  "demo_database = \<lparr>sq_lock = None, sq_statement = (\<lambda>_. None)\<rparr>"

definition demo_profile :: "string \<Rightarrow> int \<Rightarrow> vehicle_profile" where
  "demo_profile vin year =
    \<lparr>vp_vin = vin, vp_decoded_vin = Some \<lparr>dv_year = Some year, dv_year_alt = Some (year - 30),
       dv_manufacturer = Some ''Chevrolet'', dv_truck_class = None\<rparr>,
     vp_info = None, vp_spec = None, vp_supported_pids = {Pid 0x0C}\<rparr>"

text \<open>The second profile of a VIN replaces the first; the alternative year and the supported PIDs are lost.
  Saved thresholds come back as the library reads them.\<close>

lemma sqlite_store_refines_maps_witness:
  "\<exists>s0. sqlite_new demo_database = Inr s0 \<and>
    (let s = foldl (\<lambda>s c. snd (perform_call (sqlite_save_vehicle demo_json demo_database)
          (sqlite_save_thresholds demo_json demo_database) c s)) s0
        [SaveVehicle (demo_profile ''A'' 2012), SaveThresholds ''A'' (demo_thresholds (221 / 2)),
         SaveVehicle (demo_profile ''B'' 2015), SaveVehicle (demo_profile ''A'' 2020)]
     in sqlite_get_vehicle demo_json demo_database ''A'' s
          = Inr (Some \<lparr>vp_vin = ''A'', vp_decoded_vin = Some \<lparr>dv_year = Some 2020, dv_year_alt = None,
              dv_manufacturer = Some ''Chevrolet'', dv_truck_class = None\<rparr>,
              vp_info = None, vp_spec = None, vp_supported_pids = {}\<rparr>)
        \<and> sqlite_get_thresholds demo_json demo_database ''A'' s = Inr (Some (demo_thresholds 110))
        \<and> sqlite_get_thresholds demo_json demo_database ''B'' s = Inr None)"
proof -
  have works: "json_documented demo_json" "database_works demo_database"
    by (simp_all add: json_documented_def database_works_def demo_json_def demo_database_def numbered_def by_number_def)
  then obtain s0 where new: "sqlite_new demo_database = Inr s0"
    by (simp add: sqlite_new_def sql_works)
  have "\<lfloor>221 / 2 :: f64\<rfloor> = 110" by (rule floor_unique) simp_all
  then have read: "reread_thresholds demo_json (demo_thresholds (221 / 2)) = Inr (Some (demo_thresholds 110))"
    by (simp add: reread_thresholds_def demo_json_def numbered_def demo_thresholds_def cut_limit_def Let_def)
  note lookup = sqlite_store_refines_maps [OF works new refl, where calls = "[SaveVehicle (demo_profile ''A'' 2012),
      SaveThresholds ''A'' (demo_thresholds (221 / 2)), SaveVehicle (demo_profile ''B'' 2015),
      SaveVehicle (demo_profile ''A'' 2020)]"]
  show ?thesis
    using lookup [where v = "''A''"] lookup [where v = "''B''"] new read
    by (simp add: demo_profile_def kept_profile_def Let_def)
qed

end
