(* ===== verification/HwReport.thy ===== *)
theory HwReport
  imports Values Strings "HOL-Library.RBT" "HOL-Library.List_Lexorder" "HOL-Library.Char_ord"
begin

text \<open>
  The reports of the hardware test harness (\<open>obd2-hw-test/src/report.rs\<close>) and their comparison
  (\<open>obd2-hw-test/src/compare.rs\<close>). A \<open>BTreeMap\<close> is a red-black tree of the library, whose entries come in
  the order of the keys; a JSON object is the list of its fields, with distinct names.
\<close>

section \<open>JSON values\<close>

datatype json =
    JNull | JBool bool | JNumber f64 | JString string | JArray "json list" | JObject "(string \<times> json) list"

fun json_get :: "json \<Rightarrow> string \<Rightarrow> json option" where
  "json_get (JObject kvs) name = map_of kvs name"
| "json_get _ _ = None"

fun json_str :: "json \<Rightarrow> string option" where
  "json_str (JString s) = Some s"
| "json_str _ = None"

fun json_f64 :: "json \<Rightarrow> f64 option" where
  "json_f64 (JNumber v) = Some v"
| "json_f64 _ = None"

fun json_array :: "json \<Rightarrow> json list option" where
  "json_array (JArray vs) = Some vs"
| "json_array _ = None"

fun json_object :: "json \<Rightarrow> (string \<times> json) list option" where
  "json_object (JObject kvs) = Some kvs"
| "json_object _ = None"

section \<open>Reports\<close>

datatype test_status = TestPass | TestFail | TestSkipped

record test_group_result =
  tg_status :: test_status
  tg_duration_ms :: nat
  tg_reason :: "string option"
  tg_details :: "json option"

record report_meta =
  rm_timestamp :: string
  rm_harness_version :: string
  rm_vehicle_id :: string
  rm_transport :: string
  rm_port :: "string option"
  rm_adapter_chipset :: "string option"
  rm_adapter_firmware :: "string option"
  rm_protocol_detected :: "string option"
  rm_raw_capture_path :: "string option"

record report_summary =
  su_total :: u32
  su_passed :: u32
  su_failed :: u32
  su_skipped :: u32
  su_duration_secs :: f64

definition report_summary_default :: report_summary where
  "report_summary_default =
    \<lparr>su_total = 0, su_passed = 0, su_failed = 0, su_skipped = 0, su_duration_secs = 0\<rparr>"

record report =
  rp_meta :: report_meta
  rp_summary :: report_summary
  rp_tests :: "(string, test_group_result) RBT.rbt"
  rp_fatal_error :: "string option"

definition report_new :: "report_meta \<Rightarrow> report" where
  "report_new meta =
    \<lparr>rp_meta = meta, rp_summary = report_summary_default, rp_tests = RBT.empty, rp_fatal_error = None\<rparr>"

definition count_status :: "test_group_result \<Rightarrow> report_summary \<Rightarrow> report_summary" where
  "count_status result summary =
    (let summary = summary\<lparr>su_total := su_total summary + 1\<rparr> in
     case tg_status result of
       TestPass \<Rightarrow> summary\<lparr>su_passed := su_passed summary + 1\<rparr>
     | TestFail \<Rightarrow> summary\<lparr>su_failed := su_failed summary + 1\<rparr>
     | TestSkipped \<Rightarrow> summary\<lparr>su_skipped := su_skipped summary + 1\<rparr>)"

definition compute_summary :: "report \<Rightarrow> report" where
  "compute_summary r =
    r\<lparr>rp_summary := fold count_status (map snd (RBT.entries (rp_tests r)))
        (report_summary_default\<lparr>su_duration_secs := su_duration_secs (rp_summary r)\<rparr>)\<rparr>"

section \<open>Printing\<close>

text \<open>\<open>{:.k}\<close> of a number: the nearest decimal, ties to the even one.\<close>

definition round_half_even :: "f64 \<Rightarrow> int" where
  "round_half_even x =
    (let f = \<lfloor>x\<rfloor>; d = x - of_int f in
     if d < 1/2 then f else if 1/2 < d then f + 1 else if even f then f else f + 1)"

definition format_fixed :: "nat \<Rightarrow> f64 \<Rightarrow> string" where
  "format_fixed k v =
    (let n = nat (round_half_even (\<bar>v\<bar> * 10 ^ k)); frac = decimal (n mod 10 ^ k) in
     (if v < 0 then ''-'' else []) @ decimal (n div 10 ^ k)
       @ (if k = 0 then [] else ''.'' @ replicate (k - length frac) (CHR ''0'') @ frac))"

primrec debug_status :: "test_status \<Rightarrow> string" where
  "debug_status TestPass = ''Pass''"
| "debug_status TestFail = ''Fail''"
| "debug_status TestSkipped = ''Skipped''"

fun str_join :: "string \<Rightarrow> string list \<Rightarrow> string" where
  "str_join sep [] = []"
| "str_join sep [s] = s"
| "str_join sep (s # t # ss) = s @ sep @ str_join sep (t # ss)"

section \<open>Comparison\<close>

datatype diff_severity = SevCritical | SevWarning | SevInfo

record difference =
  df_severity :: diff_severity
  df_field :: string
  df_report_a :: string
  df_report_b :: string

definition unwrap_text :: "string option \<Rightarrow> string" where
  "unwrap_text t = (case t of Some s \<Rightarrow> s | None \<Rightarrow> [])"

definition detail_field :: "report \<Rightarrow> string \<Rightarrow> string \<Rightarrow> json option" where
  "detail_field r group_name field =
    Option.bind (RBT.lookup (rp_tests r) group_name) (\<lambda>result.
    Option.bind (tg_details result) (\<lambda>details. json_get details field))"

definition test_detail_string :: "report \<Rightarrow> string \<Rightarrow> string \<Rightarrow> string option" where
  "test_detail_string r group_name field = Option.bind (detail_field r group_name field) json_str"

definition test_detail_f64 :: "report \<Rightarrow> string \<Rightarrow> string \<Rightarrow> f64 option" where
  "test_detail_f64 r group_name field = Option.bind (detail_field r group_name field) json_f64"

definition test_detail_array :: "report \<Rightarrow> string \<Rightarrow> string \<Rightarrow> string list option" where
  "test_detail_array r group_name field =
    Option.bind (detail_field r group_name field) (\<lambda>v.
    map_option (List.map_filter json_str) (json_array v))"

definition insert_pid_value :: "string \<times> json \<Rightarrow> (string, f64) RBT.rbt \<Rightarrow> (string, f64) RBT.rbt" where
  "insert_pid_value entry out =
    (case Option.bind (json_get (snd entry) ''value'') json_f64 of
       Some scalar \<Rightarrow> RBT.insert (fst entry) scalar out
     | None \<Rightarrow> out)"

definition test_detail_pid_values :: "report \<Rightarrow> string \<Rightarrow> string \<Rightarrow> (string, f64) RBT.rbt" where
  "test_detail_pid_values r group_name field =
    (case Option.bind (detail_field r group_name field) json_object of
       None \<Rightarrow> RBT.empty
     | Some object \<Rightarrow> fold insert_pid_value object RBT.empty)"

definition pid_tolerance :: "string \<Rightarrow> f64" where
  "pid_tolerance name =
    (if name = ''Engine RPM'' then 400
     else if name = ''Coolant Temperature'' then 10
     else if name = ''Vehicle Speed'' then 5
     else if name = ''Engine Load'' then 15
     else if name = ''Throttle Position'' then 15
     else 5)"

definition format_set :: "string list \<Rightarrow> string" where
  "format_set values = str_join '','' (sorted_list_of_set (set values))"

definition compare_vehicle :: "report \<Rightarrow> report \<Rightarrow> difference list" where
  "compare_vehicle a b =
    (if rm_vehicle_id (rp_meta a) \<noteq> rm_vehicle_id (rp_meta b)
     then [\<lparr>df_severity = SevCritical, df_field = ''meta.vehicle_id'',
            df_report_a = rm_vehicle_id (rp_meta a), df_report_b = rm_vehicle_id (rp_meta b)\<rparr>] else [])"

definition compare_fatal :: "report \<Rightarrow> report \<Rightarrow> difference list" where
  "compare_fatal a b =
    (if rp_fatal_error a \<noteq> rp_fatal_error b
     then [\<lparr>df_severity = SevCritical, df_field = ''fatal_error'',
            df_report_a = unwrap_text (rp_fatal_error a), df_report_b = unwrap_text (rp_fatal_error b)\<rparr>] else [])"

definition compare_protocol :: "report \<Rightarrow> report \<Rightarrow> difference list" where
  "compare_protocol a b =
    (if rm_protocol_detected (rp_meta a) \<noteq> rm_protocol_detected (rp_meta b)
     then [\<lparr>df_severity = SevCritical, df_field = ''meta.protocol_detected'',
            df_report_a = unwrap_text (rm_protocol_detected (rp_meta a)),
            df_report_b = unwrap_text (rm_protocol_detected (rp_meta b))\<rparr>] else [])"

definition compare_vin :: "report \<Rightarrow> report \<Rightarrow> difference list" where
  "compare_vin a b =
    (case (test_detail_string a ''vin'' ''vin'', test_detail_string b ''vin'' ''vin'') of
       (Some vin_a, Some vin_b) \<Rightarrow>
         if vin_a \<noteq> vin_b
         then [\<lparr>df_severity = SevCritical, df_field = ''tests.vin.vin'', df_report_a = vin_a, df_report_b = vin_b\<rparr>]
         else []
     | _ \<Rightarrow> [])"

definition all_tests :: "report \<Rightarrow> report \<Rightarrow> string list" where
  "all_tests a b = sorted_list_of_set (set (RBT.keys (rp_tests a)) \<union> set (RBT.keys (rp_tests b)))"

definition presence :: "report \<Rightarrow> string \<Rightarrow> string" where
  "presence r name = (if RBT.lookup (rp_tests r) name \<noteq> None then ''present'' else ''missing'')"

definition compare_test :: "report \<Rightarrow> report \<Rightarrow> string \<Rightarrow> difference list" where
  "compare_test a b name =
    (case (RBT.lookup (rp_tests a) name, RBT.lookup (rp_tests b) name) of
       (Some left, Some right) \<Rightarrow>
         if tg_status left \<noteq> tg_status right \<and> tg_status left \<noteq> TestSkipped \<and> tg_status right \<noteq> TestSkipped
         then [\<lparr>df_severity = SevCritical, df_field = ''tests.'' @ name @ ''.status'',
                df_report_a = debug_status (tg_status left), df_report_b = debug_status (tg_status right)\<rparr>]
         else []
     | (None, None) \<Rightarrow> []
     | _ \<Rightarrow> [\<lparr>df_severity = SevCritical, df_field = ''tests.'' @ name,
              df_report_a = presence a name, df_report_b = presence b name\<rparr>])"

definition compare_supported :: "report \<Rightarrow> report \<Rightarrow> difference list" where
  "compare_supported a b =
    (case (test_detail_array a ''supported'' ''supported_codes'', test_detail_array b ''supported'' ''supported_codes'') of
       (Some left, Some right) \<Rightarrow>
         if set left \<noteq> set right
         then [\<lparr>df_severity = SevWarning, df_field = ''tests.supported.supported_codes'',
                df_report_a = format_set left, df_report_b = format_set right\<rparr>]
         else []
     | _ \<Rightarrow> [])"

definition compare_pid_value :: "string \<Rightarrow> f64 \<Rightarrow> f64 \<Rightarrow> difference list" where
  "compare_pid_value name value_a value_b =
    (if pid_tolerance name < \<bar>value_a - value_b\<bar>
     then [\<lparr>df_severity = SevWarning, df_field = ''tests.pids.readings.'' @ name,
            df_report_a = format_fixed 2 value_a, df_report_b = format_fixed 2 value_b\<rparr>] else [])"

definition compare_pid_values :: "(string, f64) RBT.rbt \<Rightarrow> (string, f64) RBT.rbt \<Rightarrow> difference list" where
  "compare_pid_values values_a values_b =
    concat (map (\<lambda>(name, value_a). case RBT.lookup values_b name of
        Some value_b \<Rightarrow> compare_pid_value name value_a value_b | None \<Rightarrow> []) (RBT.entries values_a))"

definition compare_polling :: "report \<Rightarrow> report \<Rightarrow> difference list" where
  "compare_polling a b =
    (case (test_detail_f64 a ''polling'' ''reads_per_sec'', test_detail_f64 b ''polling'' ''reads_per_sec'') of
       (Some left, Some right) \<Rightarrow>
         [\<lparr>df_severity = SevInfo, df_field = ''tests.polling.reads_per_sec'',
           df_report_a = format_fixed 1 left, df_report_b = format_fixed 1 right\<rparr>]
     | _ \<Rightarrow> [])"

definition compare_reports :: "report \<Rightarrow> report \<Rightarrow> difference list" where
  "compare_reports a b =
    compare_vehicle a b @ compare_fatal a b @ compare_protocol a b @ compare_vin a b
    @ concat (map (compare_test a b) (all_tests a b))
    @ compare_supported a b
    @ compare_pid_values (test_detail_pid_values a ''pids'' ''readings'')
        (test_detail_pid_values b ''pids'' ''readings'')
    @ compare_polling a b"

definition parity_ok :: "difference list \<Rightarrow> bool" where
  "parity_ok ds \<longleftrightarrow> \<not> list_ex (\<lambda>d. df_severity d = SevCritical) ds"

section \<open>Comparing is symmetric\<close>

definition swap_difference :: "difference \<Rightarrow> difference" where
  "swap_difference d = d\<lparr>df_report_a := df_report_b d, df_report_b := df_report_a d\<rparr>"

lemma swap_difference_simp [simp]:
  "swap_difference \<lparr>df_severity = s, df_field = f, df_report_a = x, df_report_b = y\<rparr>
    = \<lparr>df_severity = s, df_field = f, df_report_a = y, df_report_b = x\<rparr>"
  by (simp add: swap_difference_def)

lemma compare_parts_swap:
  "compare_vehicle b a = map swap_difference (compare_vehicle a b)"
  "compare_fatal b a = map swap_difference (compare_fatal a b)"
  "compare_protocol b a = map swap_difference (compare_protocol a b)"
  "compare_vin b a = map swap_difference (compare_vin a b)"
  "compare_test b a name = map swap_difference (compare_test a b name)"
  "compare_supported b a = map swap_difference (compare_supported a b)"
  "compare_pid_value name y x = map swap_difference (compare_pid_value name x y)"
  "compare_polling b a = map swap_difference (compare_polling a b)"
  by (auto simp: compare_vehicle_def compare_fatal_def compare_protocol_def compare_vin_def compare_test_def
      compare_supported_def compare_pid_value_def compare_polling_def abs_minus_commute split: option.splits)

lemma all_tests_swap: "all_tests b a = all_tests a b"
  by (simp add: all_tests_def Un_commute)

text \<open>Walking one tree and looking up in the other is walking the common keys in their order.\<close>

lemma concat_map_filter: "(\<And>x. x \<in> set xs \<Longrightarrow> \<not> P x \<Longrightarrow> f x = []) \<Longrightarrow> concat (map f xs) = concat (map f (filter P xs))"
  by (induction xs) auto

definition common_keys :: "(string, 'v) RBT.rbt \<Rightarrow> (string, 'v) RBT.rbt \<Rightarrow> string list" where
  "common_keys s t = sorted_list_of_set (set (RBT.keys s) \<inter> set (RBT.keys t))"

lemma common_keys_filter: "filter (\<lambda>k. RBT.lookup t k \<noteq> None) (RBT.keys s) = common_keys s t"
  unfolding common_keys_def
  by (rule sorted_distinct_set_unique) (auto simp: RBT.lookup_keys [symmetric] sorted_wrt_filter)

lemma compare_pid_values_common:
  "compare_pid_values s t = concat (map (\<lambda>k. compare_pid_value k (the (RBT.lookup s k)) (the (RBT.lookup t k)))
     (common_keys s t))"
proof -
  let ?f = "\<lambda>k. case RBT.lookup t k of
     Some w \<Rightarrow> compare_pid_value k (the (RBT.lookup s k)) w | None \<Rightarrow> []"
  have "compare_pid_values s t = concat (map (\<lambda>(k, v). ?f k) (RBT.entries s))"
    unfolding compare_pid_values_def
    by (rule arg_cong [where f = concat], rule map_cong [OF refl])
      (auto simp: RBT.lookup_in_tree [symmetric] split: option.split)
  also have "\<dots> = concat (map ?f (RBT.keys s))"
    by (simp add: RBT.keys_def_alt comp_def case_prod_unfold)
  also have "\<dots> = concat (map ?f (common_keys s t))"
    unfolding common_keys_filter [symmetric] by (rule concat_map_filter) auto
  also have "\<dots> = concat (map (\<lambda>k. compare_pid_value k (the (RBT.lookup s k)) (the (RBT.lookup t k))) (common_keys s t))"
    unfolding common_keys_filter [symmetric]
    by (rule arg_cong [where f = concat], rule map_cong [OF refl]) auto
  finally show ?thesis .
qed

lemma compare_pid_values_swap: "compare_pid_values t s = map swap_difference (compare_pid_values s t)"
  unfolding compare_pid_values_common common_keys_def
  by (simp add: map_concat comp_def Int_commute compare_parts_swap(7) [symmetric])

lemma compare_reports_swap: "compare_reports b a = map swap_difference (compare_reports a b)"
proof -
  have tests: "compare_test b a = (\<lambda>name. map swap_difference (compare_test a b name))"
    by (rule ext) (rule compare_parts_swap(5))
  show ?thesis
    unfolding compare_reports_def
    by (simp add: map_concat comp_def all_tests_swap [of b a] tests compare_parts_swap(1-4,6,8) [of b a]
        compare_pid_values_swap [of "test_detail_pid_values b ''pids'' ''readings''"])
qed

lemma parity_ok_swap: "parity_ok (compare_reports b a) \<longleftrightarrow> parity_ok (compare_reports a b)"
  unfolding compare_reports_swap [of b a]
  by (auto simp: parity_ok_def list_ex_iff swap_difference_def)

end
