(* ===== verification/Loader.thy ===== *)
theory Loader
  imports Vehicle Strings
begin

text \<open>
  Loading of specifications (\<open>vehicle/loader.rs\<close>, \<open>specs/embedded/mod.rs\<close>, the registry functions that use
  them) and the online VIN decoder (\<open>vehicle/nhtsa.rs\<close>). The YAML and JSON parsers, the file system and
  the HTTP client are parameters.
\<close>

section \<open>Specifications\<close>

text \<open>\<open>yaml\<close>: the parser of the specifications with its error texts; \<open>read\<close>: the content of a file or
  the error text of the system.\<close>

type_synonym yaml_parser = "string \<Rightarrow> string + vehicle_spec"
type_synonym file_reader = "string \<Rightarrow> string + string"

definition load_spec_from_str :: "yaml_parser \<Rightarrow> string \<Rightarrow> vehicle_spec res" where
  "load_spec_from_str yaml text =
    (case yaml text of Inl e \<Rightarrow> Inl (SpecParse (Text e)) | Inr spec \<Rightarrow> Inr spec)"

definition load_spec_from_file :: "yaml_parser \<Rightarrow> file_reader \<Rightarrow> string \<Rightarrow> vehicle_spec res" where
  "load_spec_from_file yaml read path =
    (case read path of
       Inl e \<Rightarrow> Inl (SpecParse (Fmt ''failed to read {}: {}'' [ArgStr path, ArgStr e]))
     | Inr content \<Rightarrow> load_spec_from_str yaml content)"

definition registry_load_file :: "yaml_parser \<Rightarrow> file_reader \<Rightarrow> string \<Rightarrow> (spec_registry, obd2_error, unit) act" where
  "registry_load_file yaml read path specs =
    (case load_spec_from_file yaml read path of
       Inl err \<Rightarrow> (Inl err, specs)
     | Inr spec \<Rightarrow> (Inr (), specs @ [spec]))"

text \<open>\<open>Path::extension\<close> of the standard library: what follows the last point of the file name, unless
  the name only begins with a point.\<close>

definition file_name :: "string \<Rightarrow> string" where
  "file_name path = rev (takeWhile (\<lambda>c. c \<noteq> CHR ''/'') (rev path))"

definition path_extension :: "string \<Rightarrow> string option" where
  "path_extension path =
    (let name = file_name path; stem = rev (dropWhile (\<lambda>c. c \<noteq> CHR ''.'') (rev name)) in
     if name = ''..'' \<or> stem = [] \<or> stem = ''.'' then None
     else Some (rev (takeWhile (\<lambda>c. c \<noteq> CHR ''.'') (rev name))))"

text \<open>The entries of a directory in the order of the system; a directory that cannot be read has none.\<close>

fun load_directory_loop :: "yaml_parser \<Rightarrow> file_reader \<Rightarrow> string list \<Rightarrow> nat \<Rightarrow> spec_registry \<Rightarrow> nat \<times> spec_registry" where
  "load_directory_loop yaml read [] count specs = (count, specs)"
| "load_directory_loop yaml read (path # paths) count specs =
    (if path_extension path \<in> {Some ''yaml'', Some ''yml''}
     then case registry_load_file yaml read path specs of
            (Inr _, specs') \<Rightarrow> load_directory_loop yaml read paths (count + 1) specs'
          | (Inl _, specs') \<Rightarrow> load_directory_loop yaml read paths count specs'
     else load_directory_loop yaml read paths count specs)"

definition registry_load_directory :: "yaml_parser \<Rightarrow> file_reader \<Rightarrow> (string \<Rightarrow> string list option) \<Rightarrow> string
    \<Rightarrow> (spec_registry, obd2_error, nat) act" where
  "registry_load_directory yaml read entries dir specs =
    (case entries dir of
       Some paths \<Rightarrow> (let (count, specs') = load_directory_loop yaml read paths 0 specs in (Inr count, specs'))
     | None \<Rightarrow> (Inr 0, specs))"

text \<open>The embedded specifications: the texts that parse, in order.\<close>

fun load_embedded_specs :: "yaml_parser \<Rightarrow> string list \<Rightarrow> spec_registry" where
  "load_embedded_specs yaml [] = []"
| "load_embedded_specs yaml (text # texts) =
    (case load_spec_from_str yaml text of
       Inr spec \<Rightarrow> spec # load_embedded_specs yaml texts
     | Inl _ \<Rightarrow> load_embedded_specs yaml texts)"

definition registry_with_defaults :: "yaml_parser \<Rightarrow> string list \<Rightarrow> spec_registry" where
  "registry_with_defaults yaml embedded = load_embedded_specs yaml embedded"

text \<open>Loading a directory adds, in order, the specifications of the YAML files that can be read and
  parsed, and returns their number.\<close>

definition loadable :: "yaml_parser \<Rightarrow> file_reader \<Rightarrow> string list \<Rightarrow> vehicle_spec list" where
  "loadable yaml read paths =
    List.map_filter (\<lambda>p. case load_spec_from_file yaml read p of Inr spec \<Rightarrow> Some spec | Inl _ \<Rightarrow> None)
      (filter (\<lambda>p. path_extension p \<in> {Some ''yaml'', Some ''yml''}) paths)"

lemma load_directory_loop_adds:
  "load_directory_loop yaml read paths count specs =
    (count + length (loadable yaml read paths), specs @ loadable yaml read paths)"
  by (induction yaml read paths count specs rule: load_directory_loop.induct)
    (auto simp: loadable_def registry_load_file_def List.map_filter_simps split: sum.split)

lemma registry_load_directory_adds:
  "entries dir = Some paths \<Longrightarrow> registry_load_directory yaml read entries dir specs =
    (Inr (length (loadable yaml read paths)), specs @ loadable yaml read paths)"
  by (simp add: registry_load_directory_def load_directory_loop_adds)

section \<open>The online VIN decoder\<close>

record nhtsa_vehicle =
  nh_make :: "string option"
  nh_model :: "string option"
  nh_year :: "int option"
  nh_trim :: "string option"
  nh_body_class :: "string option"
  nh_drive_type :: "string option"
  nh_fuel_type :: "string option"
  nh_transmission_type :: "string option"
  nh_engine_model :: "string option"
  nh_displacement_l :: "f64 option"
  nh_cylinders :: "int option"

definition nhtsa_default :: nhtsa_vehicle where
  "nhtsa_default = \<lparr>nh_make = None, nh_model = None, nh_year = None, nh_trim = None, nh_body_class = None,
     nh_drive_type = None, nh_fuel_type = None, nh_transmission_type = None, nh_engine_model = None,
     nh_displacement_l = None, nh_cylinders = None\<rparr>"

record nhtsa_result =
  nr_variable_id :: u32
  nr_value :: "string option"

text \<open>\<open>parse::<i32>()\<close> of the standard library: an optional sign and digits, in the range of the type.\<close>

definition parse_i32 :: "string \<Rightarrow> int option" where
  "parse_i32 s =
    (let (sign, ds) = split_sign s; n = sign * int (digits_value ds) in
     if ds \<noteq> [] \<and> list_all is_ascii_digit ds \<and> - (2 ^ 31) \<le> n \<and> n < 2 ^ 31 then Some n else None)"

definition useful_value :: "nhtsa_result \<Rightarrow> string option" where
  "useful_value r =
    Option.bind (nr_value r) (\<lambda>v. if v \<noteq> [] \<and> v \<noteq> ''Not Applicable'' then Some v else None)"

text \<open>The body of the loop.\<close>

definition apply_result :: "nhtsa_vehicle \<Rightarrow> nhtsa_result \<Rightarrow> nhtsa_vehicle" where
  "apply_result v r =
    (let val = useful_value r; i = nr_variable_id r in
     if i = 26 then v\<lparr>nh_make := val\<rparr>
     else if i = 28 then v\<lparr>nh_model := val\<rparr>
     else if i = 29 then v\<lparr>nh_year := Option.bind val parse_i32\<rparr>
     else if i = 38 then v\<lparr>nh_trim := val\<rparr>
     else if i = 5 then v\<lparr>nh_body_class := val\<rparr>
     else if i = 15 then v\<lparr>nh_drive_type := val\<rparr>
     else if i = 24 then v\<lparr>nh_fuel_type := val\<rparr>
     else if i = 37 then v\<lparr>nh_transmission_type := val\<rparr>
     else if i = 18 then v\<lparr>nh_engine_model := val\<rparr>
     else if i = 13 then v\<lparr>nh_displacement_l := Option.bind val parse_f64\<rparr>
     else if i = 9 then v\<lparr>nh_cylinders := Option.bind val parse_i32\<rparr>
     else v)"

definition parse_nhtsa_response :: "(string \<Rightarrow> string + nhtsa_result list) \<Rightarrow> string \<Rightarrow> nhtsa_vehicle option res" where
  "parse_nhtsa_response json text =
    (case json text of
       Inl e \<Rightarrow> Inl (ParseError (Fmt ''NHTSA JSON parse error: {}'' [ArgStr e]))
     | Inr results \<Rightarrow>
         let vehicle = foldl apply_result nhtsa_default results in
         Inr (if nh_make vehicle = None \<and> nh_model vehicle = None then None else Some vehicle))"

text \<open>The HTTP client: building it, sending a request, the status, the text of the answer.\<close>

record http_response =
  hr_success :: bool
  hr_status :: string
  hr_text :: "string + string"

record http_client =
  hc_build :: "string + unit"
  hc_get :: "string \<Rightarrow> string + http_response"

definition nhtsa_decode_vin :: "(string \<Rightarrow> string + nhtsa_result list) \<Rightarrow> http_client \<Rightarrow> string \<Rightarrow> nhtsa_vehicle option res" where
  "nhtsa_decode_vin json http vin =
    (let url = ''https://vpic.nhtsa.dot.gov/api/vehicles/decodevin'' @ ''/'' @ vin @ ''?format=json'' in
     case hc_build http of
       Inl e \<Rightarrow> Inl (Transport (Fmt ''HTTP client error: {}'' [ArgStr e]))
     | Inr _ \<Rightarrow>
         (case hc_get http url of
            Inl e \<Rightarrow> Inl (Transport (Fmt ''NHTSA request failed: {}'' [ArgStr e]))
          | Inr response \<Rightarrow>
              if \<not> hr_success response
              then Inl (Transport (Fmt ''NHTSA returned status {}'' [ArgStr (hr_status response)]))
              else (case hr_text response of
                      Inl e \<Rightarrow> Inl (Transport (Fmt ''NHTSA response read failed: {}'' [ArgStr e]))
                    | Inr body \<Rightarrow> parse_nhtsa_response json body)))"

text \<open>A field holds the value of the last result for its variable, also when that one is empty.\<close>

lemma nhtsa_make_is_last:
  "nh_make (foldl apply_result v results) =
    (let rs = filter (\<lambda>r. nr_variable_id r = 26) results in if rs = [] then nh_make v else useful_value (last rs))"
proof (induction results rule: rev_induct)
  case (snoc r rs)
  have "nh_make (apply_result w r) = (if nr_variable_id r = 26 then useful_value r else nh_make w)" for w
    by (simp add: apply_result_def Let_def)
  with snoc show ?case by simp
qed simp

end
