(* ===== verification/SessionCapture.thy ===== *)
theory SessionCapture
  imports SessionOps Logging Loader
begin

text \<open>
  Raw captures and specifications as a session manages them (\<open>session/mod.rs\<close>): the automatic capture
  that starts with the initialization and takes the VIN as its file name once that is known, the
  manual capture, and the loading of specifications. Paths are byte strings with \<open>/\<close> between their
  components; the time stamp of a file name, which is the time of day, is an argument.
\<close>

section \<open>Paths of the standard library\<close>

definition path_join :: "string \<Rightarrow> string \<Rightarrow> string" where
  "path_join dir name =
    (if slice_first name = Some (CHR ''/'') then name
     else if dir = [] \<or> last dir = CHR ''/'' then dir @ name
     else dir @ ''/'' @ name)"

text \<open>A reversed path without its trailing separators and \<open>.\<close> components.\<close>

fun trim_rev :: "string \<Rightarrow> string" where
  "trim_rev (c # d # cs) =
    (if c = CHR ''/'' \<or> (c = CHR ''.'' \<and> d = CHR ''/'') then trim_rev (d # cs) else c # d # cs)"
| "trim_rev cs = cs"

definition path_parent :: "string \<Rightarrow> string option" where
  "path_parent path =
    (let p = trim_rev (rev path) in
     if p = [] \<or> p = ''/'' then None
     else Some (rev (trim_rev (dropWhile (\<lambda>c. c \<noteq> CHR ''/'') p))))"

section \<open>File names\<close>

definition is_ascii_alphanumeric :: "char \<Rightarrow> bool" where
  "is_ascii_alphanumeric c \<longleftrightarrow>
    is_ascii_digit c \<or> (CHR ''A'' \<le> c \<and> c \<le> CHR ''Z'') \<or> (CHR ''a'' \<le> c \<and> c \<le> CHR ''z'')"

text \<open>One \<open>_\<close> for every other character: the continuation bytes of a UTF-8 text count for none.\<close>

definition is_continuation :: "char \<Rightarrow> bool" where
  "is_continuation c \<longleftrightarrow> 0x80 \<le> char_byte c \<and> char_byte c \<le> 0xBF"

definition capture_char :: "char \<Rightarrow> char" where
  "capture_char c = (if is_ascii_alphanumeric c \<or> c \<in> {CHR ''-'', CHR ''_''} then c else CHR ''_'')"

definition trim_underscores :: "string \<Rightarrow> string" where
  "trim_underscores s = rev (dropWhile (\<lambda>c. c = CHR ''_'') (rev (dropWhile (\<lambda>c. c = CHR ''_'') s)))"

definition sanitize_capture_name :: "string \<Rightarrow> string" where
  "sanitize_capture_name value =
    (let trimmed = trim_underscores (map capture_char (filter (\<lambda>c. \<not> is_continuation c) value))
     in if trimmed = [] then ''unknown'' else trimmed)"

definition capture_transport_type :: "string \<Rightarrow> string" where
  "capture_transport_type name =
    (let lower = map to_lower name in
     if str_contains lower ''obdlink'' \<or> str_contains lower ''ble'' then ''ble''
     else if str_contains lower ''tty'' \<or> str_contains lower ''cu.'' \<or> str_contains lower ''com''
       \<or> lower = ''mock'' then ''serial''
     else ''transport'')"

section \<open>The capture operations of a link\<close>

text \<open>
  The capture methods of \<open>Link\<close>, reached through \<open>transport_mut\<close> of an adapter: \<open>cp_present\<close> says
  whether the adapter has a link at all.
\<close>

record 'a capture_port =
  cp_present :: "'a \<Rightarrow> bool"
  cp_name :: "'a \<Rightarrow> string"
  cp_active :: "'a \<Rightarrow> bool"
  cp_start :: "string \<Rightarrow> capture_metadata \<Rightarrow> 'a \<Rightarrow> bool \<times> 'a"
  cp_stop :: "'a \<Rightarrow> string option \<times> 'a"
  cp_rename :: "string \<Rightarrow> 'a \<Rightarrow> string option \<times> 'a"

text \<open>The provided bodies of \<open>Link\<close>; the provided \<open>transport_mut\<close> of \<open>Adapter\<close>; the recording link; the
  link of an ELM327 adapter.\<close>

definition default_capture_port :: "('a \<Rightarrow> string) \<Rightarrow> 'a capture_port" where
  "default_capture_port name =
    \<lparr>cp_present = (\<lambda>_. True), cp_name = name, cp_active = (\<lambda>_. False),
     cp_start = (\<lambda>_ _ a. (False, a)), cp_stop = (\<lambda>a. (None, a)), cp_rename = (\<lambda>_ a. (None, a))\<rparr>"

definition no_transport_port :: "'a capture_port" where
  "no_transport_port = (default_capture_port (\<lambda>_. []))\<lparr>cp_present := (\<lambda>_. False)\<rparr>"

definition logging_capture_port :: "capture_env \<Rightarrow> ('l \<Rightarrow> string) \<Rightarrow> 'l logging_transport capture_port" where
  "logging_capture_port E name =
    \<lparr>cp_present = (\<lambda>_. True), cp_name = (\<lambda>s. name (lg_inner s)), cp_active = is_capturing,
     cp_start = start_raw_capture E, cp_stop = stop_raw_capture E, cp_rename = rename_raw_capture E\<rparr>"

definition on_elm_link :: "('l \<Rightarrow> 'b \<times> 'l) \<Rightarrow> 'l elm327 \<Rightarrow> 'b \<times> 'l elm327" where
  "on_elm_link f s = (let (r, l) = f (el_transport s) in (r, s\<lparr>el_transport := l\<rparr>))"

definition elm_capture_port :: "'l capture_port \<Rightarrow> 'l elm327 capture_port" where
  "elm_capture_port C =
    \<lparr>cp_present = (\<lambda>s. cp_present C (el_transport s)), cp_name = (\<lambda>s. cp_name C (el_transport s)),
     cp_active = (\<lambda>s. cp_active C (el_transport s)),
     cp_start = (\<lambda>path meta. on_elm_link (cp_start C path meta)),
     cp_stop = on_elm_link (cp_stop C), cp_rename = (\<lambda>path. on_elm_link (cp_rename C path))\<rparr>"

section \<open>The capture of a session\<close>

record raw_capture_config =
  rc_enabled :: bool
  rc_directory :: string
  rc_current_path :: "string option"

text \<open>\<open>debug\<close>: the crate is built with debug assertions.\<close>

definition raw_capture_default :: "bool \<Rightarrow> raw_capture_config" where
  "raw_capture_default debug =
    \<lparr>rc_enabled = debug, rc_directory = ''raw-captures'', rc_current_path = None\<rparr>"

text \<open>The state is the configuration and the adapter; \<open>mkdirs\<close> creates a directory with its parents and
  gives the text of an error.\<close>

type_synonym 'a capture_state = "raw_capture_config \<times> 'a"

definition set_raw_capture_enabled :: "bool \<Rightarrow> 'a capture_state \<Rightarrow> 'a capture_state" where
  "set_raw_capture_enabled enabled st = ((fst st)\<lparr>rc_enabled := enabled\<rparr>, snd st)"

definition set_raw_capture_directory :: "string \<Rightarrow> 'a capture_state \<Rightarrow> 'a capture_state" where
  "set_raw_capture_directory dir st = ((fst st)\<lparr>rc_directory := dir\<rparr>, snd st)"

definition start_debug_raw_capture :: "'a capture_port \<Rightarrow> (string \<Rightarrow> string option) \<Rightarrow> string
    \<Rightarrow> 'a capture_state \<Rightarrow> 'a capture_state" where
  "start_debug_raw_capture C mkdirs timestamp st =
    (let (cfg, a) = st in
     if \<not> rc_enabled cfg then st
     else if \<not> cp_present C a then st
     else if cp_active C a then st
     else if mkdirs (rc_directory cfg) \<noteq> None then st
     else
       let filename = ''unknown-'' @ sanitize_capture_name (cp_name C a) @ ''-'' @ timestamp @ ''.obd2raw'';
           path = path_join (rc_directory cfg) filename;
           metadata = \<lparr>cm_transport_type = capture_transport_type (cp_name C a),
                       cm_port_or_device = cp_name C a, cm_baud_rate = None\<rparr>;
           (started, a') = cp_start C path metadata a
       in (if started then cfg\<lparr>rc_current_path := Some path\<rparr> else cfg, a'))"

definition rename_raw_capture_for_vin :: "'a capture_port \<Rightarrow> string \<Rightarrow> string
    \<Rightarrow> 'a capture_state \<Rightarrow> 'a capture_state" where
  "rename_raw_capture_for_vin C timestamp vin st =
    (let (cfg, a) = st in
     if \<not> rc_enabled cfg then st
     else if \<not> cp_present C a then st
     else if \<not> cp_active C a then st
     else
       let filename = sanitize_capture_name vin @ ''-'' @ sanitize_capture_name (cp_name C a) @ ''-''
             @ timestamp @ ''.obd2raw'';
           (renamed, a') = cp_rename C (path_join (rc_directory cfg) filename) a
       in (case renamed of Some path \<Rightarrow> cfg\<lparr>rc_current_path := Some path\<rparr> | None \<Rightarrow> cfg, a'))"

definition start_on_transport :: "'a capture_port \<Rightarrow> string \<Rightarrow> capture_metadata
    \<Rightarrow> ('a capture_state, obd2_error, unit) act" where
  "start_on_transport C path metadata st =
    (let (cfg, a) = st; (started, a') = cp_start C path metadata a in
     if started then (Inr (), (cfg\<lparr>rc_current_path := Some path\<rparr>, a'))
     else (Inl (Transport (Text ''failed to start raw capture on the active transport'')), (cfg, a')))"

definition session_start_raw_capture :: "'a capture_port \<Rightarrow> (string \<Rightarrow> string option) \<Rightarrow> string
    \<Rightarrow> capture_metadata \<Rightarrow> ('a capture_state, obd2_error, unit) act" where
  "session_start_raw_capture C mkdirs path metadata st =
    (let (cfg, a) = st in
     if \<not> cp_present C a
     then (Inl (Transport (Text ''raw capture is unavailable: adapter has no transport'')), st)
     else case path_parent path of
       Some parent \<Rightarrow>
         (case mkdirs parent of
            Some e \<Rightarrow> (Inl (Transport (Fmt ''failed to create raw capture directory {}: {}''
                         [ArgStr parent, ArgStr e])), st)
          | None \<Rightarrow> start_on_transport C path metadata st)
     | None \<Rightarrow> start_on_transport C path metadata st)"

definition session_stop_raw_capture :: "'a capture_port \<Rightarrow> ('a capture_state, obd2_error, string option) act" where
  "session_stop_raw_capture C st =
    (let (cfg, a) = st in
     if \<not> cp_present C a
     then (Inl (Transport (Text ''raw capture is unavailable: adapter has no transport'')), st)
     else let (path, a') = cp_stop C a in (Inr path, (cfg\<lparr>rc_current_path := None\<rparr>, a')))"

section \<open>Sessions with a capture\<close>

text \<open>
  A session starts its automatic capture when it initializes the adapter, whichever operation needs
  that first. So the session with its captures is the session over an adapter whose state carries
  the configuration and whose initialization starts the capture before it initializes the adapter;
  only the identification of the vehicle has another step, the new file name. The annotations of the
  session are left out.
\<close>

definition on_captured :: "('a, 'e, 'b) act \<Rightarrow> ('a capture_state, 'e, 'b) act" where
  "on_captured m st = (let (r, a) = m (snd st) in (r, (fst st, a)))"

definition capturing_adapter :: "'a adapter \<Rightarrow> 'a capture_port \<Rightarrow> (string \<Rightarrow> string option) \<Rightarrow> string
    \<Rightarrow> 'a capture_state adapter" where
  "capturing_adapter A C mkdirs timestamp =
    \<lparr>ad_initialize = seq_act (modify_act (start_debug_raw_capture C mkdirs timestamp))
       (on_captured (ad_initialize A)),
     ad_request = (\<lambda>req. on_captured (ad_request A req)),
     ad_routed_request = (\<lambda>req. on_captured (ad_routed_request A req)),
     ad_supported_pids = on_captured (ad_supported_pids A),
     ad_battery_voltage = on_captured (ad_battery_voltage A),
     ad_info = (\<lambda>st. ad_info A (snd st)),
     ad_drain_events = (\<lambda>st. let (events, a) = ad_drain_events A (snd st) in (events, (fst st, a)))\<rparr>"

definition identify_with_capture :: "'a capture_state adapter \<Rightarrow> 'a capture_port \<Rightarrow> string
    \<Rightarrow> ('a capture_state session, obd2_error, vehicle_profile) act" where
  "identify_with_capture B C timestamp =
    seq_act (ensure_initialized B)
    (bind_act (read_vin B) (\<lambda>vin.
     seq_act (modify_act (\<lambda>s. s\<lparr>ses_adapter := rename_raw_capture_for_vin C timestamp vin (ses_adapter s)\<rparr>))
     (bind_act (try_act (session_supported_pids B)) (\<lambda>r.
     let supported = (case r of Inr p \<Rightarrow> p | Inl _ \<Rightarrow> {}) in
     bind_act (get_act (\<lambda>s. profile_of s vin supported)) (\<lambda>profile.
     seq_act (modify_act (\<lambda>s. refresh_discovery_profile B (s\<lparr>ses_profile := Some profile\<rparr>)))
       (ret profile))))))"

section \<open>Specifications of a session\<close>

definition on_specs :: "(spec_registry, obd2_error, 'b) act \<Rightarrow> ('a session, obd2_error, 'b) act" where
  "on_specs m s = (let (r, specs) = m (ses_specs s) in (r, s\<lparr>ses_specs := specs\<rparr>))"

definition session_load_spec :: "yaml_parser \<Rightarrow> file_reader \<Rightarrow> string \<Rightarrow> ('a session, obd2_error, unit) act" where
  "session_load_spec yaml read path = on_specs (registry_load_file yaml read path)"

definition session_load_spec_dir :: "yaml_parser \<Rightarrow> file_reader \<Rightarrow> (string \<Rightarrow> string list option) \<Rightarrow> string
    \<Rightarrow> ('a session, obd2_error, nat) act" where
  "session_load_spec_dir yaml read entries dir = on_specs (registry_load_directory yaml read entries dir)"

end
