(* ===== verification/HwRunner.thy ===== *)
theory HwRunner
  imports HwReport SessionCapture
begin

text \<open>
  The vehicles, the runner and the commands of the hardware test harness (\<open>obd2-hw-test/src/vehicles.rs\<close>,
  \<open>runner.rs\<close>, \<open>main.rs\<close>). The runner is generic in the state that its groups work on. What is printed on
  the console is left out, and the argument parser is not modelled; the file system and the JSON text
  are parameters.
\<close>

section \<open>Vehicles\<close>

datatype vin_expectation = VinUnknown | VinExact string

definition vin_describe :: "vin_expectation \<Rightarrow> string" where
  "vin_describe e = (case e of VinUnknown \<Rightarrow> ''bootstrap-discovery'' | VinExact _ \<Rightarrow> ''exact'')"

definition vin_expectation_matches :: "vin_expectation \<Rightarrow> string \<Rightarrow> bool" where
  "vin_expectation_matches e vin =
    (case e of VinUnknown \<Rightarrow> length vin = 17 | VinExact expected \<Rightarrow> eq_ignore_ascii_case expected vin)"

definition vin_expected :: "vin_expectation \<Rightarrow> string option" where
  "vin_expected e = (case e of VinUnknown \<Rightarrow> None | VinExact vin \<Rightarrow> Some vin)"

record expected_vehicle =
  xv_id :: string
  xv_display_name :: string
  xv_vin :: vin_expectation
  xv_expected_protocol :: protocol
  xv_expected_make :: string
  xv_required_pids :: "pid list"
  xv_has_j1939 :: bool
  xv_has_spec_match :: bool
  xv_enhanced_module :: string
  xv_plausible_rpm_range :: "f64 \<times> f64"
  xv_plausible_coolant_range :: "f64 \<times> f64"

definition plausible_range :: "expected_vehicle \<Rightarrow> pid \<Rightarrow> (f64 \<times> f64) option" where
  "plausible_range v p =
    (if p = Pid 0x0C then Some (xv_plausible_rpm_range v)
     else if p = Pid 0x05 then Some (xv_plausible_coolant_range v)
     else if p = Pid 0x0D then Some (0, 200)
     else if p = Pid 0x04 \<or> p = Pid 0x11 then Some (0, 100)
     else if p = Pid 0x42 then Some (9, 16)
     else None)"

definition hw_vehicles :: "expected_vehicle list" where
  "hw_vehicles = [
    \<lparr>xv_id = ''duramax-2006'', xv_display_name = ''2006 Chevy Duramax 2500'', xv_vin = VinUnknown,
     xv_expected_protocol = J1850Vpw, xv_expected_make = ''Chevrolet'',
     xv_required_pids = [Pid 0x0C, Pid 0x05, Pid 0x0D, Pid 0x04],
     xv_has_j1939 = True, xv_has_spec_match = True, xv_enhanced_module = ''ecm'',
     xv_plausible_rpm_range = (0, 3500), xv_plausible_coolant_range = (-40, 120)\<rparr>,
    \<lparr>xv_id = ''malibu-2020'', xv_display_name = ''2020 Chevy Malibu'', xv_vin = VinUnknown,
     xv_expected_protocol = Can11Bit500, xv_expected_make = ''Chevrolet'',
     xv_required_pids = [Pid 0x0C, Pid 0x05, Pid 0x0D, Pid 0x04, Pid 0x11],
     xv_has_j1939 = False, xv_has_spec_match = False, xv_enhanced_module = ''ecm'',
     xv_plausible_rpm_range = (0, 7000), xv_plausible_coolant_range = (-40, 120)\<rparr>,
    \<lparr>xv_id = ''accord-2001'', xv_display_name = ''2001 Honda Accord'', xv_vin = VinUnknown,
     xv_expected_protocol = ProtoIso9141 SlowInit, xv_expected_make = ''Honda'',
     xv_required_pids = [Pid 0x0C, Pid 0x05, Pid 0x0D],
     xv_has_j1939 = False, xv_has_spec_match = False, xv_enhanced_module = ''ecm'',
     xv_plausible_rpm_range = (0, 7000), xv_plausible_coolant_range = (-40, 120)\<rparr>]"

definition find_vehicle :: "string \<Rightarrow> expected_vehicle option" where
  "find_vehicle i = find (\<lambda>v. xv_id v = i) hw_vehicles"

section \<open>The runner\<close>

text \<open>A group runs on the state with the vehicle and the interactive flag of the context.\<close>

record 's test_group =
  gr_name :: string
  gr_run :: "expected_vehicle \<Rightarrow> bool \<Rightarrow> 's \<Rightarrow> test_group_result \<times> 's"
  gr_requires_j1939 :: bool
  gr_requires_spec_match :: bool
  gr_requires_interactive :: bool

text \<open>The three guards in their order.\<close>

definition skip_reason :: "'s test_group \<Rightarrow> expected_vehicle \<Rightarrow> bool \<Rightarrow> string option" where
  "skip_reason g vehicle interactive =
    (if gr_requires_j1939 g \<and> \<not> xv_has_j1939 vehicle then Some ''vehicle does not support J1939''
     else if gr_requires_spec_match g \<and> \<not> xv_has_spec_match vehicle
       then Some ''vehicle does not have a matched spec''
     else if gr_requires_interactive g \<and> \<not> interactive then Some ''requires --interactive''
     else None)"

definition skipped_result :: "string \<Rightarrow> test_group_result" where
  "skipped_result reason =
    \<lparr>tg_status = TestSkipped, tg_duration_ms = 0, tg_reason = Some reason, tg_details = None\<rparr>"

definition selected :: "string list option \<Rightarrow> string \<Rightarrow> bool" where
  "selected only name \<longleftrightarrow> (case only of Some names \<Rightarrow> name \<in> set names | None \<Rightarrow> True)"

fun run_groups :: "expected_vehicle \<Rightarrow> string list option \<Rightarrow> bool \<Rightarrow> 's test_group list
    \<Rightarrow> (string, test_group_result) RBT.rbt \<Rightarrow> 's \<Rightarrow> (string, test_group_result) RBT.rbt \<times> 's" where
  "run_groups vehicle only interactive [] tests s = (tests, s)"
| "run_groups vehicle only interactive (g # gs) tests s =
    (if \<not> selected only (gr_name g) then run_groups vehicle only interactive gs tests s
     else case skip_reason g vehicle interactive of
         Some reason \<Rightarrow>
           run_groups vehicle only interactive gs (RBT.insert (gr_name g) (skipped_result reason) tests) s
       | None \<Rightarrow>
           let (result, s') = gr_run g vehicle interactive s
           in run_groups vehicle only interactive gs (RBT.insert (gr_name g) result tests) s')"

text \<open>\<open>elapsed\<close> and \<open>elapsed'\<close> are the two readings of the clock.\<close>

definition run_matrix :: "'s test_group list \<Rightarrow> expected_vehicle \<Rightarrow> report_meta \<Rightarrow> string list option \<Rightarrow> bool
    \<Rightarrow> f64 \<Rightarrow> f64 \<Rightarrow> 's \<Rightarrow> report \<times> 's" where
  "run_matrix groups vehicle meta only interactive elapsed elapsed' s =
    (let r = report_new meta;
         (tests, s') = run_groups vehicle only interactive groups (rp_tests r) s;
         r1 = r\<lparr>rp_tests := tests, rp_summary := (rp_summary r)\<lparr>su_duration_secs := elapsed\<rparr>\<rparr>;
         r2 = compute_summary r1
     in (r2\<lparr>rp_summary := (rp_summary r2)\<lparr>su_duration_secs := elapsed'\<rparr>\<rparr>, s'))"

section \<open>Commands\<close>

definition nonblank_groups :: "string \<Rightarrow> string list" where
  "nonblank_groups value =
    filter (\<lambda>item. item \<noteq> []) (map str_trim (split_on (\<lambda>c. c = CHR '','') value))"

definition parse_only_groups :: "string list \<Rightarrow> string option \<Rightarrow> string + string list option" where
  "parse_only_groups known value =
    (case value of
       None \<Rightarrow> Inr None
     | Some value \<Rightarrow>
         let groups = nonblank_groups value in
         if groups = [] then Inr None
         else
           let unknown = filter (\<lambda>g. g \<notin> set known) groups in
           if unknown \<noteq> []
           then Inl (''Unknown group(s): '' @ str_join '', '' unknown @ ''. Known groups: '' @ str_join '', '' known)
           else Inr (Some groups))"

definition capture_dir_for_output :: "string \<Rightarrow> string" where
  "capture_dir_for_output output =
    path_join (case path_parent output of Some parent \<Rightarrow> parent | None \<Rightarrow> ''results'') ''captures''"

definition fatal_report :: "report_meta \<Rightarrow> string \<Rightarrow> string \<Rightarrow> json \<Rightarrow> report" where
  "fatal_report meta group_name text details =
    compute_summary ((report_new meta)
      \<lparr>rp_fatal_error := Some text,
       rp_tests := RBT.insert group_name
         \<lparr>tg_status = TestFail, tg_duration_ms = 0, tg_reason = Some text, tg_details = Some details\<rparr> RBT.empty\<rparr>)"

text \<open>\<open>write_to_file\<close> and \<open>read_from_file\<close>: the directory, the JSON text and the file may fail.\<close>

record report_io =
  io_mkdirs :: "string \<Rightarrow> string option"
  io_to_json :: "report \<Rightarrow> string + string"
  io_of_json :: "string \<Rightarrow> string + report"
  io_write :: "string \<Rightarrow> string \<Rightarrow> string option"
  io_read :: file_reader

definition report_write_to_file :: "report_io \<Rightarrow> report \<Rightarrow> string \<Rightarrow> string + unit" where
  "report_write_to_file io r path =
    (case Option.bind (path_parent path) (io_mkdirs io) of
       Some e \<Rightarrow> Inl e
     | None \<Rightarrow>
         (case io_to_json io r of
            Inl e \<Rightarrow> Inl e
          | Inr content \<Rightarrow> (case io_write io path content of Some e \<Rightarrow> Inl e | None \<Rightarrow> Inr ())))"

definition report_read_from_file :: "report_io \<Rightarrow> string \<Rightarrow> string + report" where
  "report_read_from_file io path =
    (case io_read io path of Inl e \<Rightarrow> Inl e | Inr content \<Rightarrow> io_of_json io content)"

definition compare_command :: "report_io \<Rightarrow> string \<Rightarrow> string \<Rightarrow> int" where
  "compare_command io path_a path_b =
    (case report_read_from_file io path_a of
       Inl _ \<Rightarrow> 1
     | Inr a \<Rightarrow>
         (case report_read_from_file io path_b of
            Inl _ \<Rightarrow> 1
          | Inr b \<Rightarrow> if parity_ok (compare_reports a b) then 0 else 1))"

text \<open>The end of \<open>run_command\<close>.\<close>

definition run_exit_code :: "report_io \<Rightarrow> report \<Rightarrow> string \<Rightarrow> int" where
  "run_exit_code io r output =
    (case report_write_to_file io r output of
       Inl _ \<Rightarrow> 1
     | Inr _ \<Rightarrow> if 0 < su_failed (rp_summary r) \<or> rp_fatal_error r \<noteq> None then 1 else 0)"

section \<open>The summary of a report\<close>

definition status_count :: "test_status \<Rightarrow> test_group_result list \<Rightarrow> nat" where
  "status_count st results = length (filter (\<lambda>r. tg_status r = st) results)"

lemma fold_count_status:
  "fold count_status results summary =
    summary\<lparr>su_total := su_total summary + of_nat (length results),
      su_passed := su_passed summary + of_nat (status_count TestPass results),
      su_failed := su_failed summary + of_nat (status_count TestFail results),
      su_skipped := su_skipped summary + of_nat (status_count TestSkipped results)\<rparr>"
proof (induction results arbitrary: summary)
  case (Cons r results)
  then show ?case
    by (cases "tg_status r") (simp_all add: status_count_def count_status_def Let_def algebra_simps)
qed (simp add: status_count_def)

lemma run_matrix_summary:
  "rp_summary (fst (run_matrix groups vehicle meta only interactive t t' s)) =
    (let results = map snd (RBT.entries (rp_tests (fst (run_matrix groups vehicle meta only interactive t t' s)))) in
     \<lparr>su_total = of_nat (length results), su_passed = of_nat (status_count TestPass results),
      su_failed = of_nat (status_count TestFail results),
      su_skipped = of_nat (status_count TestSkipped results), su_duration_secs = t'\<rparr>)"
  by (simp add: run_matrix_def compute_summary_def fold_count_status report_summary_default_def
      case_prod_unfold Let_def)

section \<open>The entries of a report\<close>

lemma run_groups_lookup_other:
  "name \<notin> gr_name ` set groups
    \<Longrightarrow> RBT.lookup (fst (run_groups vehicle only interactive groups tests s)) name = RBT.lookup tests name"
  by (induction vehicle only interactive groups tests s rule: run_groups.induct)
    (auto simp: case_prod_unfold Let_def split: option.split)

text \<open>Groups run in the given order, the selected ones that are not skipped only.\<close>

definition runs :: "expected_vehicle \<Rightarrow> string list option \<Rightarrow> bool \<Rightarrow> 's test_group \<Rightarrow> bool" where
  "runs vehicle only interactive g \<longleftrightarrow> selected only (gr_name g) \<and> skip_reason g vehicle interactive = None"

definition state_before :: "expected_vehicle \<Rightarrow> string list option \<Rightarrow> bool \<Rightarrow> 's test_group list \<Rightarrow> 's \<Rightarrow> 's" where
  "state_before vehicle only interactive gs s =
    fold (\<lambda>g s. snd (gr_run g vehicle interactive s)) (filter (runs vehicle only interactive) gs) s"

lemma run_groups_state:
  "snd (run_groups vehicle only interactive groups tests s) = state_before vehicle only interactive groups s"
  by (induction vehicle only interactive groups tests s rule: run_groups.induct)
    (auto simp: state_before_def runs_def case_prod_unfold Let_def split: option.split)

lemma run_groups_append:
  "run_groups vehicle only interactive (gs @ hs) tests s =
    (let (tests', s') = run_groups vehicle only interactive gs tests s
     in run_groups vehicle only interactive hs tests' s')"
  by (induction vehicle only interactive gs tests s rule: run_groups.induct)
    (auto simp: case_prod_unfold Let_def split: option.split)

lemma run_groups_entry:
  assumes "distinct (map gr_name (gs @ g # hs))"
  shows "RBT.lookup (fst (run_groups vehicle only interactive (gs @ g # hs) tests s)) (gr_name g) =
    (if \<not> selected only (gr_name g) then RBT.lookup tests (gr_name g)
     else case skip_reason g vehicle interactive of
         Some reason \<Rightarrow> Some (skipped_result reason)
       | None \<Rightarrow> Some (fst (gr_run g vehicle interactive (state_before vehicle only interactive gs s))))"
proof -
  have "gr_name g \<notin> gr_name ` set gs" "gr_name g \<notin> gr_name ` set hs"
    using assms by auto
  then show ?thesis
    by (simp add: run_groups_append run_groups_lookup_other run_groups_state case_prod_unfold Let_def
        split: option.split)
qed

end
