(* ===== verification/HwGroups.thy ===== *)
theory HwGroups
  imports HwRunner J1939Dm "HOL-Library.AList"
begin

text \<open>
  The test groups of the hardware harness (\<open>obd2-hw-test/src/tests/\<close>): each runs operations of a session
  and turns their results into a status, a reason and JSON details (fields in the order of the code).
  The session runs over an adapter with captures. The text of an error is a parameter, as are
  the clock readings; what the groups print is left out.
\<close>

section \<open>Results\<close>

text \<open>What a group reads of its environment: the texts of errors, whether a directory can be created, the
  time stamps of the capture's file names, the elapsed times, and the files. The readings of the
  elapsed time within a group are one value.\<close>

record hw_env =
  he_show :: "obd2_error \<Rightarrow> string"
  he_show_io :: "io_error \<Rightarrow> string"
  he_mkdirs :: "string \<Rightarrow> string option"
  he_started :: string
  he_renamed :: string
  he_elapsed_ms :: nat
  he_elapsed_secs :: f64
  he_files :: "string \<rightharpoonup> string"

definition test_pass :: "hw_env \<Rightarrow> json \<Rightarrow> test_group_result" where
  "test_pass E details =
    \<lparr>tg_status = TestPass, tg_duration_ms = he_elapsed_ms E, tg_reason = None, tg_details = Some details\<rparr>"

definition test_fail :: "hw_env \<Rightarrow> string \<Rightarrow> json \<Rightarrow> test_group_result" where
  "test_fail E reason details =
    \<lparr>tg_status = TestFail, tg_duration_ms = he_elapsed_ms E, tg_reason = Some reason, tg_details = Some details\<rparr>"

definition test_skip :: "string \<Rightarrow> test_group_result" where
  "test_skip reason =
    \<lparr>tg_status = TestSkipped, tg_duration_ms = 0, tg_reason = Some reason, tg_details = None\<rparr>"

text \<open>The usual answer to an error of the session.\<close>

definition fail_with :: "hw_env \<Rightarrow> string \<Rightarrow> obd2_error \<Rightarrow> test_group_result" where
  "fail_with E what err =
    test_fail E (what @ '': '' @ he_show E err) (JObject [(''error'', JString (he_show E err))])"

section \<open>JSON\<close>

definition json_opt :: "('b \<Rightarrow> json) \<Rightarrow> 'b option \<Rightarrow> json" where
  "json_opt f v = (case v of Some x \<Rightarrow> f x | None \<Rightarrow> JNull)"

definition json_u8 :: "u8 \<Rightarrow> json" where "json_u8 b = JNumber (of_nat (unat b))"

definition json_count :: "nat \<Rightarrow> json" where "json_count n = JNumber (of_nat n)"

definition hw_hex_bytes :: "bytes \<Rightarrow> string" where
  "hw_hex_bytes bs = str_join '' '' (map hex_byte bs)"

definition hex_code :: "u8 \<Rightarrow> string" where "hex_code b = ''0x'' @ hex_byte b"

definition hex_code16 :: "u16 \<Rightarrow> string" where
  "hex_code16 w = ''0x'' @ hex_byte (ucast (drop_bit 8 w)) @ hex_byte (ucast w)"

definition scalar_value :: "reading \<Rightarrow> f64 res" where
  "scalar_value r = as_f64 (rd_value r)"

fun value_to_json :: "obd_value \<Rightarrow> json" where
  "value_to_json (Scalar v) = JNumber v"
| "value_to_json (State v) = JString v"
| "value_to_json (Raw bs) = JObject [(''kind'', JString ''raw''), (''hex'', JString (hw_hex_bytes bs))]"
| "value_to_json (Bits b) = JObject [(''kind'', JString ''bitfield''), (''raw'', JNumber (of_nat (unat (bf_raw b)))),
     (''flags'', JArray (map (\<lambda>(name, enabled). JObject [(''name'', JString name), (''enabled'', JBool enabled)])
        (bf_flags b)))]"

primrec debug_dtc_status :: "dtc_status \<Rightarrow> string" where
  "debug_dtc_status Stored = ''Stored''"
| "debug_dtc_status Pending = ''Pending''"
| "debug_dtc_status Permanent = ''Permanent''"

definition dtcs_to_json :: "dtc list \<Rightarrow> json" where
  "dtcs_to_json ds = JArray (map (\<lambda>d. JObject [(''code'', JString (dtc_code d)),
     (''status'', JString (debug_dtc_status (dtc_status d))),
     (''description'', json_opt JString (dtc_description d))]) ds)"

definition monitor_to_json :: "monitor_status \<Rightarrow> json" where
  "monitor_to_json m = JObject [(''name'', JString (mon_name m)), (''supported'', JBool (mon_supported m)),
     (''complete'', JBool (mon_complete m))]"

definition readiness_to_json :: "readiness_status \<Rightarrow> json" where
  "readiness_to_json r = JObject [(''mil_on'', JBool (rs_mil_on r)), (''dtc_count'', json_u8 (rs_dtc_count r)),
     (''compression_ignition'', JBool (rs_compression_ignition r)),
     (''monitors'', JArray (map monitor_to_json (rs_monitors r)))]"

definition o2_results_to_json :: "o2_test_result list \<Rightarrow> json" where
  "o2_results_to_json rs = JArray (map (\<lambda>r. JObject [(''test_id'', JString (hex_code (o2_test_id r))),
     (''test_name'', JString (o2_test_name r)), (''sensor'', JString (o2_location_text (o2_sensor r))),
     (''value'', JNumber (o2_value r)), (''unit'', JString (o2_unit r))]) rs)"

definition test_results_to_json :: "test_result list \<Rightarrow> json" where
  "test_results_to_json rs = JArray (map (\<lambda>r. JObject [(''test_id'', JString (hex_code (tr_test_id r))),
     (''name'', JString (tr_name r)), (''value'', JNumber (tr_value r)), (''min'', json_opt JNumber (tr_min r)),
     (''max'', json_opt JNumber (tr_max r)), (''passed'', JBool (tr_passed r)), (''unit'', JString (tr_unit r))]) rs)"

primrec debug_chipset :: "chipset \<Rightarrow> string" where
  "debug_chipset Elm327Clone = ''Elm327Clone''"
| "debug_chipset Elm327Genuine = ''Elm327Genuine''"
| "debug_chipset Stn = ''Stn''"
| "debug_chipset UnknownChipset = ''Unknown''"

definition debug_kline :: "kline_init \<Rightarrow> string" where
  "debug_kline k = (case k of SlowInit \<Rightarrow> ''SlowInit'' | FastInit \<Rightarrow> ''FastInit'')"

primrec debug_protocol :: "protocol \<Rightarrow> string" where
  "debug_protocol J1850Vpw = ''J1850Vpw''"
| "debug_protocol J1850Pwm = ''J1850Pwm''"
| "debug_protocol (ProtoIso9141 k) = ''Iso9141('' @ debug_kline k @ '')''"
| "debug_protocol (ProtoKwp2000 k) = ''Kwp2000('' @ debug_kline k @ '')''"
| "debug_protocol Can11Bit500 = ''Can11Bit500''"
| "debug_protocol Can11Bit250 = ''Can11Bit250''"
| "debug_protocol Can29Bit500 = ''Can29Bit500''"
| "debug_protocol Can29Bit250 = ''Can29Bit250''"
| "debug_protocol ProtoAuto = ''Auto''"

primrec debug_confidence :: "confidence \<Rightarrow> string" where
  "debug_confidence Verified = ''Verified''"
| "debug_confidence Community = ''Community''"
| "debug_confidence Inferred = ''Inferred''"
| "debug_confidence Unverified = ''Unverified''"

section \<open>Groups\<close>

type_synonym 'a hw_session = "'a capture_state session"

definition run_init :: "hw_env \<Rightarrow> 'a capture_state adapter \<Rightarrow> 'a hw_session \<Rightarrow> test_group_result \<times> 'a hw_session" where
  "run_init E B s =
    (case session_initialize B s of
       (Inl err, s') \<Rightarrow> (fail_with E ''initialization failed'' err, s')
     | (Inr info, s') \<Rightarrow>
         let c = ai_capabilities info;
             chipset_ok = (ai_chipset info \<noteq> UnknownChipset);
             firmware_ok = (str_trim (ai_firmware info) \<noteq> []);
             details = JObject [(''chipset'', JString (debug_chipset (ai_chipset info))),
               (''firmware'', JString (ai_firmware info)), (''protocol'', JString (debug_protocol (ai_protocol info))),
               (''capabilities'', JObject [(''can_clear_dtcs'', JBool (cap_can_clear_dtcs c)),
                 (''dual_can'', JBool (cap_dual_can c)), (''enhanced_diag'', JBool (cap_enhanced_diag c)),
                 (''battery_voltage'', JBool (cap_battery_voltage c)), (''adaptive_timing'', JBool (cap_adaptive_timing c)),
                 (''kline_init'', JBool (cap_kline_init c)), (''kline_wakeup'', JBool (cap_kline_wakeup c)),
                 (''can_filtering'', JBool (cap_can_filtering c)), (''can_flow_control'', JBool (cap_can_flow_control c))])]
         in (if chipset_ok \<and> firmware_ok then test_pass E details
             else if \<not> chipset_ok then test_fail E ''chipset was not detected'' details
             else test_fail E ''firmware string was empty'' details, s'))"

definition run_protocol :: "hw_env \<Rightarrow> 'a capture_state adapter \<Rightarrow> expected_vehicle \<Rightarrow> 'a hw_session
    \<Rightarrow> test_group_result \<times> 'a hw_session" where
  "run_protocol E B vehicle s =
    (case session_initialize B s of
       (Inl err, s') \<Rightarrow> (fail_with E ''initialization failed'' err, s')
     | (Inr _, s') \<Rightarrow>
         let detected = ai_protocol (ad_info B (ses_adapter s')); expected = xv_expected_protocol vehicle;
             details = JObject [(''expected_protocol'', JString (debug_protocol expected)),
               (''detected_protocol'', JString (debug_protocol detected))]
         in (if detected = expected then test_pass E details
             else test_fail E ''detected protocol did not match the vehicle expectation'' details, s'))"

definition run_vin :: "hw_env \<Rightarrow> 'a capture_state adapter \<Rightarrow> 'a capture_port \<Rightarrow> expected_vehicle \<Rightarrow> 'a hw_session
    \<Rightarrow> test_group_result \<times> 'a hw_session" where
  "run_vin E B C vehicle s =
    (case identify_with_capture B C (he_renamed E) s of
       (Inl err, s') \<Rightarrow> (fail_with E ''vehicle identification failed'' err, s')
     | (Inr profile, s') \<Rightarrow>
         let manufacturer = Option.bind (vp_decoded_vin profile) dv_manufacturer;
             vin_ok = vin_expectation_matches (xv_vin vehicle) (vp_vin profile);
             make_ok = (case manufacturer of
                 Some mk \<Rightarrow> eq_ignore_ascii_case mk (xv_expected_make vehicle) | None \<Rightarrow> False);
             spec_matched = (vp_spec profile \<noteq> None);
             spec_ok = (\<not> xv_has_spec_match vehicle \<or> spec_matched);
             details = JObject [(''vin'', JString (vp_vin profile)),
               (''vin_expectation'', JString (vin_describe (xv_vin vehicle))),
               (''expected_vin'', json_opt JString (vin_expected (xv_vin vehicle))),
               (''manufacturer'', json_opt JString manufacturer),
               (''expected_make'', JString (xv_expected_make vehicle)), (''spec_matched'', JBool spec_matched)]
         in (if vin_ok \<and> make_ok \<and> spec_ok then test_pass E details
             else if \<not> vin_ok then test_fail E ''VIN did not match the vehicle expectation'' details
             else if \<not> make_ok
               then test_fail E ''decoded manufacturer did not match the vehicle expectation'' details
             else test_fail E ''expected a matched vehicle spec but none was resolved'' details, s'))"

text \<open>The three collections of the PID group: readings, errors, names out of range.\<close>

type_synonym pid_results = "(string \<times> json) list \<times> json list \<times> string list"

definition within_range :: "reading \<Rightarrow> (f64 \<times> f64) option \<Rightarrow> bool" where
  "within_range r rng =
    (case (scalar_value r, rng) of (Inr v, Some (lo, hi)) \<Rightarrow> lo \<le> v \<and> v \<le> hi | _ \<Rightarrow> True)"

definition pid_entry :: "pid \<Rightarrow> reading \<Rightarrow> (f64 \<times> f64) option \<Rightarrow> json" where
  "pid_entry p r rng =
    JObject ([(''pid_code'', JString (hex_code (pid_code p))), (''value'', value_to_json (rd_value r)),
        (''unit'', JString (pid_unit p)), (''raw_bytes'', JString (hw_hex_bytes (rd_raw_bytes r)))]
      @ (case rng of
           Some (lo, hi) \<Rightarrow> [(''range'', JArray [JNumber lo, JNumber hi]), (''within_range'', JBool (within_range r rng))]
         | None \<Rightarrow> []))"

definition pid_error :: "hw_env \<Rightarrow> pid \<Rightarrow> obd2_error \<Rightarrow> json" where
  "pid_error E p err = JObject [(''pid_code'', JString (hex_code (pid_code p))), (''pid_name'', JString (pid_name p)),
     (''error'', JString (he_show E err))]"

fun required_pids_loop :: "hw_env \<Rightarrow> 'a capture_state adapter \<Rightarrow> expected_vehicle \<Rightarrow> pid list \<Rightarrow> pid_results
    \<Rightarrow> 'a hw_session \<Rightarrow> pid_results \<times> 'a hw_session" where
  "required_pids_loop E B vehicle [] results s = (results, s)"
| "required_pids_loop E B vehicle (p # ps) (readings, errors, out_of_range) s =
    (case read_pid B p s of
       (Inr r, s') \<Rightarrow>
         let rng = plausible_range vehicle p
         in required_pids_loop E B vehicle ps
              (AList.update (pid_name p) (pid_entry p r rng) readings, errors,
               if within_range r rng then out_of_range else out_of_range @ [pid_name p]) s'
     | (Inl err, s') \<Rightarrow>
         required_pids_loop E B vehicle ps (readings, errors @ [pid_error E p err], out_of_range) s')"

definition run_pids :: "hw_env \<Rightarrow> 'a capture_state adapter \<Rightarrow> expected_vehicle \<Rightarrow> 'a hw_session
    \<Rightarrow> test_group_result \<times> 'a hw_session" where
  "run_pids E B vehicle s =
    (let ((readings, errors, out_of_range), s') =
           required_pids_loop E B vehicle (xv_required_pids vehicle) ([], [], []) s;
         details = JObject [(''readings'', JObject readings), (''errors'', JArray errors),
           (''out_of_range'', JArray (map JString out_of_range))]
     in (if errors \<noteq> [] then test_fail E ''one or more required PID reads failed'' details
         else if out_of_range \<noteq> []
           then test_fail E ''one or more required PID values were outside the plausible range'' details
         else test_pass E details, s'))"

definition json_codes :: "pid list \<Rightarrow> json" where
  "json_codes ps = JArray (map (\<lambda>p. JString (hex_code (pid_code p))) ps)"

definition run_supported :: "hw_env \<Rightarrow> 'a capture_state adapter \<Rightarrow> expected_vehicle \<Rightarrow> 'a hw_session
    \<Rightarrow> test_group_result \<times> 'a hw_session" where
  "run_supported E B vehicle s =
    (case session_supported_pids B s of
       (Inl err, s') \<Rightarrow> (fail_with E ''supported PID query failed'' err, s')
     | (Inr supported, s') \<Rightarrow>
         let details = JObject
               [(''supported_codes'', JArray (map JString
                   (sorted_list_of_set ((\<lambda>p. hex_code (pid_code p)) ` supported)))),
                (''required_present'', json_codes (filter (\<lambda>p. p \<in> supported) (xv_required_pids vehicle))),
                (''required_missing'', json_codes (filter (\<lambda>p. p \<notin> supported) (xv_required_pids vehicle)))]
         in (if list_all (\<lambda>p. p \<in> supported) (xv_required_pids vehicle) then test_pass E details
             else test_fail E ''one or more required PIDs are not reported as supported'' details, s'))"

definition dtc_result :: "obd2_error + dtc list \<Rightarrow> obd2_error + dtc list" where
  "dtc_result r = (case r of Inl err \<Rightarrow> if err = NoData then Inr [] else Inl err | Inr ds \<Rightarrow> Inr ds)"

definition run_dtcs :: "hw_env \<Rightarrow> 'a capture_state adapter \<Rightarrow> 'a hw_session \<Rightarrow> test_group_result \<times> 'a hw_session" where
  "run_dtcs E B s =
    (let (r1, s1) = read_dtcs B s in
     case dtc_result r1 of
       Inl err \<Rightarrow> (fail_with E ''stored DTC read failed'' err, s1)
     | Inr ds_stored \<Rightarrow>
         let (r2, s2) = read_pending_dtcs B s1 in
         case dtc_result r2 of
           Inl err \<Rightarrow> (fail_with E ''pending DTC read failed'' err, s2)
         | Inr ds_pending \<Rightarrow>
             let (r3, s3) = read_permanent_dtcs B s2 in
             case dtc_result r3 of
               Inl err \<Rightarrow> (fail_with E ''permanent DTC read failed'' err, s3)
             | Inr ds_permanent \<Rightarrow>
                 (test_pass E (JObject [(''stored'', dtcs_to_json ds_stored), (''pending'', dtcs_to_json ds_pending),
                    (''permanent'', dtcs_to_json ds_permanent), (''stored_count'', json_count (length ds_stored)),
                    (''pending_count'', json_count (length ds_pending)),
                    (''permanent_count'', json_count (length ds_permanent))]), s3))"

definition run_voltage :: "hw_env \<Rightarrow> 'a capture_state adapter \<Rightarrow> 'a hw_session \<Rightarrow> test_group_result \<times> 'a hw_session" where
  "run_voltage E B s =
    (case session_battery_voltage B s of
       (Inl err, s') \<Rightarrow> (fail_with E ''battery voltage read failed'' err, s')
     | (Inr None, s') \<Rightarrow>
         (test_fail E ''adapter did not return a battery voltage reading'' (JObject [(''voltage'', JNull)]), s')
     | (Inr (Some voltage), s') \<Rightarrow>
         let details = JObject [(''voltage'', JNumber voltage), (''range'', JArray [JNumber 11, JNumber (31/2)])]
         in (if 11 \<le> voltage \<and> voltage \<le> 31/2 then test_pass E details
             else test_fail E ''battery voltage was outside the expected range'' details, s'))"

fun poll_cycles :: "nat \<Rightarrow> 'a capture_state adapter \<Rightarrow> poll_config \<Rightarrow> 'a hw_session \<Rightarrow> poll_event list \<times> 'a hw_session" where
  "poll_cycles 0 B config s = ([], s)"
| "poll_cycles (Suc n) B config s =
    (let (events, s') = execute_poll_cycle B config None s; (events', s'') = poll_cycles n B config s'
     in (events @ events', s''))"

definition is_poll_reading :: "poll_event \<Rightarrow> bool" where
  "is_poll_reading e = (case e of PollReading _ _ \<Rightarrow> True | _ \<Rightarrow> False)"

definition is_poll_error :: "poll_event \<Rightarrow> bool" where
  "is_poll_error e = (case e of PollError _ _ \<Rightarrow> True | _ \<Rightarrow> False)"

text \<open>\<open>f64::round\<close>: to the nearest integer, halves away from zero.\<close>

definition round_away :: "f64 \<Rightarrow> int" where
  "round_away x = (if 0 \<le> x then \<lfloor>x + 1/2\<rfloor> else - \<lfloor>1/2 - x\<rfloor>)"

definition polling_config :: poll_config where
  "polling_config = (poll_config_new [Pid 0x0C, Pid 0x05, Pid 0x0D])\<lparr>pc_read_voltage := False\<rparr>"

text \<open>The run of the group when the channel takes all events: it is read only after the last cycle.\<close>

definition run_polling :: "hw_env \<Rightarrow> 'a capture_state adapter \<Rightarrow> 'a hw_session \<Rightarrow> test_group_result \<times> 'a hw_session" where
  "run_polling E B s =
    (let (events, s') = poll_cycles 100 B polling_config s;
         reading_count = length (filter is_poll_reading events);
         error_count = length (filter is_poll_error events);
         reads_per_sec = (if 0 < he_elapsed_secs E then of_nat reading_count / he_elapsed_secs E else 0);
         details = JObject [(''cycles'', JNumber 100), (''total_readings'', json_count reading_count),
           (''errors'', json_count error_count), (''duration_ms'', json_count (he_elapsed_ms E)),
           (''reads_per_sec'', JNumber (of_int (round_away (reads_per_sec * 10)) / 10))]
     in (if error_count = 0 then test_pass E details
         else test_fail E (decimal error_count @ '' polling errors occurred'') details, s'))"

definition run_capture_group :: "hw_env \<Rightarrow> 'a hw_session \<Rightarrow> test_group_result \<times> 'a hw_session" where
  "run_capture_group E s =
    (case rc_current_path (fst (ses_adapter s)) of
       None \<Rightarrow> (test_fail E ''raw capture path was not set'' (JObject [(''raw_capture_path'', JNull)]), s)
     | Some path \<Rightarrow>
         (case parse_raw_capture (he_files E) path of
            Inl err \<Rightarrow>
              (test_fail E (''failed to parse raw capture: '' @ he_show_io E err)
                 (JObject [(''raw_capture_path'', JString path), (''error'', JString (he_show_io E err))]), s)
          | Inr pairs \<Rightarrow>
              let details = JObject [(''raw_capture_path'', JString path), (''pair_count'', json_count (length pairs)),
                    (''first_command'', json_opt (\<lambda>pair. JString (fst pair)) (slice_first pairs))]
              in (if pairs = [] then test_fail E ''raw capture contained no command/response pairs'' details
                  else test_pass E details, s)))"

text \<open>The six messages of the J1939 group are read in order; the first error ends the group.\<close>

fun read_pgns :: "hw_env \<Rightarrow> 'a capture_state adapter \<Rightarrow> (string \<times> pgn) list \<Rightarrow> bytes list \<Rightarrow> 'a hw_session
    \<Rightarrow> (test_group_result + bytes list) \<times> 'a hw_session" where
  "read_pgns E B [] raws s = (Inr raws, s)"
| "read_pgns E B ((name, p) # ps) raws s =
    (case read_j1939_pgn B p s of
       (Inl err, s') \<Rightarrow> (Inl (fail_with E (''J1939 '' @ name @ '' read failed'') err), s')
     | (Inr raw, s') \<Rightarrow> read_pgns E B ps (raws @ [raw]) s')"

definition decode_failed :: "hw_env \<Rightarrow> string \<Rightarrow> bytes \<Rightarrow> test_group_result" where
  "decode_failed E name raw =
    test_fail E (''failed to decode J1939 '' @ name @ '' payload'') (JObject [(''raw'', JString (hw_hex_bytes raw))])"

definition j1939_details :: "eec1 \<Rightarrow> ccvs \<Rightarrow> et1 \<Rightarrow> eflp1 \<Rightarrow> lfe \<Rightarrow> j1939_dtc list \<Rightarrow> json" where
  "j1939_details e c t p l ds = JObject
    [(''eec1'', JObject [(''engine_rpm'', json_opt JNumber (engine_rpm e)),
        (''driver_demand_torque_pct'', json_opt JNumber (driver_demand_torque_pct e)),
        (''actual_torque_pct'', json_opt JNumber (actual_torque_pct e)), (''torque_mode'', json_u8 (torque_mode e))]),
     (''ccvs'', JObject [(''vehicle_speed'', json_opt JNumber (vehicle_speed c)),
        (''brake_switch'', json_opt JBool (brake_switch c)), (''cruise_active'', json_opt JBool (cruise_active c))]),
     (''et1'', JObject [(''coolant_temp'', json_opt JNumber (coolant_temp t)), (''fuel_temp'', json_opt JNumber (fuel_temp t)),
        (''oil_temp'', json_opt JNumber (oil_temp t))]),
     (''eflp1'', JObject [(''oil_pressure'', json_opt JNumber (oil_pressure p)),
        (''coolant_pressure'', json_opt JNumber (coolant_pressure p))]),
     (''lfe'', JObject [(''fuel_rate'', json_opt JNumber (fuel_rate l)),
        (''instantaneous_fuel_economy'', json_opt JNumber (instantaneous_fuel_economy l))]),
     (''dm1_count'', json_count (length ds)),
     (''dm1'', JArray (map (\<lambda>d. JObject [(''spn'', JNumber (of_nat (unat (jd_spn d)))), (''fmi'', json_u8 (jd_fmi d)),
        (''occurrence_count'', json_u8 (jd_occurrence_count d))]) ds))]"

definition j1939_result :: "hw_env \<Rightarrow> bytes \<Rightarrow> bytes \<Rightarrow> bytes \<Rightarrow> bytes \<Rightarrow> bytes \<Rightarrow> bytes \<Rightarrow> test_group_result" where
  "j1939_result E eec1_raw ccvs_raw et1_raw eflp1_raw lfe_raw dm1_raw =
    (case decode_eec1 eec1_raw of None \<Rightarrow> decode_failed E ''EEC1'' eec1_raw | Some e \<Rightarrow>
     case decode_ccvs ccvs_raw of None \<Rightarrow> decode_failed E ''CCVS'' ccvs_raw | Some c \<Rightarrow>
     case decode_et1 et1_raw of None \<Rightarrow> decode_failed E ''ET1'' et1_raw | Some t \<Rightarrow>
     case decode_eflp1 eflp1_raw of None \<Rightarrow> decode_failed E ''EFLP1'' eflp1_raw | Some p \<Rightarrow>
     case decode_lfe lfe_raw of None \<Rightarrow> decode_failed E ''LFE'' lfe_raw | Some l \<Rightarrow>
       test_pass E (j1939_details e c t p l (decode_dm1 dm1_raw)))"

definition run_j1939 :: "hw_env \<Rightarrow> 'a capture_state adapter \<Rightarrow> 'a hw_session \<Rightarrow> test_group_result \<times> 'a hw_session" where
  "run_j1939 E B s =
    (case read_pgns E B [(''EEC1'', Pgn 61444), (''CCVS'', Pgn 65265), (''ET1'', Pgn 65262), (''EFLP1'', Pgn 65263),
        (''LFE'', Pgn 65266), (''DM1'', Pgn 65226)] [] s of
       (Inl result, s') \<Rightarrow> (result, s')
     | (Inr raws, s') \<Rightarrow>
         (j1939_result E (raws ! 0) (raws ! 1) (raws ! 2) (raws ! 3) (raws ! 4) (raws ! 5), s'))"

fun enhanced_loop :: "hw_env \<Rightarrow> 'a capture_state adapter \<Rightarrow> module_id \<Rightarrow> enhanced_pid list \<Rightarrow> json list \<times> json list
    \<Rightarrow> 'a hw_session \<Rightarrow> (json list \<times> json list) \<times> 'a hw_session" where
  "enhanced_loop E B m [] results s = (results, s)"
| "enhanced_loop E B m (p # ps) (sampled, errors) s =
    (case read_enhanced B (ep_did p) m s of
       (Inr r, s') \<Rightarrow>
         enhanced_loop E B m ps (sampled @ [JObject [(''did'', JString (hex_code16 (ep_did p))),
           (''name'', JString (ep_name p)), (''service_id'', JString (hex_code (ep_service_id p))),
           (''unit'', JString (ep_unit p)), (''confidence'', JString (debug_confidence (ep_confidence p))),
           (''value'', value_to_json (rd_value r)), (''raw_bytes'', JString (hw_hex_bytes (rd_raw_bytes r)))]], errors) s'
     | (Inl err, s') \<Rightarrow>
         enhanced_loop E B m ps (sampled, errors @ [JObject [(''did'', JString (hex_code16 (ep_did p))),
           (''name'', JString (ep_name p)), (''error'', JString (he_show E err))]]) s')"

definition run_enhanced :: "hw_env \<Rightarrow> 'a capture_state adapter \<Rightarrow> expected_vehicle \<Rightarrow> 'a hw_session
    \<Rightarrow> test_group_result \<times> 'a hw_session" where
  "run_enhanced E B vehicle s =
    (let m = xv_enhanced_module vehicle; pids = take 3 (module_pids s m) in
     if pids = [] then (test_skip (''matched spec has no enhanced PIDs for module '' @ m), s)
     else
       let ((sampled, errors), s') = enhanced_loop E B m pids ([], []) s;
           details = JObject [(''module'', JString m), (''sampled'', JArray sampled), (''errors'', JArray errors)]
       in (if errors = [] \<and> sampled \<noteq> [] then test_pass E details
           else if sampled = [] then test_fail E ''no enhanced PID reads succeeded'' details
           else test_fail E ''one or more enhanced PID reads failed'' details, s'))"

definition no_data_result :: "obd2_error + 'b list \<Rightarrow> obd2_error + 'b list \<times> bool" where
  "no_data_result r =
    (case r of Inr results \<Rightarrow> Inr (results, False) | Inl err \<Rightarrow> if err = NoData then Inr ([], True) else Inl err)"

definition run_monitoring :: "hw_env \<Rightarrow> 'a capture_state adapter \<Rightarrow> 'a hw_session \<Rightarrow> test_group_result \<times> 'a hw_session" where
  "run_monitoring E B s =
    (case read_readiness B s of
       (Inl err, s1) \<Rightarrow> (fail_with E ''readiness read failed'' err, s1)
     | (Inr readiness, s1) \<Rightarrow>
         let (r2, s2) = read_all_o2_monitoring B s1 in
         case no_data_result r2 of
           Inl err \<Rightarrow> (fail_with E ''O2 monitoring read failed'' err, s2)
         | Inr (o2_results, o2_no_data) \<Rightarrow>
             let (r3, s3) = read_test_results B 0x01 s2 in
             case no_data_result r3 of
               Inl err \<Rightarrow> (fail_with E ''Mode 06 read failed'' err, s3)
             | Inr (mode6_results, mode6_no_data) \<Rightarrow>
                 (test_pass E (JObject [(''readiness'', readiness_to_json readiness), (''o2_no_data'', JBool o2_no_data),
                    (''o2_results'', o2_results_to_json o2_results), (''o2_result_count'', json_count (length o2_results)),
                    (''mode06_no_data'', JBool mode6_no_data), (''mode06_results'', test_results_to_json mode6_results),
                    (''mode06_result_count'', json_count (length mode6_results))]), s3))"

text \<open>At most \<open>n\<close> readings until the session is in the awaited state; the state of the session decides,
  not the reading. What the vehicle does between the readings is part of the adapter.\<close>

fun await_connection :: "nat \<Rightarrow> 'a capture_state adapter \<Rightarrow> connection_state \<Rightarrow> 'a hw_session \<Rightarrow> bool \<times> 'a hw_session" where
  "await_connection 0 B c s = (False, s)"
| "await_connection (Suc n) B c s =
    (let s' = snd (read_pid B (Pid 0x0C) s) in
     if ses_connection_state s' = c then (True, s') else await_connection n B c s')"

definition run_recovery :: "hw_env \<Rightarrow> 'a capture_state adapter \<Rightarrow> 'a hw_session \<Rightarrow> test_group_result \<times> 'a hw_session" where
  "run_recovery E B s =
    (let (off, s1) = await_connection 30 B IgnitionOff s;
         details = (\<lambda>recovered. JObject [(''ignition_off_observed'', JBool off), (''recovered'', JBool recovered)])
     in if \<not> off
        then (test_fail E ''ignition-off state was not observed within 30 seconds'' (details False), s1)
        else
          let (recovered, s2) = await_connection 30 B Connected s1
          in (if recovered then test_pass E (details recovered)
              else test_fail E ''session did not recover to Connected within 30 seconds'' (details recovered), s2))"

section \<open>The matrix\<close>

definition hw_group :: "string \<Rightarrow> (expected_vehicle \<Rightarrow> 's \<Rightarrow> test_group_result \<times> 's) \<Rightarrow> bool \<Rightarrow> bool \<Rightarrow> bool
    \<Rightarrow> 's test_group" where
  "hw_group name run j1939 spec_match interactive =
    \<lparr>gr_name = name, gr_run = (\<lambda>vehicle _. run vehicle), gr_requires_j1939 = j1939,
     gr_requires_spec_match = spec_match, gr_requires_interactive = interactive\<rparr>"

text \<open>Each group runs in its own environment, given by its name; the capture of a session that a group
  initializes starts in the environment of that group.\<close>

definition all_test_groups :: "(string \<Rightarrow> hw_env) \<Rightarrow> 'a adapter \<Rightarrow> 'a capture_port \<Rightarrow> 'a hw_session test_group list" where
  "all_test_groups Es A C =
    (let B = (\<lambda>name. capturing_adapter A C (he_mkdirs (Es name)) (he_started (Es name))) in
     [hw_group ''init'' (\<lambda>_. run_init (Es ''init'') (B ''init'')) False False False,
      hw_group ''protocol'' (run_protocol (Es ''protocol'') (B ''protocol'')) False False False,
      hw_group ''vin'' (run_vin (Es ''vin'') (B ''vin'') C) False False False,
      hw_group ''pids'' (run_pids (Es ''pids'') (B ''pids'')) False False False,
      hw_group ''supported'' (run_supported (Es ''supported'') (B ''supported'')) False False False,
      hw_group ''dtcs'' (\<lambda>_. run_dtcs (Es ''dtcs'') (B ''dtcs'')) False False False,
      hw_group ''voltage'' (\<lambda>_. run_voltage (Es ''voltage'') (B ''voltage'')) False False False,
      hw_group ''polling'' (\<lambda>_. run_polling (Es ''polling'') (B ''polling'')) False False False,
      hw_group ''capture'' (\<lambda>_. run_capture_group (Es ''capture'')) False False False,
      hw_group ''j1939'' (\<lambda>_. run_j1939 (Es ''j1939'') (B ''j1939'')) True False False,
      hw_group ''enhanced'' (run_enhanced (Es ''enhanced'') (B ''enhanced'')) False True False,
      hw_group ''monitoring'' (\<lambda>_. run_monitoring (Es ''monitoring'') (B ''monitoring'')) False False False,
      hw_group ''recovery'' (\<lambda>_. run_recovery (Es ''recovery'') (B ''recovery'')) False False True])"

definition group_names :: "string list" where
  "group_names = [''init'', ''protocol'', ''vin'', ''pids'', ''supported'', ''dtcs'', ''voltage'', ''polling'',
     ''capture'', ''j1939'', ''enhanced'', ''monitoring'', ''recovery'']"

definition hydrate_report_meta :: "'a adapter \<Rightarrow> 'a hw_session \<Rightarrow> report \<Rightarrow> report" where
  "hydrate_report_meta A s r =
    (let info = ad_info A (snd (ses_adapter s)) in
     r\<lparr>rp_meta := (rp_meta r)
        \<lparr>rm_adapter_chipset := Some (debug_chipset (ai_chipset info)),
         rm_adapter_firmware := Some (ai_firmware info),
         rm_protocol_detected := Some (debug_protocol (ai_protocol info)),
         rm_raw_capture_path := rc_current_path (fst (ses_adapter s))\<rparr>\<rparr>)"

text \<open>\<open>run_command\<close> from the opened link on: the session with its capture switched on, the matrix, the
  report and the exit code.\<close>

definition run_session_command :: "(string \<Rightarrow> hw_env) \<Rightarrow> report_io \<Rightarrow> f64 \<Rightarrow> f64 \<Rightarrow> spec_registry \<Rightarrow> bool
    \<Rightarrow> 'l elm327 adapter \<Rightarrow> 'l capture_port \<Rightarrow> 'l elm327 \<Rightarrow> expected_vehicle \<Rightarrow> report_meta \<Rightarrow> string list option \<Rightarrow> bool
    \<Rightarrow> string \<Rightarrow> report \<times> int" where
  "run_session_command Es io t t' specs debug A C elm vehicle meta only interactive output =
    (let s = session_new specs (set_raw_capture_directory (capture_dir_for_output output)
               (set_raw_capture_enabled True (raw_capture_default debug, elm)));
         (r, s') = run_matrix (all_test_groups Es A (elm_capture_port C)) vehicle meta only interactive t t' s;
         r' = hydrate_report_meta A s' r
     in (r', run_exit_code io r' output))"

text \<open>The early exits of \<open>run_command\<close>; \<open>build\<close> opens the link. The report that is written, if any, and the
  exit code.\<close>

definition run_command :: "(string \<Rightarrow> hw_env) \<Rightarrow> report_io \<Rightarrow> f64 \<Rightarrow> f64 \<Rightarrow> spec_registry \<Rightarrow> bool \<Rightarrow> string \<Rightarrow> string
    \<Rightarrow> ('l \<Rightarrow> 'l elm327) \<Rightarrow> 'l elm327 adapter \<Rightarrow> 'l capture_port \<Rightarrow> (string option \<Rightarrow> string + 'l)
    \<Rightarrow> string \<Rightarrow> string option \<Rightarrow> string \<Rightarrow> string \<Rightarrow> string option \<Rightarrow> bool \<Rightarrow> report option \<times> int" where
  "run_command Es io t t' specs debug timestamp version new_elm A C build transport port vehicle_id output only interactive =
    (case find_vehicle vehicle_id of
       None \<Rightarrow> (None, 2)
     | Some vehicle \<Rightarrow>
         (case parse_only_groups group_names only of
            Inl _ \<Rightarrow> (None, 2)
          | Inr only_groups \<Rightarrow>
              let meta = \<lparr>rm_timestamp = timestamp, rm_harness_version = version, rm_vehicle_id = xv_id vehicle,
                    rm_transport = transport, rm_port = port, rm_adapter_chipset = None, rm_adapter_firmware = None,
                    rm_protocol_detected = None, rm_raw_capture_path = None\<rparr>
              in (case build port of
                    Inl e \<Rightarrow> (Some (fatal_report meta ''startup'' e (JObject [(''transport'', JString transport)])), 1)
                  | Inr l \<Rightarrow>
                      let (r, code) = run_session_command Es io t t' specs debug A C (new_elm l) vehicle meta
                            only_groups interactive output
                      in (Some r, code))))"

end
