(* ===== verification/SessionCaptureLaws.thy ===== *)
theory SessionCaptureLaws
  imports SessionCapture SessionFrame LoggingLaws
begin

text \<open>
  Where the captures of a session write: whatever VIN a vehicle reports and whatever name a link has,
  the automatic capture touches only files directly in a directory that was configured. The contract of
  a link towards this, the client lemmas under it, and its providers.
\<close>

section \<open>Safe names\<close>

definition safe_name :: "string \<Rightarrow> bool" where
  "safe_name name \<longleftrightarrow> CHR ''/'' \<notin> set name \<and> name \<notin> {[], ''.'', ''..''}"

definition in_directory :: "string \<Rightarrow> string \<Rightarrow> bool" where
  "in_directory dir path \<longleftrightarrow> (\<exists>name. safe_name name \<and> path = path_join dir name)"

lemma capture_char_safe: "capture_char c \<noteq> CHR ''/''"
proof -
  have "capture_char (CHR ''/'') = CHR ''_''" by code_simp
  then show ?thesis by (cases "c = CHR ''/''") (auto simp: capture_char_def)
qed

lemma set_trim_underscores: "set (trim_underscores s) \<subseteq> set s"
  unfolding trim_underscores_def by (auto dest!: set_dropWhileD)

lemma sanitize_no_slash [simp]: "CHR ''/'' \<notin> set (sanitize_capture_name v)"
proof -
  let ?m = "map capture_char (filter (\<lambda>c. \<not> is_continuation c) v)"
  have "CHR ''/'' \<notin> set ?m" by (metis capture_char_safe imageE list.set_map)
  then have "CHR ''/'' \<notin> set (trim_underscores ?m)" using set_trim_underscores [of ?m] by blast
  then show ?thesis by (simp add: sanitize_capture_name_def Let_def)
qed

lemma capture_name_safe:
  "CHR ''/'' \<notin> set a \<Longrightarrow> safe_name (a @ ''.obd2raw'')"
  by (auto simp: safe_name_def append_eq_Cons_conv)

lemma in_directory_join: "CHR ''/'' \<notin> set a \<Longrightarrow> in_directory dir (path_join dir (a @ ''.obd2raw''))"
  unfolding in_directory_def using capture_name_safe by blast

section \<open>The contract of a capturing link\<close>

text \<open>\<open>files\<close>: the file system; \<open>targets\<close>: the paths that the link may yet write.\<close>

locale capture_contract =
  fixes C :: "'a capture_port"
    and files :: "'a \<Rightarrow> string \<Rightarrow> string option"
    and targets :: "'a \<Rightarrow> string set"
  assumes start_targets: "targets (snd (cp_start C p meta a)) \<subseteq> insert p (targets a)"
    and start_files: "files (snd (cp_start C p meta a)) q \<noteq> files a q \<Longrightarrow> q \<in> insert p (targets a)"
    and stop_targets: "targets (snd (cp_stop C a)) \<subseteq> targets a"
    and stop_files: "files (snd (cp_stop C a)) q \<noteq> files a q \<Longrightarrow> q \<in> targets a"
    and rename_targets: "targets (snd (cp_rename C p a)) \<subseteq> insert p (targets a)"
    and rename_files: "files (snd (cp_rename C p a)) q \<noteq> files a q \<Longrightarrow> q \<in> insert p (targets a)"
    and rename_path: "fst (cp_rename C p a) = Some q \<Longrightarrow> q = p"
begin

text \<open>\<open>ok\<close> holds of every path that the link may write and of every file that differs from \<open>initial\<close>.\<close>

definition confined :: "(string \<Rightarrow> bool) \<Rightarrow> (string \<Rightarrow> string option) \<Rightarrow> 'a \<Rightarrow> bool" where
  "confined ok initial a \<longleftrightarrow>
    (\<forall>p \<in> targets a. ok p) \<and> (\<forall>p. files a p \<noteq> initial p \<longrightarrow> ok p)"

lemma confined_step:
  assumes "confined ok initial a" and "ok p"
    and "targets a' \<subseteq> insert p (targets a)"
    and "\<And>q. files a' q \<noteq> files a q \<Longrightarrow> q \<in> insert p (targets a)"
  shows "confined ok initial a'"
  using assms unfolding confined_def by (metis insert_iff subset_iff)

lemma start_confined: "confined ok initial a \<Longrightarrow> ok p \<Longrightarrow> confined ok initial (snd (cp_start C p meta a))"
  by (rule confined_step [OF _ _ start_targets start_files])

lemma rename_confined: "confined ok initial a \<Longrightarrow> ok p \<Longrightarrow> confined ok initial (snd (cp_rename C p a))"
  by (rule confined_step [OF _ _ rename_targets rename_files])

lemma stop_confined: "confined ok initial a \<Longrightarrow> confined ok initial (snd (cp_stop C a))"
  using stop_targets stop_files unfolding confined_def by (metis subset_iff)

lemma start_debug_confined:
  assumes "confined ok initial (snd st)" and "CHR ''/'' \<notin> set timestamp"
    and "\<And>p. in_directory (rc_directory (fst st)) p \<Longrightarrow> ok p"
  shows "confined ok initial (snd (start_debug_raw_capture C mkdirs timestamp st))"
proof -
  obtain cfg a where st: "st = (cfg, a)" by (cases st)
  have "ok (path_join (rc_directory cfg)
      ((''unknown-'' @ sanitize_capture_name (cp_name C a) @ ''-'' @ timestamp) @ ''.obd2raw''))"
    by (rule assms(3), unfold st fst_conv, rule in_directory_join) (simp add: assms)
  from start_confined [of ok initial a, OF _ this] assms(1) show ?thesis
    by (simp add: st start_debug_raw_capture_def Let_def case_prod_unfold)
qed

lemma rename_vin_confined:
  assumes "confined ok initial (snd st)" and "CHR ''/'' \<notin> set timestamp"
    and "\<And>p. in_directory (rc_directory (fst st)) p \<Longrightarrow> ok p"
  shows "confined ok initial (snd (rename_raw_capture_for_vin C timestamp vin st))"
proof -
  obtain cfg a where st: "st = (cfg, a)" by (cases st)
  have "ok (path_join (rc_directory cfg)
      ((sanitize_capture_name vin @ ''-'' @ sanitize_capture_name (cp_name C a) @ ''-'' @ timestamp) @ ''.obd2raw''))"
    by (rule assms(3), unfold st fst_conv, rule in_directory_join) (simp add: assms)
  from rename_confined [of ok initial a, OF _ this] assms(1) show ?thesis
    by (simp add: st rename_raw_capture_for_vin_def Let_def case_prod_unfold)
qed

lemma start_manual_confined:
  "confined ok initial (snd st) \<Longrightarrow> ok path
    \<Longrightarrow> confined ok initial (snd (snd (session_start_raw_capture C mkdirs path meta st)))"
  using start_confined [of ok initial "snd st" path meta]
  by (auto simp: session_start_raw_capture_def start_on_transport_def Let_def split: prod.split option.split)

lemma stop_manual_confined:
  "confined ok initial (snd st) \<Longrightarrow> confined ok initial (snd (snd (session_stop_raw_capture C st)))"
  using stop_confined [of ok initial "snd st"]
  by (auto simp: session_stop_raw_capture_def Let_def split: prod.split)

text \<open>The path that a session reports after the automatic capture lies in the configured directory.\<close>

lemma reported_path:
  assumes "CHR ''/'' \<notin> set timestamp"
    and "rc_current_path (fst (rename_raw_capture_for_vin C timestamp vin st)) = Some p"
  shows "rc_current_path (fst st) = Some p \<or> in_directory (rc_directory (fst st)) p"
proof -
  obtain cfg a where st: "st = (cfg, a)" by (cases st)
  have "in_directory (rc_directory cfg) (path_join (rc_directory cfg)
      ((sanitize_capture_name vin @ ''-'' @ sanitize_capture_name (cp_name C a) @ ''-'' @ timestamp) @ ''.obd2raw''))"
    by (rule in_directory_join) (simp add: assms)
  with assms(2) show ?thesis
    by (auto simp: st rename_raw_capture_for_vin_def Let_def case_prod_unfold
        split: option.splits if_splits dest: rename_path)
qed

end

section \<open>The recording link\<close>

definition logging_targets :: "'l logging_transport \<Rightarrow> string set" where
  "logging_targets s = cw_path ` set_option (lg_writer s) \<union> set_option (lg_capture_path s)"

lemma flush_files_other: "flush_files w files q \<noteq> files q \<Longrightarrow> q = cw_path w"
  by (auto simp: flush_files_def split: option.splits if_splits)

lemma drop_writer_simps [simp]:
  "lg_writer (drop_writer E s) = None"
  "lg_capture_path (drop_writer E s) = lg_capture_path s"
  by (auto simp: drop_writer_def split: option.split)

lemma drop_writer_files: "lg_files (drop_writer E s) q \<noteq> lg_files s q \<Longrightarrow> q \<in> cw_path ` set_option (lg_writer s)"
  by (auto simp: drop_writer_def dest: flush_files_other split: option.splits if_splits)

lemma start_capture_targets: "logging_targets (snd (start_capture E p meta s)) \<subseteq> insert p (logging_targets s)"
  by (auto simp: start_capture_def logging_targets_def Let_def)

lemma start_capture_files:
  assumes "lg_files (snd (start_capture E p meta s)) q \<noteq> lg_files s q"
  shows "q \<in> insert p (logging_targets s)"
proof (rule ccontr)
  assume out: "q \<notin> insert p (logging_targets s)"
  let ?s = "s\<lparr>lg_files := (lg_files s)(p \<mapsto> [])\<rparr>"
  have "lg_files (drop_writer E ?s) q = lg_files ?s q"
    using drop_writer_files [of E ?s q] out by (auto simp: logging_targets_def)
  with assms out show False by (simp add: start_capture_def Let_def split: if_splits)
qed

lemma stop_capture_targets: "logging_targets (snd (stop_capture E s)) \<subseteq> logging_targets s"
  by (auto simp: stop_capture_def logging_targets_def Let_def split: option.splits)

lemma stop_capture_files: "lg_files (snd (stop_capture E s)) q \<noteq> lg_files s q \<Longrightarrow> q \<in> logging_targets s"
  by (auto simp: stop_capture_def logging_targets_def Let_def dest: flush_files_other split: option.splits if_splits)

lemma rename_capture_targets: "logging_targets (snd (rename_capture E p s)) \<subseteq> insert p (logging_targets s)"
  by (auto simp: rename_capture_def logging_targets_def Let_def split: option.splits)

lemma rename_capture_files:
  assumes "lg_files (snd (rename_capture E p s)) q \<noteq> lg_files s q"
  shows "q \<in> insert p (logging_targets s)"
proof (rule ccontr)
  assume out: "q \<notin> insert p (logging_targets s)"
  have "lg_files (drop_writer E s) q = lg_files s q"
    using drop_writer_files [of E s q] out by (auto simp: logging_targets_def)
  with assms out show False
    by (auto simp: rename_capture_def logging_targets_def Let_def split: option.splits if_splits)
qed

lemma rename_capture_path: "fst (rename_capture E p s) = Inr (Some q) \<Longrightarrow> q = p"
  by (auto simp: rename_capture_def Let_def split: option.splits if_splits)

lemmas raw_capture_defs = start_raw_capture_def stop_raw_capture_def rename_raw_capture_def

lemma raw_capture_snd [simp]:
  "snd (start_raw_capture E p meta s) = snd (start_capture E p meta s)"
  "snd (stop_raw_capture E s) = snd (stop_capture E s)"
  "snd (rename_raw_capture E p s) = snd (rename_capture E p s)"
  by (auto simp: raw_capture_defs split: prod.split sum.split unit.split)

lemma rename_raw_capture_path: "fst (rename_raw_capture E p s) = Some q \<Longrightarrow> q = p"
  using rename_capture_path [of E p s q] by (auto simp: raw_capture_defs split: prod.splits sum.splits)

lemma logging_port_contract: "capture_contract (logging_capture_port E name) lg_files logging_targets"
  by (unfold_locales; unfold logging_capture_port_def capture_port.simps raw_capture_snd;
      (rule start_capture_targets stop_capture_targets rename_capture_targets
        | erule start_capture_files stop_capture_files rename_capture_files rename_raw_capture_path))

interpretation recorder: capture_contract "logging_capture_port E name" lg_files logging_targets
  for E :: capture_env and name :: "'l \<Rightarrow> string"
  by (rule logging_port_contract)

text \<open>The recording link inside an ELM327 adapter; a link without captures.\<close>

lemma on_elm_link_simps [simp]:
  "el_transport (snd (on_elm_link f s)) = snd (f (el_transport s))"
  "fst (on_elm_link f s) = fst (f (el_transport s))"
  by (auto simp: on_elm_link_def split: prod.split)

interpretation elm_recorder: capture_contract "elm_capture_port (logging_capture_port E name)"
    "\<lambda>s. lg_files (el_transport s)" "\<lambda>s. logging_targets (el_transport s)"
  for E :: capture_env and name :: "'l \<Rightarrow> string"
  using recorder.start_targets [of E name] recorder.start_files [of E name] recorder.stop_targets [of E name]
    recorder.stop_files [of E name] recorder.rename_targets [of E name] recorder.rename_files [of E name]
    recorder.rename_path [of E name]
  by unfold_locales (simp_all add: elm_capture_port_def)

interpretation uncaptured: capture_contract "default_capture_port name" "\<lambda>_. Map.empty" "\<lambda>_. {}"
  for name :: "'a \<Rightarrow> string"
  by unfold_locales (simp_all add: default_capture_port_def)

section \<open>Runs\<close>

text \<open>What a program can do with a session over a recording link, as far as captures go: configure,
  initialize, identify the vehicle, capture by hand, exchange data and annotate.\<close>

datatype capture_action =
    SetEnabled bool | SetDirectory string | StartDebug string | RenameForVin string string
  | StartManual string capture_metadata | StopManual | LinkWrite bytes | LinkRead | LinkAnnotate string

fun run_capture_action :: "capture_env \<Rightarrow> 'l observed_link \<Rightarrow> ('l \<Rightarrow> string) \<Rightarrow> (string \<Rightarrow> string option)
    \<Rightarrow> capture_action \<Rightarrow> 'l logging_transport capture_state \<Rightarrow> 'l logging_transport capture_state" where
  "run_capture_action E L name mkdirs (SetEnabled b) st = set_raw_capture_enabled b st"
| "run_capture_action E L name mkdirs (SetDirectory dir) st = set_raw_capture_directory dir st"
| "run_capture_action E L name mkdirs (StartDebug time) st =
    start_debug_raw_capture (logging_capture_port E name) mkdirs time st"
| "run_capture_action E L name mkdirs (RenameForVin time vin) st =
    rename_raw_capture_for_vin (logging_capture_port E name) time vin st"
| "run_capture_action E L name mkdirs (StartManual path meta) st =
    snd (session_start_raw_capture (logging_capture_port E name) mkdirs path meta st)"
| "run_capture_action E L name mkdirs StopManual st =
    snd (session_stop_raw_capture (logging_capture_port E name) st)"
| "run_capture_action E L name mkdirs (LinkWrite data) st = (fst st, snd (logging_write E L data (snd st)))"
| "run_capture_action E L name mkdirs LinkRead st = (fst st, snd (logging_read E L (snd st)))"
| "run_capture_action E L name mkdirs (LinkAnnotate text) st = (fst st, log_annotation E text (snd st))"

definition run_capture_actions :: "capture_env \<Rightarrow> 'l observed_link \<Rightarrow> ('l \<Rightarrow> string) \<Rightarrow> (string \<Rightarrow> string option)
    \<Rightarrow> capture_action list \<Rightarrow> 'l logging_transport capture_state \<Rightarrow> 'l logging_transport capture_state" where
  "run_capture_actions E L name mkdirs = fold (run_capture_action E L name mkdirs)"

definition action_directories :: "capture_action list \<Rightarrow> string set" where
  "action_directories actions = {dir. SetDirectory dir \<in> set actions}"

definition manual_paths :: "capture_action list \<Rightarrow> string set" where
  "manual_paths actions = {path. \<exists>meta. StartManual path meta \<in> set actions}"

definition plain_times :: "capture_action list \<Rightarrow> bool" where
  "plain_times actions \<longleftrightarrow> list_all (\<lambda>c. case c of
     StartDebug time \<Rightarrow> CHR ''/'' \<notin> set time | RenameForVin time vin \<Rightarrow> CHR ''/'' \<notin> set time | _ \<Rightarrow> True) actions"

text \<open>Traffic reaches the open file only.\<close>

lemma put_line_keeps [simp]:
  "lg_files (put_line E d p s) = lg_files s"
  "logging_targets (put_line E d p s) = logging_targets s"
  by (auto simp: put_line_def logging_targets_def split: option.splits)

lemma flush_chunks_keeps [simp]:
  "lg_files (flush_chunks s) = lg_files s"
  "logging_targets (flush_chunks s) = logging_targets s"
  by (auto simp: flush_chunks_def logging_targets_def split: option.splits)

lemma observe_chunks_keeps [simp]:
  "lg_files (observe_chunks E ds s) = lg_files s"
  "logging_targets (observe_chunks E ds s) = logging_targets s"
  by (induction ds arbitrary: s) (simp_all add: logging_targets_def)

lemma inner_update_keeps [simp]: "logging_targets (s\<lparr>lg_inner := l\<rparr>) = logging_targets s"
  by (simp add: logging_targets_def)

lemma traffic_keeps:
  "lg_files (snd (logging_write E L data s)) = lg_files s"
  "logging_targets (snd (logging_write E L data s)) = logging_targets s"
  "lg_files (snd (logging_read E L s)) = lg_files s"
  "logging_targets (snd (logging_read E L s)) = logging_targets s"
  by (auto simp: logging_write_def logging_read_def log_line_def Let_def split: prod.split sum.split)

lemma capture_action_confined:
  assumes "recorder.confined ok initial (snd st)"
    and "\<And>p. in_directory (rc_directory (fst st)) p \<Longrightarrow> ok p"
    and "plain_times [c]" and "\<And>path meta. c = StartManual path meta \<Longrightarrow> ok path"
  shows "recorder.confined ok initial (snd (run_capture_action E L name mkdirs c st))"
proof (cases c)
  case (StartDebug time)
  with assms show ?thesis by (simp add: plain_times_def recorder.start_debug_confined)
next
  case (RenameForVin time vin)
  with assms show ?thesis by (simp add: plain_times_def recorder.rename_vin_confined)
next
  case (StartManual path meta)
  with assms show ?thesis by (simp add: recorder.start_manual_confined)
next
  case StopManual
  with assms show ?thesis by (simp add: recorder.stop_manual_confined)
qed (use assms(1) in \<open>simp_all add: recorder.confined_def log_annotation_def traffic_keeps
  set_raw_capture_enabled_def set_raw_capture_directory_def\<close>)

lemma capture_action_directory:
  "rc_directory (fst (run_capture_action E L name mkdirs c st)) =
    (case c of SetDirectory dir \<Rightarrow> dir | _ \<Rightarrow> rc_directory (fst st))"
  by (cases c; cases st)
    (auto simp: set_raw_capture_enabled_def set_raw_capture_directory_def start_debug_raw_capture_def
      rename_raw_capture_for_vin_def session_start_raw_capture_def start_on_transport_def
      session_stop_raw_capture_def Let_def split: prod.split option.split)

lemma capture_actions_confined:
  assumes "recorder.confined ok initial (snd st)" and "plain_times actions"
    and "\<And>dir p. dir \<in> insert (rc_directory (fst st)) (action_directories actions) \<Longrightarrow> in_directory dir p \<Longrightarrow> ok p"
    and "\<And>path. path \<in> manual_paths actions \<Longrightarrow> ok path"
  shows "recorder.confined ok initial (snd (run_capture_actions E L name mkdirs actions st))"
  using assms
proof (induction actions arbitrary: st)
  case (Cons c actions)
  let ?st = "run_capture_action E L name mkdirs c st"
  have "recorder.confined ok initial (snd ?st)"
    using Cons.prems by (intro capture_action_confined) (auto simp: plain_times_def manual_paths_def)
  moreover have "insert (rc_directory (fst ?st)) (action_directories actions)
      \<subseteq> insert (rc_directory (fst st)) (action_directories (c # actions))"
    by (auto simp: capture_action_directory action_directories_def split: capture_action.split)
  moreover have "manual_paths actions \<subseteq> manual_paths (c # actions)" "plain_times actions"
    using Cons.prems(2) by (auto simp: manual_paths_def plain_times_def)
  ultimately show ?case
    using Cons.IH [of ?st] Cons.prems(3,4) by (simp add: run_capture_actions_def) blast
qed (simp add: run_capture_actions_def)

text \<open>C5: in every run of captures over a recording link, whatever VINs the vehicle reports and whatever
  the link is named, a file that changes was named in a manual start or lies directly in a configured
  directory.\<close>

theorem captures_stay_in_their_directories:
  assumes "plain_times actions"
    and "lg_files (snd (run_capture_actions E L name mkdirs actions (raw_capture_default debug, logging_new files l))) p
      \<noteq> files p"
  shows "p \<in> manual_paths actions \<or>
    (\<exists>dir \<in> insert ''raw-captures'' (action_directories actions). in_directory dir p)"
proof -
  let ?ok = "\<lambda>p. p \<in> manual_paths actions \<or>
    (\<exists>dir \<in> insert ''raw-captures'' (action_directories actions). in_directory dir p)"
  have "recorder.confined ?ok files (snd (run_capture_actions E L name mkdirs actions
      (raw_capture_default debug, logging_new files l)))"
  proof (rule capture_actions_confined)
    show "recorder.confined ?ok files (snd (raw_capture_default debug, logging_new files l))"
      by (simp add: recorder.confined_def logging_new_def logging_targets_def)
  qed (use assms(1) in \<open>auto simp: raw_capture_default_def\<close>)
  with assms(2) show ?thesis by (auto simp: recorder.confined_def)
qed

text \<open>A VIN that climbs out of the directory becomes a plain name.\<close>

definition hostile_actions :: "capture_action list" where
  "hostile_actions = [SetEnabled True, SetDirectory ''logs'', StartDebug ''20260324T143000'', LinkWrite [0x30],
     RenameForVin ''20260324T143005'' ''../../etc/passwd1'', StopManual]"

lemma pred_option_code [code]: "pred_option P None = True" "pred_option P (Some x) = P x"
  by simp_all

lemma hostile_file:
  "lg_files (snd (run_capture_actions demo_env (plain_link mock_link) (\<lambda>_. ''/dev/ttyUSB0'') (\<lambda>_. None)
      hostile_actions (raw_capture_default False, logging_new Map.empty (mock_dialogue []))))
    ''logs/etc_passwd1-dev_ttyUSB0-20260324T143005.obd2raw'' \<noteq> None"
  by code_simp

lemma captures_stay_in_their_directories_witness:
  "\<exists>dir \<in> {''raw-captures'', ''logs''}. in_directory dir ''logs/etc_passwd1-dev_ttyUSB0-20260324T143005.obd2raw''"
proof -
  have "plain_times hostile_actions" by (simp add: plain_times_def hostile_actions_def)
  moreover have "manual_paths hostile_actions = {}" "action_directories hostile_actions = {''logs''}"
    by (simp_all add: manual_paths_def action_directories_def hostile_actions_def)
  ultimately show ?thesis
    using hostile_file captures_stay_in_their_directories [of hostile_actions demo_env "plain_link mock_link" "\<lambda>_. ''/dev/ttyUSB0''"
        "\<lambda>_. None" False Map.empty "mock_dialogue []" "''logs/etc_passwd1-dev_ttyUSB0-20260324T143005.obd2raw''"]
    by simp
qed

section \<open>The path that a session reports\<close>

text \<open>While the link captures, the reported path is that of the open file.\<close>

definition reports_open_file :: "'l logging_transport capture_state \<Rightarrow> bool" where
  "reports_open_file st \<longleftrightarrow> (\<forall>w. lg_writer (snd st) = Some w \<longrightarrow>
     rc_current_path (fst st) = Some (cw_path w) \<and> lg_capture_path (snd st) = Some (cw_path w))"

lemma put_line_reports [simp]:
  "reports_open_file (cfg, put_line E d p s) \<longleftrightarrow> reports_open_file (cfg, s)"
  by (auto simp: reports_open_file_def put_line_def split: option.split)

lemma flush_chunks_reports [simp]:
  "reports_open_file (cfg, flush_chunks s) \<longleftrightarrow> reports_open_file (cfg, s)"
  by (auto simp: reports_open_file_def flush_chunks_def split: option.split)

lemma observe_chunks_reports [simp]:
  "reports_open_file (cfg, observe_chunks E ds s) \<longleftrightarrow> reports_open_file (cfg, s)"
  by (induction ds arbitrary: s) (simp_all add: reports_open_file_def)

lemma inner_reports [simp]: "reports_open_file (cfg, s\<lparr>lg_inner := l\<rparr>) \<longleftrightarrow> reports_open_file (cfg, s)"
  by (simp add: reports_open_file_def)

lemma start_capture_cases:
  assumes "start_raw_capture E path meta s = (ok, s')"
  obtains "\<not> ok" "s' = s"
  | w where "ok" "lg_writer s' = Some w" "cw_path w = path" "lg_capture_path s' = Some path"
proof (cases "ce_create E path")
  case True
  let ?s = "snd (start_capture E path meta s)"
  have "fst (start_capture E path meta s) = Inr ()" using True by (simp add: start_capture_def Let_def)
  then have "start_raw_capture E path meta s = (True, ?s)"
    by (cases "start_capture E path meta s") (simp add: start_raw_capture_def case_unit_Unity)
  with assms have "ok" "s' = ?s" by simp_all
  moreover have "lg_writer ?s = Some \<lparr>cw_path = path, cw_position = Some 0,
      cw_buffer = format_header (ce_started E (lg_ticks s)) meta\<rparr>" "lg_capture_path ?s = Some path"
    using True by (simp_all add: start_capture_def Let_def)
  ultimately show ?thesis using that(2) by simp
next
  case False
  with assms that(1) show ?thesis by (simp add: start_raw_capture_def start_capture_def)
qed

lemma start_reports:
  assumes "reports_open_file (cfg, s)" and "start_raw_capture E path meta s = (ok, s')"
  shows "reports_open_file (if ok then cfg\<lparr>rc_current_path := Some path\<rparr> else cfg, s')"
  using assms(2) by (cases rule: start_capture_cases) (use assms(1) in \<open>auto simp: reports_open_file_def\<close>)

lemma rename_capture_cases:
  assumes "rename_capture E path s = (r, s')"
  obtains "lg_writer s' = None"
  | "lg_writer s' = lg_writer s" "lg_capture_path s' = lg_capture_path s"
      "r \<in> {Inr None, Inr (lg_capture_path s)} \<or> (\<exists>e. r = Inl e)"
  | w where "lg_writer s' = Some w" "cw_path w = path" "lg_capture_path s' = Some path" "r = Inr (Some path)"
  using assms by (auto simp: rename_capture_def Let_def split: option.splits if_splits)

lemma rename_reports:
  assumes "reports_open_file (cfg, s)" and "rename_raw_capture E path s = (r, s')"
  shows "reports_open_file (case r of Some p \<Rightarrow> cfg\<lparr>rc_current_path := Some p\<rparr> | None \<Rightarrow> cfg, s')"
proof -
  obtain r0 where r0: "rename_capture E path s = (r0, s')" "r = (case r0 of Inr p \<Rightarrow> p | Inl _ \<Rightarrow> None)"
    using assms(2) by (auto simp: rename_raw_capture_def split: prod.splits sum.splits)
  from r0(1) show ?thesis
    by (cases rule: rename_capture_cases)
      (use assms(1) r0(2) in \<open>auto simp: reports_open_file_def split: option.split\<close>)
qed

lemma stop_reports: "stop_raw_capture E s = (r, s') \<Longrightarrow> reports_open_file (cfg, s')"
  by (auto simp: reports_open_file_def stop_raw_capture_def stop_capture_def Let_def split: if_splits option.splits)

lemma run_capture_action_reports:
  assumes "reports_open_file st"
  shows "reports_open_file (run_capture_action E L name mkdirs c st)"
proof -
  obtain cfg s where st: "st = (cfg, s)" by (cases st)
  let ?C = "logging_capture_port E name"
  have port: "cp_start ?C = start_raw_capture E" "cp_stop ?C = stop_raw_capture E"
      "cp_rename ?C = rename_raw_capture E"
    by (simp_all add: logging_capture_port_def)
  show ?thesis
  proof (cases c)
    case (StartDebug time)
    with assms show ?thesis
      by (auto simp: st port start_debug_raw_capture_def Let_def split: prod.split
          intro: start_reports [where ok = True, simplified] start_reports [where ok = False, simplified])
  next
    case (RenameForVin time vin)
    with assms show ?thesis
      by (auto simp: st port rename_raw_capture_for_vin_def Let_def split: prod.split
          dest: rename_reports)
  next
    case (StartManual path meta)
    with assms show ?thesis
      by (auto simp: st port session_start_raw_capture_def start_on_transport_def Let_def split: prod.split option.split
          intro: start_reports [where ok = True, simplified] start_reports [where ok = False, simplified])
  next
    case StopManual
    with assms show ?thesis
      by (auto simp: st port session_stop_raw_capture_def Let_def split: prod.split dest: stop_reports)
  next
    case (LinkWrite data)
    with assms show ?thesis by (simp add: st logging_write_def log_line_def Let_def case_prod_unfold)
  next
    case LinkRead
    with assms show ?thesis
      by (auto simp: st logging_read_def log_line_def Let_def split: prod.split sum.split)
  next
    case (LinkAnnotate note_text)
    with assms show ?thesis by (simp add: st log_annotation_def)
  qed (use assms in \<open>simp_all add: st reports_open_file_def set_raw_capture_enabled_def
    set_raw_capture_directory_def\<close>)
qed

lemma reported_path_is_open_file:
  "reports_open_file (run_capture_actions E L name mkdirs actions (raw_capture_default debug, logging_new files l))"
proof -
  have "reports_open_file st \<Longrightarrow> reports_open_file (fold (run_capture_action E L name mkdirs) actions st)" for st
    by (induction actions arbitrary: st) (simp_all add: run_capture_action_reports)
  then show ?thesis
    by (simp add: run_capture_actions_def reports_open_file_def logging_new_def)
qed

text \<open>A rename that the system refuses ends the capture, and the session still reports its path.\<close>

lemma failed_rename_ends_capture:
  assumes "rc_enabled cfg" and "rc_current_path cfg = Some p"
    and "lg_writer s = Some w" and "lg_capture_path s = Some p"
    and "ce_flush E (cw_path w)" and "\<And>q. ce_mkdirs E q" and "\<And>q. \<not> ce_rename E p q"
    and "\<And>name. p \<noteq> path_join (rc_directory cfg) (name @ ''-'' @ time @ ''.obd2raw'')"
  shows "let (cfg', s') = rename_raw_capture_for_vin (logging_capture_port E name) time vin (cfg, s)
    in \<not> is_capturing s' \<and> rc_current_path cfg' = Some p"
proof -
  let ?new = "path_join (rc_directory cfg) ((sanitize_capture_name vin @ ''-'' @ sanitize_capture_name (name (lg_inner s)))
      @ ''-'' @ time @ ''.obd2raw'')"
  have "p \<noteq> ?new" by (rule assms(8))
  then have "fst (rename_raw_capture E ?new s) = None" "lg_writer (snd (rename_capture E ?new s)) = None"
    using assms(3-7) by (auto simp: rename_raw_capture_def rename_capture_def Let_def split: option.split)
  then show ?thesis
    using assms(1-3) by (simp add: rename_raw_capture_for_vin_def logging_capture_port_def is_capturing_def
        case_prod_unfold Let_def)
qed

section \<open>Without a link to capture\<close>

text \<open>On an adapter that has no link the session is the session without captures.\<close>

lemma no_transport_capture [simp]:
  "start_debug_raw_capture no_transport_port mkdirs time = id"
  "rename_raw_capture_for_vin no_transport_port time vin st = st"
  by (auto simp: start_debug_raw_capture_def rename_raw_capture_for_vin_def no_transport_port_def
      Let_def fun_eq_iff split: prod.split)

lemma capturing_no_transport:
  "ad_initialize (capturing_adapter A no_transport_port mkdirs time) = on_captured (ad_initialize A)"
  by (simp add: capturing_adapter_def fun_eq_iff)

lemma identify_no_transport: "identify_with_capture B no_transport_port time = identify_vehicle B"
proof -
  have skip: "seq_act (modify_act (\<lambda>s. s)) m = m" for m :: "('s, 'e, 'b) act"
    by (simp add: fun_eq_iff)
  show ?thesis
    by (simp add: identify_with_capture_def identify_vehicle_def skip)
qed

section \<open>Invariants of the adapter\<close>

text \<open>What every operation of an adapter preserves, every operation of a session over it preserves.\<close>

locale adapter_invariant =
  fixes A :: "'a adapter" and P :: "'a \<Rightarrow> bool"
  assumes inv_init: "P a \<Longrightarrow> P (snd (ad_initialize A a))"
    and inv_routed: "P a \<Longrightarrow> P (snd (ad_routed_request A req a))"
    and inv_battery: "P a \<Longrightarrow> P (snd (ad_battery_voltage A a))"
    and inv_drain: "P a \<Longrightarrow> P (snd (ad_drain_events A a))"
begin

lemma refresh_adapter [simp]: "ses_adapter (refresh_discovery_profile A s) = ses_adapter s"
  by (simp add: refresh_discovery_profile_def)

lemma events_adapter [simp]: "ses_adapter (apply_adapter_events A events s) = ses_adapter s"
  by (simp add: apply_adapter_events_def Let_def)

lemma report_adapter [simp]: "ses_adapter (apply_initialization_report A rep s) = ses_adapter s"
  by (simp add: apply_initialization_report_def Let_def)

lemma recovered_adapter [simp]: "ses_adapter (mark_connection_active_if_recovered s) = ses_adapter s"
  by (simp add: mark_connection_active_if_recovered_def split: connection_state.split)

lemma visible_adapter [simp]: "ses_adapter (record_visible_target t s) = ses_adapter s"
  by (simp add: record_visible_target_def Let_def split: physical_target.split option.split prod.split)

lemma conclude_keeps: "P (ses_adapter s) \<Longrightarrow> P (ses_adapter (snd (conclude_request A r s)))"
  using inv_drain [of "ses_adapter s"]
  by (auto simp: conclude_request_def Let_def split: prod.split sum.split)

lemma on_adapter_keeps:
  "(\<And>a. P a \<Longrightarrow> P (snd (m a))) \<Longrightarrow> P (ses_adapter s) \<Longrightarrow> P (ses_adapter (snd (on_adapter m s)))"
  by (simp add: on_adapter_def case_prod_unfold Let_def)

lemma routed_keeps: "P (ses_adapter s) \<Longrightarrow> P (ses_adapter (snd (routed_exchange A routed s)))"
  using on_adapter_keeps [of "ad_routed_request A routed" "record_visible_target (rr_target routed) s", OF inv_routed]
  by (simp add: routed_exchange_def case_prod_unfold Let_def conclude_keeps)

lemma initialize_keeps: "P (ses_adapter s) \<Longrightarrow> P (ses_adapter (snd (session_initialize A s)))"
  using on_adapter_keeps [of "ad_initialize A" "s\<lparr>ses_connection_state := ProtocolNegotiating\<rparr>", OF inv_init]
  by (auto simp: session_initialize_def bind_act_def get_act_def split: prod.split sum.split)

lemma ensure_keeps: "preserves (\<lambda>s. P (ses_adapter s)) (ensure_initialized A)"
proof -
  have "preserves (\<lambda>s. P (ses_adapter s)) (session_initialize A)"
    by (simp add: preserves_def initialize_keeps)
  then have "preserves (\<lambda>s. P (ses_adapter s)) (bind_act (session_initialize A) (\<lambda>_. ret ()))"
    by (intro preserves_parts)
  then show ?thesis by (simp add: preserves_def ensure_initialized_def)
qed

sublocale session_invariant A "\<lambda>s. P (ses_adapter s)"
proof
  show "preserves (\<lambda>s. P (ses_adapter s)) (ensure_initialized A)" by (rule ensure_keeps)
  show "preserves (\<lambda>s. P (ses_adapter s)) (send_request A req)" for req
    by (auto simp: preserves_def send_request_def Let_def routed_keeps split: sum.split)
  have busy: "preserves (\<lambda>s. P (ses_adapter s)) (\<lambda>s. if ses_request_in_flight s then (Inl AdapterBusy, s)
      else routed_exchange A req (s\<lparr>ses_request_in_flight := True\<rparr>))" for req
    by (simp add: preserves_def routed_keeps)
  show "preserves (\<lambda>s. P (ses_adapter s)) (raw_physical_request A sid data address)" for sid data address
    unfolding raw_physical_request_def by (intro preserves_parts ensure_keeps busy)
  have "P (ses_adapter s) \<Longrightarrow>
      P (ses_adapter (snd (on_adapter (ad_battery_voltage A) (s\<lparr>ses_request_in_flight := True\<rparr>))))" for s
    by (rule on_adapter_keeps [OF inv_battery]) simp_all
  then have "preserves (\<lambda>s. P (ses_adapter s)) (\<lambda>s. if ses_request_in_flight s then (Inl AdapterBusy, s)
      else let (result, s') = on_adapter (ad_battery_voltage A) (s\<lparr>ses_request_in_flight := True\<rparr>)
        in conclude_request A result s')"
    by (simp add: preserves_def case_prod_unfold Let_def conclude_keeps)
  then show "preserves (\<lambda>s. P (ses_adapter s)) (session_battery_voltage A)"
    unfolding session_battery_voltage_def by (intro preserves_parts ensure_keeps)
  show "preserves (\<lambda>s. P (ses_adapter s)) (session_initialize A)"
    by (simp add: preserves_def initialize_keeps)
qed simp_all

end

text \<open>The recording part of a session, whatever runs over it: on a link without captures no capture is
  ever started.\<close>

definition captures_nothing :: "'a capture_port \<Rightarrow> bool" where
  "captures_nothing C \<longleftrightarrow> (\<forall>a. \<not> cp_active C a) \<and> (\<forall>path meta a. fst (cp_start C path meta a) = False)"

lemma never_capturing:
  assumes "captures_nothing C"
  shows "adapter_invariant (capturing_adapter A C mkdirs time) (\<lambda>st. rc_current_path (fst st) = None)"
  using assms
  by unfold_locales
    (auto simp: capturing_adapter_def captures_nothing_def start_debug_raw_capture_def on_captured_def
      Let_def case_prod_unfold)

lemma rename_never_capturing:
  "captures_nothing C \<Longrightarrow> rename_raw_capture_for_vin C time vin st = st"
  by (auto simp: captures_nothing_def rename_raw_capture_for_vin_def Let_def split: prod.split)

interpretation plain_elm: adapter_invariant
    "capturing_adapter A (elm_capture_port (default_capture_port name)) mkdirs time"
    "\<lambda>st. rc_current_path (fst st) = None"
  for A :: "'l elm327 adapter" and name mkdirs time
  by (rule never_capturing)
    (simp add: captures_nothing_def elm_capture_port_def default_capture_port_def on_elm_link_def)

end
