(* ===== verification/HwLaws.thy ===== *)
theory HwLaws
  imports HwGroups SessionCaptureLaws
begin

text \<open>
  What the hardware harness reports: when two reports count as equal, and what the capture group says of
  the links that the harness opens.
\<close>

section \<open>Parity\<close>

definition vins_agree :: "report \<Rightarrow> report \<Rightarrow> bool" where
  "vins_agree a b \<longleftrightarrow> (case (test_detail_string a ''vin'' ''vin'', test_detail_string b ''vin'' ''vin'') of
     (Some x, Some y) \<Rightarrow> x = y | _ \<Rightarrow> True)"

definition statuses_agree :: "test_group_result option \<Rightarrow> test_group_result option \<Rightarrow> bool" where
  "statuses_agree x y \<longleftrightarrow> (case (x, y) of
     (Some l, Some r) \<Rightarrow> tg_status l = tg_status r \<or> tg_status l = TestSkipped \<or> tg_status r = TestSkipped
   | (None, None) \<Rightarrow> True | _ \<Rightarrow> False)"

lemma parity_append: "parity_ok (xs @ ys) \<longleftrightarrow> parity_ok xs \<and> parity_ok ys"
  by (simp add: parity_ok_def)

lemma parity_concat: "parity_ok (concat (map f xs)) \<longleftrightarrow> (\<forall>x \<in> set xs. parity_ok (f x))"
  by (auto simp: parity_ok_def list_ex_iff)

lemma parity_parts:
  "parity_ok (compare_vehicle a b) \<longleftrightarrow> rm_vehicle_id (rp_meta a) = rm_vehicle_id (rp_meta b)"
  "parity_ok (compare_fatal a b) \<longleftrightarrow> rp_fatal_error a = rp_fatal_error b"
  "parity_ok (compare_protocol a b) \<longleftrightarrow> rm_protocol_detected (rp_meta a) = rm_protocol_detected (rp_meta b)"
  "parity_ok (compare_vin a b) \<longleftrightarrow> vins_agree a b"
  "parity_ok (compare_test a b name) \<longleftrightarrow> statuses_agree (RBT.lookup (rp_tests a) name) (RBT.lookup (rp_tests b) name)"
  "parity_ok (compare_supported a b)" "parity_ok (compare_polling a b)" "parity_ok (compare_pid_values s t)"
  by (auto simp: parity_ok_def compare_vehicle_def compare_fatal_def compare_protocol_def compare_vin_def vins_agree_def
      compare_test_def statuses_agree_def compare_supported_def compare_polling_def compare_pid_values_def
      compare_pid_value_def list_ex_iff split: option.splits if_splits)

lemma parity_characterised:
  "parity_ok (compare_reports a b) \<longleftrightarrow>
    rm_vehicle_id (rp_meta a) = rm_vehicle_id (rp_meta b) \<and> rp_fatal_error a = rp_fatal_error b
    \<and> rm_protocol_detected (rp_meta a) = rm_protocol_detected (rp_meta b) \<and> vins_agree a b
    \<and> (\<forall>name. statuses_agree (RBT.lookup (rp_tests a) name) (RBT.lookup (rp_tests b) name))"
proof -
  have "set (all_tests a b) = dom (RBT.lookup (rp_tests a)) \<union> dom (RBT.lookup (rp_tests b))"
    by (simp add: all_tests_def RBT.lookup_keys)
  then have "(\<forall>name \<in> set (all_tests a b). statuses_agree (RBT.lookup (rp_tests a) name) (RBT.lookup (rp_tests b) name))
      \<longleftrightarrow> (\<forall>name. statuses_agree (RBT.lookup (rp_tests a) name) (RBT.lookup (rp_tests b) name))"
    by (auto simp: statuses_agree_def split: option.split)
  then show ?thesis
    unfolding compare_reports_def by (simp add: parity_append parity_concat parity_parts)
qed

text \<open>A report agrees with itself; the relation is symmetric, and not transitive: a skipped group agrees
  with a passed and with a failed one.\<close>

lemma parity_refl: "parity_ok (compare_reports a a)"
  by (auto simp: parity_characterised vins_agree_def statuses_agree_def split: option.split)

definition one_group_report :: "test_status \<Rightarrow> report" where
  "one_group_report st = (report_new \<lparr>rm_timestamp = [], rm_harness_version = [], rm_vehicle_id = ''v'', rm_transport = [],
      rm_port = None, rm_adapter_chipset = None, rm_adapter_firmware = None, rm_protocol_detected = None,
      rm_raw_capture_path = None\<rparr>)
    \<lparr>rp_tests := RBT.insert ''pids'' \<lparr>tg_status = st, tg_duration_ms = 0, tg_reason = None, tg_details = None\<rparr> RBT.empty\<rparr>"

lemma parity_not_transitive:
  "parity_ok (compare_reports (one_group_report TestPass) (one_group_report TestSkipped))
   \<and> parity_ok (compare_reports (one_group_report TestSkipped) (one_group_report TestFail))
   \<and> \<not> parity_ok (compare_reports (one_group_report TestPass) (one_group_report TestFail))"
  by (auto simp: parity_characterised one_group_report_def report_new_def vins_agree_def statuses_agree_def
      test_detail_string_def detail_field_def)

section \<open>Groups keep what the adapter keeps\<close>

locale hw_invariant = adapter_invariant B P
  for B :: "'a capture_state adapter" and P
begin

abbreviation kept :: "'a hw_session \<Rightarrow> bool" where
  "kept s \<equiv> P (ses_adapter s)"

lemma init_kept: "kept s \<Longrightarrow> kept (snd (run_init E B s))"
  using preservesD [OF inv_initialize, of s]
  by (auto simp: run_init_def Let_def split: prod.split sum.split)

lemma protocol_kept: "kept s \<Longrightarrow> kept (snd (run_protocol E B v s))"
  using preservesD [OF inv_initialize, of s]
  by (auto simp: run_protocol_def Let_def split: prod.split sum.split)

lemma vin_kept:
  assumes "identify_with_capture B C (he_renamed E) = identify_vehicle B" and "kept s"
  shows "kept (snd (run_vin E B C v s))"
  using preservesD [OF frame_identify assms(2)]
  by (auto simp: run_vin_def assms(1) Let_def split: prod.split sum.split)

lemma pids_kept: "kept s \<Longrightarrow> kept (snd (run_pids E B v s))"
proof -
  have "kept s \<Longrightarrow> kept (snd (required_pids_loop E B v ps results s))" for ps results
  proof (induction ps arbitrary: results s)
    case (Cons p ps)
    have "kept (snd (read_pid B p s))" by (rule preservesD [OF frame_read_pid Cons.prems])
    with Cons.IH show ?case
      by (cases results) (auto simp: Let_def split: prod.split sum.split)
  qed (simp split: prod.split)
  then show "kept s \<Longrightarrow> kept (snd (run_pids E B v s))"
    by (simp add: run_pids_def case_prod_unfold Let_def)
qed

lemma supported_kept: "kept s \<Longrightarrow> kept (snd (run_supported E B v s))"
  using preservesD [OF frame_supported, of s]
  by (auto simp: run_supported_def Let_def split: prod.split sum.split)

lemma dtcs_kept: "kept s \<Longrightarrow> kept (snd (run_dtcs E B s))"
proof -
  assume "kept s"
  let ?s1 = "snd (read_dtcs B s)" let ?s2 = "snd (read_pending_dtcs B ?s1)"
  have "kept ?s1" by (rule preservesD [OF frame_read_dtcs(1)]) fact
  moreover from this have "kept ?s2" by (rule preservesD [OF frame_read_dtcs(2)])
  moreover from this have "kept (snd (read_permanent_dtcs B ?s2))" by (rule preservesD [OF frame_read_dtcs(3)])
  ultimately show ?thesis
    by (simp add: run_dtcs_def case_prod_unfold Let_def split: sum.split)
qed

lemma voltage_kept: "kept s \<Longrightarrow> kept (snd (run_voltage E B s))"
  using preservesD [OF frame_battery, of s]
  by (auto simp: run_voltage_def Let_def split: prod.split sum.split option.split)

lemma polling_kept: "kept s \<Longrightarrow> kept (snd (run_polling E B s))"
proof -
  have "kept s \<Longrightarrow> kept (snd (poll_cycles n B config s))" for n config
    by (induction n arbitrary: s) (simp_all add: case_prod_unfold Let_def frame_poll)
  then show "kept s \<Longrightarrow> kept (snd (run_polling E B s))"
    by (simp add: run_polling_def case_prod_unfold Let_def)
qed

lemma j1939_kept: "kept s \<Longrightarrow> kept (snd (run_j1939 E B s))"
proof -
  have "kept s \<Longrightarrow> kept (snd (read_pgns E B ps raws s))" for ps raws
  proof (induction ps arbitrary: raws s)
    case (Cons q ps)
    obtain name p where q: "q = (name, p)" by (cases q)
    have "kept (snd (read_j1939_pgn B p s))" by (rule preservesD [OF frame_j1939(1) Cons.prems])
    with Cons.IH show ?case by (auto simp: q split: prod.split sum.split)
  qed simp
  then show "kept s \<Longrightarrow> kept (snd (run_j1939 E B s))"
    by (simp add: run_j1939_def case_prod_unfold del: read_pgns.simps split: sum.split)
qed

lemma enhanced_kept: "kept s \<Longrightarrow> kept (snd (run_enhanced E B v s))"
proof -
  have "kept s \<Longrightarrow> kept (snd (enhanced_loop E B m ps results s))" for m ps results
  proof (induction ps arbitrary: results s)
    case (Cons p ps)
    have "kept (snd (read_enhanced B (ep_did p) m s))" by (rule preservesD [OF frame_enhanced Cons.prems])
    with Cons.IH show ?case
      by (cases results) (auto split: prod.split sum.split)
  qed simp
  then show "kept s \<Longrightarrow> kept (snd (run_enhanced E B v s))"
    by (simp add: run_enhanced_def case_prod_unfold Let_def)
qed

lemma monitoring_kept: "kept s \<Longrightarrow> kept (snd (run_monitoring E B s))"
proof -
  assume "kept s"
  let ?s1 = "snd (read_readiness B s)" let ?s2 = "snd (read_all_o2_monitoring B ?s1)"
  have 1: "kept ?s1" by (rule preservesD [OF frame_information(3)]) fact
  have 2: "kept ?s2" by (rule preservesD [OF frame_all_o2 1])
  have 3: "kept (snd (read_test_results B 0x01 ?s2))" by (rule preservesD [OF frame_tests 2])
  show ?thesis
    using 1 2 3 by (cases "read_readiness B s"; cases "fst (read_readiness B s)")
      (auto simp: run_monitoring_def case_prod_unfold Let_def split: sum.split)
qed

lemma recovery_kept: "kept s \<Longrightarrow> kept (snd (run_recovery E B s))"
proof -
  have "kept s \<Longrightarrow> kept (snd (await_connection n B c s))" for n c s
    by (induction n arbitrary: s) (simp_all add: Let_def preservesD [OF frame_read_pid])
  then show "kept s \<Longrightarrow> kept (snd (run_recovery E B s))"
    by (simp add: run_recovery_def case_prod_unfold Let_def)
qed

end

section \<open>A link without captures\<close>

text \<open>Neither link that \<open>build_transport\<close> opens overrides the capture methods of \<open>Link\<close>, and neither is
  wrapped in the recording link: the capture group can only fail.\<close>

definition plain_port :: "('l \<Rightarrow> string) \<Rightarrow> 'l elm327 capture_port" where
  "plain_port name = elm_capture_port (default_capture_port name)"

lemma plain_port_captures_nothing: "captures_nothing (plain_port name)"
  by (simp add: plain_port_def captures_nothing_def elm_capture_port_def default_capture_port_def on_elm_link_def)

interpretation plain_harness: hw_invariant "capturing_adapter A (plain_port name) mkdirs time"
    "\<lambda>st. rc_current_path (fst st) = None"
  for A :: "'l elm327 adapter" and name mkdirs time
  unfolding hw_invariant_def by (rule never_capturing [OF plain_port_captures_nothing])

lemma identify_without_captures: "identify_with_capture B (plain_port name) time = identify_vehicle B"
proof -
  have skip: "seq_act (modify_act (\<lambda>s. s)) m = m" for m :: "('s, 'e, 'b) act"
    by (simp add: fun_eq_iff)
  show ?thesis
    by (simp add: identify_with_capture_def identify_vehicle_def skip
        rename_never_capturing [OF plain_port_captures_nothing])
qed

lemmas groups_kept = plain_harness.init_kept plain_harness.protocol_kept plain_harness.pids_kept
  plain_harness.supported_kept plain_harness.dtcs_kept plain_harness.voltage_kept plain_harness.polling_kept
  plain_harness.j1939_kept plain_harness.enhanced_kept plain_harness.monitoring_kept plain_harness.recovery_kept
  plain_harness.vin_kept [OF identify_without_captures]

lemma group_keeps_no_path:
  assumes "g \<in> set (all_test_groups Es A (plain_port name))"
    and "rc_current_path (fst (ses_adapter s)) = None"
  shows "rc_current_path (fst (ses_adapter (snd (gr_run g vehicle interactive s)))) = None"
proof -
  have capture: "rc_current_path (fst (ses_adapter (snd (run_capture_group E s)))) = None" for E
    using assms(2) by (simp add: run_capture_group_def)
  show ?thesis
    using assms(1) unfolding all_test_groups_def Let_def
    by (auto simp: hw_group_def capture intro: groups_kept [OF assms(2)])
qed

lemma state_before_no_path:
  assumes "set gs \<subseteq> set (all_test_groups Es A (plain_port name))"
    and "rc_current_path (fst (ses_adapter s)) = None"
  shows "rc_current_path (fst (ses_adapter (state_before vehicle only interactive gs s))) = None"
  using assms unfolding state_before_def
proof (induction gs arbitrary: s)
  case (Cons g gs)
  then show ?case using group_keeps_no_path [of g Es A name s] by simp
qed simp

lemma group_names_of: "map gr_name (all_test_groups Es A C) = group_names"
  by (simp add: all_test_groups_def group_names_def hw_group_def Let_def)

lemma distinct_group_names: "distinct group_names"
  by (simp add: group_names_def)

definition no_capture_result :: "hw_env \<Rightarrow> test_group_result" where
  "no_capture_result E = test_fail E ''raw capture path was not set'' (JObject [(''raw_capture_path'', JNull)])"

lemma capture_group_entry:
  assumes "rc_current_path (fst (ses_adapter s)) = None" and "selected only ''capture''"
  shows "RBT.lookup (fst (run_groups vehicle only interactive (all_test_groups Es A (plain_port name)) tests s)) ''capture''
    = Some (no_capture_result (Es ''capture''))"
proof -
  let ?gs = "all_test_groups Es A (plain_port name)"
  let ?g = "?gs ! 8"
  have split: "?gs = take 8 ?gs @ ?g # drop 9 ?gs" and g: "gr_name ?g = ''capture''"
      "skip_reason ?g vehicle interactive = None" "gr_run ?g = (\<lambda>_ _. run_capture_group (Es ''capture''))"
    by (simp_all add: all_test_groups_def Let_def hw_group_def skip_reason_def)
  have "rc_current_path (fst (ses_adapter (state_before vehicle only interactive (take 8 ?gs) s))) = None"
    by (rule state_before_no_path [OF set_take_subset assms(1)])
  moreover have dist: "distinct (map gr_name (take 8 ?gs @ ?g # drop 9 ?gs))"
    unfolding split [symmetric] group_names_of by (rule distinct_group_names)
  have "RBT.lookup (fst (run_groups vehicle only interactive (take 8 ?gs @ ?g # drop 9 ?gs) tests s)) (gr_name ?g) =
      Some (fst (gr_run ?g vehicle interactive (state_before vehicle only interactive (take 8 ?gs) s)))"
    unfolding run_groups_entry [OF dist] g(2) by (simp add: g(1) assms(2))
  ultimately show ?thesis
    unfolding split [symmetric] g by (simp add: run_capture_group_def no_capture_result_def)
qed

section \<open>The exit code\<close>

lemma run_groups_keys:
  "set (RBT.keys (fst (run_groups vehicle only interactive groups RBT.empty s))) \<subseteq> gr_name ` set groups"
  using run_groups_lookup_other [of _ groups vehicle only interactive RBT.empty s]
  by (force simp: RBT.lookup_keys [symmetric])

lemma tests_bounded:
  "length (RBT.entries (fst (run_groups vehicle only interactive (all_test_groups Es A C) RBT.empty s))) \<le> 13"
proof -
  let ?t = "fst (run_groups vehicle only interactive (all_test_groups Es A C) RBT.empty s)"
  have "gr_name ` set (all_test_groups Es A C) = set group_names"
    unfolding group_names_of [symmetric, of Es A C] by simp
  with run_groups_keys [of vehicle only interactive "all_test_groups Es A C" s]
  have "card (set (RBT.keys ?t)) \<le> card (set group_names)" by (metis card_mono List.finite_set)
  also have "\<dots> = 13" by (simp add: group_names_def)
  finally have "length (RBT.keys ?t) \<le> 13" using distinct_card [of "RBT.keys ?t"] by simp
  then show ?thesis by (simp add: RBT.keys_def_alt)
qed

text \<open>A failed group of the matrix makes the command fail.\<close>

lemma failed_group_fails:
  assumes "RBT.lookup (rp_tests (fst (run_matrix (all_test_groups Es A C) vehicle meta only interactive t t' s))) name = Some result"
    and "tg_status result = TestFail"
  shows "0 < su_failed (rp_summary (fst (run_matrix (all_test_groups Es A C) vehicle meta only interactive t t' s)))"
proof -
  let ?t = "fst (run_groups vehicle only interactive (all_test_groups Es A C) RBT.empty s)"
  have tests: "rp_tests (fst (run_matrix (all_test_groups Es A C) vehicle meta only interactive t t' s)) = ?t"
    by (simp add: run_matrix_def compute_summary_def report_new_def case_prod_unfold Let_def)
  let ?failed = "filter (\<lambda>r. tg_status r = TestFail) (map snd (RBT.entries ?t))"
  have "(name, result) \<in> set (RBT.entries ?t)" using assms(1) unfolding tests RBT.lookup_in_tree .
  then have "result \<in> set ?failed" using assms(2) by force
  then have "0 < length ?failed" by (rule length_pos_if_in_set)
  moreover have "length ?failed \<le> 13"
    using tests_bounded [of vehicle only interactive Es A C s] length_filter_le le_trans
    by (metis length_map)
  ultimately have "(0 :: u32) < of_nat (length ?failed)"
    by (simp add: word_less_nat_alt unat_of_nat take_bit_nat_eq_self)
  then show ?thesis
    unfolding run_matrix_summary Let_def tests by (simp add: status_count_def)
qed

text \<open>C38: on a link that has only the provided capture methods of \<open>Link\<close>, which is what the harness
  opens, the capture group fails whatever the vehicle answers, and the command exits with 1
  whenever that group is selected and the run ends (the channel of the polling group is unbounded in
  the model; in the code a full channel can stop the run there).\<close>

theorem harness_without_recorder_fails:
  assumes "selected only ''capture''"
  shows "let (r, code) = run_session_command Es io t t' specs debug A (default_capture_port name) elm vehicle meta
           only interactive output
         in code = 1 \<and> RBT.lookup (rp_tests r) ''capture'' = Some (no_capture_result (Es ''capture''))"
proof -
  let ?C = "plain_port name"
  let ?s = "session_new specs (set_raw_capture_directory (capture_dir_for_output output)
               (set_raw_capture_enabled True (raw_capture_default debug, elm)))"
  let ?m = "run_matrix (all_test_groups Es A ?C) vehicle meta only interactive t t' ?s"
  have "rc_current_path (fst (ses_adapter ?s)) = None"
    by (simp add: session_new_def set_raw_capture_directory_def set_raw_capture_enabled_def raw_capture_default_def)
  from capture_group_entry [OF this assms]
  have entry: "RBT.lookup (rp_tests (fst ?m)) ''capture'' = Some (no_capture_result (Es ''capture''))"
    by (simp add: run_matrix_def compute_summary_def report_new_def case_prod_unfold Let_def)
  then have "0 < su_failed (rp_summary (fst ?m))"
    by (rule failed_group_fails) (simp add: no_capture_result_def test_fail_def)
  with entry show ?thesis
    by (simp add: plain_port_def [symmetric] run_session_command_def hydrate_report_meta_def run_exit_code_def case_prod_unfold Let_def
        split: sum.split)
qed

definition demo_hw_env :: "string \<Rightarrow> hw_env" where
  "demo_hw_env name =
    \<lparr>he_show = (\<lambda>_. ''error''), he_show_io = (\<lambda>_. ''i/o error''), he_mkdirs = (\<lambda>_. None),
     he_started = ''20260409T120000'', he_renamed = ''20260409T120005'', he_elapsed_ms = 20,
     he_elapsed_secs = 1/50, he_files = Map.empty\<rparr>"

definition demo_report_io :: report_io where
  "demo_report_io = \<lparr>io_mkdirs = (\<lambda>_. None), io_to_json = (\<lambda>_. Inr ''{}''), io_of_json = (\<lambda>_. Inl ''not a report''),
     io_write = (\<lambda>_ _. None), io_read = (\<lambda>_. Inl ''no file'')\<rparr>"

lemma harness_without_recorder_fails_witness:
  "snd (run_session_command demo_hw_env demo_report_io 0 0 [] False (elm_adapter mock_link)
      (default_capture_port (\<lambda>_. ''mock'')) (elm_new mock_new) (hd hw_vehicles)
      (rp_meta (one_group_report TestPass)) (Some [''init'', ''capture'']) False ''results/report.json'') = 1"
  using harness_without_recorder_fails [of "Some [''init'', ''capture'']" demo_hw_env demo_report_io 0 0 "[]" False
      "elm_adapter mock_link" "\<lambda>_. ''mock''" "elm_new mock_new" "hd hw_vehicles"
      "rp_meta (one_group_report TestPass)" False "''results/report.json''"]
  by (simp add: selected_def case_prod_unfold Let_def)

end
