(* ===== verification/Poller.thy ===== *)
theory Poller
  imports SessionOps
begin

text \<open>
  What \<open>session/poller.rs\<close> holds around a poll cycle: the builder of the configuration, the handle of a
  polling loop and the function that creates it. The watch channels of the handle are their current
  values; the event channel is its capacity, whether a sender lives, and the events in it.
\<close>

definition poll_with_interval :: "nat \<Rightarrow> poll_config \<Rightarrow> poll_config" where
  "poll_with_interval interval_ms config = config\<lparr>pc_interval_ms := interval_ms\<rparr>"

definition poll_with_voltage :: "bool \<Rightarrow> poll_config \<Rightarrow> poll_config" where
  "poll_with_voltage read_voltage config = config\<lparr>pc_read_voltage := read_voltage\<rparr>"

record poll_handle =
  ph_cancelled :: bool
  ph_interval_ms :: nat

definition poll_stop :: "poll_handle \<Rightarrow> poll_handle" where
  "poll_stop h = h\<lparr>ph_cancelled := True\<rparr>"

definition poll_set_interval :: "nat \<Rightarrow> poll_handle \<Rightarrow> poll_handle" where
  "poll_set_interval interval_ms h = h\<lparr>ph_interval_ms := interval_ms\<rparr>"

definition poll_is_running :: "poll_handle \<Rightarrow> bool" where
  "poll_is_running h \<longleftrightarrow> \<not> ph_cancelled h"

record poll_channel =
  pch_capacity :: nat
  pch_sender_alive :: bool
  pch_events :: "poll_event list"

text \<open>The sender is dropped when the function returns: \<open>let _ = event_tx\<close> binds nothing.\<close>

definition start_poll_loop :: "poll_config \<Rightarrow> poll_handle \<times> poll_channel \<times> poll_config" where
  "start_poll_loop config =
    (let event_channel = \<lparr>pch_capacity = 256, pch_sender_alive = True, pch_events = []\<rparr>;
         handle = \<lparr>ph_cancelled = False, ph_interval_ms = pc_interval_ms config\<rparr>
     in (handle, event_channel\<lparr>pch_sender_alive := False\<rparr>, config))"

text \<open>\<open>recv\<close> of the standard channel: the first event, the end of a closed channel, or waiting.\<close>

datatype received = Event poll_event | ChannelClosed | Waiting

definition poll_recv :: "poll_channel \<Rightarrow> received \<times> poll_channel" where
  "poll_recv c =
    (case pch_events c of
       e # es \<Rightarrow> (Event e, c\<lparr>pch_events := es\<rparr>)
     | [] \<Rightarrow> (if pch_sender_alive c then Waiting else ChannelClosed, c))"

lemma started_loop_is_closed:
  "let (handle, events, config') = start_poll_loop config
   in poll_is_running handle \<and> fst (poll_recv events) = ChannelClosed"
  by (simp add: start_poll_loop_def poll_is_running_def poll_recv_def)

lemma stopped_loop_stays_stopped:
  "\<not> poll_is_running (poll_stop h)" "poll_is_running (poll_set_interval n h) = poll_is_running h"
  by (simp_all add: poll_is_running_def poll_stop_def poll_set_interval_def)

text \<open>A cycle sends at most two events for each PID and one for the voltage, so the events of a caller that
  reads the channel after its last cycle only are bounded, but not by the number of readings.\<close>

lemma poll_pids_events: "length (fst (poll_pids_loop A spec ps s)) \<le> 2 * length ps"
proof (induction ps arbitrary: s)
  case (Cons p ps)
  have alert: "length (poll_alert spec s' p v) \<le> 1" for s' v
    by (simp add: poll_alert_def split: obd_value.split option.split)
  obtain r s' where r: "read_pid A p s = (r, s')" by (cases "read_pid A p s")
  show ?case
  proof (cases r)
    case (Inl e)
    with Cons.IH [of s'] r show ?thesis by (simp add: case_prod_unfold Let_def)
  next
    case (Inr reading)
    with Cons.IH [of s'] r alert [of s' "rd_value reading"] show ?thesis
      by (simp add: case_prod_unfold Let_def)
  qed
qed simp

lemma poll_cycle_events:
  "length (fst (execute_poll_cycle A config spec s)) \<le> 2 * length (pc_pids config) + 1"
proof -
  have "length (fst (poll_pids_loop A spec (pc_pids config) s)) \<le> 2 * length (pc_pids config)"
    by (rule poll_pids_events)
  then show ?thesis
    by (auto simp: execute_poll_cycle_def case_prod_unfold Let_def split: prod.split sum.split option.split)
qed

end
