(* ===== verification/UartOpen.thy ===== *)
theory UartOpen
  imports UartLaws HwRunner
begin

text \<open>
  Opening the links: the serial port (\<open>transport/serial.rs\<close>), the scan for a BLE adapter and the connection to
  it (\<open>transport/ble.rs\<close>), and the choice between them in the harness (\<open>build_transport\<close> in
  \<open>obd2-hw-test/src/main.rs\<close>). The serial library and the BLE stack are parameters: what their calls return,
  and which devices turn up before the scan ends. Log lines are left out.
\<close>

section \<open>Serial ports\<close>

text \<open>\<open>open_port\<close> opens a port at a baud rate or gives the error of the library.\<close>

record 'p serial_transport =
  sp_port :: 'p
  sp_port_name :: string

definition serial_new :: "(string \<Rightarrow> u32 \<Rightarrow> string + 'p) \<Rightarrow> string \<Rightarrow> u32 \<Rightarrow> 'p serial_transport res" where
  "serial_new open_port name baud_rate =
    (case open_port name baud_rate of
       Inl e \<Rightarrow> Inl (Transport (Fmt ''failed to open {}: {}'' [ArgStr name, ArgStr e]))
     | Inr port \<Rightarrow> Inr \<lparr>sp_port = port, sp_port_name = name\<rparr>)"

definition serial_with_defaults :: "(string \<Rightarrow> u32 \<Rightarrow> string + 'p) \<Rightarrow> string \<Rightarrow> 'p serial_transport res" where
  "serial_with_defaults open_port name = serial_new open_port name 115200"

definition list_ports :: "(string + string list) \<Rightarrow> string list" where
  "list_ports available = (case available of Inr names \<Rightarrow> names | Inl _ \<Rightarrow> [])"

section \<open>BLE devices\<close>

text \<open>
  The BLE stack. An event of a scan is the discovery of a device, by its identifier, or another event;
  the events of a scan are followed by the end of the stream or by the end of the scan time. The
  properties of a device are read at three places; the inner \<open>None\<close> is a device without a local name,
  the outer one a failed call or missing properties.
\<close>

datatype 'i central_event = DeviceDiscovered 'i | OtherEvent

datatype scan_end = StreamEnded | ScanTimeout

record ('c, 'i, 'p) ble_stack =
  bs_manager :: "string option"
  bs_adapters :: "string + 'c list"
  bs_events :: "'c \<Rightarrow> string option"
  bs_start_scan :: "'c \<Rightarrow> string option"
  bs_scan :: "'c \<Rightarrow> 'i central_event list \<times> scan_end"
  bs_peripheral :: "'c \<Rightarrow> 'i \<Rightarrow> 'p option"
  bs_scan_name :: "'p \<Rightarrow> string option option"
  bs_peripherals :: "'c \<Rightarrow> string + 'p list"
  bs_cached_name :: "'p \<Rightarrow> string option option"
  bs_connect :: "'p \<Rightarrow> string option"
  bs_discover_services :: "'p \<Rightarrow> string option"
  bs_characteristics :: "'p \<Rightarrow> ble_characteristic list"
  bs_subscribe :: "'p \<Rightarrow> ble_characteristic \<Rightarrow> string option"
  bs_name :: "'p \<Rightarrow> string option option"

text \<open>A connection: the receiver of the notifications is the port that the link model works on.\<close>

record 'p ble_connection =
  bt_peripheral :: 'p
  bt_write_char :: ble_characteristic
  bt_device_name :: string

definition failing :: "string \<Rightarrow> string option \<Rightarrow> unit res" where
  "failing what e =
    (case e of Some t \<Rightarrow> Inl (Transport (Fmt (what @ '': {}'') [ArgStr t])) | None \<Rightarrow> Inr ())"

definition ble_connect :: "('c, 'i, 'p) ble_stack \<Rightarrow> 'p \<Rightarrow> 'p ble_connection res" where
  "ble_connect B p =
    bind_res (failing ''BLE connect failed'' (bs_connect B p)) (\<lambda>_.
    bind_res (failing ''BLE service discovery failed'' (bs_discover_services B p)) (\<lambda>_.
    bind_res (find_uart_characteristics (bs_characteristics B p)) (\<lambda>uart.
    bind_res (failing ''BLE subscribe failed'' (bs_subscribe B p (uc_notify_char uart))) (\<lambda>_.
    let name = (case Option.bind (bs_name B p) (\<lambda>n. n) of Some n \<Rightarrow> n | None \<Rightarrow> ''Unknown BLE Device'') in
    Inr \<lparr>bt_peripheral = p, bt_write_char = uc_write_char uart, bt_device_name = name\<rparr>))))"

text \<open>Whether properties that were read belong to an adapter that the caller wants.\<close>

definition wanted :: "string option \<Rightarrow> string option option \<Rightarrow> bool" where
  "wanted name_filter props =
    (case props of
       Some local_name \<Rightarrow>
         (let name = (case local_name of Some n \<Rightarrow> n | None \<Rightarrow> []) in
          name \<noteq> [] \<and> is_adapter_match name name_filter)
     | None \<Rightarrow> False)"

text \<open>The loop on the events: the first wanted device, an error when the stream ends, \<open>None\<close> when the time is
  over.\<close>

fun scan_loop :: "('c, 'i, 'p) ble_stack \<Rightarrow> 'c \<Rightarrow> string option \<Rightarrow> 'i central_event list \<Rightarrow> scan_end
    \<Rightarrow> 'p res option" where
  "scan_loop B c name_filter [] StreamEnded = Some (Inl (Transport (Text ''BLE event stream ended'')))"
| "scan_loop B c name_filter [] ScanTimeout = None"
| "scan_loop B c name_filter (OtherEvent # events) fin = scan_loop B c name_filter events fin"
| "scan_loop B c name_filter (DeviceDiscovered i # events) fin =
    (case bs_peripheral B c i of
       None \<Rightarrow> scan_loop B c name_filter events fin
     | Some p \<Rightarrow>
         if wanted name_filter (bs_scan_name B p) then Some (Inr p)
         else scan_loop B c name_filter events fin)"

definition cached_device :: "('c, 'i, 'p) ble_stack \<Rightarrow> 'c \<Rightarrow> string option \<Rightarrow> 'p ble_connection res" where
  "cached_device B c name_filter =
    (case bs_peripherals B c of
       Inl e \<Rightarrow> Inl (Transport (Fmt ''BLE peripherals error: {}'' [ArgStr e]))
     | Inr ps \<Rightarrow>
         (case find (\<lambda>p. wanted name_filter (bs_cached_name B p)) ps of
            Some p \<Rightarrow> ble_connect B p
          | None \<Rightarrow> Inl (Transport (Text ''no BLE OBD adapter found during scan''))))"

definition scan_and_connect :: "('c, 'i, 'p) ble_stack \<Rightarrow> string option \<Rightarrow> 'p ble_connection res" where
  "scan_and_connect B name_filter =
    bind_res (failing ''BLE manager error'' (bs_manager B)) (\<lambda>_.
    case bs_adapters B of
      Inl e \<Rightarrow> Inl (Transport (Fmt ''no BLE adapters: {}'' [ArgStr e]))
    | Inr [] \<Rightarrow> Inl (Transport (Text ''no BLE adapter found''))
    | Inr (c # _) \<Rightarrow>
        bind_res (failing ''BLE events error'' (bs_events B c)) (\<lambda>_.
        bind_res (failing ''BLE scan failed'' (bs_start_scan B c)) (\<lambda>_.
        let (events, fin) = bs_scan B c in
        case scan_loop B c name_filter events fin of
          Some (Inr p) \<Rightarrow> ble_connect B p
        | Some (Inl e) \<Rightarrow> Inl e
        | None \<Rightarrow> cached_device B c name_filter)))"

section \<open>The link of the harness\<close>

datatype transport_arg = ArgUsb | ArgBle

definition transport_arg_str :: "transport_arg \<Rightarrow> string" where
  "transport_arg_str t = (case t of ArgUsb \<Rightarrow> ''usb'' | ArgBle \<Rightarrow> ''ble'')"

text \<open>\<open>show\<close> is the text of an error.\<close>

definition build_transport :: "(obd2_error \<Rightarrow> string) \<Rightarrow> (string + string list) \<Rightarrow> (string \<Rightarrow> u32 \<Rightarrow> string + 'p)
    \<Rightarrow> ('c, 'i, 'b) ble_stack \<Rightarrow> transport_arg \<Rightarrow> string option \<Rightarrow> string + ('p serial_transport + 'b ble_connection)" where
  "build_transport show available open_port B transport port =
    (case transport of
       ArgUsb \<Rightarrow>
         (case port of
            None \<Rightarrow>
              let ports = list_ports available in
              Inl (if ports = [] then ''--port is required for USB transport''
                   else ''--port is required for USB transport. Available ports: '' @ str_join '', '' ports)
          | Some port \<Rightarrow>
              (case serial_with_defaults open_port port of
                 Inl e \<Rightarrow> Inl (''Failed to open serial port '' @ port @ '': '' @ show e)
               | Inr t \<Rightarrow> Inr (Inl t)))
     | ArgBle \<Rightarrow>
         (case scan_and_connect B None of
            Inl e \<Rightarrow> Inl (''BLE scan/connect failed: '' @ show e)
          | Inr t \<Rightarrow> Inr (Inr t)))"

section \<open>What is connected\<close>

lemma failing_Inr [simp]: "failing what e = Inr u \<longleftrightarrow> e = None"
  by (auto simp: failing_def split: option.split)

lemma ble_connect_peripheral:
  assumes "ble_connect B p = Inr t"
  shows "bt_peripheral t = p" and "bt_write_char t \<in> set (bs_characteristics B p)"
  using assms by (auto simp: ble_connect_def bind_res_def Let_def dest: find_uart_sound
      split: sum.splits option.splits if_splits)

text \<open>A device that is found by the scan is the first of the discovered devices that is wanted.\<close>

definition discovered :: "('c, 'i, 'p) ble_stack \<Rightarrow> 'c \<Rightarrow> 'i central_event list \<Rightarrow> 'p list" where
  "discovered B c events =
    List.map_filter (\<lambda>e. case e of DeviceDiscovered i \<Rightarrow> bs_peripheral B c i | OtherEvent \<Rightarrow> None) events"

lemma scan_loop_first:
  "scan_loop B c f events fin =
    (case find (\<lambda>p. wanted f (bs_scan_name B p)) (discovered B c events) of
       Some p \<Rightarrow> Some (Inr p)
     | None \<Rightarrow> (case fin of StreamEnded \<Rightarrow> Some (Inl (Transport (Text ''BLE event stream ended''))) | ScanTimeout \<Rightarrow> None))"
  by (induction B c f events fin rule: scan_loop.induct)
    (auto simp: discovered_def List.map_filter_simps split: option.split)

text \<open>Whatever is connected had a name, during the scan or in the cache, that the filter accepts.\<close>

lemma scan_connects_wanted:
  assumes "scan_and_connect B f = Inr t"
  shows "wanted f (bs_scan_name B (bt_peripheral t)) \<or> wanted f (bs_cached_name B (bt_peripheral t))"
  using assms
  by (auto simp: scan_and_connect_def cached_device_def bind_res_def scan_loop_first case_prod_unfold Let_def
      dest!: find_SomeD ble_connect_peripheral(1) split: sum.splits list.splits option.splits scan_end.splits)

text \<open>Without a filter a pattern matches anywhere in the name, not only at its start.\<close>

lemma pattern_in_the_middle: "is_adapter_match ''My-vlink-headset'' None"
  by code_simp

end
