(* ===== verification/Spec2Isabelle.thy ===== *)
theory Spec2Isabelle
  imports UdsLaws DoIpLaws SessionLaws NativeCanLaws Stn MockAdapter LoggingLaws UartLaws Store HwLaws Poller UartOpen
begin

text \<open>
  A verification library for \<open>obd2-core\<close> (vehicle diagnostics in Rust): the crate \<open>crates/obd2-core\<close>, its
  SQLite store \<open>crates/obd2-store-sqlite\<close> and its hardware test harness \<open>crates/obd2-hw-test\<close>. File names
  below are relative to the \<open>src\<close> directory of the crate.

  \<^bold>\<open>The program.\<close> An application talks to a \<^emph>\<open>session\<close>. The session is generic in an \<^emph>\<open>adapter\<close> and adds the
  routing of requests to the modules of a vehicle specification, trouble codes, enhanced PIDs, monitoring
  tests, diagnostic sessions, thresholds and polling. An adapter turns a routed request into an exchange on a
  \<^emph>\<open>link\<close>: the ELM327 adapter by AT commands and hexadecimal text over a byte link (serial, BLE, a scripted
  mock), the STN chips by further commands on the same link, the native CAN adapter by frames. Independent
  of it are the packet protocols of the crate, each with a codec, a transport and a client: ISO-TP, UDS,
  J1939, DoIP and J1979.

  \<^bold>\<open>Theories and sources.\<close>
  \<^item> \<open>Prelude\<close>: words, byte lists, the result and state combinators (\<open>act\<close> is a state passing action that
    may fail), big and little endian integers, the collections of rewrite rules shared by all codecs.
    \<open>Errors\<close>: \<open>error.rs\<close>. \<open>Strings\<close>, \<open>Hex\<close>: the text functions of the standard library that the code uses, and
    \<open>protocol/hex.rs\<close>.
  \<^item> Values and tables: \<open>Values\<close> (\<open>protocol/enhanced.rs\<close>), \<open>Pid\<close> (\<open>protocol/pid.rs\<close>), \<open>Dtc\<close> (\<open>protocol/dtc.rs\<close>),
    \<open>Service\<close> (\<open>protocol/service.rs\<close>), \<open>Vin\<close> (\<open>vehicle/vin.rs\<close>), \<open>Vehicle\<close> (\<open>vehicle/mod.rs\<close>), \<open>Loader\<close>
    (\<open>vehicle/loader.rs\<close>, \<open>specs/embedded/mod.rs\<close>, \<open>vehicle/nhtsa.rs\<close>), \<open>SpecLookup\<close> (\<open>session/threshold.rs\<close>,
    \<open>session/enhanced.rs\<close>, \<open>session/diagnostics.rs\<close>), \<open>Modes\<close> (\<open>session/modes.rs\<close>), \<open>Discovery\<close>
    (\<open>session/discovery.rs\<close>).
  \<^item> Protocols: \<open>Codec\<close> (\<open>protocol/codec.rs\<close>), \<open>Framed\<close> (\<open>transport/framed.rs\<close>, \<open>protocol/client.rs\<close>), \<open>IsoTp\<close> and
    \<open>IsoTpLaws\<close> (\<open>transport/isotp.rs\<close>), \<open>Uds\<close> and \<open>UdsLaws\<close> (\<open>protocol/uds.rs\<close>), \<open>J1939Ids\<close>, \<open>J1939Tp\<close>, \<open>J1939Dm\<close>
    (\<open>protocol/j1939.rs\<close>: identifiers and names, the transport protocol, diagnostic messages and the
    client), \<open>DoIp\<close> and \<open>DoIpLaws\<close> (\<open>protocol/doip.rs\<close>).
  \<^item> Adapters: \<open>AdapterTypes\<close> (\<open>adapter/mod.rs\<close>, \<open>adapter/detect.rs\<close>), \<open>ElmCodec\<close> (\<open>adapter/elm_codec.rs\<close>), \<open>Elm327\<close>
    and \<open>ElmLaws\<close> (\<open>adapter/elm327.rs\<close>, \<open>adapter/elm_transport.rs\<close>), \<open>Backend\<close> (\<open>adapter/backend.rs\<close>), \<open>NativeCan\<close>
    and \<open>NativeCanLaws\<close> (\<open>adapter/native_can.rs\<close>), \<open>Stn\<close> (\<open>adapter/stn.rs\<close>), \<open>MockAdapter\<close> (\<open>adapter/mock.rs\<close>).
  \<^item> Links: \<open>MockLink\<close> (\<open>transport/mock.rs\<close>), \<open>Logging\<close> and \<open>LoggingLaws\<close> (\<open>transport/logging.rs\<close>), \<open>Uart\<close> and
    \<open>UartLaws\<close> (\<open>transport/serial.rs\<close>, \<open>transport/ble.rs\<close>), \<open>UartOpen\<close> (opening ports and BLE devices in the same
    files and in the harness).
  \<^item> Session: \<open>Session\<close> and \<open>SessionOps\<close> (\<open>session/mod.rs\<close>, \<open>session/diag_session.rs\<close>), \<open>Poller\<close>
    (\<open>session/poller.rs\<close>), \<open>SessionFrame\<close> and \<open>SessionLaws\<close> (what runs of a session preserve and what they
    return), \<open>SessionCapture\<close> and \<open>SessionCaptureLaws\<close> (the raw captures of a session). \<open>Store\<close>:
    \<open>store/mod.rs\<close> and \<open>obd2-store-sqlite\<close>.
  \<^item> Harness: \<open>HwReport\<close> (\<open>report.rs\<close>, \<open>compare.rs\<close>), \<open>HwRunner\<close> (\<open>vehicles.rs\<close>, \<open>runner.rs\<close>, \<open>main.rs\<close>), \<open>HwGroups\<close>
    (\<open>tests/\<close>), \<open>HwLaws\<close>.

  \<^bold>\<open>State and operations.\<close> A struct is a record whose fields have a short prefix (\<open>ses_adapter\<close> for the field
  \<open>adapter\<close> of \<open>Session\<close>), an enum a datatype, a method a function on the record. A method that changes the
  state and may fail is an action: it returns the result and the new state, also when it fails, because the
  code keeps the changes made before an error. An \<open>async\<close> method is the sequence of its steps; where a
  future can be dropped while it waits, the dropped variant is a definition of its own
  (\<open>send_request_dropped\<close>). A trait is a record of operations (\<open>adapter\<close>, \<open>link\<close>, \<open>can_io\<close>, \<open>capture_port\<close>), so
  that a generic struct is generic in the model. Loops are recursive functions; those that are not
  structural have a measure, and none needs fuel: the loops on input either consume it (packets, chunks,
  lines) or count up to a bound of the configuration (32 unrelated frames, 16 wait frames, 8 pending
  answers by default), and the termination properties state what happens at the bound. Integers are
  words of their width, with the wrap-around of a release build; the finite tables of the code are lists.

  \<^bold>\<open>Interfaces.\<close> Each contract between components is a locale, interpreted where the provider is defined:
  \<^item> \<open>adapter_contract\<close> (what a session needs of an adapter): the ELM327 adapter in \<open>ElmLaws\<close>, the mock in
    \<open>MockAdapter\<close>. \<open>session_frame\<close>, \<open>session_invariant\<close> and \<open>adapter_invariant\<close> lift what the few primitive steps
    preserve to all operations of a session; \<open>SessionLaws\<close> and \<open>SessionCaptureLaws\<close> interpret them.
  \<^item> \<open>dialogue_link\<close> (a link that answers a script): the mock link; the serial, the BLE and the recording
    link reach it through their laws. \<open>capture_contract\<close> (where a capturing link writes): the recording
    link, alone and inside the adapter, and links without captures.
  \<^item> \<open>can_bus\<close> and \<open>native_bus\<close> (frames in order, what was sent): the mock CAN bus, and the channel of the
    native adapter by a sublocale, so ISO-TP runs through it unchanged. \<open>bus_monitor\<close>: what is sent.
  \<^item> \<open>doip_link\<close> (packets over a byte stream): the stream transport over a memory stream.
  \<^item> \<open>vehicle_store\<close> (a refinement of two maps): the SQLite store. \<open>hw_invariant\<close>: what the groups of the
    harness keep of the adapter.

  \<^bold>\<open>What the lemmas show.\<close> Codecs: decoding inverts encoding on well formed values, and every rejected input is
  characterised. ISO-TP: two ends of a bus deliver a payload of any length in order, what is sent is well
  formed, the receive loops are bounded. UDS, DoIP, J1939: exchanges end to end, over their transports; the
  reassembly of J1939 refines its specification. ELM327 and STN: requests over a scripted link return the
  data of the answer; invariants of all reachable adapter states; where a lost answer or an ambiguous one
  misleads the adapter. The format of answers is stated from the documents of the repository
  (\<open>documented_echo_length\<close>, \<open>documented_dtc_answer\<close>), not from the decoder, and the properties say where
  the two differ: the count byte of trouble codes on CAN, the frame number of mode 02, sub-functions, and
  answers without data. Session: invariants of every run, a module request reaches the adapter once, with
  the address of the spec on the active bus, security access before actuators, trouble codes through all
  layers, the connection state for every answer text, the exact events and end of a poll cycle, a
  dropped request.
  Captures: a file replays the exchanges it recorded, and the captures of a session stay in their
  directories whatever VIN a vehicle reports. Store: what was saved last is found, as far as it is kept; nothing is assumed of how
  JSON prints and reads floating-point numbers.
  Harness: comparison is reflexive and symmetric, the summary counts the groups, and on the links that
  the harness opens the capture group always fails.

  \<^bold>\<open>Conventions.\<close> Text is a byte string in UTF-8; a function on characters of the code works on bytes where
  its input is ASCII and counts continuation bytes out where it is not. An \<open>f64\<close> is an exact rational:
  formulas are modelled without rounding, infinities and NaN. A message built with \<open>format!\<close> is a
  constructor or a format with its arguments, so the branch that raised an error is visible; where text
  is an output (commands, captures, reports) it is built in full. Hash maps are maps or lists whose order
  no result depends on.

  \<^bold>\<open>Parameters.\<close> Serde (YAML and JSON), SQLite, HTTP, the file system, the clock, the operating system below
  a serial port and the BLE stack are arguments: parsers, the success of statements and calls, time
  stamps, devices that decide what arrives. A property with a hypothesis on one has a witness.

  \<^bold>\<open>Not modelled.\<close> Log lines and console output; \<open>Display\<close> and \<open>Debug\<close> texts that no other text is built
  from; accessors that return a field; the disconnect of a dropped BLE link; the argument parser of the
  harness; examples and tests. Time only
  occurs as the outcome of a wait (an answer or a timeout). Threads do not occur in the crate beyond the
  task of the application.
\<close>

end
